(* ===== verification/Prelude.thy ===== *)
theory Prelude
  imports Main
begin

text \<open>
  Shared vocabulary of the development: results of fallible code, database tables as lists of
  rows with the Prisma statements the sources use on them, the JavaScript string operations the
  sources call, JSON values with \<open>JSON.stringify\<close>, and the host services
  (\<open>node:crypto\<close> hashing, ICU collation) the definitions take as an argument.

  Strings are lists of characters, one per UTF-16 code unit; code units above 255 are outside the
  model. The modelled code treats customer text as opaque: it compares, concatenates, measures,
  trims and hashes it.
\<close>

named_theorems table_simps \<open>rewrite rules for table statements\<close>
named_theorems row_frame \<open>columns that a statement leaves alone\<close>

section \<open>Results\<close>

definition andThen :: "'e + 'a \<Rightarrow> ('a \<Rightarrow> 'e + 'b) \<Rightarrow> 'e + 'b" where
  "andThen r f = (case r of Inl e \<Rightarrow> Inl e | Inr x \<Rightarrow> f x)"

lemma andThen_simps [simp]:
  "andThen (Inl e) f = Inl e"
  "andThen (Inr x) f = f x"
  by (simp_all add: andThen_def)

lemma andThen_Inr_iff: "andThen r f = Inr y \<longleftrightarrow> (\<exists>x. r = Inr x \<and> f x = Inr y)"
  by (cases r) auto

lemma andThen_Inl_iff:
  "andThen r f = Inl e \<longleftrightarrow> r = Inl e \<or> (\<exists>x. r = Inr x \<and> f x = Inl e)"
  by (cases r) auto

lemma guard_Inr_iff: "(if c then Inl x else r) = Inr y \<longleftrightarrow> \<not> c \<and> r = Inr y"
  by simp

definition is_ok :: "'e + 'a \<Rightarrow> bool" where
  "is_ok r = (case r of Inl _ \<Rightarrow> False | Inr _ \<Rightarrow> True)"

lemma is_ok_simps [simp]: "\<not> is_ok (Inl e)" "is_ok (Inr x)"
  by (simp_all add: is_ok_def)

lemma is_ok_iff: "is_ok r \<longleftrightarrow> (\<exists>x. r = Inr x)"
  by (cases r) auto

section \<open>Tables\<close>

text \<open>
  A table is the list of its rows in insertion order. \<open>update_many\<close> is Prisma's
  \<open>updateMany\<close> (the count it returns is \<open>count_where\<close> on the table before the update),
  \<open>List.find\<close> is \<open>findFirst\<close> and, on a unique key, \<open>findUnique\<close>.
\<close>

definition update_many :: "('r \<Rightarrow> bool) \<Rightarrow> ('r \<Rightarrow> 'r) \<Rightarrow> 'r list \<Rightarrow> 'r list" where
  "update_many P f t = map (\<lambda>r. if P r then f r else r) t"

definition count_where :: "('r \<Rightarrow> bool) \<Rightarrow> 'r list \<Rightarrow> nat" where
  "count_where P t = length (filter P t)"

definition unique_on :: "('r \<Rightarrow> 'k) \<Rightarrow> 'r list \<Rightarrow> bool" where
  "unique_on key t = distinct (map key t)"

lemma length_update_many [simp]: "length (update_many P f t) = length t"
  by (simp add: update_many_def)

lemma update_many_Nil [simp]: "update_many P f [] = []"
  by (simp add: update_many_def)

lemma update_many_Cons [simp]:
  "update_many P f (r # t) = (if P r then f r else r) # update_many P f t"
  by (simp add: update_many_def)

lemma update_many_append [simp]:
  "update_many P f (t @ u) = update_many P f t @ update_many P f u"
  by (simp add: update_many_def)

lemma set_update_many:
  "set (update_many P f t) = {if P r then f r else r |r. r \<in> set t}"
  by (auto simp: update_many_def)

lemma in_update_manyE:
  assumes "r' \<in> set (update_many P f t)"
  obtains (changed) r where "r \<in> set t" "P r" "r' = f r"
        | (kept) "r' \<in> set t" "\<not> P r'"
  using assms by (auto simp: update_many_def split: if_splits)

lemma in_update_many_kept: "r \<in> set t \<Longrightarrow> \<not> P r \<Longrightarrow> r \<in> set (update_many P f t)"
  by (force simp: update_many_def)

lemma in_update_many_changed: "r \<in> set t \<Longrightarrow> P r \<Longrightarrow> f r \<in> set (update_many P f t)"
  by (force simp: update_many_def)

lemma update_many_none: "count_where P t = 0 \<Longrightarrow> update_many P f t = t"
  by (induction t) (auto simp: count_where_def split: if_splits)

lemma count_where_0_iff: "count_where P t = 0 \<longleftrightarrow> (\<forall>r\<in>set t. \<not> P r)"
  by (auto simp: count_where_def filter_empty_conv)

lemma count_where_pos_iff: "0 < count_where P t \<longleftrightarrow> (\<exists>r\<in>set t. P r)"
  using count_where_0_iff [of P t] by auto

lemma map_key_update_many:
  assumes "\<And>r. P r \<Longrightarrow> key (f r) = key r"
  shows "map key (update_many P f t) = map key t"
  using assms by (induction t) auto

lemma unique_on_update_many:
  assumes "\<And>r. P r \<Longrightarrow> key (f r) = key r"
  shows "unique_on key (update_many P f t) = unique_on key t"
  by (simp add: unique_on_def map_key_update_many assms)

lemma unique_on_Nil [simp]: "unique_on key []"
  by (simp add: unique_on_def)

lemma unique_on_append1:
  "unique_on key (t @ [r]) \<longleftrightarrow> unique_on key t \<and> (\<forall>x\<in>set t. key x \<noteq> key r)"
  by (auto simp: unique_on_def image_iff)

lemma unique_onD: "unique_on key t \<Longrightarrow> x \<in> set t \<Longrightarrow> y \<in> set t \<Longrightarrow> key x = key y \<Longrightarrow> x = y"
  by (auto simp: unique_on_def distinct_map inj_on_def)

lemma find_SomeD: "List.find P t = Some r \<Longrightarrow> r \<in> set t \<and> P r"
  by (auto simp: find_Some_iff)

lemma find_None_iff': "List.find P t = None \<longleftrightarrow> (\<forall>r\<in>set t. \<not> P r)"
  by (auto simp: find_None_iff)

lemma find_unique:
  assumes "unique_on key t" "r \<in> set t" "key r = k"
  shows "List.find (\<lambda>x. key x = k) t = Some r"
proof (cases "List.find (\<lambda>x. key x = k) t")
  case None
  with assms show ?thesis by (auto simp: find_None_iff)
next
  case (Some x)
  then have "x \<in> set t" "key x = k" by (auto dest: find_SomeD)
  with assms Some show ?thesis by (metis unique_onD)
qed

lemma find_Some_unique_iff:
  assumes "unique_on key t" and "\<And>x. P x \<Longrightarrow> key x = k"
  shows "List.find P t = Some r \<longleftrightarrow> r \<in> set t \<and> P r"
proof
  assume r: "r \<in> set t \<and> P r"
  then obtain x where x: "List.find P t = Some x"
    by (cases "List.find P t") (auto simp: find_None_iff)
  then have "x \<in> set t" "P x" by (auto dest: find_SomeD)
  then have "x = r" using assms r by (metis unique_onD)
  with x show "List.find P t = Some r" by simp
qed (rule find_SomeD)

text \<open>A lookup by a unique key, the branch on its result read as a statement about the rows.\<close>

lemma find_case_Inr_iff:
  assumes "unique_on key t" and "\<And>x. P x \<Longrightarrow> key x = k"
  shows "(case List.find P t of None \<Rightarrow> Inl e | Some r \<Rightarrow> f r) = Inr y \<longleftrightarrow>
         (\<exists>r\<in>set t. P r \<and> f r = Inr y)"
proof (cases "List.find P t")
  case None
  then have "\<forall>r\<in>set t. \<not> P r" by (simp add: find_None_iff')
  with None show ?thesis by auto
next
  case (Some x)
  then have x: "x \<in> set t" "P x" by (auto dest: find_SomeD)
  have "r = x" if "r \<in> set t" "P r" for r
    using unique_onD [OF assms(1) that(1) x(1)] assms(2) [OF that(2)] assms(2) [OF x(2)] by simp
  with x have "(\<exists>r\<in>set t. P r \<and> f r = Inr y) \<longleftrightarrow> f x = Inr y" by blast
  with Some show ?thesis by simp
qed

lemma find_update_many:
  "(\<And>r. P (f r) = P r) \<Longrightarrow>
   List.find P (update_many Q f t) = map_option (\<lambda>r. if Q r then f r else r) (List.find P t)"
  by (induction t) auto

lemma find_append:
  "List.find P (xs @ ys) = (case List.find P xs of Some x \<Rightarrow> Some x | None \<Rightarrow> List.find P ys)"
  by (induction xs) auto

lemma find_filter: "(\<And>r. P r \<Longrightarrow> Q r) \<Longrightarrow> List.find P (filter Q t) = List.find P t"
  by (induction t) auto

lemma count_where_unique:
  assumes "unique_on key t" and "\<And>x. P x \<Longrightarrow> key x = k"
  shows "count_where P t \<le> 1"
  using assms
proof (induction t)
  case Nil
  then show ?case by (simp add: count_where_def)
next
  case (Cons r t)
  then have u: "unique_on key t" "\<forall>x\<in>set t. key x \<noteq> key r"
    by (auto simp: unique_on_def image_iff)
  show ?case
  proof (cases "P r")
    case True
    with Cons.prems(2) have "key r = k" by blast
    with u Cons.prems(2) have "\<forall>x\<in>set t. \<not> P x" by metis
    then have "count_where P t = 0" by (simp add: count_where_0_iff)
    with True show ?thesis by (simp add: count_where_def)
  next
    case False
    with Cons.IH u(1) Cons.prems(2) show ?thesis by (simp add: count_where_def)
  qed
qed

text \<open>Replacing the row of a key: what an update guarded by a unique key comes to.\<close>

definition put_row :: "('r \<Rightarrow> 'k) \<Rightarrow> 'r \<Rightarrow> 'r list \<Rightarrow> 'r list" where
  "put_row key r t = update_many (\<lambda>x. key x = key r) (\<lambda>_. r) t"

lemma update_many_unique:
  assumes "unique_on key t" "r \<in> set t" "Q r" "key (f r) = key r"
  shows "update_many (\<lambda>x. key x = key r \<and> Q x) f t = put_row key (f r) t"
proof -
  have "(if key x = key r \<and> Q x then f x else x) = (if key x = key (f r) then f r else x)"
    if "x \<in> set t" for x
    using unique_onD [OF assms(1) that assms(2)] assms(3,4) by auto
  then show ?thesis by (simp add: update_many_def put_row_def)
qed

lemma count_where_one:
  assumes "unique_on key t" "r \<in> set t" "Q r"
  shows "count_where (\<lambda>x. key x = key r \<and> Q x) t = 1"
proof -
  have "count_where (\<lambda>x. key x = key r \<and> Q x) t \<le> 1"
    by (rule count_where_unique [OF assms(1)]) simp
  moreover have "0 < count_where (\<lambda>x. key x = key r \<and> Q x) t"
    unfolding count_where_pos_iff using assms(2,3) by blast
  ultimately show ?thesis by simp
qed

lemma in_put_row: "x \<in> set t \<Longrightarrow> key x = key r \<Longrightarrow> r \<in> set (put_row key r t)"
  unfolding put_row_def by (rule in_update_many_changed)

lemma put_row_other: "x \<in> set t \<Longrightarrow> key x \<noteq> key r \<Longrightarrow> x \<in> set (put_row key r t)"
  unfolding put_row_def by (rule in_update_many_kept)

lemma in_put_rowD: "x \<in> set (put_row key r t) \<Longrightarrow> x = r \<or> x \<in> set t \<and> key x \<noteq> key r"
  unfolding put_row_def by (auto elim!: in_update_manyE)

lemma unique_on_put_row [simp]: "unique_on key (put_row key r t) = unique_on key t"
  unfolding put_row_def by (rule unique_on_update_many) simp

lemma put_row_put_row: "key r = key r' \<Longrightarrow> put_row key r' (put_row key r t) = put_row key r' t"
  unfolding put_row_def update_many_def by auto

lemma find_put_row: "x \<in> set t \<Longrightarrow> key x = key r \<Longrightarrow> List.find (\<lambda>y. key y = key r) (put_row key r t) = Some r"
  unfolding put_row_def by (induction t) auto

section \<open>Strings\<close>

definition js_space :: "char \<Rightarrow> bool" where
  "js_space c = (of_char c \<in> {9, 10, 11, 12, 13, 32, 160 :: nat})"

definition js_trim :: "string \<Rightarrow> string" where
  "js_trim s = rev (dropWhile js_space (rev (dropWhile js_space s)))"

definition js_blank :: "string \<Rightarrow> bool" where
  "js_blank s = list_all js_space s"

lemma js_trim_empty_iff: "js_trim s = [] \<longleftrightarrow> js_blank s"
proof -
  have "js_trim s = [] \<longleftrightarrow> (\<forall>c\<in>set (dropWhile js_space s). js_space c)"
    by (simp add: js_trim_def dropWhile_eq_Nil_conv)
  also have "\<dots> \<longleftrightarrow> (\<forall>c\<in>set s. js_space c)"
  proof
    assume a: "\<forall>c\<in>set (dropWhile js_space s). js_space c"
    have "dropWhile js_space s = []"
    proof (rule ccontr)
      assume "dropWhile js_space s \<noteq> []"
      then have "\<not> js_space (hd (dropWhile js_space s))" by (rule hd_dropWhile)
      with a \<open>dropWhile js_space s \<noteq> []\<close> show False by simp
    qed
    then show "\<forall>c\<in>set s. js_space c" by (simp add: dropWhile_eq_Nil_conv)
  next
    assume "\<forall>c\<in>set s. js_space c"
    then show "\<forall>c\<in>set (dropWhile js_space s). js_space c"
      by (auto dest: set_dropWhileD)
  qed
  finally show ?thesis by (simp add: js_blank_def list_all_iff)
qed

definition hex_lower :: "char \<Rightarrow> bool" where
  "hex_lower c = (c \<in> set ''0123456789abcdef'')"

definition hex_any :: "char \<Rightarrow> bool" where
  "hex_any c = (c \<in> set ''0123456789abcdefABCDEF'')"

definition lower_alnum :: "char \<Rightarrow> bool" where
  "lower_alnum c = (c \<in> set ''abcdefghijklmnopqrstuvwxyz0123456789'')"

text \<open>The pattern \<open>/^[a-f0-9]{64}$/u\<close> of a SHA-256 digest in hexadecimal.\<close>

definition is_sha256_hex :: "string \<Rightarrow> bool" where
  "is_sha256_hex s = (length s = 64 \<and> list_all hex_lower s)"

fun nat_str :: "nat \<Rightarrow> string" where
  "nat_str n = (if n < 10 then [''0123456789'' ! n] else nat_str (n div 10) @ [''0123456789'' ! (n mod 10)])"

declare nat_str.simps [simp del]

definition int_str :: "int \<Rightarrow> string" where
  "int_str n = (if n < 0 then ''-'' @ nat_str (nat (- n)) else nat_str (nat n))"

definition starts_with :: "string \<Rightarrow> string \<Rightarrow> bool" where
  "starts_with p s = (take (length p) s = p)"

definition join :: "string \<Rightarrow> string list \<Rightarrow> string" where
  "join sep xs = (case xs of [] \<Rightarrow> [] | x # ys \<Rightarrow> x @ concat (map (\<lambda>y. sep @ y) ys))"

text \<open>The relational operators and the default sort order on strings: by code unit.\<close>

fun str_less :: "string \<Rightarrow> string \<Rightarrow> bool" where
  "str_less xs [] = False"
| "str_less [] (y # ys) = True"
| "str_less (x # xs) (y # ys) =
     ((of_char x :: nat) < of_char y \<or> (of_char x :: nat) = of_char y \<and> str_less xs ys)"

definition str_cmp :: "string \<Rightarrow> string \<Rightarrow> int" where
  "str_cmp x y = (if str_less x y then -1 else if str_less y x then 1 else 0)"

text \<open>\<open>[...new Set(xs)]\<close>: the first occurrences, in order.\<close>

definition js_unique :: "'a list \<Rightarrow> 'a list" where
  "js_unique xs = rev (remdups (rev xs))"

lemma set_js_unique [simp]: "set (js_unique xs) = set xs"
  by (simp add: js_unique_def)

definition js_includes :: "'a list \<Rightarrow> 'a \<Rightarrow> bool" where
  [simp]: "js_includes xs x = (x \<in> set xs)"

section \<open>Stable sorting by a comparison function\<close>

text \<open>\<open>Array.prototype.sort\<close> with a comparison function: a stable sort.\<close>

fun insert_by :: "('a \<Rightarrow> 'a \<Rightarrow> int) \<Rightarrow> 'a \<Rightarrow> 'a list \<Rightarrow> 'a list" where
  "insert_by cmp x [] = [x]"
| "insert_by cmp x (y # ys) = (if cmp x y \<le> 0 then x # y # ys else y # insert_by cmp x ys)"

definition js_sort :: "('a \<Rightarrow> 'a \<Rightarrow> int) \<Rightarrow> 'a list \<Rightarrow> 'a list" where
  "js_sort cmp xs = foldr (insert_by cmp) xs []"

text \<open>Comparison of entries by their keys.\<close>

definition by_key :: "(string \<Rightarrow> string \<Rightarrow> int) \<Rightarrow> string \<times> 'v \<Rightarrow> string \<times> 'w \<Rightarrow> int" where
  "by_key cmp p q = cmp (fst p) (fst q)"

lemma set_insert_by [simp]: "set (insert_by cmp x ys) = insert x (set ys)"
  by (induction ys) auto

lemma length_insert_by [simp]: "length (insert_by cmp x ys) = Suc (length ys)"
  by (induction ys) auto

lemma set_js_sort [simp]: "set (js_sort cmp xs) = set xs"
  by (induction xs) (auto simp: js_sort_def)

lemma length_js_sort [simp]: "length (js_sort cmp xs) = length xs"
  by (induction xs) (auto simp: js_sort_def)

lemma js_sort_Nil [simp]: "js_sort cmp [] = []"
  by (simp add: js_sort_def)

section \<open>Host services\<close>

text \<open>
  What the modelled code takes from its host: \<open>sha256\<close> is
  \<open>createHash("sha256").update(s).digest("hex")\<close> of \<open>node:crypto\<close>;
  \<open>localeCompare\<close> is \<open>String.prototype.localeCompare\<close> in the locale of the process,
  \<open>localeCompareEn\<close> the same in the locale \<open>en\<close>; their order depends on the
  collation data the host ships.
\<close>

record host =
  sha256 :: "string \<Rightarrow> string"
  localeCompare :: "string \<Rightarrow> string \<Rightarrow> int"
  localeCompareEn :: "string \<Rightarrow> string \<Rightarrow> int"

section \<open>JSON\<close>

text \<open>
  A JSON value. A number for which \<open>Number.isInteger\<close> holds (below the exponent notation,
  \<open>10 ^ 21\<close>) is \<open>JInt\<close>; any other number is \<open>JNonInt\<close> with the text
  \<open>JSON.stringify\<close> prints for it. An object is the list of its entries in property order.
\<close>

datatype json =
    JNull
  | JBool bool
  | JInt int
  | JNonInt string
  | JStr string
  | JArr "json list"
  | JObj "(string \<times> json) list"

type_synonym json_object = "(string \<times> json) list"

text \<open>\<open>record\<close> of the sources: the entries of an object, the empty object for anything else.\<close>

definition json_entries :: "json \<Rightarrow> json_object" where
  "json_entries v = (case v of JObj kvs \<Rightarrow> kvs | _ \<Rightarrow> [])"

lemma json_entries_JObj [simp]: "json_entries (JObj kvs) = kvs"
  by (simp add: json_entries_def)

text \<open>Setting a property: an existing key keeps its place, a new one comes last.\<close>

fun obj_set :: "string \<Rightarrow> 'v \<Rightarrow> (string \<times> 'v) list \<Rightarrow> (string \<times> 'v) list" where
  "obj_set k v [] = [(k, v)]"
| "obj_set k v ((l, w) # kvs) = (if l = k then (k, v) # kvs else (l, w) # obj_set k v kvs)"

lemma map_of_obj_set: "map_of (obj_set k v kvs) l = (if l = k then Some v else map_of kvs l)"
  by (induction kvs) auto

lemma obj_set_new: "k \<notin> fst ` set kvs \<Longrightarrow> obj_set k v kvs = kvs @ [(k, v)]"
  by (induction kvs) auto

definition opt_json :: "('a \<Rightarrow> json) \<Rightarrow> 'a option \<Rightarrow> json" where
  "opt_json f x = (case x of None \<Rightarrow> JNull | Some y \<Rightarrow> f y)"

lemma opt_json_simps [simp]: "opt_json f None = JNull" "opt_json f (Some y) = f y"
  by (simp_all add: opt_json_def)

definition js_str :: "json option \<Rightarrow> string option" where
  "js_str v = (case v of Some (JStr s) \<Rightarrow> Some s | _ \<Rightarrow> None)"

definition js_int :: "json option \<Rightarrow> int option" where
  "js_int v = (case v of Some (JInt n) \<Rightarrow> Some n | _ \<Rightarrow> None)"

lemma js_str_iff: "js_str v = Some s \<longleftrightarrow> v = Some (JStr s)"
  by (auto simp: js_str_def split: option.splits json.splits)

lemma js_int_iff: "js_int v = Some n \<longleftrightarrow> v = Some (JInt n)"
  by (auto simp: js_int_def split: option.splits json.splits)

lemma js_str_JStr [simp]: "js_str (Some (JStr s)) = Some s" "js_str None = None"
  by (simp_all add: js_str_def)

lemma js_int_JInt [simp]: "js_int (Some (JInt n)) = Some n" "js_int None = None"
  by (simp_all add: js_int_def)

text \<open>\<open>String(value)\<close>: an array is its elements joined by commas, absent elements empty.\<close>

fun js_String :: "json \<Rightarrow> string" where
  "js_String JNull = ''null''"
| "js_String (JBool b) = (if b then ''true'' else ''false'')"
| "js_String (JInt n) = int_str n"
| "js_String (JNonInt s) = s"
| "js_String (JStr s) = s"
| "js_String (JArr xs) = join '','' (map (\<lambda>x. if x = JNull then [] else js_String x) xs)"
| "js_String (JObj kvs) = ''[object Object]''"

definition js_String_opt :: "json option \<Rightarrow> string" where
  "js_String_opt v = (case v of None \<Rightarrow> ''undefined'' | Some x \<Rightarrow> js_String x)"

definition json_escape :: "char \<Rightarrow> string" where
  "json_escape c =
     (let n = of_char c :: nat in
      if n = 34 then [CHR 0x5C, CHR 0x22]
      else if n = 92 then [CHR 0x5C, CHR 0x5C]
      else if n = 8 then [CHR 0x5C, CHR ''b'']
      else if n = 9 then [CHR 0x5C, CHR ''t'']
      else if n = 10 then [CHR 0x5C, CHR ''n'']
      else if n = 12 then [CHR 0x5C, CHR ''f'']
      else if n = 13 then [CHR 0x5C, CHR ''r'']
      else if n < 32 then [CHR 0x5C, CHR ''u'', CHR ''0'', CHR ''0'',
                           ''0123456789abcdef'' ! (n div 16), ''0123456789abcdef'' ! (n mod 16)]
      else [c])"

definition json_quote :: "string \<Rightarrow> string" where
  "json_quote s = [CHR 0x22] @ concat (map json_escape s) @ [CHR 0x22]"

fun json_stringify :: "json \<Rightarrow> string" where
  "json_stringify JNull = ''null''"
| "json_stringify (JBool b) = (if b then ''true'' else ''false'')"
| "json_stringify (JInt n) = int_str n"
| "json_stringify (JNonInt s) = s"
| "json_stringify (JStr s) = json_quote s"
| "json_stringify (JArr xs) = ''['' @ join '','' (map json_stringify xs) @ '']''"
| "json_stringify (JObj kvs) =
     ''{'' @ join '','' (map (\<lambda>(k, v). json_quote k @ '':'' @ json_stringify v) kvs) @ ''}''"

text \<open>
  Own properties come in the order of \<open>OrdinaryOwnPropertyKeys\<close>: array indices ascending, then
  the other keys in the order they were added.
\<close>

definition is_array_index :: "string \<Rightarrow> bool" where
  "is_array_index k =
     (k \<noteq> [] \<and> list_all (\<lambda>c. c \<in> set ''0123456789'') k \<and> (k = ''0'' \<or> hd k \<noteq> CHR ''0'') \<and>
      (length k < 10 \<or> length k = 10 \<and> str_less k ''4294967295''))"

definition index_cmp :: "string \<Rightarrow> string \<Rightarrow> int" where
  "index_cmp x y =
     (if length x < length y then -1 else if length y < length x then 1 else str_cmp x y)"

definition own_order :: "(string \<times> 'v) list \<Rightarrow> (string \<times> 'v) list" where
  "own_order kvs =
     js_sort (by_key index_cmp) (filter (\<lambda>(k, _). is_array_index k) kvs) @
     filter (\<lambda>(k, _). \<not> is_array_index k) kvs"

lemma set_own_order [simp]: "set (own_order kvs) = set kvs"
  by (auto simp: own_order_def)

text \<open>
  Key-sorted copy of a value, the \<open>canonicalize\<close> of the runtime queue. A JSON value has no
  \<open>undefined\<close> entries, so its filter step keeps every entry.
\<close>

lemma json_entry_smaller: "(k, v) \<in> set kvs \<Longrightarrow> size v < size (JObj kvs)"
  by (induction kvs) auto

lemma json_item_smaller: "v \<in> set xs \<Longrightarrow> size v < size (JArr xs)"
  by (simp add: less_Suc_eq_le size_list_estimation')

function canonicalize :: "host \<Rightarrow> json \<Rightarrow> json" where
  "canonicalize h JNull = JNull"
| "canonicalize h (JBool b) = JBool b"
| "canonicalize h (JInt n) = JInt n"
| "canonicalize h (JNonInt s) = JNonInt s"
| "canonicalize h (JStr s) = JStr s"
| "canonicalize h (JArr xs) = JArr (map (canonicalize h) xs)"
| "canonicalize h (JObj kvs) =
     JObj (own_order (map (\<lambda>(k, v). (k, canonicalize h v))
       (js_sort (by_key (localeCompare h)) kvs)))"
  by pat_completeness auto
termination
  by (relation "measure (\<lambda>(h, v). size v)")
     (auto dest: json_entry_smaller json_item_smaller)

definition canonicalJson :: "host \<Rightarrow> json \<Rightarrow> string" where
  "canonicalJson h v = json_stringify (canonicalize h v)"

end
