(* ===== verification/Js_Time.thy ===== *)
theory Js_Time
  imports Prelude
begin

text \<open>
  Dates as the sources use them: a \<open>Date\<close> is its time value in milliseconds,
  \<open>Date.prototype.toISOString\<close> prints the proleptic Gregorian calendar date, and
  \<open>new Date(s).toISOString() === s\<close> recognises exactly the printed forms.
\<close>

definition pad :: "nat \<Rightarrow> nat \<Rightarrow> string" where
  "pad w n = (let s = nat_str n in replicate (w - length s) (CHR ''0'') @ s)"

text \<open>Year, month and day of a day number counted from 1970-01-01.\<close>

definition civil_from_days :: "int \<Rightarrow> int \<times> int \<times> int" where
  "civil_from_days days =
     (let z = days + 719468;
          era = z div 146097;
          doe = z - era * 146097;
          yoe = (doe - doe div 1460 + doe div 36524 - doe div 146096) div 365;
          doy = doe - (365 * yoe + yoe div 4 - yoe div 100);
          mp = (5 * doy + 2) div 153;
          d = doy - (153 * mp + 2) div 5 + 1;
          m = (if mp < 10 then mp + 3 else mp - 9)
      in (yoe + era * 400 + (if m \<le> 2 then 1 else 0), m, d))"

definition days_from_civil :: "int \<Rightarrow> int \<Rightarrow> int \<Rightarrow> int" where
  "days_from_civil y0 m d =
     (let y = (if m \<le> 2 then y0 - 1 else y0);
          era = y div 400;
          yoe = y - era * 400;
          mp = (if m > 2 then m - 3 else m + 9);
          doy = (153 * mp + 2) div 5 + d - 1;
          doe = yoe * 365 + yoe div 4 - yoe div 100 + doy
      in era * 146097 + doe - 719468)"

definition iso_year :: "int \<Rightarrow> string" where
  "iso_year y = (if 0 \<le> y \<and> y \<le> 9999 then pad 4 (nat y)
                 else (if y < 0 then ''-'' else ''+'') @ pad 6 (nat \<bar>y\<bar>))"

definition toISOString :: "int \<Rightarrow> string" where
  "toISOString ms =
     (let days = ms div 86400000;
          rest = ms mod 86400000;
          (y, m, d) = civil_from_days days
      in iso_year y @ ''-'' @ pad 2 (nat m) @ ''-'' @ pad 2 (nat d) @ ''T'' @
         pad 2 (nat (rest div 3600000)) @ '':'' @ pad 2 (nat (rest div 60000 mod 60)) @ '':'' @
         pad 2 (nat (rest div 1000 mod 60)) @ ''.'' @ pad 3 (nat (rest mod 1000)) @ ''Z'')"

definition digit_val :: "char \<Rightarrow> nat option" where
  "digit_val c = (let n = of_char c :: nat in if 48 \<le> n \<and> n \<le> 57 then Some (n - 48) else None)"

fun digits_val :: "nat \<Rightarrow> string \<Rightarrow> nat option" where
  "digits_val acc [] = Some acc"
| "digits_val acc (c # cs) =
     (case digit_val c of None \<Rightarrow> None | Some d \<Rightarrow> digits_val (10 * acc + d) cs)"

text \<open>The time value of the part of a timestamp after the year: month to milliseconds.\<close>

definition iso_rest :: "int \<Rightarrow> string \<Rightarrow> int option" where
  "iso_rest y s =
     (case (digits_val 0 (take 2 (drop 1 s)), digits_val 0 (take 2 (drop 4 s)),
            digits_val 0 (take 2 (drop 7 s)), digits_val 0 (take 2 (drop 10 s)),
            digits_val 0 (take 2 (drop 13 s)), digits_val 0 (take 3 (drop 16 s))) of
        (Some mo, Some d, Some h, Some mi, Some sec, Some ms) \<Rightarrow>
          Some (days_from_civil y (int mo) (int d) * 86400000 + int h * 3600000 +
                int mi * 60000 + int sec * 1000 + int ms)
      | _ \<Rightarrow> None)"

definition iso_parse :: "string \<Rightarrow> int option" where
  "iso_parse s =
     (if length s = 24 then
        (case digits_val 0 (take 4 s) of None \<Rightarrow> None | Some y \<Rightarrow> iso_rest (int y) (drop 4 s))
      else if length s = 27 then
        (case digits_val 0 (take 6 (drop 1 s)) of
           None \<Rightarrow> None
         | Some y \<Rightarrow> iso_rest (if take 1 s = ''-'' then - int y else int y) (drop 7 s))
      else None)"

text \<open>
  \<open>Number.isFinite(Date.parse(s)) && new Date(s).toISOString() === s\<close>. Only a string that
  \<open>toISOString\<close> prints passes the second test, so the parser need only read those.
\<close>

definition is_iso_timestamp :: "string \<Rightarrow> bool" where
  "is_iso_timestamp s =
     (case iso_parse s of
        None \<Rightarrow> False
      | Some ms \<Rightarrow> \<bar>ms\<bar> \<le> 8640000000000000 \<and> toISOString ms = s)"

lemma is_iso_timestampD:
  "is_iso_timestamp s \<Longrightarrow> \<exists>ms. \<bar>ms\<bar> \<le> 8640000000000000 \<and> s = toISOString ms"
  by (auto simp: is_iso_timestamp_def split: option.splits)

end
