(* ===== verification/Database.thy ===== *)
theory Database
  imports Prelude
begin

text \<open>
  The rows the runtime reads and writes (\<open>packages/db/prisma/schema.prisma\<close>), one record per
  Prisma model with the columns the modelled statements touch, the enumerations as datatypes, and
  the database as the record of its tables. Instants are time values in milliseconds. A database
  statement runs on one \<open>db\<close> value; a transaction that throws leaves its caller's value as
  it was.
\<close>

section \<open>Enumerations\<close>

datatype ChannelType = WEBSITE | TELEGRAM | WHATSAPP | INSTAGRAM | VK | EMAIL | WEBHOOK | PHONE | DEMO

fun channelType_text :: "ChannelType \<Rightarrow> string" where
  "channelType_text WEBSITE = ''WEBSITE''"
| "channelType_text TELEGRAM = ''TELEGRAM''"
| "channelType_text WHATSAPP = ''WHATSAPP''"
| "channelType_text INSTAGRAM = ''INSTAGRAM''"
| "channelType_text VK = ''VK''"
| "channelType_text EMAIL = ''EMAIL''"
| "channelType_text WEBHOOK = ''WEBHOOK''"
| "channelType_text PHONE = ''PHONE''"
| "channelType_text DEMO = ''DEMO''"

datatype ChannelStatus = Ch_ACTIVE | Ch_DISABLED | Ch_ERROR | Ch_PENDING | Ch_COMING_SOON

fun channelStatus_text :: "ChannelStatus \<Rightarrow> string" where
  "channelStatus_text Ch_ACTIVE = ''ACTIVE''"
| "channelStatus_text Ch_DISABLED = ''DISABLED''"
| "channelStatus_text Ch_ERROR = ''ERROR''"
| "channelStatus_text Ch_PENDING = ''PENDING''"
| "channelStatus_text Ch_COMING_SOON = ''COMING_SOON''"

datatype ConversationStatus = Cv_OPEN | Cv_WAITING_FOR_CUSTOMER | Cv_WAITING_FOR_HUMAN | Cv_CLOSED

datatype MessageDirection = INBOUND | OUTBOUND

datatype MessageSenderType = Sn_CUSTOMER | Sn_AI | Sn_USER | Sn_SYSTEM

datatype MessageStatus = Ms_RECEIVED | Ms_QUEUED | Ms_SENT | Ms_DELIVERED | Ms_FAILED

datatype KnowledgeCorpusKind = LEGACY_V1 | STRUCTURED_V2

datatype KnowledgePublicationStatus =
  Pb_VALIDATING | Pb_READY | Pb_PUBLISHING | Pb_ACTIVE | Pb_SUPERSEDED | Pb_FAILED | Pb_ROLLED_BACK

datatype KnowledgeV2CapabilityType =
    GENERAL_FAQ | LEAD_QUALIFICATION | PRICING | APPOINTMENT_DISCOVERY | APPOINTMENT_BOOKING
  | ORDER_ACCOUNT_SUPPORT | COMMERCE_RECOMMENDATION | REGULATED_TOPIC

datatype KnowledgeV2CapabilityAutonomy =
  ANSWER_ONLY | COLLECT_INFORMATION | PROPOSE_ACTION | ACT_WITH_CONFIRMATION | AUTONOMOUS_ACTION

datatype KnowledgeV2CapabilityDecision = AUTHORIZED | HANDOFF

datatype KnowledgeV2ReplyDisposition = Rd_AUTO_SEND | Rd_HANDOFF

datatype AiReplyRunStatus =
    Rn_QUEUED | Rn_RUNNING | Rn_RETRY_SCHEDULED | Rn_SUCCEEDED | Rn_SKIPPED | Rn_FAILED
  | Rn_CANCEL_REQUESTED | Rn_CANCELLED | Rn_TIMED_OUT | Rn_SUPERSEDED | Rn_DEAD_LETTER

datatype ExternalOperationStatus =
  Op_REQUESTED | Op_STARTED | Op_SUCCEEDED | Op_FAILED | Op_UNKNOWN | Op_RECONCILED

datatype RuntimeOutboxStatus = Ob_PENDING | Ob_PUBLISHING | Ob_PUBLISHED | Ob_FAILED | Ob_DEAD_LETTER

datatype RuntimeInboxStatus = Ib_PROCESSING | Ib_SUCCEEDED | Ib_FAILED

datatype KnowledgeJobStatus =
    Kj_QUEUED | Kj_RUNNING | Kj_RETRY_SCHEDULED | Kj_SUCCEEDED | Kj_FAILED | Kj_CANCELLED
  | Kj_DEAD_LETTER

datatype KnowledgeJobAttemptStatus = Ka_RUNNING | Ka_SUCCEEDED | Ka_FAILED | Ka_CANCELLED | Ka_TIMED_OUT

datatype KnowledgeV2SourceStatus =
    Ks_CONNECTING | Ks_DISCOVERING | Ks_SYNCING | Ks_READY | Ks_NEEDS_REVIEW | Ks_PAUSED | Ks_FAILED
  | Ks_DISCONNECTED | Ks_DELETING | Ks_DELETED

datatype BusinessImportState =
    Bi_CREATED | Bi_UPLOADING | Bi_UPLOADED | Bi_SCANNING | Bi_PARSING | Bi_MAPPING_REQUIRED
  | Bi_EXTRACTING | Bi_READY_FOR_REVIEW | Bi_AWAITING_APPROVAL | Bi_APPLYING | Bi_PROJECTING
  | Bi_APPLIED | Bi_PARTIALLY_APPLIED | Bi_PROJECTION_DELAYED | Bi_CLOSED_WITH_REMAINDER
  | Bi_FAILED_RETRYABLE | Bi_FAILED | Bi_REJECTED | Bi_EXPIRED | Bi_CANCELLED

datatype BusinessImportApplicationState =
  Ba_COMMITTED | Ba_PROJECTING | Ba_READY | Ba_PROJECTION_DELAYED | Ba_REVERTED | Ba_SUPERSEDED

section \<open>Rows\<close>

record conversation =
  cv_id :: string
  cv_tenantId :: string
  cv_leadId :: "string option"
  cv_channelId :: "string option"
  cv_externalConversationId :: "string option"
  cv_status :: ConversationStatus
  cv_aiEnabled :: bool
  cv_aiGeneration :: int
  cv_aiReplySequence :: int
  cv_aiReplyFence :: int
  cv_handoffRequested :: bool
  cv_deletedAt :: "int option"

record channel =
  ch_id :: string
  ch_tenantId :: string
  ch_type :: ChannelType
  ch_status :: ChannelStatus
  ch_externalId :: "string option"
  ch_publicKey :: "string option"
  ch_settings :: "json option"
  ch_encryptedCredentials :: "string option"
  ch_automaticRepliesEnabled :: bool
  ch_automaticRepliesGeneration :: int
  ch_automaticRepliesPublicationId :: "string option"
  ch_automaticRepliesPublicationEtag :: "int option"
  ch_automaticRepliesChannelFingerprint :: "string option"
  ch_automaticRepliesCapabilitySetHash :: "string option"
  ch_automaticRepliesOperationalBindingHash :: "string option"
  ch_automaticRepliesOperationalPermissionGeneration :: "int option"
  ch_automaticRepliesActivatedAt :: "int option"
  ch_automaticRepliesActivatedByUserId :: "string option"
  ch_deletedAt :: "int option"

record corpus_selector =
  cs_tenantId :: string
  cs_corpusKind :: KnowledgeCorpusKind

record active_publication =
  ap_tenantId :: string
  ap_targetKey :: string
  ap_publicationId :: string
  ap_etag :: int

record publication =
  pb_id :: string
  pb_tenantId :: string
  pb_targetKey :: string
  pb_corpusKind :: KnowledgeCorpusKind
  pb_status :: KnowledgePublicationStatus
  pb_capabilitySetHash :: "string option"
  pb_operationalBindingHash :: "string option"
  pb_operationalPermissionGeneration :: "int option"

record publication_capability =
  pc_tenantId :: string
  pc_publicationId :: string
  pc_capabilityType :: KnowledgeV2CapabilityType
  pc_allowedAutonomy :: KnowledgeV2CapabilityAutonomy
  pc_operationalBindingHash :: "string option"
  pc_operationalPermissionGeneration :: "int option"

record published_fact =
  pf_factKey :: string
  pf_displayValue :: "string option"
  pf_normalizedValue :: json

record publication_item =
  pi_tenantId :: string
  pi_publicationId :: string
  pi_corpusKind :: KnowledgeCorpusKind
  pi_itemType :: string
  pi_itemId :: string
  pi_factVersion :: "published_fact option"

record authorization_state =
  ts_tenantId :: string
  ts_permissionGeneration :: int
  ts_updatedAt :: int

record integration_account =
  ia_id :: string
  ia_tenantId :: string
  ia_provider :: string
  ia_status :: string
  ia_permissionVersion :: int
  ia_encryptedCredentials :: "string option"
  ia_updatedAt :: int
  ia_deletedAt :: "int option"

record customer_identity =
  ci_id :: string
  ci_version :: int
  ci_subjectHash :: string
  ci_attestationHash :: string

record message =
  ms_id :: string
  ms_tenantId :: string
  ms_conversationId :: string
  ms_direction :: MessageDirection
  ms_senderType :: MessageSenderType
  ms_text :: "string option"
  ms_status :: MessageStatus
  ms_metadata :: "json option"
  ms_createdAt :: int
  ms_authenticatedCustomerIdentity :: "customer_identity option"

record tenant =
  tn_id :: string
  tn_name :: string
  tn_businessType :: "string option"

record lead =
  ld_id :: string
  ld_tenantId :: string
  ld_status :: string

record ai_reply_run =
  rn_id :: string
  rn_tenantId :: string
  rn_conversationId :: string
  rn_inboundMessageId :: string
  rn_replyMessageId :: "string option"
  rn_publicationId :: "string option"
  rn_capabilitySetHash :: "string option"
  rn_operationalBindingHash :: "string option"
  rn_operationalPermissionGeneration :: "int option"
  rn_capabilityType :: "KnowledgeV2CapabilityType option"
  rn_allowedAutonomy :: "KnowledgeV2CapabilityAutonomy option"
  rn_requiredAutonomy :: "KnowledgeV2CapabilityAutonomy option"
  rn_capabilityDecision :: "KnowledgeV2CapabilityDecision option"
  rn_replyDisposition :: "KnowledgeV2ReplyDisposition option"
  rn_replyContentHash :: "string option"
  rn_replyTemplateVersion :: "string option"
  rn_idempotencyKey :: string
  rn_inputHash :: string
  rn_generation :: int
  rn_sequence :: int
  rn_status :: AiReplyRunStatus
  rn_attemptCount :: int
  rn_maxAttempts :: int
  rn_availableAt :: int
  rn_errorCode :: "string option"
  rn_errorMessage :: "string option"
  rn_startedAt :: "int option"
  rn_heartbeatAt :: "int option"
  rn_cancelRequestedAt :: "int option"
  rn_completedAt :: "int option"

record channel_delivery_operation =
  op_id :: string
  op_tenantId :: string
  op_messageId :: string
  op_conversationId :: string
  op_channelId :: string
  op_provider :: string
  op_channelKey :: string
  op_recipientKey :: string
  op_deliveryVersion :: int
  op_requestHash :: string
  op_status :: ExternalOperationStatus
  op_providerMessageId :: "string option"
  op_result :: "json option"
  op_errorCode :: "string option"
  op_errorMessage :: "string option"
  op_attemptCount :: int
  op_nextRetryAt :: "int option"
  op_retentionExpiresAt :: int
  op_createdAt :: int
  op_startedAt :: "int option"
  op_completedAt :: "int option"
  op_reconciledAt :: "int option"

record retrieval_trace =
  rt_id :: string
  rt_tenantId :: string
  rt_responseMessageId :: "string option"
  rt_publicationId :: "string option"
  rt_provider :: "string option"
  rt_generatorModel :: "string option"
  rt_modelProcessorPolicyHash :: "string option"
  rt_promptPolicyVersion :: string
  rt_providerOutputHash :: "string option"
  rt_gateInputHash :: "string option"
  rt_gateResultHash :: "string option"
  rt_citationTargets :: "string list"

record runtime_outbox =
  ob_id :: string
  ob_tenantId :: string
  ob_aggregateType :: string
  ob_aggregateId :: string
  ob_aggregateVersion :: int
  ob_generation :: int
  ob_eventType :: string
  ob_schemaVersion :: int
  ob_dedupeKey :: string
  ob_payload :: "json option"
  ob_status :: RuntimeOutboxStatus
  ob_availableAt :: int
  ob_deadlineAt :: "int option"
  ob_maxAttempts :: int
  ob_attemptCount :: int
  ob_lockedAt :: "int option"
  ob_lockExpiresAt :: "int option"
  ob_lockedBy :: "string option"
  ob_publishedAt :: "int option"
  ob_lastErrorCode :: "string option"
  ob_lastErrorMessage :: "string option"
  ob_traceId :: "string option"
  ob_traceParent :: "string option"
  ob_createdAt :: int

record runtime_inbox =
  ib_id :: string
  ib_tenantId :: string
  ib_consumerName :: string
  ib_eventId :: string
  ib_generation :: int
  ib_status :: RuntimeInboxStatus
  ib_result :: "json option"
  ib_errorCode :: "string option"
  ib_errorMessage :: "string option"
  ib_attemptCount :: int
  ib_startedAt :: int
  ib_heartbeatAt :: "int option"
  ib_lockedBy :: "string option"
  ib_lockExpiresAt :: "int option"
  ib_completedAt :: "int option"

record knowledge_job =
  kj_id :: string
  kj_tenantId :: string
  kj_generation :: int
  kj_status :: KnowledgeJobStatus
  kj_availableAt :: int
  kj_errorCode :: "string option"
  kj_errorMessage :: "string option"
  kj_heartbeatAt :: "int option"
  kj_completedAt :: "int option"

record knowledge_job_attempt =
  ka_id :: string
  ka_tenantId :: string
  ka_jobId :: string
  ka_status :: KnowledgeJobAttemptStatus
  ka_errorCode :: "string option"
  ka_errorMessage :: "string option"
  ka_heartbeatAt :: "int option"
  ka_completedAt :: "int option"

record knowledge_source =
  ks_id :: string
  ks_tenantId :: string
  ks_generation :: int
  ks_status :: KnowledgeV2SourceStatus
  ks_lastErrorCode :: "string option"
  ks_lastErrorAt :: "int option"
  ks_etag :: int

record business_import =
  bi_id :: string
  bi_tenantId :: string
  bi_sourceId :: string
  bi_generation :: int
  bi_state :: BusinessImportState
  bi_failureCode :: "string option"
  bi_failureStage :: "string option"
  bi_retryable :: bool
  bi_etag :: int

record business_import_application =
  ba_id :: string
  ba_tenantId :: string
  ba_sourceId :: string
  ba_importId :: string
  ba_businessRevisionId :: string
  ba_resultingInformationRevision :: int
  ba_projectionOutboxId :: "string option"
  ba_projectionOutboxDedupeKey :: string
  ba_projectionReceiptHash :: "string option"
  ba_state :: BusinessImportApplicationState

record business_information_state =
  bs_tenantId :: string
  bs_revision :: int
  bs_currentRevisionId :: "string option"
  bs_lastProjectedRevisionId :: "string option"
  bs_lastProjectedRevision :: "int option"

record audit_log =
  al_tenantId :: string
  al_actorUserId :: "string option"
  al_action :: string
  al_entityType :: string
  al_entityId :: "string option"
  al_payload :: json

section \<open>The database\<close>

record db =
  conversations :: "conversation list"
  channels :: "channel list"
  corpusSelectors :: "corpus_selector list"
  activePublications :: "active_publication list"
  publications :: "publication list"
  publicationCapabilities :: "publication_capability list"
  publicationItems :: "publication_item list"
  authorizationStates :: "authorization_state list"
  integrationAccounts :: "integration_account list"
  messages :: "message list"
  tenants :: "tenant list"
  leads :: "lead list"
  aiReplyRuns :: "ai_reply_run list"
  channelDeliveryOperations :: "channel_delivery_operation list"
  retrievalTraces :: "retrieval_trace list"
  runtimeOutbox :: "runtime_outbox list"
  runtimeInbox :: "runtime_inbox list"
  knowledgeJobs :: "knowledge_job list"
  knowledgeJobAttempts :: "knowledge_job_attempt list"
  knowledgeSources :: "knowledge_source list"
  businessImports :: "business_import list"
  businessImportApplications :: "business_import_application list"
  businessInformationStates :: "business_information_state list"
  auditLogs :: "audit_log list"

definition empty_db :: db where
  "empty_db = \<lparr>conversations = [], channels = [], corpusSelectors = [], activePublications = [],
     publications = [], publicationCapabilities = [], publicationItems = [],
     authorizationStates = [], integrationAccounts = [], messages = [], tenants = [], leads = [],
     aiReplyRuns = [], channelDeliveryOperations = [], retrievalTraces = [], runtimeOutbox = [], runtimeInbox = [], knowledgeJobs = [],
     knowledgeJobAttempts = [], knowledgeSources = [], businessImports = [],
     businessImportApplications = [], businessInformationStates = [], auditLogs = []\<rparr>"

section \<open>Errors\<close>

text \<open>
  The exceptions the modelled code throws or lets through: an \<open>Error\<close> with its message, the
  error classes of the sources, a Prisma error with its code, and an error of another kind with
  its name and message (what a publisher, processor or host function threw).
\<close>

datatype AiReplyFenceCode =
    AI_REPLY_INPUT_MISMATCH
  | AI_REPLY_INBOUND_NOT_FOUND
  | AI_REPLY_NEWER_INBOUND
  | AI_EXTERNAL_OPERATION_AMBIGUOUS
  | AI_REPLY_RUN_CORRUPT
  | AI_REPLY_RUN_SUPERSEDED
  | AI_REPLY_AUTOMATIC_REPLY_REVOKED
  | AI_REPLY_STRUCTURED_TARGET_REVOKED
  | AI_REPLY_HANDOFF_TEMPLATE_INVALID

fun fenceCode_text :: "AiReplyFenceCode \<Rightarrow> string" where
  "fenceCode_text AI_REPLY_INPUT_MISMATCH = ''AI_REPLY_INPUT_MISMATCH''"
| "fenceCode_text AI_REPLY_INBOUND_NOT_FOUND = ''AI_REPLY_INBOUND_NOT_FOUND''"
| "fenceCode_text AI_REPLY_NEWER_INBOUND = ''AI_REPLY_NEWER_INBOUND''"
| "fenceCode_text AI_EXTERNAL_OPERATION_AMBIGUOUS = ''AI_EXTERNAL_OPERATION_AMBIGUOUS''"
| "fenceCode_text AI_REPLY_RUN_CORRUPT = ''AI_REPLY_RUN_CORRUPT''"
| "fenceCode_text AI_REPLY_RUN_SUPERSEDED = ''AI_REPLY_RUN_SUPERSEDED''"
| "fenceCode_text AI_REPLY_AUTOMATIC_REPLY_REVOKED = ''AI_REPLY_AUTOMATIC_REPLY_REVOKED''"
| "fenceCode_text AI_REPLY_STRUCTURED_TARGET_REVOKED = ''AI_REPLY_STRUCTURED_TARGET_REVOKED''"
| "fenceCode_text AI_REPLY_HANDOFF_TEMPLATE_INVALID = ''AI_REPLY_HANDOFF_TEMPLATE_INVALID''"

datatype error =
    Error string
  | RuntimeOutboxDeadlineError string
  | AiReplyFenceError AiReplyFenceCode
  | UnrecoverableError string
  | WorkerJobTimeoutError int
  | PrismaError string
  | OtherError string string

fun error_name :: "error \<Rightarrow> string" where
  "error_name (Error m) = ''Error''"
| "error_name (RuntimeOutboxDeadlineError i) = ''RuntimeOutboxDeadlineError''"
| "error_name (AiReplyFenceError c) = ''AiReplyFenceError''"
| "error_name (UnrecoverableError m) = ''UnrecoverableError''"
| "error_name (WorkerJobTimeoutError t) = ''WorkerJobTimeoutError''"
| "error_name (PrismaError c) = ''PrismaClientKnownRequestError''"
| "error_name (OtherError n m) = n"

fun error_text :: "error \<Rightarrow> string" where
  "error_text (Error m) = m"
| "error_text (RuntimeOutboxDeadlineError i) = ''Runtime outbox event '' @ i @ '' expired before dispatch.''"
| "error_text (AiReplyFenceError c) = fenceCode_text c"
| "error_text (UnrecoverableError m) = m"
| "error_text (WorkerJobTimeoutError t) = ''Worker job timed out after '' @ int_str t @ ''ms''"
| "error_text (PrismaError c) = c"
| "error_text (OtherError n m) = m"

section \<open>Keys\<close>

text \<open>The primary keys and unique indexes of the schema on the tables the statements write or look up.\<close>

definition run_keys :: "ai_reply_run list \<Rightarrow> bool" where
  "run_keys t =
     (unique_on rn_id t \<and>
      unique_on (\<lambda>r. (rn_tenantId r, rn_idempotencyKey r)) t \<and>
      unique_on (\<lambda>r. (rn_tenantId r, rn_inboundMessageId r)) t \<and>
      unique_on (\<lambda>r. (rn_conversationId r, rn_sequence r)) t)"

definition outbox_aggregate_key ::
    "runtime_outbox \<Rightarrow> string \<times> string \<times> string \<times> int \<times> int \<times> string" where
  "outbox_aggregate_key r =
     (ob_tenantId r, ob_aggregateType r, ob_aggregateId r, ob_aggregateVersion r, ob_generation r,
      ob_eventType r)"

definition outbox_keys :: "runtime_outbox list \<Rightarrow> bool" where
  "outbox_keys t =
     (unique_on ob_id t \<and> unique_on (\<lambda>r. (ob_tenantId r, ob_dedupeKey r)) t \<and>
      unique_on outbox_aggregate_key t)"

definition inbox_keys :: "runtime_inbox list \<Rightarrow> bool" where
  "inbox_keys t = (unique_on ib_id t \<and> unique_on (\<lambda>r. (ib_consumerName r, ib_eventId r)) t)"

definition binding_keys :: "db \<Rightarrow> bool" where
  "binding_keys d =
     (unique_on cv_id (conversations d) \<and> unique_on ch_id (channels d) \<and>
      unique_on cs_tenantId (corpusSelectors d) \<and>
      unique_on (\<lambda>r. (ap_tenantId r, ap_targetKey r)) (activePublications d) \<and>
      unique_on pb_id (publications d) \<and> unique_on ts_tenantId (authorizationStates d))"

section \<open>Tenants\<close>

text \<open>
  What one tenant's rows are: the projection of every table to the rows of that tenant. A
  statement that keeps this projection for every other tenant respects tenant isolation.
\<close>

definition tenant_view :: "string \<Rightarrow> db \<Rightarrow> db" where
  "tenant_view t d = \<lparr>
     conversations = filter (\<lambda>r. cv_tenantId r = t) (conversations d),
     channels = filter (\<lambda>r. ch_tenantId r = t) (channels d),
     corpusSelectors = filter (\<lambda>r. cs_tenantId r = t) (corpusSelectors d),
     activePublications = filter (\<lambda>r. ap_tenantId r = t) (activePublications d),
     publications = filter (\<lambda>r. pb_tenantId r = t) (publications d),
     publicationCapabilities = filter (\<lambda>r. pc_tenantId r = t) (publicationCapabilities d),
     publicationItems = filter (\<lambda>r. pi_tenantId r = t) (publicationItems d),
     authorizationStates = filter (\<lambda>r. ts_tenantId r = t) (authorizationStates d),
     integrationAccounts = filter (\<lambda>r. ia_tenantId r = t) (integrationAccounts d),
     messages = filter (\<lambda>r. ms_tenantId r = t) (messages d),
     tenants = filter (\<lambda>r. tn_id r = t) (tenants d),
     leads = filter (\<lambda>r. ld_tenantId r = t) (leads d),
     aiReplyRuns = filter (\<lambda>r. rn_tenantId r = t) (aiReplyRuns d),
     channelDeliveryOperations = filter (\<lambda>r. op_tenantId r = t) (channelDeliveryOperations d),
     retrievalTraces = filter (\<lambda>r. rt_tenantId r = t) (retrievalTraces d),
     runtimeOutbox = filter (\<lambda>r. ob_tenantId r = t) (runtimeOutbox d),
     runtimeInbox = filter (\<lambda>r. ib_tenantId r = t) (runtimeInbox d),
     knowledgeJobs = filter (\<lambda>r. kj_tenantId r = t) (knowledgeJobs d),
     knowledgeJobAttempts = filter (\<lambda>r. ka_tenantId r = t) (knowledgeJobAttempts d),
     knowledgeSources = filter (\<lambda>r. ks_tenantId r = t) (knowledgeSources d),
     businessImports = filter (\<lambda>r. bi_tenantId r = t) (businessImports d),
     businessImportApplications = filter (\<lambda>r. ba_tenantId r = t) (businessImportApplications d),
     businessInformationStates = filter (\<lambda>r. bs_tenantId r = t) (businessInformationStates d),
     auditLogs = filter (\<lambda>r. al_tenantId r = t) (auditLogs d)\<rparr>"

lemma find_tenant:
  "List.find (\<lambda>r. A r \<and> key r = t \<and> B r) (filter (\<lambda>r. key r = t) xs) =
   List.find (\<lambda>r. A r \<and> key r = t \<and> B r) xs"
  "List.find (\<lambda>r. key r = t \<and> B r) (filter (\<lambda>r. key r = t) xs) =
   List.find (\<lambda>r. key r = t \<and> B r) xs"
  "List.find (\<lambda>r. key r = t) (filter (\<lambda>r. key r = t) xs) = List.find (\<lambda>r. key r = t) xs"
  by (induction xs) auto

text \<open>An update of rows of another tenant that keeps their tenant does not show in a view.\<close>

lemma filter_update_many_other:
  assumes "\<And>r. P r \<Longrightarrow> key r \<noteq> t" and "\<And>r. P r \<Longrightarrow> key (f r) = key r"
  shows "filter (\<lambda>r. key r = t) (update_many P f rows) = filter (\<lambda>r. key r = t) rows"
  using assms by (induction rows) auto

end
