(* ===== verification/Capability.thy ===== *)
theory Capability
  imports Js_Time Database
begin

text \<open>
  Capability policy of \<open>packages/knowledge\<close>: which effects an autonomy level allows
  (\<open>capability-autonomy-v1.ts\<close>), and the projection of a tenant's operational state into
  tool and permission decisions with the binding hash the reply admission compares
  (\<open>capability-runtime-evidence-v1.ts\<close>, \<open>capability-runtime-evidence-store-v1.ts\<close>,
  \<open>v2-live-tool-registry.ts\<close>).
\<close>

section \<open>Autonomy\<close>

datatype effect = Eff_ANSWER | Eff_COLLECT_INFORMATION | Eff_PROPOSE_ACTION | Eff_COMMIT_ACTION

datatype autonomy_reason =
    Au_ALLOWED | Au_BINDING_MISSING | Au_AUTONOMY_INSUFFICIENT | Au_CONFIRMATION_REQUIRED
  | Au_AUTONOMOUS_ACTION_NOT_APPROVED

record autonomy_decision =
  au_policyVersion :: string
  au_allowed :: bool
  au_requiredAutonomy :: KnowledgeV2CapabilityAutonomy
  au_reason :: autonomy_reason

definition autonomy_policy_version :: string where
  "autonomy_policy_version = ''knowledge-capability-autonomy-v1''"

fun autonomyRank :: "KnowledgeV2CapabilityAutonomy \<Rightarrow> nat" where
  "autonomyRank ANSWER_ONLY = 0"
| "autonomyRank COLLECT_INFORMATION = 1"
| "autonomyRank PROPOSE_ACTION = 2"
| "autonomyRank ACT_WITH_CONFIRMATION = 3"
| "autonomyRank AUTONOMOUS_ACTION = 4"

fun requiredAutonomy :: "effect \<Rightarrow> KnowledgeV2CapabilityAutonomy" where
  "requiredAutonomy Eff_ANSWER = ANSWER_ONLY"
| "requiredAutonomy Eff_COLLECT_INFORMATION = COLLECT_INFORMATION"
| "requiredAutonomy Eff_PROPOSE_ACTION = PROPOSE_ACTION"
| "requiredAutonomy Eff_COMMIT_ACTION = ACT_WITH_CONFIRMATION"

definition autonomy_result ::
    "bool \<Rightarrow> KnowledgeV2CapabilityAutonomy \<Rightarrow> autonomy_reason \<Rightarrow> autonomy_decision" where
  "autonomy_result ok req why =
     \<lparr>au_policyVersion = autonomy_policy_version, au_allowed = ok, au_requiredAutonomy = req,
      au_reason = why\<rparr>"

text \<open>The optional booleans of the input are true only when given as \<open>true\<close>.\<close>

definition authorizeKnowledgeCapabilityEffectV1 ::
    "KnowledgeV2CapabilityAutonomy option \<Rightarrow> effect \<Rightarrow> bool \<Rightarrow> bool \<Rightarrow> autonomy_decision" where
  "authorizeKnowledgeCapabilityEffectV1 allowedAutonomy eff confirmationValid autonomousActionApproved =
     (let required = requiredAutonomy eff in
      case allowedAutonomy of
        None \<Rightarrow> autonomy_result False required Au_BINDING_MISSING
      | Some level \<Rightarrow>
          if eff \<noteq> Eff_COMMIT_ACTION then
            (let allowed = autonomyRank level \<ge> autonomyRank required
             in autonomy_result allowed required
                  (if allowed then Au_ALLOWED else Au_AUTONOMY_INSUFFICIENT))
          else if level = ACT_WITH_CONFIRMATION then
            autonomy_result confirmationValid required
              (if confirmationValid then Au_ALLOWED else Au_CONFIRMATION_REQUIRED)
          else if level = AUTONOMOUS_ACTION then
            autonomy_result autonomousActionApproved AUTONOMOUS_ACTION
              (if autonomousActionApproved then Au_ALLOWED else Au_AUTONOMOUS_ACTION_NOT_APPROVED)
          else autonomy_result False required Au_AUTONOMY_INSUFFICIENT)"

definition knowledgeCapabilityToolEffectV1 :: "string \<Rightarrow> effect" where
  "knowledgeCapabilityToolEffectV1 toolType =
     (if toolType = ''lead.update'' \<or> toolType = ''lead.note.create'' then Eff_COLLECT_INFORMATION
      else if toolType = ''booking.proposal.create'' then Eff_PROPOSE_ACTION
      else Eff_COMMIT_ACTION)"

section \<open>Registries\<close>

definition registry_version :: string where
  "registry_version = ''knowledge-operational-capability-registry-v1''"

definition live_tool_registry_version :: string where
  "live_tool_registry_version = ''knowledge-v2-live-tool-registry-v1''"

definition live_tool_policy_version :: string where
  "live_tool_policy_version = ''knowledge-live-tool-v3''"

datatype support = SUPPORTED | UNSUPPORTED

fun support_text :: "support \<Rightarrow> string" where
  "support_text SUPPORTED = ''SUPPORTED''"
| "support_text UNSUPPORTED = ''UNSUPPORTED''"

record operational_definition =
  od_schemaVersion :: int
  od_requirementToolKey :: string
  od_operation :: string
  od_support :: support
  od_executorToolKey :: "string option"
  od_executorVersion :: "string option"
  od_operationalCategory :: "string option"
  od_providerAlternatives :: "string list"
  od_requiredProviderCapabilities :: "string list"
  od_requiredPermissionKeys :: "string list"
  od_authorizationMode :: string
  od_confirmationRequired :: bool
  od_idempotencyRequired :: bool

definition operational_definitions :: "operational_definition list" where
  "operational_definitions = [
     \<lparr>od_schemaVersion = 1, od_requirementToolKey = ''quote.lookup'', od_operation = ''READ'', od_support = UNSUPPORTED,
      od_executorToolKey = None, od_executorVersion = None, od_operationalCategory = None,
      od_providerAlternatives = [], od_requiredProviderCapabilities = [],
      od_requiredPermissionKeys = [], od_authorizationMode = ''NONE'',
      od_confirmationRequired = False, od_idempotencyRequired = False\<rparr>,
     \<lparr>od_schemaVersion = 1, od_requirementToolKey = ''calendar.availability'', od_operation = ''READ'', od_support = UNSUPPORTED,
      od_executorToolKey = None, od_executorVersion = None,
      od_operationalCategory = Some ''AVAILABILITY'',
      od_providerAlternatives = [''GOOGLE_CALENDAR''],
      od_requiredProviderCapabilities = [''calendar.read''],
      od_requiredPermissionKeys = [], od_authorizationMode = ''NONE'',
      od_confirmationRequired = False, od_idempotencyRequired = False\<rparr>,
     \<lparr>od_schemaVersion = 1, od_requirementToolKey = ''calendar.booking'', od_operation = ''WRITE'', od_support = UNSUPPORTED,
      od_executorToolKey = None, od_executorVersion = None,
      od_operationalCategory = Some ''BOOKING_WRITE'',
      od_providerAlternatives = [''GOOGLE_CALENDAR''],
      od_requiredProviderCapabilities = [''calendar.write''],
      od_requiredPermissionKeys = [''calendar.write''],
      od_authorizationMode = ''AUTHENTICATED_CUSTOMER_SELF'',
      od_confirmationRequired = True, od_idempotencyRequired = True\<rparr>,
     \<lparr>od_schemaVersion = 1, od_requirementToolKey = ''account.lookup'', od_operation = ''READ'', od_support = UNSUPPORTED,
      od_executorToolKey = None, od_executorVersion = None,
      od_operationalCategory = Some ''ACCOUNT_STATE'',
      od_providerAlternatives = [], od_requiredProviderCapabilities = [],
      od_requiredPermissionKeys = [''customer_state.read''],
      od_authorizationMode = ''AUTHENTICATED_CUSTOMER_SELF'',
      od_confirmationRequired = False, od_idempotencyRequired = False\<rparr>,
     \<lparr>od_schemaVersion = 1, od_requirementToolKey = ''order.lookup'', od_operation = ''READ'', od_support = SUPPORTED,
      od_executorToolKey = Some ''order.status.read'', od_executorVersion = Some ''1'',
      od_operationalCategory = Some ''ORDER_STATE'',
      od_providerAlternatives = [], od_requiredProviderCapabilities = [],
      od_requiredPermissionKeys = [''customer_state.read''],
      od_authorizationMode = ''AUTHENTICATED_CUSTOMER_SELF'',
      od_confirmationRequired = False, od_idempotencyRequired = False\<rparr>,
     \<lparr>od_schemaVersion = 1, od_requirementToolKey = ''inventory.lookup'', od_operation = ''READ'', od_support = UNSUPPORTED,
      od_executorToolKey = None, od_executorVersion = None,
      od_operationalCategory = Some ''INVENTORY_STATE'',
      od_providerAlternatives = [''SHOPIFY'', ''SHOP_SCRIPT''],
      od_requiredProviderCapabilities = [''inventory.read''],
      od_requiredPermissionKeys = [], od_authorizationMode = ''NONE'',
      od_confirmationRequired = False, od_idempotencyRequired = False\<rparr>]"

definition permission_definitions :: "(string \<times> support) list" where
  "permission_definitions = [
     (''lead_data_collection'', UNSUPPORTED),
     (''calendar.write'', UNSUPPORTED),
     (''customer_state.read'', SUPPORTED),
     (''regulated_specialist_handoff'', UNSUPPORTED)]"

record live_tool =
  lt_schemaVersion :: int
  lt_operationalCategory :: string
  lt_toolKey :: string
  lt_toolVersion :: string
  lt_safeName :: string
  lt_resultType :: string
  lt_resourceType :: string
  lt_readOnly :: bool
  lt_authorizationMode :: string
  lt_providerConnectionRequired :: bool
  lt_capabilityToolKeys :: "string list"
  lt_capabilityPermissionKeys :: "string list"
  lt_policyVersion :: string

definition live_tool_definitions :: "live_tool list" where
  "live_tool_definitions = [
     \<lparr>lt_schemaVersion = 1, lt_operationalCategory = ''BOOKING_STATE'', lt_toolKey = ''booking.status.read'',
      lt_toolVersion = ''1'', lt_safeName = ''Current booking status'',
      lt_resultType = ''booking.status'', lt_resourceType = ''BOOKING'', lt_readOnly = True,
      lt_authorizationMode = ''AUTHENTICATED_CUSTOMER_SELF'', lt_providerConnectionRequired = False,
      lt_capabilityToolKeys = [], lt_capabilityPermissionKeys = [],
      lt_policyVersion = live_tool_policy_version\<rparr>,
     \<lparr>lt_schemaVersion = 1, lt_operationalCategory = ''ORDER_STATE'', lt_toolKey = ''order.status.read'',
      lt_toolVersion = ''1'', lt_safeName = ''Current order status'',
      lt_resultType = ''order.status'', lt_resourceType = ''ORDER'', lt_readOnly = True,
      lt_authorizationMode = ''AUTHENTICATED_CUSTOMER_SELF'', lt_providerConnectionRequired = False,
      lt_capabilityToolKeys = [''order.lookup''],
      lt_capabilityPermissionKeys = [''customer_state.read''],
      lt_policyVersion = live_tool_policy_version\<rparr>]"

definition knowledgeV2LiveToolDefinitionV1 :: "string \<Rightarrow> live_tool option" where
  "knowledgeV2LiveToolDefinitionV1 category =
     map_of (map (\<lambda>t. (lt_operationalCategory t, t)) (rev live_tool_definitions)) category"
section \<open>Hashing\<close>

text \<open>\<open>stable\<close>: compact JSON text with the keys of every object in the order of the locale en.\<close>

function stable :: "host \<Rightarrow> json \<Rightarrow> string" where
  "stable h JNull = ''null''"
| "stable h (JBool b) = json_stringify (JBool b)"
| "stable h (JInt n) = json_stringify (JInt n)"
| "stable h (JNonInt s) = json_stringify (JNonInt s)"
| "stable h (JStr s) = json_stringify (JStr s)"
| "stable h (JArr xs) = ''['' @ join '','' (map (stable h) xs) @ '']''"
| "stable h (JObj kvs) =
     ''{'' @ join '','' (map (\<lambda>(k, v). json_quote k @ '':'' @ stable h v)
       (js_sort (by_key (localeCompareEn h)) kvs)) @ ''}''"
  by pat_completeness auto
termination
  by (relation "measure (\<lambda>(h, v). size v)")
     (auto dest: json_entry_smaller json_item_smaller)

definition hash :: "host \<Rightarrow> json \<Rightarrow> string" where
  "hash h v = sha256 h (stable h v)"

section \<open>Projection of the operational state\<close>

text \<open>A \<open>Date\<close> is valid when its time value lies within the range of ECMAScript dates.\<close>

definition asDate :: "int option \<Rightarrow> int option" where
  "asDate v = (case v of None \<Rightarrow> None
     | Some ms \<Rightarrow> if \<bar>ms\<bar> \<le> 8640000000000000 then Some ms else None)"

definition validAuthorizationState ::
    "string \<Rightarrow> authorization_state option \<Rightarrow> authorization_state option" where
  "validAuthorizationState tenantId state =
     (case state of
        None \<Rightarrow> None
      | Some s \<Rightarrow>
          if ts_tenantId s \<noteq> tenantId \<or> ts_permissionGeneration s \<le> 0 \<or>
             asDate (Some (ts_updatedAt s)) = None
          then None else Some s)"

definition liveExecutorMatches :: "operational_definition \<Rightarrow> bool" where
  "liveExecutorMatches def =
     (if od_support def \<noteq> SUPPORTED then False
      else list_ex (\<lambda>tool.
             Some (lt_toolKey tool) = od_executorToolKey def \<and>
             Some (lt_toolVersion tool) = od_executorVersion def \<and>
             Some (lt_operationalCategory tool) = od_operationalCategory def \<and>
             js_includes (lt_capabilityToolKeys tool) (od_requirementToolKey def) \<and>
             list_all (js_includes (lt_capabilityPermissionKeys tool)) (od_requiredPermissionKeys def))
           live_tool_definitions)"

record connection_state =
  cn_id :: string
  cn_provider :: string
  cn_status :: string
  cn_permissionVersion :: int
  cn_serverVerifiedCapabilities :: "string list"
  cn_credentialsConfigured :: bool
  cn_healthy :: bool
  cn_observedAt :: "int option"
  cn_healthExpiresAt :: "int option"

record normalized_connection =
  nc_id :: string
  nc_provider :: string
  nc_status :: string
  nc_permissionVersion :: int
  nc_serverVerifiedCapabilities :: "string list"
  nc_credentialsConfigured :: bool
  nc_healthy :: bool
  nc_observedAt :: "string option"
  nc_healthExpiresAt :: "string option"

definition normalizedConnection :: "connection_state \<Rightarrow> normalized_connection" where
  "normalizedConnection c =
     \<lparr>nc_id = cn_id c, nc_provider = cn_provider c, nc_status = cn_status c,
      nc_permissionVersion = cn_permissionVersion c,
      nc_serverVerifiedCapabilities = js_sort str_cmp (js_unique (cn_serverVerifiedCapabilities c)),
      nc_credentialsConfigured = cn_credentialsConfigured c, nc_healthy = cn_healthy c,
      nc_observedAt = map_option toISOString (asDate (cn_observedAt c)),
      nc_healthExpiresAt = map_option toISOString (asDate (cn_healthExpiresAt c))\<rparr>"

definition operational_connections ::
    "host \<Rightarrow> connection_state list \<Rightarrow> normalized_connection list" where
  "operational_connections h cs =
     js_sort (\<lambda>l r. localeCompareEn h (nc_id l) (nc_id r)) (map normalizedConnection cs)"

definition bindingProviders :: "string list" where
  "bindingProviders =
     concat (map od_providerAlternatives
       (filter (\<lambda>d. od_support d = SUPPORTED \<and> liveExecutorMatches d) operational_definitions))"

definition json_strings :: "string list \<Rightarrow> json" where
  "json_strings xs = JArr (map JStr xs)"

definition bindingConnections :: "normalized_connection list \<Rightarrow> json" where
  "bindingConnections cs =
     JArr (map (\<lambda>c. JObj [
         (''id'', JStr (nc_id c)), (''provider'', JStr (nc_provider c)),
         (''status'', JStr (nc_status c)),
         (''permissionVersion'', JInt (nc_permissionVersion c)),
         (''serverVerifiedCapabilities'', json_strings (nc_serverVerifiedCapabilities c)),
         (''credentialsConfigured'', JBool (nc_credentialsConfigured c)),
         (''healthy'', JBool (nc_healthy c)),
         (''healthExpiresAt'', opt_json JStr (nc_healthExpiresAt c))])
       (filter (\<lambda>c. js_includes bindingProviders (nc_provider c)) cs))"

definition operational_definition_json :: "operational_definition \<Rightarrow> json" where
  "operational_definition_json d = JObj [
     (''schemaVersion'', JInt (od_schemaVersion d)),
     (''requirementToolKey'', JStr (od_requirementToolKey d)),
     (''operation'', JStr (od_operation d)),
     (''support'', JStr (support_text (od_support d))),
     (''executorToolKey'', opt_json JStr (od_executorToolKey d)),
     (''executorVersion'', opt_json JStr (od_executorVersion d)),
     (''operationalCategory'', opt_json JStr (od_operationalCategory d)),
     (''providerAlternatives'', json_strings (od_providerAlternatives d)),
     (''requiredProviderCapabilities'', json_strings (od_requiredProviderCapabilities d)),
     (''requiredPermissionKeys'', json_strings (od_requiredPermissionKeys d)),
     (''authorizationMode'', JStr (od_authorizationMode d)),
     (''confirmationRequired'', JBool (od_confirmationRequired d)),
     (''idempotencyRequired'', JBool (od_idempotencyRequired d))]"

definition permission_definition_json :: "string \<times> support \<Rightarrow> json" where
  "permission_definition_json p =
     JObj [(''permissionKey'', JStr (fst p)), (''support'', JStr (support_text (snd p)))]"

definition registryHash :: "host \<Rightarrow> string" where
  "registryHash h = hash h (JObj [
     (''registryVersion'', JStr registry_version),
     (''liveToolRegistryVersion'', JStr live_tool_registry_version),
     (''liveToolPolicyVersion'', JStr live_tool_policy_version),
     (''tools'', JArr (map operational_definition_json operational_definitions)),
     (''permissions'', JArr (map permission_definition_json permission_definitions))])"

definition generation_json :: "authorization_state option \<Rightarrow> json" where
  "generation_json state = opt_json (\<lambda>s. JInt (ts_permissionGeneration s)) state"

definition dependencySetHash ::
    "host \<Rightarrow> string \<Rightarrow> authorization_state option \<Rightarrow> normalized_connection list \<Rightarrow> string" where
  "dependencySetHash h tenantId state cs = hash h (JObj [
     (''registryHash'', JStr (registryHash h)),
     (''tenantId'', JStr tenantId),
     (''permissionGeneration'', generation_json state),
     (''connections'', bindingConnections cs)])"

datatype decision_reason =
    AVAILABLE | UNSUPPORTED_EXECUTOR | EXECUTOR_REGISTRY_MISMATCH | AUTHORIZATION_STATE_MISSING
  | PERMISSION_POLICY_UNAVAILABLE | CONNECTION_UNAVAILABLE

fun decision_reason_text :: "decision_reason \<Rightarrow> string" where
  "decision_reason_text AVAILABLE = ''AVAILABLE''"
| "decision_reason_text UNSUPPORTED_EXECUTOR = ''UNSUPPORTED_EXECUTOR''"
| "decision_reason_text EXECUTOR_REGISTRY_MISMATCH = ''EXECUTOR_REGISTRY_MISMATCH''"
| "decision_reason_text AUTHORIZATION_STATE_MISSING = ''AUTHORIZATION_STATE_MISSING''"
| "decision_reason_text PERMISSION_POLICY_UNAVAILABLE = ''PERMISSION_POLICY_UNAVAILABLE''"
| "decision_reason_text CONNECTION_UNAVAILABLE = ''CONNECTION_UNAVAILABLE''"

datatype requirement_kind = TOOL | PERMISSION

fun requirement_kind_text :: "requirement_kind \<Rightarrow> string" where
  "requirement_kind_text TOOL = ''TOOL''"
| "requirement_kind_text PERMISSION = ''PERMISSION''"

record capability_decision =
  cd_requirementKey :: string
  cd_kind :: requirement_kind
  cd_available :: bool
  cd_reason :: decision_reason
  cd_dependencyHash :: string

record capability_evidence =
  ev_evidenceId :: string
  ev_kind :: requirement_kind
  ev_refId :: string
  ev_versionId :: string
  ev_versionHash :: string
  ev_key :: string
  ev_available :: bool
  ev_observedAt :: string

record executable_binding =
  xb_requirementToolKey :: string
  xb_executorToolKey :: string
  xb_executorVersion :: string
  xb_operationalCategory :: string
  xb_permissionGeneration :: int

definition connectionAvailable ::
    "int \<Rightarrow> normalized_connection list \<Rightarrow> operational_definition \<Rightarrow> bool" where
  "connectionAvailable evaluatedAt cs def =
     (od_providerAlternatives def = [] \<or>
      list_ex (\<lambda>c.
          nc_status c = ''CONNECTED'' \<and> nc_permissionVersion c > 0 \<and>
          nc_credentialsConfigured c \<and> nc_healthy c \<and>
          (case nc_healthExpiresAt c of None \<Rightarrow> True
           | Some e \<Rightarrow> str_less (toISOString evaluatedAt) e) \<and>
          list_all (js_includes (nc_serverVerifiedCapabilities c)) (od_requiredProviderCapabilities def))
        (filter (\<lambda>c. js_includes (od_providerAlternatives def) (nc_provider c)) cs))"

definition tool_reason ::
    "int \<Rightarrow> normalized_connection list \<Rightarrow> operational_definition \<Rightarrow> decision_reason" where
  "tool_reason evaluatedAt cs def =
     (if od_support def \<noteq> SUPPORTED then UNSUPPORTED_EXECUTOR
      else if \<not> liveExecutorMatches def then EXECUTOR_REGISTRY_MISMATCH
      else if \<not> connectionAvailable evaluatedAt cs def then CONNECTION_UNAVAILABLE
      else AVAILABLE)"

definition tool_decision ::
    "host \<Rightarrow> string \<Rightarrow> int \<Rightarrow> normalized_connection list \<Rightarrow> operational_definition \<Rightarrow> capability_decision" where
  "tool_decision h depHash evaluatedAt cs def =
     (let reason = tool_reason evaluatedAt cs def in
      \<lparr>cd_requirementKey = od_requirementToolKey def, cd_kind = TOOL,
       cd_available = (reason = AVAILABLE), cd_reason = reason,
       cd_dependencyHash = hash h (JObj [
         (''registryHash'', JStr (registryHash h)), (''dependencySetHash'', JStr depHash),
         (''definition'', operational_definition_json def),
         (''reason'', JStr (decision_reason_text reason))])\<rparr>)"

definition tool_evidence ::
    "host \<Rightarrow> string \<Rightarrow> int \<Rightarrow> normalized_connection list \<Rightarrow> operational_definition \<Rightarrow> capability_evidence" where
  "tool_evidence h depHash evaluatedAt cs def =
     (let d = tool_decision h depHash evaluatedAt cs def in
      \<lparr>ev_evidenceId = ''tool:'' @ od_requirementToolKey def, ev_kind = TOOL,
       ev_refId = (case od_executorToolKey def of Some k \<Rightarrow> k | None \<Rightarrow> od_requirementToolKey def),
       ev_versionId = (case od_executorVersion def of Some v \<Rightarrow> v | None \<Rightarrow> registry_version),
       ev_versionHash = cd_dependencyHash d, ev_key = od_requirementToolKey def,
       ev_available = cd_available d, ev_observedAt = toISOString evaluatedAt\<rparr>)"

definition permission_reason :: "authorization_state option \<Rightarrow> string \<times> support \<Rightarrow> decision_reason" where
  "permission_reason state def =
     (if snd def \<noteq> SUPPORTED then PERMISSION_POLICY_UNAVAILABLE
      else if state = None then AUTHORIZATION_STATE_MISSING
      else AVAILABLE)"

definition permission_decision ::
    "host \<Rightarrow> string \<Rightarrow> authorization_state option \<Rightarrow> string \<times> support \<Rightarrow> capability_decision" where
  "permission_decision h depHash state def =
     (let reason = permission_reason state def in
      \<lparr>cd_requirementKey = fst def, cd_kind = PERMISSION,
       cd_available = (reason = AVAILABLE), cd_reason = reason,
       cd_dependencyHash = hash h (JObj [
         (''registryHash'', JStr (registryHash h)), (''dependencySetHash'', JStr depHash),
         (''definition'', permission_definition_json def),
         (''permissionGeneration'', generation_json state),
         (''reason'', JStr (decision_reason_text reason))])\<rparr>)"

definition permission_evidence ::
    "host \<Rightarrow> string \<Rightarrow> int \<Rightarrow> authorization_state option \<Rightarrow> string \<times> support \<Rightarrow> capability_evidence" where
  "permission_evidence h depHash evaluatedAt state def =
     (let d = permission_decision h depHash state def in
      \<lparr>ev_evidenceId = ''permission:'' @ fst def, ev_kind = PERMISSION,
       ev_refId = fst def,
       ev_versionId = (case state of Some s \<Rightarrow> ''generation:'' @ int_str (ts_permissionGeneration s)
                       | None \<Rightarrow> registry_version),
       ev_versionHash = cd_dependencyHash d, ev_key = fst def,
       ev_available = cd_available d,
       ev_observedAt = toISOString (case state of Some s \<Rightarrow> ts_updatedAt s | None \<Rightarrow> evaluatedAt)\<rparr>)"

definition decision_available ::
    "capability_decision list \<Rightarrow> requirement_kind \<Rightarrow> string \<Rightarrow> bool" where
  "decision_available ds k key =
     (case List.find (\<lambda>d. cd_kind d = k \<and> cd_requirementKey d = key) ds of
        None \<Rightarrow> False | Some d \<Rightarrow> cd_available d)"

definition executable_bindings ::
    "authorization_state option \<Rightarrow> capability_decision list \<Rightarrow> executable_binding list" where
  "executable_bindings state ds =
     concat (map (\<lambda>def.
       case (state, od_executorToolKey def, od_executorVersion def, od_operationalCategory def) of
         (Some s, Some k, Some v, Some c) \<Rightarrow>
           if decision_available ds TOOL (od_requirementToolKey def) \<and>
              list_all (decision_available ds PERMISSION) (od_requiredPermissionKeys def) \<and>
              k \<noteq> [] \<and> v \<noteq> [] \<and> c \<noteq> []
           then [\<lparr>xb_requirementToolKey = od_requirementToolKey def, xb_executorToolKey = k,
                  xb_executorVersion = v, xb_operationalCategory = c,
                  xb_permissionGeneration = ts_permissionGeneration s\<rparr>]
           else []
       | _ \<Rightarrow> []) operational_definitions)"

definition decision_json :: "capability_decision \<Rightarrow> json" where
  "decision_json d = JObj [
     (''requirementKey'', JStr (cd_requirementKey d)),
     (''kind'', JStr (requirement_kind_text (cd_kind d))),
     (''available'', JBool (cd_available d)),
     (''reason'', JStr (decision_reason_text (cd_reason d))),
     (''dependencyHash'', JStr (cd_dependencyHash d))]"

definition binding_json :: "executable_binding \<Rightarrow> json" where
  "binding_json b = JObj [
     (''requirementToolKey'', JStr (xb_requirementToolKey b)),
     (''executorToolKey'', JStr (xb_executorToolKey b)),
     (''executorVersion'', JStr (xb_executorVersion b)),
     (''operationalCategory'', JStr (xb_operationalCategory b)),
     (''permissionGeneration'', JInt (xb_permissionGeneration b))]"

definition sort_decisions :: "host \<Rightarrow> capability_decision list \<Rightarrow> capability_decision list" where
  "sort_decisions h =
     js_sort (\<lambda>l r. localeCompareEn h (requirement_kind_text (cd_kind l) @ '':'' @ cd_requirementKey l)
                      (requirement_kind_text (cd_kind r) @ '':'' @ cd_requirementKey r))"

record capability_projection =
  pj_schemaVersion :: int
  pj_registryVersion :: string
  pj_registryHash :: string
  pj_liveToolRegistryVersion :: string
  pj_liveToolPolicyVersion :: string
  pj_permissionGeneration :: "int option"
  pj_dependencySetHash :: string
  pj_bindingHash :: string
  pj_decisions :: "capability_decision list"
  pj_evidence :: "capability_evidence list"
  pj_executableBindings :: "executable_binding list"

definition bindingHash ::
    "host \<Rightarrow> authorization_state option \<Rightarrow> string \<Rightarrow> capability_decision list \<Rightarrow> executable_binding list \<Rightarrow> string" where
  "bindingHash h state depHash decisions bindings = hash h (JObj [
     (''schemaVersion'', JInt 1),
     (''registryVersion'', JStr registry_version),
     (''registryHash'', JStr (registryHash h)),
     (''liveToolRegistryVersion'', JStr live_tool_registry_version),
     (''liveToolPolicyVersion'', JStr live_tool_policy_version),
     (''permissionGeneration'', generation_json state),
     (''dependencySetHash'', JStr depHash),
     (''decisions'', JArr (map decision_json decisions)),
     (''executableBindings'', JArr (map binding_json bindings))])"

definition operational_decisions ::
    "host \<Rightarrow> string \<Rightarrow> int \<Rightarrow> authorization_state option \<Rightarrow> normalized_connection list \<Rightarrow> capability_decision list" where
  "operational_decisions h depHash evaluatedAt state cs =
     map (tool_decision h depHash evaluatedAt cs) operational_definitions @
     map (permission_decision h depHash state) permission_definitions"

definition projectKnowledgeOperationalCapabilitiesV1 ::
    "host \<Rightarrow> string \<Rightarrow> int \<Rightarrow> authorization_state option \<Rightarrow> connection_state list
     \<Rightarrow> error + capability_projection" where
  "projectKnowledgeOperationalCapabilitiesV1 h tenantId evaluatedAt authState conns =
     (if js_trim tenantId = [] \<or> asDate (Some evaluatedAt) = None
      then Inl (OtherError ''TypeError''
             ''Operational capability projection requires a tenant and evaluation time.'')
      else
        let state = validAuthorizationState tenantId authState;
            cs = operational_connections h conns;
            depHash = dependencySetHash h tenantId state cs;
            decisions = operational_decisions h depHash evaluatedAt state cs;
            evidence = map (tool_evidence h depHash evaluatedAt cs) operational_definitions @
                       map (permission_evidence h depHash evaluatedAt state) permission_definitions;
            bindings = executable_bindings state decisions;
            sorted = sort_decisions h decisions
        in Inr \<lparr>pj_schemaVersion = 1, pj_registryVersion = registry_version,
             pj_registryHash = registryHash h,
             pj_liveToolRegistryVersion = live_tool_registry_version,
             pj_liveToolPolicyVersion = live_tool_policy_version,
             pj_permissionGeneration = map_option ts_permissionGeneration state,
             pj_dependencySetHash = depHash,
             pj_bindingHash = bindingHash h state depHash sorted bindings,
             pj_decisions = sorted,
             pj_evidence = js_sort (\<lambda>l r. localeCompareEn h (ev_evidenceId l) (ev_evidenceId r)) evidence,
             pj_executableBindings = bindings\<rparr>)"

text \<open>The state of a tenant as the database has it: \<open>ORDER BY "id"\<close> by code unit.\<close>

definition loadKnowledgeOperationalCapabilityProjectionV1 ::
    "host \<Rightarrow> db \<Rightarrow> string \<Rightarrow> int \<Rightarrow> error + capability_projection" where
  "loadKnowledgeOperationalCapabilityProjectionV1 h d tenantId evaluatedAt =
     projectKnowledgeOperationalCapabilitiesV1 h tenantId evaluatedAt
       (List.find (\<lambda>s. ts_tenantId s = tenantId) (authorizationStates d))
       (map (\<lambda>a. \<lparr>cn_id = ia_id a, cn_provider = ia_provider a, cn_status = ia_status a,
                   cn_permissionVersion = ia_permissionVersion a,
                   cn_serverVerifiedCapabilities = [],
                   cn_credentialsConfigured = (ia_encryptedCredentials a \<noteq> None),
                   cn_healthy = False, cn_observedAt = Some (ia_updatedAt a),
                   cn_healthExpiresAt = None\<rparr>)
         (js_sort (\<lambda>l r. str_cmp (ia_id l) (ia_id r))
           (filter (\<lambda>a. ia_tenantId a = tenantId \<and> ia_deletedAt a = None) (integrationAccounts d))))"

section \<open>What the registries make of the operational state\<close>

text \<open>
  The only executable entry of the registry needs no provider connection, so no connection enters
  the binding and the decisions do not read the connections or the clock.
\<close>

lemmas registry_defs =
  operational_definitions_def permission_definitions_def live_tool_definitions_def

lemma liveExecutorMatches_registry:
  "d \<in> set operational_definitions \<Longrightarrow>
   liveExecutorMatches d \<longleftrightarrow> od_requirementToolKey d = ''order.lookup''"
  by (auto simp: registry_defs liveExecutorMatches_def)

lemma bindingProviders_Nil [simp]: "bindingProviders = []"
  by (simp add: bindingProviders_def registry_defs liveExecutorMatches_def)

lemma bindingConnections_Nil [simp]: "bindingConnections cs = JArr []"
  by (simp add: bindingConnections_def)

lemma dependencySetHash_no_connections:
  "dependencySetHash h t s cs = dependencySetHash h t s []"
  by (simp add: dependencySetHash_def)

lemma tool_reason_registry:
  "d \<in> set operational_definitions \<Longrightarrow>
   tool_reason ev cs d = (if od_requirementToolKey d = ''order.lookup'' then AVAILABLE
                          else UNSUPPORTED_EXECUTOR)"
  by (auto simp: registry_defs tool_reason_def liveExecutorMatches_def connectionAvailable_def)

lemma operational_decisions_frame:
  "operational_decisions h dep ev s cs = operational_decisions h dep 0 s []"
proof -
  have "map (tool_decision h dep ev cs) operational_definitions =
        map (tool_decision h dep 0 []) operational_definitions"
    by (rule map_cong) (simp_all add: tool_decision_def tool_reason_registry)
  then show ?thesis by (simp add: operational_decisions_def)
qed

lemma generation_json_cong:
  "map_option ts_permissionGeneration s = map_option ts_permissionGeneration s' \<Longrightarrow>
   generation_json s = generation_json s'"
  by (cases s; cases s') (auto simp: generation_json_def)

lemma permission_decision_cong:
  assumes "map_option ts_permissionGeneration s = map_option ts_permissionGeneration s'"
  shows "permission_decision h dep s = permission_decision h dep s'"
proof -
  have "(s = None) = (s' = None)" using assms by (cases s; cases s') auto
  then have "permission_reason s = permission_reason s'"
    by (simp add: permission_reason_def fun_eq_iff)
  then show ?thesis
    by (simp add: permission_decision_def fun_eq_iff generation_json_cong [OF assms])
qed

lemma operational_decisions_generation:
  assumes "map_option ts_permissionGeneration s = map_option ts_permissionGeneration s'"
  shows "operational_decisions h dep ev s cs = operational_decisions h dep ev s' cs"
  by (simp add: operational_decisions_def permission_decision_cong [OF assms])

lemma executable_bindings_generation:
  assumes "map_option ts_permissionGeneration s = map_option ts_permissionGeneration s'"
  shows "executable_bindings s ds = executable_bindings s' ds"
  proof (cases s)
  case (Some a)
  with assms obtain b where b: "s' = Some b" "ts_permissionGeneration b = ts_permissionGeneration a"
    by (cases s') auto
  show ?thesis by (simp only: Some b executable_bindings_def prod.case option.case)
qed (use assms in simp)

lemma decision_available_order_lookup:
  "decision_available (operational_decisions h dep ev s cs) TOOL ''order.lookup''"
  by (simp add: decision_available_def operational_decisions_frame [of h dep ev s cs])
     (simp add: operational_decisions_def registry_defs tool_decision_def tool_reason_def
        liveExecutorMatches_def connectionAvailable_def)

lemma decision_available_customer_state:
  "decision_available (operational_decisions h dep ev s cs) PERMISSION ''customer_state.read''
   \<longleftrightarrow> s \<noteq> None"
  by (simp add: decision_available_def operational_decisions_frame [of h dep ev s cs])
     (simp add: operational_decisions_def registry_defs tool_decision_def permission_decision_def
        permission_reason_def Let_def)

lemma executable_bindings_eq:
  "executable_bindings s (operational_decisions h dep ev s cs) =
     (case s of None \<Rightarrow> []
      | Some a \<Rightarrow> [\<lparr>xb_requirementToolKey = ''order.lookup'',
                    xb_executorToolKey = ''order.status.read'', xb_executorVersion = ''1'',
                    xb_operationalCategory = ''ORDER_STATE'',
                    xb_permissionGeneration = ts_permissionGeneration a\<rparr>])"
  by (cases s)
     (simp_all add: executable_bindings_def operational_definitions_def
        decision_available_order_lookup decision_available_customer_state)

definition project_ok :: "string \<Rightarrow> int \<Rightarrow> bool" where
  "project_ok tenantId ev = (\<not> js_blank tenantId \<and> \<bar>ev\<bar> \<le> 8640000000000000)"

lemma project_Inr_iff:
  "(\<exists>p. projectKnowledgeOperationalCapabilitiesV1 h t ev a cs = Inr p) \<longleftrightarrow> project_ok t ev"
  by (auto simp: projectKnowledgeOperationalCapabilitiesV1_def project_ok_def asDate_def Let_def
        js_trim_empty_iff)

lemma project_InrD:
  assumes "projectKnowledgeOperationalCapabilitiesV1 h t ev a cs = Inr p"
  shows "pj_permissionGeneration p = map_option ts_permissionGeneration (validAuthorizationState t a)"
    and "pj_bindingHash p =
           (let s = validAuthorizationState t a; dep = dependencySetHash h t s [];
                ds = operational_decisions h dep 0 s []
            in bindingHash h s dep (sort_decisions h ds) (executable_bindings s ds))"
    and "pj_executableBindings p =
           executable_bindings (validAuthorizationState t a)
             (operational_decisions h (dependencySetHash h t (validAuthorizationState t a) []) 0
                (validAuthorizationState t a) [])"
    and "pj_decisions p = sort_decisions h
             (operational_decisions h (dependencySetHash h t (validAuthorizationState t a) []) 0
                (validAuthorizationState t a) [])"
  using assms
  by (auto simp: projectKnowledgeOperationalCapabilitiesV1_def Let_def
        dependencySetHash_no_connections [of h t _ "operational_connections h cs"]
        operational_decisions_frame [of h _ ev _ "operational_connections h cs"] split: if_splits)

section \<open>Properties\<close>

text \<open>An effect is authorised exactly when a capability binding exists and its autonomy level
  covers the effect: answering, collecting and proposing need the rank of the effect; committing
  an action needs either the confirmation level with a valid confirmation or the autonomous level
  with an approval. The reason is \<open>ALLOWED\<close> exactly for an authorised effect.\<close>

theorem authorize_effect_iff:
  "(au_allowed (authorizeKnowledgeCapabilityEffectV1 level eff conf appr) \<longleftrightarrow>
     (\<exists>l. level = Some l \<and>
        (if eff = Eff_COMMIT_ACTION
         then l = ACT_WITH_CONFIRMATION \<and> conf \<or> l = AUTONOMOUS_ACTION \<and> appr
         else autonomyRank (requiredAutonomy eff) \<le> autonomyRank l)) \<and>
   (au_reason (authorizeKnowledgeCapabilityEffectV1 level eff conf appr) = Au_ALLOWED) =
     au_allowed (authorizeKnowledgeCapabilityEffectV1 level eff conf appr))"
  by (cases level) (auto simp: authorizeKnowledgeCapabilityEffectV1_def autonomy_result_def Let_def)

text \<open>The operational part of a capability snapshot is a function of the tenant and its
  permission generation: two projections of the same tenant with the same valid generation agree
  in the binding hash, the decisions and the executable bindings, whatever the integration
  connections and the evaluation times are.\<close>

theorem binding_hash_scope:
  assumes "projectKnowledgeOperationalCapabilitiesV1 h t ev a cs = Inr p"
    and "projectKnowledgeOperationalCapabilitiesV1 h t ev' a' cs' = Inr p'"
    and "pj_permissionGeneration p = pj_permissionGeneration p'"
  shows "pj_bindingHash p = pj_bindingHash p' \<and> pj_decisions p = pj_decisions p' \<and>
         pj_executableBindings p = pj_executableBindings p'"
proof -
  let ?s = "validAuthorizationState t a" and ?s' = "validAuthorizationState t a'"
  have g: "map_option ts_permissionGeneration ?s = map_option ts_permissionGeneration ?s'"
    using assms by (simp add: project_InrD)
  have dep: "dependencySetHash h t ?s [] = dependencySetHash h t ?s' []"
    by (simp add: dependencySetHash_def generation_json_cong [OF g])
  show ?thesis
    by (simp add: project_InrD [OF assms(1)] project_InrD [OF assms(2)] dep Let_def bindingHash_def
        operational_decisions_generation [OF g] executable_bindings_generation [OF g]
        generation_json_cong [OF g])
qed

definition plain_host :: host where
  "plain_host = \<lparr>sha256 = (\<lambda>s. s), localeCompare = str_cmp, localeCompareEn = str_cmp\<rparr>"

theorem binding_hash_scope_witness:
  "\<exists>p p'. projectKnowledgeOperationalCapabilitiesV1 plain_host ''t1'' 5
             (Some \<lparr>ts_tenantId = ''t1'', ts_permissionGeneration = 2, ts_updatedAt = 3\<rparr>) [] = Inr p \<and>
          projectKnowledgeOperationalCapabilitiesV1 plain_host ''t1'' 7
             (Some \<lparr>ts_tenantId = ''t1'', ts_permissionGeneration = 2, ts_updatedAt = 4\<rparr>)
             [\<lparr>cn_id = ''a'', cn_provider = ''SHOPIFY'', cn_status = ''CONNECTED'',
               cn_permissionVersion = 1, cn_serverVerifiedCapabilities = [''inventory.read''],
               cn_credentialsConfigured = True, cn_healthy = True, cn_observedAt = Some 1,
               cn_healthExpiresAt = None\<rparr>] = Inr p' \<and>
          pj_bindingHash p = pj_bindingHash p'"
proof -
  let ?a = "Some \<lparr>ts_tenantId = ''t1'', ts_permissionGeneration = 2, ts_updatedAt = 3\<rparr>"
  let ?b = "Some \<lparr>ts_tenantId = ''t1'', ts_permissionGeneration = 2, ts_updatedAt = 4\<rparr>"
  let ?c = "[\<lparr>cn_id = ''a'', cn_provider = ''SHOPIFY'', cn_status = ''CONNECTED'',
               cn_permissionVersion = 1, cn_serverVerifiedCapabilities = [''inventory.read''],
               cn_credentialsConfigured = True, cn_healthy = True, cn_observedAt = Some 1,
               cn_healthExpiresAt = None\<rparr>] :: connection_state list"
  have ok: "project_ok ''t1'' 5" "project_ok ''t1'' 7" by code_simp+
  obtain p p' where p: "projectKnowledgeOperationalCapabilitiesV1 plain_host ''t1'' 5 ?a [] = Inr p"
    and p': "projectKnowledgeOperationalCapabilitiesV1 plain_host ''t1'' 7 ?b ?c = Inr p'"
    using ok project_Inr_iff by meson
  have "pj_permissionGeneration p = pj_permissionGeneration p'"
    by (simp add: project_InrD [OF p] project_InrD [OF p'] validAuthorizationState_def asDate_def)
  from binding_hash_scope [OF p p' this] p p' show ?thesis by blast
qed

text \<open>Loading the projection of a tenant fails exactly for a blank tenant id or an invalid
  evaluation time. Otherwise the single executable binding is the order lookup, executed by
  \<open>order.status.read\<close> version 1, and it is there exactly when the tenant has an authorization
  state with a positive permission generation, which the binding carries.\<close>

theorem operational_projection_binding:
  "case loadKnowledgeOperationalCapabilityProjectionV1 h d t ev of
     Inl e \<Rightarrow> \<not> project_ok t ev
   | Inr p \<Rightarrow>
       project_ok t ev \<and>
       (case validAuthorizationState t (List.find (\<lambda>s. ts_tenantId s = t) (authorizationStates d)) of
          None \<Rightarrow> pj_executableBindings p = [] \<and> pj_permissionGeneration p = None
        | Some s \<Rightarrow>
            0 < ts_permissionGeneration s \<and>
            pj_permissionGeneration p = Some (ts_permissionGeneration s) \<and>
            pj_executableBindings p =
              [\<lparr>xb_requirementToolKey = ''order.lookup'', xb_executorToolKey = ''order.status.read'',
                xb_executorVersion = ''1'', xb_operationalCategory = ''ORDER_STATE'',
                xb_permissionGeneration = ts_permissionGeneration s\<rparr>])"
proof (cases "loadKnowledgeOperationalCapabilityProjectionV1 h d t ev")
  case (Inl e)
  then have "\<nexists>p. projectKnowledgeOperationalCapabilitiesV1 h t ev x y = Inr p"
    if "loadKnowledgeOperationalCapabilityProjectionV1 h d t ev =
        projectKnowledgeOperationalCapabilitiesV1 h t ev x y" for x y
    using that by simp
  from this [OF loadKnowledgeOperationalCapabilityProjectionV1_def]
  show ?thesis by (simp only: project_Inr_iff Inl sum.case not_False_eq_True)
next
  case (Inr p)
  note p = Inr [unfolded loadKnowledgeOperationalCapabilityProjectionV1_def]
  have "project_ok t ev" using p project_Inr_iff by blast
  moreover have "0 < ts_permissionGeneration s"
    if "validAuthorizationState t (List.find (\<lambda>s. ts_tenantId s = t) (authorizationStates d)) = Some s"
    for s
    using that by (auto simp: validAuthorizationState_def split: option.splits if_splits)
  ultimately show ?thesis
    by (simp add: Inr project_InrD [OF p] executable_bindings_eq split: option.split)
qed

end
