(* ===== verification/Canonical_Json.thy ===== *)
theory Canonical_Json
  imports Prelude "HOL-Library.Multiset"
begin

text \<open>
  Key order and canonical JSON. A JSON value that went through a store which does not keep the
  order of object keys (a \<open>jsonb\<close> column) comes back \<open>reordered\<close>; the canonical text, and so
  every hash of it, is the same as long as the collation orders the keys strictly.
\<close>

section \<open>Collations\<close>

text \<open>What the canonical text relies on of \<open>localeCompare\<close>: a total order on the keys.\<close>

locale collation =
  fixes cmp :: "string \<Rightarrow> string \<Rightarrow> int"
  assumes cmp_total: "cmp x y \<le> 0 \<or> cmp y x \<le> 0"
    and cmp_antisym: "cmp x y \<le> 0 \<Longrightarrow> cmp y x \<le> 0 \<Longrightarrow> x = y"
    and cmp_trans: "cmp x y \<le> 0 \<Longrightarrow> cmp y z \<le> 0 \<Longrightarrow> cmp x z \<le> 0"
begin

lemma insert_by_commute:
  assumes "fst p \<noteq> fst q"
  shows "insert_by (by_key cmp) p (insert_by (by_key cmp) q xs) =
         insert_by (by_key cmp) q (insert_by (by_key cmp) p xs)"
proof -
  let ?le = "\<lambda>x y. by_key cmp x y \<le> 0"
  have t: "?le p q = (\<not> ?le q p)"
    using assms cmp_total cmp_antisym unfolding by_key_def by metis
  have tr: "?le q x \<Longrightarrow> ?le p q \<Longrightarrow> ?le p x" "?le p x \<Longrightarrow> ?le q p \<Longrightarrow> ?le q x" for x
    unfolding by_key_def by (rule cmp_trans; assumption)+
  show ?thesis
  proof (induction xs)
    case Nil
    show ?case using t by auto
  next
    case (Cons x xs)
    show ?case using Cons t tr [of x] by (cases "?le p x"; cases "?le q x"; cases "?le p q") auto
  qed
qed

lemma js_sort_remove1:
  assumes "distinct (map fst ys)" "p \<in> set ys"
  shows "js_sort (by_key cmp) ys =
         insert_by (by_key cmp) p (js_sort (by_key cmp) (remove1 p ys))"
  using assms
proof (induction ys)
  case (Cons y ys)
  show ?case
  proof (cases "y = p")
    case False
    then have "p \<in> set ys" using Cons.prems by simp
    then have "fst p \<noteq> fst y" using Cons.prems by (metis distinct.simps(2) image_eqI list.set_map list.simps(9))
    then show ?thesis
      using Cons False \<open>p \<in> set ys\<close> by (simp add: js_sort_def insert_by_commute)
  qed (simp add: js_sort_def)
qed simp

lemma js_sort_mset:
  assumes "mset xs = mset ys" "distinct (map fst xs)"
  shows "js_sort (by_key cmp) xs = js_sort (by_key cmp) ys"
  using assms
proof (induction xs arbitrary: ys)
  case (Cons x xs)
  have "mset (map fst (x # xs)) = mset (map fst ys)"
    using Cons.prems(1) by (metis mset_map)
  then have d: "distinct (map fst ys)"
    using Cons.prems(2) mset_eq_imp_distinct_iff by blast
  have x: "x \<in> set ys" using Cons.prems(1) by (metis list.set_intros(1) set_mset_mset)
  have "mset xs = mset (remove1 x ys)"
    using Cons.prems(1) by (metis add_mset_remove_trivial mset.simps(2) mset_remove1)
  then have "js_sort (by_key cmp) xs = js_sort (by_key cmp) (remove1 x ys)"
    using Cons by simp
  then show ?case using js_sort_remove1 [OF d x] by (simp add: js_sort_def)
qed simp

end

lemma mset_js_sort [simp]: "mset (js_sort cmp xs) = mset xs"
proof -
  have "mset (insert_by cmp x ys) = add_mset x (mset ys)" for x ys
    by (induction ys) auto
  then show ?thesis by (induction xs) (auto simp: js_sort_def)
qed

lemma distinct_map_js_sort: "distinct (map f (js_sort cmp xs)) = distinct (map f xs)"
  by (rule mset_eq_imp_distinct_iff) simp

section \<open>The order by code unit\<close>

lemma str_less_irrefl: "\<not> str_less x x"
  by (induction x) auto

lemma str_less_trans: "str_less x y \<Longrightarrow> str_less y z \<Longrightarrow> str_less x z"
proof (induction x y arbitrary: z rule: str_less.induct)
  case (3 x xs y ys)
  then show ?case by (cases z) auto
qed (auto elim: str_less.elims)

lemma str_less_linear: "str_less x y \<or> x = y \<or> str_less y x"
proof (induction x y rule: str_less.induct)
  case (1 xs)
  then show ?case by (cases xs) auto
next
  case (3 x xs y ys)
  then show ?case by (metis linorder_less_linear of_char_eq_iff str_less.simps(3))
qed simp

lemma str_cmp_le: "str_cmp x y \<le> 0 \<longleftrightarrow> str_less x y \<or> x = y"
  using str_less_linear [of x y] str_less_irrefl [of y]
  by (auto simp: str_cmp_def)

interpretation code_unit: collation str_cmp
proof
  show "str_cmp x y \<le> 0 \<or> str_cmp y x \<le> 0" for x y
    using str_less_linear [of x y] by (auto simp: str_cmp_le)
  show "str_cmp x y \<le> 0 \<Longrightarrow> str_cmp y x \<le> 0 \<Longrightarrow> x = y" for x y
    using str_less_trans [of x y x] str_less_irrefl by (auto simp: str_cmp_le)
  show "str_cmp x y \<le> 0 \<Longrightarrow> str_cmp y z \<le> 0 \<Longrightarrow> str_cmp x z \<le> 0" for x y z
    using str_less_trans [of x y z] by (auto simp: str_cmp_le)
qed

section \<open>Reordered values\<close>

fun wf_json :: "json \<Rightarrow> bool" where
  "wf_json (JArr xs) = list_all wf_json xs"
| "wf_json (JObj kvs) = (distinct (map fst kvs) \<and> list_all (\<lambda>(k, v). wf_json v) kvs)"
| "wf_json _ = True"

inductive reordered :: "json \<Rightarrow> json \<Rightarrow> bool" where
  same: "reordered v v"
| items: "list_all2 reordered xs ys \<Longrightarrow> reordered (JArr xs) (JArr ys)"
| entries: "list_all2 (rel_prod (=) reordered) kvs lvs \<Longrightarrow> mset lvs = mset lvs' \<Longrightarrow>
     reordered (JObj kvs) (JObj lvs')"

lemma js_sort_map_snd:
  "js_sort (by_key cmp) (map (\<lambda>(k, v). (k, f v)) kvs) =
   map (\<lambda>(k, v). (k, f v)) (js_sort (by_key cmp) kvs)"
proof -
  have ins: "insert_by (by_key cmp) (k, f v) (map (\<lambda>(k, v). (k, f v)) xs) =
        map (\<lambda>(k, v). (k, f v)) (insert_by (by_key cmp) (k, v) xs)" for k v xs
    by (induction xs) (auto simp: by_key_def)
  show ?thesis by (induction kvs) (auto simp: js_sort_def ins)
qed

lemma canonicalize_JObj:
  "canonicalize h (JObj kvs) =
     JObj (own_order (js_sort (by_key (localeCompare h))
       (map (\<lambda>(k, v). (k, canonicalize h v)) kvs)))"
  by (simp add: js_sort_map_snd [symmetric])

theorem canonicalize_reordered:
  assumes "collation (localeCompare h)" "reordered v w" "wf_json v"
  shows "canonicalize h v = canonicalize h w"
  using assms(2,3)
proof (induction rule: reordered.induct)
  case (items xs ys)
  then have "list_all2 (\<lambda>x y. canonicalize h x = canonicalize h y) xs ys"
    by (auto simp: list_all2_conv_all_nth list_all_length)
  then show ?case by (simp add: list_all2_conv_all_nth list_eq_iff_nth_eq)
next
  case (entries kvs lvs lvs')
  let ?c = "map (\<lambda>(k, v). (k, canonicalize h v))"
  have "list_all2 (\<lambda>p q. fst p = fst q \<and> canonicalize h (snd p) = canonicalize h (snd q)) kvs lvs"
    using entries(1,3) by (auto simp: list_all2_conv_all_nth list_all_length rel_prod_sel case_prod_unfold)
  then have eq: "?c kvs = ?c lvs"
    by (simp add: list_all2_conv_all_nth list_eq_iff_nth_eq case_prod_unfold)
  have "mset (?c lvs) = mset (?c lvs')"
    using entries(2) by (metis mset_map)
  moreover have "map fst (?c kvs) = map fst kvs" by (simp add: comp_def case_prod_unfold)
  then have "distinct (map fst (?c lvs))" using eq entries(3) by simp
  ultimately show ?case
    using collation.js_sort_mset [OF assms(1), of "?c lvs" "?c lvs'"]
    by (simp only: canonicalize_JObj eq)
qed simp

lemma canonicalJson_reordered:
  "collation (localeCompare h) \<Longrightarrow> reordered v w \<Longrightarrow> wf_json v \<Longrightarrow> canonicalJson h v = canonicalJson h w"
  by (simp add: canonicalJson_def canonicalize_reordered)

end
