(* ===== verification/Queue_Envelope.thy ===== *)
theory Queue_Envelope
  imports Js_Time Database Canonical_Json
begin

text \<open>
  The job envelope of the runtime queue (\<open>packages/runtime-queue/src/index.ts\<close>): the identity
  digests of an AI reply, the validators of identifiers and opaque payloads, the parser of a
  persisted payload, the envelope signature, and the round trip between an envelope and the JSON
  the outbox stores for it.
\<close>

section \<open>Envelopes\<close>

datatype RuntimeQueueName = Q_ai_reply | Q_business_import | Q_channels_sendMessage | Q_knowledge_ingest

fun queueName_text :: "RuntimeQueueName \<Rightarrow> string" where
  "queueName_text Q_ai_reply = ''ai.reply''"
| "queueName_text Q_business_import = ''business.import''"
| "queueName_text Q_channels_sendMessage = ''channels.sendMessage''"
| "queueName_text Q_knowledge_ingest = ''knowledge.ingest''"

definition queueName_of :: "string \<Rightarrow> RuntimeQueueName option" where
  "queueName_of s =
     (if s = ''ai.reply'' then Some Q_ai_reply
      else if s = ''business.import'' then Some Q_business_import
      else if s = ''channels.sendMessage'' then Some Q_channels_sendMessage
      else if s = ''knowledge.ingest'' then Some Q_knowledge_ingest
      else None)"

record envelope =
  en_queueName :: RuntimeQueueName
  en_jobName :: string
  en_jobId :: string
  en_data :: json_object
  en_attempts :: int
  en_backoffMs :: int

definition envelope_json :: "envelope \<Rightarrow> json" where
  "envelope_json e = JObj [
     (''queueName'', JStr (queueName_text (en_queueName e))),
     (''jobName'', JStr (en_jobName e)),
     (''jobId'', JStr (en_jobId e)),
     (''data'', JObj (en_data e)),
     (''attempts'', JInt (en_attempts e)),
     (''backoffMs'', JInt (en_backoffMs e))]"

definition runtimeQueueEnvelopeSignature :: "host \<Rightarrow> envelope \<Rightarrow> string" where
  "runtimeQueueEnvelopeSignature h e = sha256 h (canonicalJson h (envelope_json e))"

section \<open>Identity of an AI reply\<close>

text \<open>
  \<open>AiReplyJobData\<close>; an optional nullable property is absent (\<open>None\<close>), null
  (\<open>Some None\<close>) or a value.
\<close>

record ai_reply_job =
  aj_tenantId :: string
  aj_conversationId :: string
  aj_triggerMessageId :: string
  aj_source :: string
  aj_customerIdentity :: "customer_identity option"
  aj_requestedByUserId :: "string option option"

record run_identity =
  ri_idempotencyKey :: string
  ri_inputHash :: string

definition aiReplyRunIdentity ::
    "host \<Rightarrow> ai_reply_job \<Rightarrow> message \<Rightarrow> string option \<Rightarrow> run_identity" where
  "aiReplyRunIdentity h data inbound leadId =
     \<lparr>ri_idempotencyKey = ''ai-reply:v1:'' @ sha256 h (json_stringify (JArr [
        JStr ''ai-reply-idempotency-v1'', JStr (aj_tenantId data), JStr (aj_conversationId data),
        JStr (ms_id inbound)])),
      ri_inputHash = ''sha256:'' @ sha256 h (json_stringify (JArr ([
        JStr (case aj_customerIdentity data of Some _ \<Rightarrow> ''ai-reply-input-v2'' | None \<Rightarrow> ''ai-reply-input-v1''),
        JStr (aj_tenantId data), JStr (aj_conversationId data), JStr (ms_id inbound),
        JStr (case ms_text inbound of Some s \<Rightarrow> s | None \<Rightarrow> []),
        JStr (toISOString (ms_createdAt inbound)),
        opt_json JStr leadId, JStr (aj_source data),
        (case aj_requestedByUserId data of Some (Some u) \<Rightarrow> JStr u | _ \<Rightarrow> JNull)] @
        (case aj_customerIdentity data of
           None \<Rightarrow> []
         | Some c \<Rightarrow> [JStr (ci_id c), JInt (ci_version c), JStr (ci_subjectHash c),
                      JStr (ci_attestationHash c)]))))\<rparr>"

section \<open>Validators\<close>

definition validDatabaseId :: "json option \<Rightarrow> bool" where
  "validDatabaseId v =
     (case v of
        Some (JStr s) \<Rightarrow> length s = 25 \<and> hd s = CHR ''c'' \<and> list_all lower_alnum (tl s)
      | _ \<Rightarrow> False)"

text \<open>\<open>/^[a-f0-9]{8}-[a-f0-9]{4}-4[a-f0-9]{3}-[89ab][a-f0-9]{3}-[a-f0-9]{12}$/iu\<close>\<close>

definition is_uuid_v4 :: "string \<Rightarrow> bool" where
  "is_uuid_v4 s =
     (length s = 36 \<and>
      list_all hex_any (take 8 s) \<and> s ! 8 = CHR ''-'' \<and>
      list_all hex_any (take 4 (drop 9 s)) \<and> s ! 13 = CHR ''-'' \<and>
      s ! 14 = CHR ''4'' \<and> list_all hex_any (take 3 (drop 15 s)) \<and> s ! 18 = CHR ''-'' \<and>
      s ! 19 \<in> set ''89abAB'' \<and> list_all hex_any (take 3 (drop 20 s)) \<and> s ! 23 = CHR ''-'' \<and>
      list_all hex_any (take 12 (drop 24 s)))"

definition validImportId :: "json option \<Rightarrow> bool" where
  "validImportId v =
     (validDatabaseId v \<or> (case v of Some (JStr s) \<Rightarrow> is_uuid_v4 s | _ \<Rightarrow> False))"

definition validSha256 :: "json option \<Rightarrow> bool" where
  "validSha256 v = (case v of Some (JStr s) \<Rightarrow> is_sha256_hex s | _ \<Rightarrow> False)"

definition validIdentityReference :: "json \<Rightarrow> bool" where
  "validIdentityReference v =
     (case v of
        JObj kvs \<Rightarrow>
          length kvs = 4 \<and>
          list_all (\<lambda>k. map_of kvs k \<noteq> None) [''id'', ''version'', ''subjectHash'', ''attestationHash''] \<and>
          validDatabaseId (map_of kvs ''id'') \<and>
          map_of kvs ''version'' = Some (JInt 1) \<and>
          validSha256 (map_of kvs ''subjectHash'') \<and>
          validSha256 (map_of kvs ''attestationHash'')
      | _ \<Rightarrow> False)"

definition requiredString :: "json option \<Rightarrow> string \<Rightarrow> error + string" where
  "requiredString v field =
     (case v of
        Some (JStr s) \<Rightarrow>
          if js_trim s = [] then Inl (Error (''Runtime outbox payload is missing '' @ field @ ''.''))
          else Inr s
      | _ \<Rightarrow> Inl (Error (''Runtime outbox payload is missing '' @ field @ ''.'')))"

definition positiveInteger :: "json option \<Rightarrow> int \<Rightarrow> int" where
  "positiveInteger v fallback =
     (case v of Some (JInt n) \<Rightarrow> if n > 0 then n else fallback | _ \<Rightarrow> fallback)"

definition validPositive :: "json option \<Rightarrow> bool" where
  "validPositive v = (case v of Some (JInt n) \<Rightarrow> n > 0 | _ \<Rightarrow> False)"

definition validIsoTimestamp :: "json option \<Rightarrow> bool" where
  "validIsoTimestamp v = (case v of Some (JStr s) \<Rightarrow> is_iso_timestamp s | _ \<Rightarrow> False)"

section \<open>Opaque payloads\<close>

definition persistedAiReplyDataKeys :: "string list" where
  "persistedAiReplyDataKeys =
     [''tenantId'', ''conversationId'', ''triggerMessageId'', ''source'', ''customerIdentity'',
      ''requestedByUserId'']"

definition aiReplySources :: "string list" where
  "aiReplySources = [''inbox'', ''widget'', ''webhook'', ''telegram'', ''worker-test'']"

definition assertOpaqueAiReplyEnvelope :: "envelope \<Rightarrow> error + unit" where
  "assertOpaqueAiReplyEnvelope e =
     (let data = map_of (en_data e) in
      if en_jobName e \<noteq> ''generate-reply'' \<or>
         list_ex (\<lambda>(k, _). \<not> js_includes persistedAiReplyDataKeys k) (en_data e) \<or>
         \<not> validDatabaseId (data ''tenantId'') \<or>
         \<not> validDatabaseId (data ''conversationId'') \<or>
         \<not> validDatabaseId (data ''triggerMessageId'') \<or>
         \<not> js_includes aiReplySources (js_String_opt (data ''source'')) \<or>
         (case data ''customerIdentity'' of None \<Rightarrow> False | Some v \<Rightarrow> \<not> validIdentityReference v) \<or>
         (data ''requestedByUserId'' \<noteq> None \<and> data ''requestedByUserId'' \<noteq> Some JNull \<and>
          \<not> validDatabaseId (data ''requestedByUserId'')) \<or>
         en_jobId e \<noteq> ''ai-reply:'' @ js_String_opt (data ''conversationId'') @ '':'' @
                        js_String_opt (data ''triggerMessageId'')
      then Inl (Error ''Runtime ai.reply payload must contain only opaque persisted references.'')
      else Inr ())"

definition persistedBusinessImportParseDataKeys :: "string list" where
  "persistedBusinessImportParseDataKeys =
     [''tenantId'', ''sourceId'', ''importId'', ''generation'', ''operation'', ''requestedByUserId'',
      ''requestedAt'']"

definition persistedBusinessInformationProjectionDataKeys :: "string list" where
  "persistedBusinessInformationProjectionDataKeys =
     [''tenantId'', ''sourceId'', ''importId'', ''applicationId'', ''businessRevisionId'',
      ''businessRevision'', ''generation'', ''requestedByUserId'', ''requestedAt'']"

definition persistedBusinessInformationRevisionProjectionDataKeys :: "string list" where
  "persistedBusinessInformationRevisionProjectionDataKeys =
     [''tenantId'', ''businessRevisionId'', ''businessRevision'', ''generation'',
      ''requestedByUserId'', ''requestedAt'']"

definition exact_keys :: "string list \<Rightarrow> json_object \<Rightarrow> bool" where
  "exact_keys ks kvs = (length kvs = length ks \<and> list_all (\<lambda>(k, _). js_includes ks k) kvs)"

definition sharedIsValid :: "envelope \<Rightarrow> bool" where
  "sharedIsValid e =
     (let data = map_of (en_data e) in
      validDatabaseId (data ''tenantId'') \<and> validDatabaseId (data ''requestedByUserId'') \<and>
      validPositive (data ''generation'') \<and> validIsoTimestamp (data ''requestedAt''))"

definition parseIsValid :: "envelope \<Rightarrow> bool" where
  "parseIsValid e =
     (let data = map_of (en_data e) in
      en_jobName e = ''parse'' \<and>
      exact_keys persistedBusinessImportParseDataKeys (en_data e) \<and>
      sharedIsValid e \<and> validImportId (data ''sourceId'') \<and> validImportId (data ''importId'') \<and>
      data ''operation'' = Some (JStr ''PARSE'') \<and>
      en_jobId e = ''business-import:'' @ js_String_opt (data ''importId'') @ '':'' @
                   js_String_opt (data ''generation''))"

definition projectIsValid :: "envelope \<Rightarrow> bool" where
  "projectIsValid e =
     (let data = map_of (en_data e) in
      en_jobName e = ''project'' \<and>
      exact_keys persistedBusinessInformationProjectionDataKeys (en_data e) \<and>
      sharedIsValid e \<and> validImportId (data ''sourceId'') \<and> validImportId (data ''importId'') \<and>
      validImportId (data ''applicationId'') \<and> validImportId (data ''businessRevisionId'') \<and>
      validPositive (data ''businessRevision'') \<and>
      en_jobId e = ''business-import-project:'' @ js_String_opt (data ''applicationId'') @ '':'' @
                   js_String_opt (data ''businessRevision''))"

definition revisionProjectIsValid :: "envelope \<Rightarrow> bool" where
  "revisionProjectIsValid e =
     (let data = map_of (en_data e) in
      en_jobName e = ''project-revision'' \<and>
      exact_keys persistedBusinessInformationRevisionProjectionDataKeys (en_data e) \<and>
      sharedIsValid e \<and> validImportId (data ''businessRevisionId'') \<and>
      validPositive (data ''businessRevision'') \<and>
      data ''generation'' = data ''businessRevision'' \<and>
      en_jobId e = ''business-information-project:'' @ js_String_opt (data ''businessRevisionId'') @
                   '':'' @ js_String_opt (data ''businessRevision''))"

definition assertOpaqueBusinessImportEnvelope :: "envelope \<Rightarrow> error + unit" where
  "assertOpaqueBusinessImportEnvelope e =
     (if \<not> parseIsValid e \<and> \<not> projectIsValid e \<and> \<not> revisionProjectIsValid e
      then Inl (Error ''Runtime business.import payload must contain only opaque persisted references.'')
      else Inr ())"

section \<open>Parsing a persisted payload\<close>

definition assertOpaque :: "envelope \<Rightarrow> error + unit" where
  "assertOpaque e =
     (case en_queueName e of
        Q_ai_reply \<Rightarrow> assertOpaqueAiReplyEnvelope e
      | Q_business_import \<Rightarrow> assertOpaqueBusinessImportEnvelope e
      | _ \<Rightarrow> Inr ())"

definition parseRuntimeQueueEnvelope :: "json option \<Rightarrow> error + envelope" where
  "parseRuntimeQueueEnvelope payload =
     (let value = map_of (case payload of None \<Rightarrow> [] | Some p \<Rightarrow> json_entries p) in
      andThen (requiredString (value ''queueName'') ''queueName'') (\<lambda>name.
      case queueName_of name of
        None \<Rightarrow> Inl (Error (''Unsupported runtime outbox queue '' @ name @ ''.''))
      | Some q \<Rightarrow>
          andThen (requiredString (value ''jobName'') ''jobName'') (\<lambda>jobName.
          andThen (requiredString (value ''jobId'') ''jobId'') (\<lambda>jobId.
          let e = \<lparr>en_queueName = q, en_jobName = jobName, en_jobId = jobId,
                   en_data = (case value ''data'' of None \<Rightarrow> [] | Some v \<Rightarrow> json_entries v),
                   en_attempts = positiveInteger (value ''attempts'') 3,
                   en_backoffMs = positiveInteger (value ''backoffMs'') 1000\<rparr>
          in andThen (assertOpaque e) (\<lambda>_. Inr e)))))"

text \<open>The name of an \<open>Error\<close> and the first 500 code units of its message.\<close>

definition errorDetails :: "error \<Rightarrow> string \<times> string" where
  "errorDetails e = (error_name e, take 500 (error_text e))"

section \<open>Well-formed envelopes\<close>

definition wf_envelope :: "envelope \<Rightarrow> bool" where
  "wf_envelope e =
     (\<not> js_blank (en_jobName e) \<and> \<not> js_blank (en_jobId e) \<and>
      0 < en_attempts e \<and> 0 < en_backoffMs e \<and> assertOpaque e = Inr ())"

lemma queueName_of_text [simp]: "queueName_of (queueName_text q) = Some q"
  by (cases q) (simp_all add: queueName_of_def)

lemma queueName_text_inj: "queueName_text q = queueName_text q' \<longleftrightarrow> q = q'"
  by (metis option.inject queueName_of_text)

lemma js_blank_Cons: "js_blank (c # s) \<longleftrightarrow> js_space c \<and> js_blank s"
  by (simp add: js_blank_def)

lemma queueName_text_not_blank: "\<not> js_blank (queueName_text q)"
  by (cases q) (simp_all add: js_blank_Cons js_space_def)

lemma requiredString_Inr_iff:
  "requiredString v f = Inr s \<longleftrightarrow> v = Some (JStr s) \<and> \<not> js_blank s"
  by (auto simp: requiredString_def js_trim_empty_iff split: option.splits json.splits)

lemma positiveInteger_pos: "0 < f \<Longrightarrow> 0 < positiveInteger v f"
  by (auto simp: positiveInteger_def split: option.splits json.splits)

lemma positiveInteger_JInt: "0 < n \<Longrightarrow> positiveInteger (Some (JInt n)) f = n"
  by (simp add: positiveInteger_def)

lemma queueName_case:
  "(case queueName_of n of None \<Rightarrow> Inl x | Some q \<Rightarrow> f q) = Inr e \<longleftrightarrow>
   (\<exists>q. n = queueName_text q \<and> f q = Inr e)"
proof -
  have "queueName_of n = Some q \<longleftrightarrow> n = queueName_text q" for q
    by (cases q) (auto simp: queueName_of_def split: if_splits)
  then show ?thesis by (cases "queueName_of n") auto
qed

lemma parse_Inr_iff:
  "parseRuntimeQueueEnvelope p = Inr e \<longleftrightarrow>
     (let value = map_of (case p of None \<Rightarrow> [] | Some q \<Rightarrow> json_entries q) in
      value ''queueName'' = Some (JStr (queueName_text (en_queueName e))) \<and>
      value ''jobName'' = Some (JStr (en_jobName e)) \<and> \<not> js_blank (en_jobName e) \<and>
      value ''jobId'' = Some (JStr (en_jobId e)) \<and> \<not> js_blank (en_jobId e) \<and>
      en_data e = (case value ''data'' of None \<Rightarrow> [] | Some v \<Rightarrow> json_entries v) \<and>
      en_attempts e = positiveInteger (value ''attempts'') 3 \<and>
      en_backoffMs e = positiveInteger (value ''backoffMs'') 1000 \<and>
      assertOpaque e = Inr ())"
proof -
  define v where "v = map_of (case p of None \<Rightarrow> [] | Some q \<Rightarrow> json_entries q)"
  have "parseRuntimeQueueEnvelope p = Inr e \<longleftrightarrow>
      (\<exists>n. (v ''queueName'' = Some (JStr n) \<and> \<not> js_blank n) \<and> (\<exists>q. n = queueName_text q \<and>
      (\<exists>jn. (v ''jobName'' = Some (JStr jn) \<and> \<not> js_blank jn) \<and>
      (\<exists>ji. (v ''jobId'' = Some (JStr ji) \<and> \<not> js_blank ji) \<and>
         (\<exists>u. assertOpaque \<lparr>en_queueName = q, en_jobName = jn, en_jobId = ji,
               en_data = (case v ''data'' of None \<Rightarrow> [] | Some v \<Rightarrow> json_entries v),
               en_attempts = positiveInteger (v ''attempts'') 3,
               en_backoffMs = positiveInteger (v ''backoffMs'') 1000\<rparr> = Inr u \<and>
            Inr \<lparr>en_queueName = q, en_jobName = jn, en_jobId = ji,
               en_data = (case v ''data'' of None \<Rightarrow> [] | Some v \<Rightarrow> json_entries v),
               en_attempts = positiveInteger (v ''attempts'') 3,
               en_backoffMs = positiveInteger (v ''backoffMs'') 1000\<rparr> = (Inr e :: error + envelope))))))"
    unfolding parseRuntimeQueueEnvelope_def v_def [symmetric] Let_def andThen_Inr_iff
      requiredString_Inr_iff queueName_case ..
  also have "\<dots> \<longleftrightarrow> v ''queueName'' = Some (JStr (queueName_text (en_queueName e))) \<and>
      v ''jobName'' = Some (JStr (en_jobName e)) \<and> \<not> js_blank (en_jobName e) \<and>
      v ''jobId'' = Some (JStr (en_jobId e)) \<and> \<not> js_blank (en_jobId e) \<and>
      en_data e = (case v ''data'' of None \<Rightarrow> [] | Some v \<Rightarrow> json_entries v) \<and>
      en_attempts e = positiveInteger (v ''attempts'') 3 \<and>
      en_backoffMs e = positiveInteger (v ''backoffMs'') 1000 \<and>
      assertOpaque e = Inr ()"
    using queueName_text_not_blank by (cases e) auto
  finally show ?thesis by (simp only: v_def [symmetric] Let_def)
qed

lemma parse_wf: "parseRuntimeQueueEnvelope p = Inr e \<Longrightarrow> wf_envelope e"
  by (auto simp: parse_Inr_iff wf_envelope_def Let_def positiveInteger_pos)

lemma parse_envelope_json: "wf_envelope e \<Longrightarrow> parseRuntimeQueueEnvelope (Some (envelope_json e)) = Inr e"
  by (simp add: parse_Inr_iff wf_envelope_def envelope_json_def positiveInteger_JInt)

text \<open>What a validated reference looks like.\<close>

definition is_database_id :: "string \<Rightarrow> bool" where
  "is_database_id s = (length s = 25 \<and> hd s = CHR ''c'' \<and> list_all lower_alnum (tl s))"

lemma validDatabaseId_iff: "validDatabaseId v \<longleftrightarrow> (\<exists>s. v = Some (JStr s) \<and> is_database_id s)"
  by (auto simp: validDatabaseId_def is_database_id_def split: option.splits json.splits)

lemma map_of_entry: "distinct (map fst kvs) \<Longrightarrow> (k, v) \<in> set kvs \<Longrightarrow> map_of kvs k = Some v"
  by simp

definition opaque_entry :: "string \<times> json \<Rightarrow> bool" where
  "opaque_entry p =
     (case p of (k, v) \<Rightarrow>
        k \<in> {''tenantId'', ''conversationId'', ''triggerMessageId''} \<and> validDatabaseId (Some v) \<or>
        k = ''source'' \<and> js_String v \<in> set aiReplySources \<or>
        k = ''customerIdentity'' \<and> validIdentityReference v \<or>
        k = ''requestedByUserId'' \<and> (v = JNull \<or> validDatabaseId (Some v)))"

lemma assertOpaqueAiD:
  assumes "assertOpaqueAiReplyEnvelope e = Inr ()"
  shows "\<And>k v. (k, v) \<in> set (en_data e) \<Longrightarrow> k \<in> set persistedAiReplyDataKeys"
    and "validDatabaseId (map_of (en_data e) ''tenantId'')"
    and "validDatabaseId (map_of (en_data e) ''conversationId'')"
    and "validDatabaseId (map_of (en_data e) ''triggerMessageId'')"
    and "js_String_opt (map_of (en_data e) ''source'') \<in> set aiReplySources"
    and "\<And>v. map_of (en_data e) ''customerIdentity'' = Some v \<Longrightarrow> validIdentityReference v"
    and "\<And>v. map_of (en_data e) ''requestedByUserId'' = Some v \<Longrightarrow> v = JNull \<or> validDatabaseId (Some v)"
    and "en_jobId e = ''ai-reply:'' @ js_String_opt (map_of (en_data e) ''conversationId'') @ '':'' @
           js_String_opt (map_of (en_data e) ''triggerMessageId'')"
proof -
  note c = assms [unfolded assertOpaqueAiReplyEnvelope_def Let_def guard_Inr_iff de_Morgan_disj not_not
      js_includes_def list_ex_iff, THEN conjunct1, THEN conjunct2]
  note c3 = c [THEN conjunct2]
  note c4 = c3 [THEN conjunct2] note c5 = c4 [THEN conjunct2] note c6 = c5 [THEN conjunct2]
  note c7 = c6 [THEN conjunct2] note c8 = c7 [THEN conjunct2] note c9 = c8 [THEN conjunct2]
  show "k \<in> set persistedAiReplyDataKeys" if "(k, v) \<in> set (en_data e)" for k v
    using c [THEN conjunct1] that by (simp only: bex_simps not_not case_prod_unfold) force
  show "validDatabaseId (map_of (en_data e) ''tenantId'')" by (rule c3 [THEN conjunct1])
  show "validDatabaseId (map_of (en_data e) ''conversationId'')" by (rule c4 [THEN conjunct1])
  show "validDatabaseId (map_of (en_data e) ''triggerMessageId'')" by (rule c5 [THEN conjunct1])
  show "js_String_opt (map_of (en_data e) ''source'') \<in> set aiReplySources"
    by (rule c6 [THEN conjunct1])
  show "validIdentityReference v" if "map_of (en_data e) ''customerIdentity'' = Some v" for v
    using c7 [THEN conjunct1] by (simp only: that option.case not_not)
  show "v = JNull \<or> validDatabaseId (Some v)" if "map_of (en_data e) ''requestedByUserId'' = Some v" for v
    using c8 [THEN conjunct1] by (simp only: that option.inject) blast
  show "en_jobId e = ''ai-reply:'' @ js_String_opt (map_of (en_data e) ''conversationId'') @ '':'' @
      js_String_opt (map_of (en_data e) ''triggerMessageId'')"
    by (rule c9)
qed

lemma opaque_ai_entry:
  assumes ok: "assertOpaqueAiReplyEnvelope e = Inr ()" and d: "distinct (map fst (en_data e))"
    and p: "(k, v) \<in> set (en_data e)"
  shows "opaque_entry (k, v)"
proof -
  have lookup: "map_of (en_data e) k = Some v" using d p by simp
  have "k \<in> set persistedAiReplyDataKeys" by (rule assertOpaqueAiD(1) [OF ok p])
  then consider "k = ''tenantId''" | "k = ''conversationId''" | "k = ''triggerMessageId''"
    | "k = ''source''" | "k = ''customerIdentity''" | "k = ''requestedByUserId''"
    unfolding persistedAiReplyDataKeys_def list.set insert_iff empty_iff by (elim disjE FalseE)
  then show ?thesis
  proof cases
    case 4
    then show ?thesis using assertOpaqueAiD(5) [OF ok] lookup
      by (simp add: opaque_entry_def js_String_opt_def)
  qed (use lookup assertOpaqueAiD(2-4,6,7) [OF ok] in \<open>simp_all add: opaque_entry_def\<close>)
qed

section \<open>Properties\<close>

text \<open>C37. Parsing and persisting are inverse: an envelope is the parse of some payload exactly when it
  is well formed (non-blank job name and id, positive attempts and back-off, an opaque payload),
  and then parsing the JSON that the outbox stores for it gives back the same envelope.\<close>

theorem envelope_roundtrip:
  "((\<exists>p. parseRuntimeQueueEnvelope p = Inr e) \<longleftrightarrow> wf_envelope e) \<and>
   (parseRuntimeQueueEnvelope (Some (envelope_json e)) = Inr e \<longleftrightarrow> wf_envelope e)"
  using parse_wf parse_envelope_json by blast

text \<open>C38. No customer text enters the AI reply queue: every entry of the data of a parsed
  \<open>ai.reply\<close> envelope is a database identifier, a known source, an identity reference of
  identifiers and digests, or null, and the job id is derived from the two identifiers.\<close>

theorem ai_reply_payload_opaque:
  assumes "parseRuntimeQueueEnvelope p = Inr e" "en_queueName e = Q_ai_reply"
    and "distinct (map fst (en_data e))"
  shows "list_all opaque_entry (en_data e) \<and>
    (\<exists>t c m. map_of (en_data e) ''tenantId'' = Some (JStr t) \<and>
       map_of (en_data e) ''conversationId'' = Some (JStr c) \<and>
       map_of (en_data e) ''triggerMessageId'' = Some (JStr m) \<and>
       is_database_id t \<and> is_database_id c \<and> is_database_id m \<and>
       en_jobId e = ''ai-reply:'' @ c @ '':'' @ m)"
proof -
  have ok: "assertOpaqueAiReplyEnvelope e = Inr ()"
    using parse_wf [OF assms(1)] assms(2) by (simp add: wf_envelope_def assertOpaque_def)
  have "list_all opaque_entry (en_data e)"
    using opaque_ai_entry [OF ok assms(3)] by (auto simp: list_all_iff)
  then show ?thesis
    using assertOpaqueAiD(2-4,8) [OF ok] unfolding validDatabaseId_iff
    by (clarsimp simp: js_String_opt_def)
qed

definition sample_id :: "char \<Rightarrow> string" where
  "sample_id c = CHR ''c'' # replicate 24 c"

definition sample_ai_envelope :: envelope where
  "sample_ai_envelope =
     \<lparr>en_queueName = Q_ai_reply, en_jobName = ''generate-reply'',
      en_jobId = ''ai-reply:'' @ sample_id (CHR ''v'') @ '':'' @ sample_id (CHR ''m''),
      en_data = [(''tenantId'', JStr (sample_id (CHR ''t''))),
                 (''conversationId'', JStr (sample_id (CHR ''v''))),
                 (''triggerMessageId'', JStr (sample_id (CHR ''m''))),
                 (''source'', JStr ''inbox''),
                 (''requestedByUserId'', JNull)],
      en_attempts = 5, en_backoffMs = 1000\<rparr>"

lemma sample_ai_envelope_wf: "wf_envelope sample_ai_envelope"
  by code_simp

theorem ai_reply_payload_opaque_witness:
  "list_all opaque_entry (en_data sample_ai_envelope)"
proof -
  have "parseRuntimeQueueEnvelope (Some (envelope_json sample_ai_envelope)) = Inr sample_ai_envelope"
    by (rule parse_envelope_json [OF sample_ai_envelope_wf])
  then show ?thesis
    by (rule ai_reply_payload_opaque [THEN conjunct1]) (simp_all add: sample_ai_envelope_def)
qed

text \<open>The signature of an envelope does not depend on the order in which a store returns the
  keys of its data, at any depth, provided the collation orders keys strictly.\<close>

theorem envelope_signature_reordered:
  assumes "collation (localeCompare h)"
    and "wf_json (JObj (en_data e))" and "reordered (JObj (en_data e)) (JObj kvs)"
  shows "runtimeQueueEnvelopeSignature h (e\<lparr>en_data := kvs\<rparr>) = runtimeQueueEnvelopeSignature h e"
proof -
  have "reordered (envelope_json e) (envelope_json (e\<lparr>en_data := kvs\<rparr>))"
    unfolding envelope_json_def
    by (rule reordered.entries [OF _ refl]) (auto intro: assms(3) reordered.same)
  moreover have "wf_json (envelope_json e)" using assms(2) by (simp add: envelope_json_def)
  ultimately show ?thesis
    using canonicalJson_reordered [OF assms(1)] by (simp add: runtimeQueueEnvelopeSignature_def)
qed

definition code_unit_host :: host where
  "code_unit_host = \<lparr>sha256 = (\<lambda>s. s), localeCompare = str_cmp, localeCompareEn = str_cmp\<rparr>"

theorem envelope_signature_reordered_witness:
  "runtimeQueueEnvelopeSignature code_unit_host
     (sample_ai_envelope\<lparr>en_data := [(''b'', JInt 1), (''a'', JNull)]\<rparr>) =
   runtimeQueueEnvelopeSignature code_unit_host
     (sample_ai_envelope\<lparr>en_data := [(''a'', JNull), (''b'', JInt 1)]\<rparr>)"
proof -
  have "collation (localeCompare code_unit_host)"
    using code_unit.collation_axioms by (simp add: code_unit_host_def)
  moreover have "reordered (JObj [(''a'', JNull), (''b'', JInt 1)]) (JObj [(''b'', JInt 1), (''a'', JNull)])"
    by (rule reordered.entries [where lvs = "[(''a'', JNull), (''b'', JInt 1)]"])
       (auto intro: reordered.same)
  ultimately show ?thesis
    using envelope_signature_reordered [of code_unit_host
        "sample_ai_envelope\<lparr>en_data := [(''a'', JNull), (''b'', JInt 1)]\<rparr>" "[(''b'', JInt 1), (''a'', JNull)]"]
    by simp
qed

text \<open>The check of the AI reply source goes through \<open>String\<close>: an array holding a known source
  passes as well as the source itself, so the data of an accepted payload need not be references
  and strings only.\<close>

theorem ai_reply_source_array_accepted:
  "\<exists>p e. parseRuntimeQueueEnvelope p = Inr e \<and> en_queueName e = Q_ai_reply \<and>
     map_of (en_data e) ''source'' = Some (JArr [JStr ''inbox''])"
proof -
  let ?e = "sample_ai_envelope\<lparr>en_data := (en_data sample_ai_envelope)[3 := (''source'', JArr [JStr ''inbox''])]\<rparr>"
  have "wf_envelope ?e" by code_simp
  then have "parseRuntimeQueueEnvelope (Some (envelope_json ?e)) = Inr ?e" by (rule parse_envelope_json)
  moreover have "map_of (en_data ?e) ''source'' = Some (JArr [JStr ''inbox''])"
    by (simp add: sample_ai_envelope_def)
  moreover have "en_queueName ?e = Q_ai_reply" by (simp add: sample_ai_envelope_def)
  ultimately show ?thesis by blast
qed

end
