(* ===== verification/Reply_Admission.thy ===== *)
theory Reply_Admission
  imports Capability Queue_Envelope
begin

text \<open>
  Admission of an automatic reply (\<open>packages/runtime-queue/src/index.ts\<close>): the gates on the
  conversation, its channel and the binding stored there, the active publication and the
  operational projection, in the order of the code. A rejection is \<open>Inl\<close> of its reason.
\<close>

section \<open>Reasons and results\<close>

datatype AutomaticReplyAdmissionReason =
    conversationNotFound | conversationNotOpen | conversationHandoffRequested
  | conversationAiDisabled | channelNotFound | channelNotActive | channelAutomationDisabled
  | channelBindingIncomplete | channelFingerprintMismatch | corpusNotStructuredV2
  | activePublicationMissing | publicationBindingMismatch | capabilityBindingMismatch
  | operationalBindingMismatch | activePublicationInvalid

fun admissionReason_text :: "AutomaticReplyAdmissionReason \<Rightarrow> string" where
  "admissionReason_text conversationNotFound = ''CONVERSATION_NOT_FOUND''"
| "admissionReason_text conversationNotOpen = ''CONVERSATION_NOT_OPEN''"
| "admissionReason_text conversationHandoffRequested = ''CONVERSATION_HANDOFF_REQUESTED''"
| "admissionReason_text conversationAiDisabled = ''CONVERSATION_AI_DISABLED''"
| "admissionReason_text channelNotFound = ''CHANNEL_NOT_FOUND''"
| "admissionReason_text channelNotActive = ''CHANNEL_NOT_ACTIVE''"
| "admissionReason_text channelAutomationDisabled = ''CHANNEL_AUTOMATIC_REPLIES_DISABLED''"
| "admissionReason_text channelBindingIncomplete = ''CHANNEL_AUTOMATIC_REPLY_BINDING_INCOMPLETE''"
| "admissionReason_text channelFingerprintMismatch = ''CHANNEL_AUTOMATIC_REPLY_FINGERPRINT_MISMATCH''"
| "admissionReason_text corpusNotStructuredV2 = ''KNOWLEDGE_CORPUS_NOT_STRUCTURED_V2''"
| "admissionReason_text activePublicationMissing = ''KNOWLEDGE_ACTIVE_PUBLICATION_MISSING''"
| "admissionReason_text publicationBindingMismatch = ''KNOWLEDGE_PUBLICATION_BINDING_MISMATCH''"
| "admissionReason_text capabilityBindingMismatch = ''KNOWLEDGE_CAPABILITY_BINDING_MISMATCH''"
| "admissionReason_text operationalBindingMismatch = ''KNOWLEDGE_OPERATIONAL_BINDING_MISMATCH''"
| "admissionReason_text activePublicationInvalid = ''KNOWLEDGE_ACTIVE_PUBLICATION_INVALID''"

record admission_binding =
  ad_channelId :: string
  ad_channelGeneration :: int
  ad_publicationId :: string
  ad_publicationEtag :: int
  ad_capabilitySetHash :: string
  ad_operationalBindingHash :: string
  ad_operationalPermissionGeneration :: int
  ad_channelFingerprint :: string

datatype conversation_mode = OPEN | COMPLETED_HANDOFF

section \<open>Gates\<close>

definition automaticReplyChannelFingerprint :: "host \<Rightarrow> channel \<Rightarrow> string" where
  "automaticReplyChannelFingerprint h ch =
     (let encryptedCredentialsHash = opt_json (\<lambda>c. JStr (sha256 h c)) (ch_encryptedCredentials ch) in
      sha256 h (canonicalJson h (JObj [
        (''version'', JStr ''automatic-reply-channel-fingerprint-v1''),
        (''type'', JStr (channelType_text (ch_type ch))),
        (''status'', JStr (channelStatus_text (ch_status ch))),
        (''publicKey'', opt_json JStr (ch_publicKey ch)),
        (''externalId'', opt_json JStr (ch_externalId ch)),
        (''settings'', opt_json (\<lambda>v. v) (ch_settings ch)),
        (''encryptedCredentialsHash'', encryptedCredentialsHash)])))"

definition conversation_gate ::
    "db \<Rightarrow> string \<Rightarrow> string \<Rightarrow> conversation_mode \<Rightarrow> AutomaticReplyAdmissionReason + string" where
  "conversation_gate d tenantId conversationId mode =
     (case List.find (\<lambda>c. cv_id c = conversationId \<and> cv_tenantId c = tenantId \<and> cv_deletedAt c = None)
             (conversations d) of
        None \<Rightarrow> Inl conversationNotFound
      | Some c \<Rightarrow>
          if mode = COMPLETED_HANDOFF \<and> (cv_status c \<noteq> Cv_WAITING_FOR_HUMAN \<or> \<not> cv_handoffRequested c)
          then Inl conversationNotOpen
          else if mode \<noteq> COMPLETED_HANDOFF \<and> cv_status c \<noteq> Cv_OPEN then Inl conversationNotOpen
          else if mode \<noteq> COMPLETED_HANDOFF \<and> cv_handoffRequested c then Inl conversationHandoffRequested
          else if \<not> cv_aiEnabled c then Inl conversationAiDisabled
          else (case cv_channelId c of
                  None \<Rightarrow> Inl channelNotFound
                | Some chId \<Rightarrow> if chId = [] then Inl channelNotFound else Inr chId))"

text \<open>The binding an activation stored on a channel, when it is complete.\<close>

definition channel_binding :: "channel \<Rightarrow> admission_binding option" where
  "channel_binding ch =
     (case (ch_automaticRepliesPublicationId ch, ch_automaticRepliesPublicationEtag ch,
            ch_automaticRepliesCapabilitySetHash ch, ch_automaticRepliesOperationalBindingHash ch,
            ch_automaticRepliesOperationalPermissionGeneration ch,
            ch_automaticRepliesChannelFingerprint ch, ch_automaticRepliesActivatedAt ch,
            ch_automaticRepliesActivatedByUserId ch) of
        (Some pub, Some etag, Some cap, Some op, Some gen, Some fp, Some actAt, Some actBy) \<Rightarrow>
          if ch_automaticRepliesGeneration ch < 1 \<or> js_trim pub = [] \<or> etag < 1 \<or>
             \<not> is_sha256_hex cap \<or> \<not> is_sha256_hex op \<or> gen < 1 \<or> \<not> is_sha256_hex fp \<or>
             asDate (Some actAt) = None \<or> js_trim actBy = []
          then None
          else Some \<lparr>ad_channelId = ch_id ch, ad_channelGeneration = ch_automaticRepliesGeneration ch,
                     ad_publicationId = pub, ad_publicationEtag = etag, ad_capabilitySetHash = cap,
                     ad_operationalBindingHash = op, ad_operationalPermissionGeneration = gen,
                     ad_channelFingerprint = fp\<rparr>
      | _ \<Rightarrow> None)"

definition channel_gate ::
    "host \<Rightarrow> db \<Rightarrow> string \<Rightarrow> string \<Rightarrow> AutomaticReplyAdmissionReason + admission_binding" where
  "channel_gate h d tenantId channelId =
     (case List.find (\<lambda>c. ch_id c = channelId \<and> ch_tenantId c = tenantId \<and> ch_deletedAt c = None)
             (channels d) of
        None \<Rightarrow> Inl channelNotFound
      | Some ch \<Rightarrow>
          if ch_status ch \<noteq> Ch_ACTIVE then Inl channelNotActive
          else if \<not> ch_automaticRepliesEnabled ch then Inl channelAutomationDisabled
          else (case channel_binding ch of
                  None \<Rightarrow> Inl channelBindingIncomplete
                | Some b \<Rightarrow>
                    if ad_channelFingerprint b \<noteq> automaticReplyChannelFingerprint h ch
                    then Inl channelFingerprintMismatch
                    else Inr b))"

definition pointer_gate ::
    "db \<Rightarrow> string \<Rightarrow> admission_binding \<Rightarrow> AutomaticReplyAdmissionReason + string" where
  "pointer_gate d tenantId b =
     (if map_option cs_corpusKind (List.find (\<lambda>s. cs_tenantId s = tenantId) (corpusSelectors d))
         \<noteq> Some STRUCTURED_V2
      then Inl corpusNotStructuredV2
      else (case List.find (\<lambda>p. ap_tenantId p = tenantId \<and> ap_targetKey p = ''workspace-v2'')
                   (activePublications d) of
              None \<Rightarrow> Inl activePublicationMissing
            | Some p \<Rightarrow>
                if ap_publicationId p \<noteq> ad_publicationId b \<or> ap_etag p \<noteq> ad_publicationEtag b
                then Inl publicationBindingMismatch
                else Inr (ap_publicationId p)))"

definition publication_gate ::
    "db \<Rightarrow> string \<Rightarrow> admission_binding \<Rightarrow> string
     \<Rightarrow> AutomaticReplyAdmissionReason + (string \<times> int)" where
  "publication_gate d tenantId b publicationId =
     (case List.find (\<lambda>p. pb_tenantId p = tenantId \<and> pb_id p = publicationId) (publications d) of
        None \<Rightarrow> Inl activePublicationInvalid
      | Some p \<Rightarrow>
          (case (pb_capabilitySetHash p, pb_operationalBindingHash p,
                 pb_operationalPermissionGeneration p) of
             (Some cap, Some op, Some gen) \<Rightarrow>
               if pb_tenantId p \<noteq> tenantId \<or> pb_id p \<noteq> publicationId \<or> pb_status p \<noteq> Pb_ACTIVE \<or>
                  pb_corpusKind p \<noteq> STRUCTURED_V2 \<or> pb_targetKey p \<noteq> ''workspace-v2'' \<or>
                  \<not> is_sha256_hex cap \<or> \<not> is_sha256_hex op \<or> gen < 1
               then Inl activePublicationInvalid
               else if cap \<noteq> ad_capabilitySetHash b then Inl capabilityBindingMismatch
               else Inr (op, gen)
           | _ \<Rightarrow> Inl activePublicationInvalid))"

definition operational_gate ::
    "capability_projection \<Rightarrow> string \<times> int \<Rightarrow> admission_binding
     \<Rightarrow> AutomaticReplyAdmissionReason + admission_binding" where
  "operational_gate proj pub b =
     (if pj_permissionGeneration proj = None \<or>
         pj_bindingHash proj \<noteq> fst pub \<or>
         pj_permissionGeneration proj \<noteq> Some (snd pub) \<or>
         fst pub \<noteq> ad_operationalBindingHash b \<or>
         snd pub \<noteq> ad_operationalPermissionGeneration b
      then Inl operationalBindingMismatch
      else Inr b)"

text \<open>
  The whole admission at the instant \<open>now\<close> of the projection. The outer error is the one the
  projection throws; the inner \<open>Inl\<close> is a rejection.
\<close>

definition automaticReplyAdmissionStateForConversationMode ::
    "host \<Rightarrow> int \<Rightarrow> db \<Rightarrow> string \<Rightarrow> string \<Rightarrow> conversation_mode
     \<Rightarrow> error + (AutomaticReplyAdmissionReason + admission_binding)" where
  "automaticReplyAdmissionStateForConversationMode h now d tenantId conversationId mode =
     (case andThen (conversation_gate d tenantId conversationId mode) (\<lambda>channelId.
           andThen (channel_gate h d tenantId channelId) (\<lambda>b.
           andThen (pointer_gate d tenantId b) (\<lambda>publicationId.
           andThen (publication_gate d tenantId b publicationId) (\<lambda>pub. Inr (b, pub))))) of
        Inl reason \<Rightarrow> Inr (Inl reason)
      | Inr (b, pub) \<Rightarrow>
          andThen (loadKnowledgeOperationalCapabilityProjectionV1 h d tenantId now)
            (\<lambda>proj. Inr (operational_gate proj pub b)))"

definition automaticReplyAdmissionState ::
    "host \<Rightarrow> int \<Rightarrow> db \<Rightarrow> string \<Rightarrow> string
     \<Rightarrow> error + (AutomaticReplyAdmissionReason + admission_binding)" where
  "automaticReplyAdmissionState h now d tenantId conversationId =
     automaticReplyAdmissionStateForConversationMode h now d tenantId conversationId OPEN"

definition completedAutomaticReplyHandoffAdmissionState ::
    "host \<Rightarrow> int \<Rightarrow> db \<Rightarrow> string \<Rightarrow> string
     \<Rightarrow> error + (AutomaticReplyAdmissionReason + admission_binding)" where
  "completedAutomaticReplyHandoffAdmissionState h now d tenantId conversationId =
     automaticReplyAdmissionStateForConversationMode h now d tenantId conversationId COMPLETED_HANDOFF"

section \<open>Specification\<close>

text \<open>
  What an admitted reply rests on, stated on the rows of the database: an admissible conversation,
  a channel whose complete binding matches its present configuration, the active structured
  publication the binding names, and the current permission generation.
\<close>

definition conversation_admissible :: "conversation_mode \<Rightarrow> conversation \<Rightarrow> bool" where
  "conversation_admissible mode c =
     (cv_deletedAt c = None \<and> cv_aiEnabled c \<and>
      (case mode of
         OPEN \<Rightarrow> cv_status c = Cv_OPEN \<and> \<not> cv_handoffRequested c
       | COMPLETED_HANDOFF \<Rightarrow> cv_status c = Cv_WAITING_FOR_HUMAN \<and> cv_handoffRequested c))"

definition channel_bound :: "host \<Rightarrow> channel \<Rightarrow> admission_binding \<Rightarrow> bool" where
  "channel_bound h ch b =
     (ch_deletedAt ch = None \<and> ch_status ch = Ch_ACTIVE \<and> ch_automaticRepliesEnabled ch \<and>
      channel_binding ch = Some b \<and> ad_channelFingerprint b = automaticReplyChannelFingerprint h ch)"

definition publication_bound :: "publication \<Rightarrow> admission_binding \<Rightarrow> bool" where
  "publication_bound p b =
     (pb_status p = Pb_ACTIVE \<and> pb_corpusKind p = STRUCTURED_V2 \<and> pb_targetKey p = ''workspace-v2'' \<and>
      pb_capabilitySetHash p = Some (ad_capabilitySetHash b) \<and>
      pb_operationalBindingHash p = Some (ad_operationalBindingHash b) \<and>
      pb_operationalPermissionGeneration p = Some (ad_operationalPermissionGeneration b))"

definition admission_spec ::
    "host \<Rightarrow> int \<Rightarrow> db \<Rightarrow> string \<Rightarrow> string \<Rightarrow> conversation_mode \<Rightarrow> admission_binding \<Rightarrow> bool" where
  "admission_spec h now d t cId mode b =
     (\<exists>c\<in>set (conversations d). \<exists>ch\<in>set (channels d). \<exists>s\<in>set (corpusSelectors d).
      \<exists>ap\<in>set (activePublications d). \<exists>p\<in>set (publications d).
        cv_id c = cId \<and> cv_tenantId c = t \<and> conversation_admissible mode c \<and>
        cv_channelId c = Some (ch_id ch) \<and> ch_id ch \<noteq> [] \<and> ch_tenantId ch = t \<and> channel_bound h ch b \<and>
        cs_tenantId s = t \<and> cs_corpusKind s = STRUCTURED_V2 \<and>
        ap_tenantId ap = t \<and> ap_targetKey ap = ''workspace-v2'' \<and>
        ap_publicationId ap = ad_publicationId b \<and> ap_etag ap = ad_publicationEtag b \<and>
        pb_tenantId p = t \<and> pb_id p = ad_publicationId b \<and> publication_bound p b \<and>
        (\<exists>proj. loadKnowledgeOperationalCapabilityProjectionV1 h d t now = Inr proj \<and>
           pj_bindingHash proj = ad_operationalBindingHash b \<and>
           pj_permissionGeneration proj = Some (ad_operationalPermissionGeneration b)))"

section \<open>Gates and their specification\<close>

lemma conversation_gate_Inr_iff:
  assumes "unique_on cv_id (conversations d)"
  shows "conversation_gate d t cId mode = Inr chId \<longleftrightarrow>
    (\<exists>c\<in>set (conversations d). cv_id c = cId \<and> cv_tenantId c = t \<and> conversation_admissible mode c \<and>
       cv_channelId c = Some chId \<and> chId \<noteq> [])"
  unfolding conversation_gate_def
proof (subst find_case_Inr_iff [OF assms, where k = cId], simp, rule bex_cong [OF refl], goal_cases)
  case (1 c)
  show ?case
    by (cases mode; cases "cv_channelId c") (auto simp: conversation_admissible_def)
qed

lemma channel_gate_Inr_iff:
  assumes "unique_on ch_id (channels d)"
  shows "channel_gate h d t chId = Inr b \<longleftrightarrow>
    (\<exists>ch\<in>set (channels d). ch_id ch = chId \<and> ch_tenantId ch = t \<and> channel_bound h ch b)"
  unfolding channel_gate_def
proof (subst find_case_Inr_iff [OF assms, where k = chId], simp, rule bex_cong [OF refl], goal_cases)
  case (1 ch)
  show ?case by (cases "channel_binding ch") (auto simp: channel_bound_def)
qed

lemma pointer_gate_Inr_iff:
  assumes "unique_on cs_tenantId (corpusSelectors d)"
    and "unique_on (\<lambda>r. (ap_tenantId r, ap_targetKey r)) (activePublications d)"
  shows "pointer_gate d t b = Inr pId \<longleftrightarrow>
    (\<exists>s\<in>set (corpusSelectors d). cs_tenantId s = t \<and> cs_corpusKind s = STRUCTURED_V2) \<and>
    (\<exists>ap\<in>set (activePublications d). ap_tenantId ap = t \<and> ap_targetKey ap = ''workspace-v2'' \<and>
       ap_publicationId ap = ad_publicationId b \<and> ap_etag ap = ad_publicationEtag b) \<and>
    pId = ad_publicationId b"
proof -
  let ?S = "\<lambda>s. cs_tenantId s = t"
  have s: "map_option cs_corpusKind (List.find ?S (corpusSelectors d)) = Some STRUCTURED_V2 \<longleftrightarrow>
      (\<exists>s\<in>set (corpusSelectors d). cs_tenantId s = t \<and> cs_corpusKind s = STRUCTURED_V2)"
    using find_Some_unique_iff [OF assms(1), of ?S t] by auto
  show ?thesis
    unfolding pointer_gate_def guard_Inr_iff not_not s
    by (subst find_case_Inr_iff [OF assms(2), where k = "(t, ''workspace-v2'')"], simp)
       (auto split: if_splits)
qed

lemma publication_gate_Inr_iff:
  assumes "unique_on pb_id (publications d)" and "is_sha256_hex (ad_capabilitySetHash b)"
  shows "publication_gate d t b pId = Inr pub \<longleftrightarrow>
    (\<exists>p\<in>set (publications d). pb_tenantId p = t \<and> pb_id p = pId \<and> pb_status p = Pb_ACTIVE \<and>
       pb_corpusKind p = STRUCTURED_V2 \<and> pb_targetKey p = ''workspace-v2'' \<and>
       pb_capabilitySetHash p = Some (ad_capabilitySetHash b) \<and>
       pb_operationalBindingHash p = Some (fst pub) \<and> is_sha256_hex (fst pub) \<and>
       pb_operationalPermissionGeneration p = Some (snd pub) \<and> 1 \<le> snd pub)"
proof -
  obtain k where k: "k = ''workspace-v2''" by simp
  show ?thesis
    unfolding publication_gate_def k [symmetric]
  proof (subst find_case_Inr_iff [OF assms(1), where k = pId], simp, rule bex_cong [OF refl], goal_cases)
    case (1 p)
    show ?case
      using assms(2)
      by (cases "pb_capabilitySetHash p"; cases "pb_operationalBindingHash p";
          cases "pb_operationalPermissionGeneration p"; cases pub) auto
  qed
qed

lemma channel_binding_complete:
  assumes "channel_binding ch = Some b"
  shows "ad_channelId b = ch_id ch" "is_sha256_hex (ad_capabilitySetHash b)"
    "is_sha256_hex (ad_operationalBindingHash b)" "1 \<le> ad_operationalPermissionGeneration b"
    "1 \<le> ad_channelGeneration b"
  using assms by (auto simp: channel_binding_def split: option.splits if_splits)

lemma operational_gate_Inr_iff:
  "operational_gate proj pub b = Inr b' \<longleftrightarrow>
     b' = b \<and> pub = (ad_operationalBindingHash b, ad_operationalPermissionGeneration b) \<and>
     pj_bindingHash proj = ad_operationalBindingHash b \<and>
     pj_permissionGeneration proj = Some (ad_operationalPermissionGeneration b)"
  by (cases pub) (auto simp: operational_gate_def)

lemma admission_Inr_iff:
  "automaticReplyAdmissionStateForConversationMode h now d t cId mode = Inr (Inr b) \<longleftrightarrow>
     (\<exists>chId. conversation_gate d t cId mode = Inr chId \<and> channel_gate h d t chId = Inr b \<and>
       (\<exists>pId. pointer_gate d t b = Inr pId \<and>
          publication_gate d t b pId =
            Inr (ad_operationalBindingHash b, ad_operationalPermissionGeneration b)) \<and>
       (\<exists>proj. loadKnowledgeOperationalCapabilityProjectionV1 h d t now = Inr proj \<and>
          pj_bindingHash proj = ad_operationalBindingHash b \<and>
          pj_permissionGeneration proj = Some (ad_operationalPermissionGeneration b)))"
  unfolding automaticReplyAdmissionStateForConversationMode_def
  by (auto simp: andThen_Inr_iff operational_gate_Inr_iff split: sum.splits)

section \<open>Properties\<close>

lemma admission_iff_spec:
  assumes "binding_keys d"
  shows "automaticReplyAdmissionStateForConversationMode h now d t cId mode = Inr (Inr b) \<longleftrightarrow>
         admission_spec h now d t cId mode b"
proof -
  have u: "unique_on cv_id (conversations d)" "unique_on ch_id (channels d)"
    "unique_on cs_tenantId (corpusSelectors d)"
    "unique_on (\<lambda>r. (ap_tenantId r, ap_targetKey r)) (activePublications d)"
    "unique_on pb_id (publications d)"
    using assms by (simp_all add: binding_keys_def)
  have ch: "channel_gate h d t chId = Inr b \<Longrightarrow>
      is_sha256_hex (ad_capabilitySetHash b) \<and> is_sha256_hex (ad_operationalBindingHash b) \<and>
      1 \<le> ad_operationalPermissionGeneration b" for chId
    by (auto simp: channel_gate_Inr_iff [OF u(2)] channel_bound_def dest: channel_binding_complete)
  have pub: "publication_gate d t b pId =
        Inr (ad_operationalBindingHash b, ad_operationalPermissionGeneration b) \<longleftrightarrow>
      (\<exists>p\<in>set (publications d). pb_tenantId p = t \<and> pb_id p = pId \<and> publication_bound p b)"
    if "channel_gate h d t chId = Inr b" for chId pId
    using ch [OF that]
    by (simp add: publication_gate_Inr_iff [OF u(5)] publication_bound_def cong: conj_cong)
  show ?thesis
    unfolding admission_Inr_iff admission_spec_def
    by (simp add: pub pointer_gate_Inr_iff [OF u(3,4)] cong: conj_cong del: bex_simps)
       (simp add: conversation_gate_Inr_iff [OF u(1)] channel_gate_Inr_iff [OF u(2)]; blast)
qed

text \<open>C5. The admission implements its specification: over a database that keeps its unique keys, an
  automatic reply is admitted with a binding exactly when there are rows that justify it: an
  admissible conversation of the tenant, its active channel whose stored binding is complete and
  whose fingerprint is that of the channel's present configuration, the structured publication
  that the tenant's pointer and the binding name with the same capability set, and an operational
  projection with the bound hash and permission generation.\<close>

theorem admission_refines_spec:
  assumes "binding_keys d"
  shows "automaticReplyAdmissionStateForConversationMode h now d t cId mode = Inr (Inr b) \<longleftrightarrow>
         admission_spec h now d t cId mode b"
  by (rule admission_iff_spec [OF assms])

text \<open>Admission reads six tables beside the conversation; it does not depend on the others.\<close>

definition binding_tables ::
    "db \<Rightarrow> channel list \<times> corpus_selector list \<times> active_publication list \<times> publication list \<times>
      authorization_state list \<times> integration_account list" where
  "binding_tables d = (channels d, corpusSelectors d, activePublications d, publications d,
     authorizationStates d, integrationAccounts d)"

lemma admission_cong:
  assumes "binding_tables d' = binding_tables d"
    and "conversation_gate d' t cId mode = conversation_gate d t cId mode"
  shows "automaticReplyAdmissionStateForConversationMode h now d' t cId mode =
         automaticReplyAdmissionStateForConversationMode h now d t cId mode"
proof -
  have t: "channels d' = channels d" "corpusSelectors d' = corpusSelectors d"
    "activePublications d' = activePublications d" "publications d' = publications d"
    "authorizationStates d' = authorizationStates d" "integrationAccounts d' = integrationAccounts d"
    using assms(1) by (simp_all add: binding_tables_def)
  have "channel_gate h d' t = channel_gate h d t" "pointer_gate d' t = pointer_gate d t"
    "publication_gate d' t = publication_gate d t"
    "loadKnowledgeOperationalCapabilityProjectionV1 h d' t now =
       loadKnowledgeOperationalCapabilityProjectionV1 h d t now"
    unfolding channel_gate_def pointer_gate_def publication_gate_def t
      loadKnowledgeOperationalCapabilityProjectionV1_def fun_eq_iff
    by (intro allI refl)+
  with assms(2) show ?thesis by (simp only: automaticReplyAdmissionStateForConversationMode_def)
qed

lemma conversation_gate_update:
  assumes "conversations d' = update_many Q f (conversations d)"
    and "\<And>c. cv_id (f c) = cv_id c \<and> cv_tenantId (f c) = cv_tenantId c \<and> cv_deletedAt (f c) = cv_deletedAt c \<and>
          cv_status (f c) = cv_status c \<and> cv_handoffRequested (f c) = cv_handoffRequested c \<and>
          cv_aiEnabled (f c) = cv_aiEnabled c \<and> cv_channelId (f c) = cv_channelId c"
  shows "conversation_gate d' t cId mode = conversation_gate d t cId mode"
  by (simp add: conversation_gate_def assms find_update_many split: option.split)

text \<open>A small database in which the reply of one conversation is admitted.\<close>

definition sample_digest :: string where
  "sample_digest = replicate 64 (CHR ''a'')"

definition digest_host :: host where
  "digest_host = \<lparr>sha256 = (\<lambda>_. sample_digest), localeCompare = str_cmp, localeCompareEn = str_cmp\<rparr>"

definition sample_conversation :: conversation where
  "sample_conversation =
     \<lparr>cv_id = sample_id (CHR ''v''), cv_tenantId = sample_id (CHR ''t''), cv_leadId = None,
      cv_channelId = Some (sample_id (CHR ''h'')), cv_externalConversationId = None, cv_status = Cv_OPEN, cv_aiEnabled = True,
      cv_aiGeneration = 1, cv_aiReplySequence = 0, cv_aiReplyFence = 0,
      cv_handoffRequested = False, cv_deletedAt = None\<rparr>"

definition sample_channel :: channel where
  "sample_channel =
     \<lparr>ch_id = sample_id (CHR ''h''), ch_tenantId = sample_id (CHR ''t''), ch_type = TELEGRAM,
      ch_status = Ch_ACTIVE, ch_externalId = None, ch_publicKey = None, ch_settings = None,
      ch_encryptedCredentials = None, ch_automaticRepliesEnabled = True,
      ch_automaticRepliesGeneration = 1,
      ch_automaticRepliesPublicationId = Some ''pub'', ch_automaticRepliesPublicationEtag = Some 1,
      ch_automaticRepliesChannelFingerprint = Some sample_digest,
      ch_automaticRepliesCapabilitySetHash = Some sample_digest,
      ch_automaticRepliesOperationalBindingHash = Some sample_digest,
      ch_automaticRepliesOperationalPermissionGeneration = Some 1,
      ch_automaticRepliesActivatedAt = Some 1000,
      ch_automaticRepliesActivatedByUserId = Some ''user'', ch_deletedAt = None\<rparr>"

definition sample_message :: message where
  "sample_message =
     \<lparr>ms_id = sample_id (CHR ''m''), ms_tenantId = sample_id (CHR ''t''),
      ms_conversationId = sample_id (CHR ''v''), ms_direction = INBOUND,
      ms_senderType = Sn_CUSTOMER, ms_text = Some ''Hello'', ms_status = Ms_RECEIVED, ms_metadata = None,
      ms_createdAt = 1000, ms_authenticatedCustomerIdentity = None\<rparr>"

definition sample_db :: db where
  "sample_db = empty_db\<lparr>
     conversations := [sample_conversation], channels := [sample_channel],
     corpusSelectors := [\<lparr>cs_tenantId = sample_id (CHR ''t''), cs_corpusKind = STRUCTURED_V2\<rparr>],
     activePublications := [\<lparr>ap_tenantId = sample_id (CHR ''t''), ap_targetKey = ''workspace-v2'',
       ap_publicationId = ''pub'', ap_etag = 1\<rparr>],
     publications := [\<lparr>pb_id = ''pub'', pb_tenantId = sample_id (CHR ''t''),
       pb_targetKey = ''workspace-v2'', pb_corpusKind = STRUCTURED_V2, pb_status = Pb_ACTIVE,
       pb_capabilitySetHash = Some sample_digest, pb_operationalBindingHash = Some sample_digest,
       pb_operationalPermissionGeneration = Some 1\<rparr>],
     authorizationStates := [\<lparr>ts_tenantId = sample_id (CHR ''t''), ts_permissionGeneration = 1,
       ts_updatedAt = 500\<rparr>],
     messages := [sample_message]\<rparr>"

definition sample_binding :: admission_binding where
  "sample_binding =
     \<lparr>ad_channelId = sample_id (CHR ''h''), ad_channelGeneration = 1, ad_publicationId = ''pub'',
      ad_publicationEtag = 1, ad_capabilitySetHash = sample_digest,
      ad_operationalBindingHash = sample_digest, ad_operationalPermissionGeneration = 1,
      ad_channelFingerprint = sample_digest\<rparr>"

lemma sample_digest_hex: "is_sha256_hex sample_digest"
  by code_simp

lemma sample_projection:
  "\<exists>proj. loadKnowledgeOperationalCapabilityProjectionV1 digest_host sample_db (sample_id (CHR ''t'')) now = Inr proj \<and>
     pj_bindingHash proj = sample_digest \<and> pj_permissionGeneration proj = Some 1"
  if "\<bar>now\<bar> \<le> 8640000000000000"
proof -
  have "project_ok (sample_id (CHR ''t'')) now"
    using that by (simp add: project_ok_def js_blank_Cons js_space_def sample_id_def)
  then obtain proj where
    p: "loadKnowledgeOperationalCapabilityProjectionV1 digest_host sample_db (sample_id (CHR ''t'')) now = Inr proj"
    unfolding loadKnowledgeOperationalCapabilityProjectionV1_def
    using project_Inr_iff [THEN iffD2] by blast
  note q = project_InrD [OF p [unfolded loadKnowledgeOperationalCapabilityProjectionV1_def]]
  have "pj_bindingHash proj = sample_digest"
    unfolding q(2) Let_def bindingHash_def hash_def by (simp add: digest_host_def)
  moreover have "pj_permissionGeneration proj = Some 1"
    unfolding q(1) by (simp add: sample_db_def validAuthorizationState_def asDate_def)
  ultimately show ?thesis using p by blast
qed

lemma sample_binding_stored: "channel_binding sample_channel = Some sample_binding"
proof -
  have "js_trim ''pub'' \<noteq> []" "js_trim ''user'' \<noteq> []" by code_simp+
  then show ?thesis
    by (simp add: channel_binding_def sample_channel_def sample_binding_def sample_digest_hex asDate_def)
qed

lemma sample_admission_spec:
  assumes "\<bar>now\<bar> \<le> 8640000000000000"
  shows "admission_spec digest_host now sample_db (sample_id (CHR ''t'')) (sample_id (CHR ''v'')) OPEN
    sample_binding"
proof -
  have "conversation_admissible OPEN sample_conversation"
    by (simp add: conversation_admissible_def sample_conversation_def)
  moreover have "channel_bound digest_host sample_channel sample_binding"
    unfolding channel_bound_def sample_binding_stored
    by (simp add: automaticReplyChannelFingerprint_def digest_host_def sample_binding_def sample_channel_def)
  ultimately show ?thesis
    unfolding admission_spec_def
    using sample_projection [OF assms]
    by (simp add: sample_db_def sample_binding_def publication_bound_def)
       (simp add: sample_conversation_def sample_channel_def sample_id_def)
qed

lemma sample_binding_keys: "binding_keys sample_db"
  by (simp add: binding_keys_def sample_db_def unique_on_def)

lemma sample_admitted:
  "\<bar>now\<bar> \<le> 8640000000000000 \<Longrightarrow>
   automaticReplyAdmissionState digest_host now sample_db (sample_id (CHR ''t'')) (sample_id (CHR ''v'')) =
     Inr (Inr sample_binding)"
  unfolding automaticReplyAdmissionState_def admission_iff_spec [OF sample_binding_keys]
  by (rule sample_admission_spec)

theorem admission_refines_spec_witness:
  "binding_keys sample_db \<and>
   automaticReplyAdmissionStateForConversationMode digest_host 2000 sample_db
     (sample_id (CHR ''t'')) (sample_id (CHR ''v'')) OPEN = Inr (Inr sample_binding)"
  using admission_refines_spec [OF sample_binding_keys] sample_binding_keys
    sample_admission_spec [of 2000] by simp

text \<open>C21. Admission respects tenant isolation: its result is a function of the rows of the requesting
  tenant, whatever the other tenants store.\<close>

theorem admission_tenant_isolated:
  "automaticReplyAdmissionStateForConversationMode h now (tenant_view t d) t cId mode =
   automaticReplyAdmissionStateForConversationMode h now d t cId mode"
proof -
  have "conversation_gate (tenant_view t d) t cId mode = conversation_gate d t cId mode"
    by (simp add: conversation_gate_def tenant_view_def find_tenant)
  moreover have "channel_gate h (tenant_view t d) t = channel_gate h d t"
    by (simp add: channel_gate_def tenant_view_def find_tenant fun_eq_iff)
  moreover have "pointer_gate (tenant_view t d) t = pointer_gate d t"
    by (rule ext) (simp only: pointer_gate_def tenant_view_def db.select_convs find_tenant)
  moreover have "publication_gate (tenant_view t d) t = publication_gate d t"
    by (simp add: publication_gate_def tenant_view_def find_tenant fun_eq_iff)
  moreover have "loadKnowledgeOperationalCapabilityProjectionV1 h (tenant_view t d) t now =
      loadKnowledgeOperationalCapabilityProjectionV1 h d t now"
    by (simp add: loadKnowledgeOperationalCapabilityProjectionV1_def tenant_view_def find_tenant
        conj_commute)
  ultimately show ?thesis
    by (simp only: automaticReplyAdmissionStateForConversationMode_def)
qed

end
