(* ===== verification/Lease.thy ===== *)
theory Lease
  imports Prelude
begin

text \<open>
  Leased rows. The outbox, the inbox and the webhook intake share one protocol: a worker claims a
  row by writing a token of its own and an expiry, a row can be claimed again once the lease has
  expired, and every later write of the worker is guarded by its token. The locale states the
  protocol on one row; its theory is proved once and used by the three components.
\<close>

locale leased_row =
  fixes holder :: "'r \<Rightarrow> string option"
    and expires :: "'r \<Rightarrow> int option"
    and final :: "'r \<Rightarrow> bool"
    and claimable :: "int \<Rightarrow> 'r \<Rightarrow> bool"
    and claim :: "int \<Rightarrow> int \<Rightarrow> string \<Rightarrow> 'r \<Rightarrow> 'r"
    and owned :: "string \<Rightarrow> 'r \<Rightarrow> bool"
  assumes claim_holder: "holder (claim now till l r) = Some l"
    and claim_expires: "expires (claim now till l r) = Some till"
    and claim_not_final: "\<not> final (claim now till l r)"
    and claimable_not_final: "claimable now r \<Longrightarrow> \<not> final r"
    and claimable_expired: "claimable now r \<Longrightarrow> owned l r \<Longrightarrow> expires r = Some e \<Longrightarrow> e \<le> now"
    and owned_holder: "owned l r \<Longrightarrow> holder r = Some l"
    and owned_claim: "owned l (claim now till l r)"
begin

text \<open>While a lease is live, nobody else can claim the row.\<close>

lemma lease_exclusive:
  "owned l r \<Longrightarrow> expires r = Some e \<Longrightarrow> now < e \<Longrightarrow> \<not> claimable now r"
  using claimable_expired by fastforce

lemma claimed_exclusive: "now' < till \<Longrightarrow> \<not> claimable now' (claim now till l r)"
  using lease_exclusive owned_claim claim_expires by blast

lemma owner_unique: "owned l r \<Longrightarrow> owned l' r \<Longrightarrow> l = l'"
  by (metis option.inject owned_holder)

lemma reclaimed_lost: "l \<noteq> l' \<Longrightarrow> \<not> owned l (claim now till l' r)"
  using claim_holder owned_holder by fastforce

text \<open>A step of another worker: it claims with its own token, or writes without changing the
  holder, or releases the row.\<close>

definition other_step :: "string \<Rightarrow> 'r \<Rightarrow> 'r \<Rightarrow> bool" where
  "other_step l r r' =
     ((\<exists>now till l'. l' \<noteq> l \<and> claimable now r \<and> r' = claim now till l' r) \<or>
      holder r' = holder r \<or> holder r' = None)"

text \<open>A token that lost its row never owns it again, however the others go on.\<close>

lemma lost_forever:
  assumes "(other_step l)\<^sup>*\<^sup>* r r'" "holder r \<noteq> Some l"
  shows "\<not> owned l r'"
proof -
  have "holder r' \<noteq> Some l"
    using assms by (induction rule: rtranclp_induct) (auto simp: other_step_def claim_holder)
  then show ?thesis using owned_holder by blast
qed

end

end
