(* ===== verification/Runtime_Outbox.thy ===== *)
theory Runtime_Outbox
  imports Queue_Envelope Lease
begin

text \<open>
  The transactional outbox and its dispatcher (\<open>packages/runtime-queue/src/index.ts\<close>): creating
  an event, claiming, renewing and finishing it, the failure transaction with its effects on the
  aggregates, \<open>dispatch\<close> with other processes running between its statements, and \<open>drain\<close>.
\<close>

section \<open>Creating an event\<close>

record create_event_input =
  ce_tenantId :: string
  ce_aggregateType :: string
  ce_aggregateId :: string
  ce_aggregateVersion :: int
  ce_generation :: "int option"
  ce_eventType :: string
  ce_dedupeKey :: string
  ce_envelope :: envelope
  ce_deadlineAt :: "int option"
  ce_traceId :: "string option"
  ce_traceParent :: "string option"

definition aiReplyMetadataMatches :: "create_event_input \<Rightarrow> bool" where
  "aiReplyMetadataMatches i =
     (let data = map_of (en_data (ce_envelope i)) in
      ce_eventType i = ''ai.reply.requested'' \<and>
      data ''tenantId'' = Some (JStr (ce_tenantId i)) \<and>
      data ''triggerMessageId'' = Some (JStr (ce_aggregateId i)) \<and>
      ce_dedupeKey i = en_jobId (ce_envelope i))"

definition businessImportMetadataMatches :: "create_event_input \<Rightarrow> bool" where
  "businessImportMetadataMatches i =
     (let e = ce_envelope i; data = map_of (en_data e);
          parseMetadataMatches =
            en_jobName e = ''parse'' \<and> ce_eventType i = ''business.import.parse.requested'' \<and>
            data ''importId'' = Some (JStr (ce_aggregateId i)) \<and>
            data ''generation'' = Some (JInt (ce_aggregateVersion i));
          projectionMetadataMatches =
            en_jobName e = ''project'' \<and> ce_eventType i = ''business.import.project.requested'' \<and>
            data ''businessRevisionId'' = Some (JStr (ce_aggregateId i)) \<and>
            data ''businessRevision'' = Some (JInt (ce_aggregateVersion i));
          revisionProjectionMetadataMatches =
            en_jobName e = ''project-revision'' \<and>
            ce_eventType i = ''business.information.project.requested'' \<and>
            data ''businessRevisionId'' = Some (JStr (ce_aggregateId i)) \<and>
            data ''businessRevision'' = Some (JInt (ce_aggregateVersion i))
      in (parseMetadataMatches \<or> projectionMetadataMatches \<or> revisionProjectionMetadataMatches) \<and>
         data ''tenantId'' = Some (JStr (ce_tenantId i)) \<and>
         (case ce_generation i of None \<Rightarrow> False | Some g \<Rightarrow> data ''generation'' = Some (JInt g)) \<and>
         ce_dedupeKey i = en_jobId e)"

definition assertEventMetadata :: "create_event_input \<Rightarrow> error + unit" where
  "assertEventMetadata i =
     (case en_queueName (ce_envelope i) of
        Q_ai_reply \<Rightarrow>
          andThen (assertOpaqueAiReplyEnvelope (ce_envelope i)) (\<lambda>_.
            if aiReplyMetadataMatches i then Inr ()
            else Inl (Error ''Runtime ai.reply event metadata does not match its opaque references.''))
      | Q_business_import \<Rightarrow>
          andThen (assertOpaqueBusinessImportEnvelope (ce_envelope i)) (\<lambda>_.
            if businessImportMetadataMatches i then Inr ()
            else Inl (Error ''Runtime business.import event metadata does not match its opaque references.''))
      | _ \<Rightarrow> Inr ())"

definition input_generation :: "create_event_input \<Rightarrow> int" where
  "input_generation i = (case ce_generation i of Some g \<Rightarrow> g | None \<Rightarrow> 1)"

text \<open>A new row: the columns given and the defaults of the schema. An empty trace is not stored.\<close>

definition new_event :: "string \<Rightarrow> int \<Rightarrow> create_event_input \<Rightarrow> runtime_outbox" where
  "new_event newId now i =
     \<lparr>ob_id = newId, ob_tenantId = ce_tenantId i, ob_aggregateType = ce_aggregateType i,
      ob_aggregateId = ce_aggregateId i, ob_aggregateVersion = ce_aggregateVersion i,
      ob_generation = input_generation i, ob_eventType = ce_eventType i, ob_schemaVersion = 1,
      ob_dedupeKey = ce_dedupeKey i, ob_payload = Some (envelope_json (ce_envelope i)),
      ob_status = Ob_PENDING, ob_availableAt = now, ob_deadlineAt = ce_deadlineAt i,
      ob_maxAttempts = 10, ob_attemptCount = 0, ob_lockedAt = None, ob_lockExpiresAt = None,
      ob_lockedBy = None, ob_publishedAt = None, ob_lastErrorCode = None, ob_lastErrorMessage = None,
      ob_traceId = (if ce_traceId i = Some [] then None else ce_traceId i),
      ob_traceParent = (if ce_traceParent i = Some [] then None else ce_traceParent i),
      ob_createdAt = now\<rparr>"

text \<open>\<open>INSERT\<close> under the unique keys of the table; a violation is Prisma's P2002.\<close>

definition insert_event :: "runtime_outbox \<Rightarrow> db \<Rightarrow> error + db" where
  "insert_event r d =
     (if list_ex (\<lambda>x. ob_id x = ob_id r \<or>
            (ob_tenantId x, ob_dedupeKey x) = (ob_tenantId r, ob_dedupeKey r) \<or>
            outbox_aggregate_key x = outbox_aggregate_key r) (runtimeOutbox d)
      then Inl (PrismaError ''P2002'')
      else Inr (d\<lparr>runtimeOutbox := runtimeOutbox d @ [r]\<rparr>))"

definition event_matches :: "host \<Rightarrow> create_event_input \<Rightarrow> runtime_outbox \<Rightarrow> bool" where
  "event_matches h i r =
     (ob_tenantId r = ce_tenantId i \<and> ob_aggregateType r = ce_aggregateType i \<and>
      ob_aggregateId r = ce_aggregateId i \<and> ob_aggregateVersion r = ce_aggregateVersion i \<and>
      ob_generation r = input_generation i \<and> ob_eventType r = ce_eventType i \<and>
      ob_schemaVersion r = 1 \<and>
      canonicalJson h (opt_json (\<lambda>v. v) (ob_payload r)) =
        canonicalJson h (envelope_json (ce_envelope i)))"

definition createRuntimeQueueEvent ::
    "host \<Rightarrow> string \<Rightarrow> int \<Rightarrow> create_event_input \<Rightarrow> db \<Rightarrow> error + (runtime_outbox \<times> db)" where
  "createRuntimeQueueEvent h newId now i d =
     andThen (assertEventMetadata i) (\<lambda>_.
     andThen
       (case List.find (\<lambda>r. ob_tenantId r = ce_tenantId i \<and> ob_dedupeKey r = ce_dedupeKey i)
               (runtimeOutbox d) of
          Some r \<Rightarrow> Inr (r, d)
        | None \<Rightarrow> andThen (insert_event (new_event newId now i) d) (\<lambda>d'. Inr (new_event newId now i, d')))
       (\<lambda>(event, d').
          if event_matches h i event then Inr (event, d')
          else Inl (Error (''Runtime outbox dedupe key '' @ ce_dedupeKey i @
                           '' was reused with different input.''))))"

section \<open>Statements of the dispatcher\<close>

definition outbox_claimable :: "int \<Rightarrow> runtime_outbox \<Rightarrow> bool" where
  "outbox_claimable now r =
     (ob_availableAt r \<le> now \<and>
      (ob_status r \<in> {Ob_PENDING, Ob_FAILED} \<or>
       ob_status r = Ob_PUBLISHING \<and>
       (case ob_lockExpiresAt r of None \<Rightarrow> False | Some e \<Rightarrow> e \<le> now)))"

definition outbox_claim :: "int \<Rightarrow> int \<Rightarrow> string \<Rightarrow> runtime_outbox \<Rightarrow> runtime_outbox" where
  "outbox_claim now till lockId r =
     r\<lparr>ob_status := Ob_PUBLISHING, ob_attemptCount := ob_attemptCount r + 1, ob_lockedAt := Some now,
       ob_lockExpiresAt := Some till, ob_lockedBy := Some lockId, ob_lastErrorCode := None,
       ob_lastErrorMessage := None\<rparr>"

text \<open>The guard of every write of a claimant: \<open>status: "PUBLISHING", lockedBy: lockId\<close>.\<close>

definition outbox_owned :: "string \<Rightarrow> runtime_outbox \<Rightarrow> bool" where
  "outbox_owned lockId r = (ob_status r = Ob_PUBLISHING \<and> ob_lockedBy r = Some lockId)"

definition outbox_renewed :: "int \<Rightarrow> int \<Rightarrow> runtime_outbox \<Rightarrow> runtime_outbox" where
  "outbox_renewed at till r = r\<lparr>ob_lockedAt := Some at, ob_lockExpiresAt := Some till\<rparr>"

definition outbox_published :: "int \<Rightarrow> runtime_outbox \<Rightarrow> runtime_outbox" where
  "outbox_published at r =
     r\<lparr>ob_status := Ob_PUBLISHED, ob_publishedAt := Some at, ob_lockedAt := None,
       ob_lockExpiresAt := None, ob_lockedBy := None, ob_lastErrorCode := None,
       ob_lastErrorMessage := None\<rparr>"

definition outbox_failed :: "bool \<Rightarrow> int \<Rightarrow> string \<times> string \<Rightarrow> runtime_outbox \<Rightarrow> runtime_outbox" where
  "outbox_failed terminal availableAt details r =
     r\<lparr>ob_status := (if terminal then Ob_DEAD_LETTER else Ob_FAILED),
       ob_availableAt := availableAt, ob_lockedAt := None, ob_lockExpiresAt := None,
       ob_lockedBy := None, ob_lastErrorCode := Some (fst details),
       ob_lastErrorMessage := Some (snd details)\<rparr>"

definition update_outbox ::
    "(runtime_outbox \<Rightarrow> bool) \<Rightarrow> (runtime_outbox \<Rightarrow> runtime_outbox) \<Rightarrow> db \<Rightarrow> nat \<times> db" where
  "update_outbox P f d =
     (count_where P (runtimeOutbox d), d\<lparr>runtimeOutbox := update_many P f (runtimeOutbox d)\<rparr>)"

definition claim_event :: "int \<Rightarrow> int \<Rightarrow> string \<Rightarrow> string \<Rightarrow> db \<Rightarrow> nat \<times> db" where
  "claim_event now leaseMs lockId eventId =
     update_outbox (\<lambda>r. ob_id r = eventId \<and> outbox_claimable now r)
       (outbox_claim now (now + leaseMs) lockId)"

definition renew_lease :: "int \<Rightarrow> int \<Rightarrow> int \<Rightarrow> string \<Rightarrow> string \<Rightarrow> db \<Rightarrow> nat \<times> db" where
  "renew_lease lockedAt now leaseMs lockId eventId =
     update_outbox (\<lambda>r. ob_id r = eventId \<and> outbox_owned lockId r)
       (outbox_renewed lockedAt (now + leaseMs))"

definition mark_published :: "int \<Rightarrow> string \<Rightarrow> string \<Rightarrow> db \<Rightarrow> nat \<times> db" where
  "mark_published at lockId eventId =
     update_outbox (\<lambda>r. ob_id r = eventId \<and> outbox_owned lockId r)
       (outbox_published at)"

definition mark_failed ::
    "bool \<Rightarrow> int \<Rightarrow> string \<times> string \<Rightarrow> string \<Rightarrow> string \<Rightarrow> db \<Rightarrow> nat \<times> db" where
  "mark_failed terminal availableAt details lockId eventId =
     update_outbox (\<lambda>r. ob_id r = eventId \<and> outbox_owned lockId r)
       (outbox_failed terminal availableAt details)"

section \<open>Effects of an undeliverable event\<close>

definition run_active :: "AiReplyRunStatus \<Rightarrow> bool" where
  "run_active s = (s \<in> {Rn_QUEUED, Rn_RUNNING, Rn_RETRY_SCHEDULED, Rn_FAILED, Rn_CANCEL_REQUESTED})"

definition fail_ai_reply ::
    "runtime_outbox \<Rightarrow> json_object \<Rightarrow> string \<times> string \<Rightarrow> int \<Rightarrow> db \<Rightarrow> db" where
  "fail_ai_reply event data details at d =
     (case js_str (map_of data ''triggerMessageId'') of
        None \<Rightarrow> d
      | Some inboundMessageId \<Rightarrow>
          d\<lparr>aiReplyRuns := update_many
             (\<lambda>r. rn_tenantId r = ob_tenantId event \<and> rn_inboundMessageId r = inboundMessageId \<and>
                  run_active (rn_status r))
             (\<lambda>r. r\<lparr>rn_status := Rn_DEAD_LETTER, rn_errorCode := Some (fst details),
                    rn_errorMessage := Some (snd details), rn_completedAt := Some at\<rparr>)
             (aiReplyRuns d)\<rparr>)"

definition undeliverable_code :: string where
  "undeliverable_code = ''KNOWLEDGE_DEPENDENCY_RUNTIME_EVENT_UNDELIVERABLE''"

definition fail_knowledge_source ::
    "runtime_outbox \<Rightarrow> json_object \<Rightarrow> int \<Rightarrow> int \<Rightarrow> db \<Rightarrow> db" where
  "fail_knowledge_source event data at1 at2 d =
     (let d1 = (case js_str (map_of data ''knowledgeJobId'') of
            None \<Rightarrow> d
          | Some jobId \<Rightarrow>
              d\<lparr>knowledgeJobs := update_many
                 (\<lambda>j. kj_id j = jobId \<and> kj_tenantId j = ob_tenantId event \<and>
                      kj_status j \<notin> {Kj_SUCCEEDED, Kj_CANCELLED, Kj_DEAD_LETTER})
                 (\<lambda>j. j\<lparr>kj_status := Kj_DEAD_LETTER, kj_errorCode := Some undeliverable_code,
                        kj_errorMessage := Some ''The knowledge source event could not be delivered.'',
                        kj_completedAt := Some at1\<rparr>)
                 (knowledgeJobs d)\<rparr>)
      in case (js_str (map_of data ''sourceId''), js_int (map_of data ''generation'')) of
           (Some sourceId, Some generation) \<Rightarrow>
             d1\<lparr>knowledgeSources := update_many
                 (\<lambda>s. ks_id s = sourceId \<and> ks_tenantId s = ob_tenantId event \<and>
                      ks_generation s = generation \<and> ks_status s \<notin> {Ks_DELETED, Ks_DISCONNECTED})
                 (\<lambda>s. s\<lparr>ks_status := (if map_of data ''operation'' = Some (JStr ''DELETE'')
                                       then ks_status s else Ks_FAILED),
                        ks_lastErrorCode := Some undeliverable_code, ks_lastErrorAt := Some at2\<rparr>)
                 (knowledgeSources d1)\<rparr>
         | _ \<Rightarrow> d1)"

definition fail_import_parse :: "runtime_outbox \<Rightarrow> json_object \<Rightarrow> db \<Rightarrow> db" where
  "fail_import_parse event data d =
     (case (js_str (map_of data ''importId''), js_int (map_of data ''generation'')) of
        (Some importId, Some generation) \<Rightarrow>
          d\<lparr>businessImports := update_many
             (\<lambda>b. bi_id b = importId \<and> bi_tenantId b = ob_tenantId event \<and> bi_generation b = generation \<and>
                  bi_state b \<in> {Bi_UPLOADED, Bi_SCANNING, Bi_PARSING, Bi_EXTRACTING})
             (\<lambda>b. b\<lparr>bi_state := Bi_FAILED_RETRYABLE,
                    bi_failureCode := Some ''BUSINESS_IMPORT_QUEUE_UNDELIVERABLE'',
                    bi_failureStage := Some ''QUEUE'', bi_retryable := True, bi_etag := bi_etag b + 1\<rparr>)
             (businessImports d)\<rparr>
      | _ \<Rightarrow> d)"

definition projection_delayable ::
    "runtime_outbox \<Rightarrow> string \<Rightarrow> string \<Rightarrow> string \<Rightarrow> int \<Rightarrow> business_import_application \<Rightarrow> bool" where
  "projection_delayable event importId applicationId revisionId revision a =
     (ba_id a = applicationId \<and> ba_tenantId a = ob_tenantId event \<and> ba_importId a = importId \<and>
      ba_businessRevisionId a = revisionId \<and> ba_resultingInformationRevision a = revision \<and>
      ba_projectionOutboxId a = Some (ob_id event) \<and>
      ba_projectionOutboxDedupeKey a = ob_dedupeKey event \<and> ba_projectionReceiptHash a = None \<and>
      ba_state a \<in> {Ba_COMMITTED, Ba_PROJECTING, Ba_PROJECTION_DELAYED})"

definition fail_import_project :: "runtime_outbox \<Rightarrow> json_object \<Rightarrow> db \<Rightarrow> db" where
  "fail_import_project event data d =
     (case (js_str (map_of data ''importId''), js_str (map_of data ''applicationId''),
            js_str (map_of data ''businessRevisionId''), js_int (map_of data ''businessRevision''),
            js_int (map_of data ''generation'')) of
        (Some importId, Some applicationId, Some revisionId, Some revision, Some generation) \<Rightarrow>
          (let P = projection_delayable event importId applicationId revisionId revision;
               d1 = d\<lparr>businessImportApplications :=
                        update_many P (\<lambda>a. a\<lparr>ba_state := Ba_PROJECTION_DELAYED\<rparr>) (businessImportApplications d)\<rparr>
           in if count_where P (businessImportApplications d) = 1 then
                d1\<lparr>businessImports := update_many
                   (\<lambda>b. bi_id b = importId \<and> bi_tenantId b = ob_tenantId event \<and>
                        bi_generation b = generation \<and> bi_state b \<in> {Bi_PROJECTING, Bi_PROJECTION_DELAYED})
                   (\<lambda>b. b\<lparr>bi_state := Bi_PROJECTION_DELAYED,
                          bi_failureCode := Some ''BUSINESS_INFORMATION_PROJECTION_QUEUE_UNDELIVERABLE'',
                          bi_failureStage := Some ''PROJECTION'', bi_retryable := False,
                          bi_etag := bi_etag b + 1\<rparr>)
                   (businessImports d1)\<rparr>
              else d1)
      | _ \<Rightarrow> d)"

definition fail_information_project :: "runtime_outbox \<Rightarrow> json_object \<Rightarrow> db \<Rightarrow> db" where
  "fail_information_project event data d =
     (case (js_str (map_of data ''businessRevisionId''), js_int (map_of data ''businessRevision'')) of
        (Some revisionId, Some revision) \<Rightarrow>
          (let state = List.find (\<lambda>s. bs_tenantId s = ob_tenantId event) (businessInformationStates d)
           in d\<lparr>auditLogs := auditLogs d @ [
             \<lparr>al_tenantId = ob_tenantId event, al_actorUserId = None,
              al_action = ''business_information.projection_delayed'',
              al_entityType = ''BusinessInformationRevision'', al_entityId = Some revisionId,
              al_payload = JObj [
                (''businessRevisionId'', JStr revisionId), (''businessRevision'', JInt revision),
                (''runtimeEventId'', JStr (ob_id event)),
                (''failureCode'', JStr ''BUSINESS_INFORMATION_PROJECTION_QUEUE_UNDELIVERABLE''),
                (''currentRevisionId'', opt_json JStr (Option.bind state bs_currentRevisionId)),
                (''currentRevision'', opt_json (\<lambda>s. JInt (bs_revision s)) state),
                (''lastProjectedRevisionId'', opt_json JStr (Option.bind state bs_lastProjectedRevisionId)),
                (''lastProjectedRevision'', opt_json JInt (Option.bind state bs_lastProjectedRevision)),
                (''receiptCreated'', JBool False), (''publicationChanged'', JBool False)]\<rparr>]\<rparr>)
      | _ \<Rightarrow> d)"

definition fail_channel_send :: "runtime_outbox \<Rightarrow> json_object \<Rightarrow> db \<Rightarrow> db" where
  "fail_channel_send event data d =
     (case js_str (map_of data ''messageId'') of
        None \<Rightarrow> d
      | Some messageId \<Rightarrow>
          d\<lparr>messages := update_many
             (\<lambda>m. ms_id m = messageId \<and> ms_tenantId m = ob_tenantId event \<and> ms_status m = Ms_QUEUED)
             (\<lambda>m. m\<lparr>ms_status := Ms_FAILED\<rparr>) (messages d)\<rparr>)"

definition event_data :: "runtime_outbox \<Rightarrow> json_object" where
  "event_data event =
     (case map_of (case ob_payload event of None \<Rightarrow> [] | Some p \<Rightarrow> json_entries p) ''data'' of
        None \<Rightarrow> [] | Some v \<Rightarrow> json_entries v)"

definition fail_aggregate ::
    "runtime_outbox \<Rightarrow> string \<times> string \<Rightarrow> (nat \<Rightarrow> int) \<Rightarrow> db \<Rightarrow> db" where
  "fail_aggregate event details clock d =
     (let data = event_data event in
      if ob_eventType event = ''ai.reply.requested'' then fail_ai_reply event data details (clock 0) d
      else if starts_with ''knowledge.source.'' (ob_eventType event)
           then fail_knowledge_source event data (clock 0) (clock 1) d
      else if ob_eventType event = ''business.import.parse.requested'' then fail_import_parse event data d
      else if ob_eventType event = ''business.import.project.requested'' then fail_import_project event data d
      else if ob_eventType event = ''business.information.project.requested''
           then fail_information_project event data d
      else if ob_eventType event = ''channels.send-message.requested'' then fail_channel_send event data d
      else d)"

definition failClaimedEvent ::
    "runtime_outbox \<Rightarrow> string \<Rightarrow> string \<times> string \<Rightarrow> bool \<Rightarrow> int \<Rightarrow> int \<Rightarrow> (nat \<Rightarrow> int) \<Rightarrow> db \<Rightarrow> db" where
  "failClaimedEvent event lockId details terminal delayMs now clock d =
     (let (cnt, d1) = mark_failed terminal (now + delayMs) details lockId (ob_id event) d
      in if cnt \<noteq> 1 \<or> \<not> terminal then d1 else fail_aggregate event details clock d1)"

section \<open>Dispatching one event\<close>

text \<open>
  The run of \<open>dispatch\<close> in its surroundings: the readings of the clock in program order, the
  identifier drawn for the lock, the renewals that fire while the publisher runs (with the
  readings of the clock, or nothing when the statement fails), what the publisher does with the
  envelope, whether the final statements fail, and the effect of every other process before each
  statement.
\<close>

record renewal =
  rw_before :: "db \<Rightarrow> db"
  rw_times :: "(int \<times> int) option"

record dispatch_env =
  de_leaseMs :: int
  de_lockId :: string
  de_now :: int
  de_deadlineNow :: int
  de_renewals :: "renewal list"
  de_publisher :: "envelope \<Rightarrow> error option"
  de_publishedAt :: int
  de_publishStatementError :: "error option"
  de_terminalNow :: int
  de_failNow :: int
  de_failClock :: "nat \<Rightarrow> int"
  de_failStatementFails :: bool
  de_beforeRead :: "db \<Rightarrow> db"
  de_beforePublished :: "db \<Rightarrow> db"
  de_beforeFail :: "db \<Rightarrow> db"

datatype dispatch_status = published | already_published | not_available

record dispatch_result =
  dr_eventId :: string
  dr_jobId :: string
  dr_status :: dispatch_status

definition dispatchEnvelope :: "runtime_outbox \<Rightarrow> envelope \<Rightarrow> envelope" where
  "dispatchEnvelope event e =
     e\<lparr>en_data := obj_set ''runtimeGeneration'' (JInt (ob_generation event))
                   (obj_set ''runtimeEventId'' (JStr (ob_id event)) (en_data e))\<rparr>"

text \<open>The renewals in order; the flag is \<open>leaseLost\<close>.\<close>

fun run_renewals ::
    "int \<Rightarrow> string \<Rightarrow> string \<Rightarrow> renewal list \<Rightarrow> bool \<times> db \<Rightarrow> bool \<times> db" where
  "run_renewals leaseMs lockId eventId [] s = s"
| "run_renewals leaseMs lockId eventId (w # ws) (lost, d) =
     run_renewals leaseMs lockId eventId ws
       (case rw_times w of
          None \<Rightarrow> (True, rw_before w d)
        | Some (at, now) \<Rightarrow>
            (case renew_lease at now leaseMs lockId eventId (rw_before w d) of
               (cnt, d') \<Rightarrow> (lost \<or> cnt \<noteq> 1, d')))"

text \<open>The body of the \<open>try\<close> block: the database after it, what was handed to the queue, and its outcome.\<close>

definition dispatch_try ::
    "dispatch_env \<Rightarrow> runtime_outbox \<Rightarrow> db \<Rightarrow> db \<times> envelope list \<times> (error + dispatch_result)" where
  "dispatch_try env event d =
     (if (case ob_deadlineAt event of None \<Rightarrow> False | Some t \<Rightarrow> t \<le> de_deadlineNow env)
      then (d, [], Inl (RuntimeOutboxDeadlineError (ob_id event)))
      else case parseRuntimeQueueEnvelope (ob_payload event) of
        Inl e \<Rightarrow> (d, [], Inl e)
      | Inr envelope \<Rightarrow>
          (let msg = dispatchEnvelope event envelope;
               (leaseLost, d1) =
                 run_renewals (de_leaseMs env) (de_lockId env) (ob_id event) (de_renewals env) (False, d)
           in case de_publisher env msg of
                Some e \<Rightarrow> (d1, [], Inl e)
              | None \<Rightarrow>
                  if leaseLost
                  then (d1, [msg], Inl (Error ''Runtime outbox lease was lost during queue publish.''))
                  else
                    (case de_publishStatementError env of
                       Some e \<Rightarrow> (de_beforePublished env d1, [msg], Inl e)
                     | None \<Rightarrow>
                         (case mark_published (de_publishedAt env) (de_lockId env) (ob_id event)
                                 (de_beforePublished env d1) of
                            (cnt, d2) \<Rightarrow>
                              if cnt = 0
                              then (d2, [msg], Inl (Error ''Runtime outbox lease was lost after queue publish.''))
                              else (d2, [msg], Inr \<lparr>dr_eventId = ob_id event,
                                     dr_jobId = en_jobId envelope, dr_status = published\<rparr>)))))"

definition dispatch_terminal :: "dispatch_env \<Rightarrow> runtime_outbox \<Rightarrow> error \<Rightarrow> bool" where
  "dispatch_terminal env event e =
     ((case e of RuntimeOutboxDeadlineError _ \<Rightarrow> True | _ \<Rightarrow> False) \<or>
      ob_attemptCount event \<ge> ob_maxAttempts event \<or>
      (case ob_deadlineAt event of None \<Rightarrow> False | Some t \<Rightarrow> t \<le> de_terminalNow env))"

definition dispatch_delay :: "int \<Rightarrow> int" where
  "dispatch_delay attemptCount = min 60000 (1000 * 2 ^ nat (min attemptCount 6))"

definition dispatch_catch ::
    "dispatch_env \<Rightarrow> runtime_outbox \<Rightarrow> error \<Rightarrow> db \<Rightarrow> db" where
  "dispatch_catch env event e d =
     (if de_failStatementFails env then de_beforeFail env d
      else failClaimedEvent event (de_lockId env) (errorDetails e) (dispatch_terminal env event e)
             (dispatch_delay (ob_attemptCount event)) (de_failNow env) (de_failClock env)
             (de_beforeFail env d))"

definition dispatch ::
    "dispatch_env \<Rightarrow> string \<Rightarrow> db \<Rightarrow> db \<times> envelope list \<times> (error + dispatch_result)" where
  "dispatch env eventId d =
     (case claim_event (de_now env) (de_leaseMs env) (de_lockId env) eventId d of
        (cnt, d1) \<Rightarrow>
          (let d2 = de_beforeRead env d1;
               row = List.find (\<lambda>r. ob_id r = eventId) (runtimeOutbox d2)
           in if cnt = 0 then
                (d2, [],
                 case row of
                   None \<Rightarrow> Inl (Error (''Runtime outbox event '' @ eventId @ '' was not found.''))
                 | Some existing \<Rightarrow>
                     andThen (parseRuntimeQueueEnvelope (ob_payload existing)) (\<lambda>envelope.
                       Inr \<lparr>dr_eventId = eventId, dr_jobId = en_jobId envelope,
                            dr_status = (if ob_status existing = Ob_PUBLISHED then already_published
                                         else not_available)\<rparr>))
              else
                (case row of
                   None \<Rightarrow> (d2, [], Inl (PrismaError ''P2025''))
                 | Some event \<Rightarrow>
                     (case dispatch_try env event d2 of
                        (d3, sent, Inr res) \<Rightarrow> (d3, sent, Inr res)
                      | (d3, sent, Inl e) \<Rightarrow> (dispatch_catch env event e d3, sent, Inl e)))))"

section \<open>Draining\<close>

definition due_events :: "int \<Rightarrow> nat \<Rightarrow> db \<Rightarrow> string list" where
  "due_events now limit d =
     map ob_id (take limit (js_sort (\<lambda>l r. ob_createdAt l - ob_createdAt r)
       (filter (outbox_claimable now) (runtimeOutbox d))))"

fun dispatch_all ::
    "(string \<Rightarrow> dispatch_env) \<Rightarrow> string list \<Rightarrow> db \<times> envelope list \<Rightarrow> db \<times> envelope list" where
  "dispatch_all env [] s = s"
| "dispatch_all env (i # ids) (d, sent) =
     (case dispatch (env i) i d of (d', new, _) \<Rightarrow> dispatch_all env ids (d', sent @ new))"

text \<open>The flag is \<open>draining\<close> of the dispatcher: a drain that is already under way returns 0.\<close>

definition drain ::
    "bool \<Rightarrow> int \<Rightarrow> nat \<Rightarrow> (string \<Rightarrow> dispatch_env) \<Rightarrow> db \<Rightarrow> db \<times> envelope list \<times> nat" where
  "drain draining now limit env d =
     (if draining then (d, [], 0)
      else (case dispatch_all env (due_events now limit d) (d, []) of
              (d', sent) \<Rightarrow> (d', sent, length (due_events now limit d))))"

end
