(* ===== verification/Outbox_Protocol.thy ===== *)
theory Outbox_Protocol
  imports Runtime_Outbox
begin

text \<open>
  The outbox as a protocol: the life cycle of one row as a step relation labelled with the lock
  that acts, the lease laws it inherits, the evolution of the whole table under every statement,
  and what a dispatch and a drain achieve.
\<close>

section \<open>The lease of an outbox row\<close>

definition outbox_final :: "runtime_outbox \<Rightarrow> bool" where
  "outbox_final r = (ob_status r = Ob_PUBLISHED \<or> ob_status r = Ob_DEAD_LETTER)"

interpretation ob_lease: leased_row ob_lockedBy ob_lockExpiresAt outbox_final outbox_claimable
    outbox_claim outbox_owned
proof
  fix now l r e
  show "outbox_claimable now r \<Longrightarrow> outbox_owned l r \<Longrightarrow> ob_lockExpiresAt r = Some e \<Longrightarrow> e \<le> now"
    by (auto simp: outbox_claimable_def outbox_owned_def split: option.splits)
  show "outbox_claimable now r \<Longrightarrow> \<not> outbox_final r"
    by (auto simp: outbox_claimable_def outbox_final_def)
qed (simp_all add: outbox_claim_def outbox_owned_def outbox_final_def)

section \<open>Life cycle of a row\<close>

text \<open>A fence (a handoff, a channel deactivation, a capability revocation) dead-letters a row that
  has not been published, whoever holds it.\<close>

definition outbox_fence :: "string \<Rightarrow> runtime_outbox \<Rightarrow> runtime_outbox" where
  "outbox_fence code r =
     r\<lparr>ob_status := Ob_DEAD_LETTER, ob_lockedAt := None, ob_lockExpiresAt := None,
       ob_lockedBy := None, ob_lastErrorCode := Some code, ob_lastErrorMessage := None\<rparr>"

inductive outbox_row_step :: "string option \<Rightarrow> runtime_outbox \<Rightarrow> runtime_outbox \<Rightarrow> bool" where
  claim: "outbox_claimable now r \<Longrightarrow> outbox_row_step (Some l) r (outbox_claim now till l r)"
| renew: "outbox_owned l r \<Longrightarrow> outbox_row_step (Some l) r (outbox_renewed at till r)"
| publish: "outbox_owned l r \<Longrightarrow> outbox_row_step (Some l) r (outbox_published at r)"
| fail: "outbox_owned l r \<Longrightarrow> outbox_row_step (Some l) r (outbox_failed terminal at details r)"
| fence: "\<not> outbox_final r \<Longrightarrow> outbox_row_step None r (outbox_fence c r)"

lemmas outbox_row_defs =
  outbox_claim_def outbox_renewed_def outbox_published_def outbox_failed_def outbox_fence_def

inductive_cases outbox_row_stepE: "outbox_row_step a r r'"

abbreviation outbox_any_step :: "runtime_outbox \<Rightarrow> runtime_outbox \<Rightarrow> bool" where
  "outbox_any_step r r' \<equiv> \<exists>a. outbox_row_step a r r'"

definition row_reaches :: "runtime_outbox \<Rightarrow> runtime_outbox \<Rightarrow> bool" where
  "row_reaches = outbox_any_step\<^sup>*\<^sup>*"

lemma row_reaches_refl [simp]: "row_reaches r r"
  by (simp add: row_reaches_def)

lemma row_reaches_step: "outbox_row_step a r r' \<Longrightarrow> row_reaches r r'"
  by (auto simp: row_reaches_def)

lemma row_reaches_trans: "row_reaches r r' \<Longrightarrow> row_reaches r' r'' \<Longrightarrow> row_reaches r r''"
  unfolding row_reaches_def by (rule rtranclp_trans)

lemma step_not_final: "outbox_row_step a r r' \<Longrightarrow> \<not> outbox_final r"
  by (auto elim!: outbox_row_stepE dest: ob_lease.claimable_not_final
      simp: outbox_owned_def outbox_final_def)

definition outbox_row_ok :: "runtime_outbox \<Rightarrow> bool" where
  "outbox_row_ok r =
     ((ob_status r = Ob_PUBLISHING) = (ob_lockedBy r \<noteq> None) \<and>
      (ob_lockedBy r = None) = (ob_lockExpiresAt r = None) \<and>
      (ob_lockedBy r = None) = (ob_lockedAt r = None) \<and>
      (ob_status r = Ob_PUBLISHED) = (ob_publishedAt r \<noteq> None) \<and>
      0 \<le> ob_attemptCount r \<and>
      (ob_status r \<in> {Ob_PUBLISHING, Ob_PUBLISHED, Ob_FAILED} \<longrightarrow> 1 \<le> ob_attemptCount r))"

lemma step_row_ok: "outbox_row_step a r r' \<Longrightarrow> outbox_row_ok r \<Longrightarrow> outbox_row_ok r'"
proof (erule outbox_row_stepE, goal_cases)
  case (1 now l till)
  then show ?case by (auto simp: outbox_row_ok_def outbox_claim_def outbox_claimable_def)
next
  case (5 c)
  then show ?case
    by (cases "ob_status r") (auto simp: outbox_row_ok_def outbox_fence_def outbox_final_def)
qed (auto simp: outbox_row_ok_def outbox_owned_def outbox_row_defs)

lemma new_event_ok [simp]: "outbox_row_ok (new_event i now x)"
  by (simp add: outbox_row_ok_def new_event_def)

text \<open>The columns that say what the event is; no step changes them.\<close>

definition event_identity ::
    "runtime_outbox \<Rightarrow> string \<times> (string \<times> string \<times> string \<times> int \<times> int \<times> string) \<times> string \<times>
       int \<times> json option \<times> int option \<times> int \<times> int" where
  "event_identity r =
     (ob_id r, outbox_aggregate_key r, ob_dedupeKey r, ob_schemaVersion r, ob_payload r,
      ob_deadlineAt r, ob_maxAttempts r, ob_createdAt r)"

lemma step_identity: "outbox_row_step a r r' \<Longrightarrow> event_identity r' = event_identity r"
  by (auto elim!: outbox_row_stepE
      simp: event_identity_def outbox_aggregate_key_def outbox_row_defs)

lemma step_attempts: "outbox_row_step a r r' \<Longrightarrow> ob_attemptCount r \<le> ob_attemptCount r'"
  by (auto elim!: outbox_row_stepE simp: outbox_row_defs)

lemma event_identityD:
  "event_identity r' = event_identity r \<Longrightarrow>
     ob_id r' = ob_id r \<and> ob_tenantId r' = ob_tenantId r \<and> ob_dedupeKey r' = ob_dedupeKey r \<and>
     outbox_aggregate_key r' = outbox_aggregate_key r \<and> ob_payload r' = ob_payload r"
  by (simp add: event_identity_def outbox_aggregate_key_def)

lemma steps_row:
  assumes "row_reaches r r'"
  shows "event_identity r' = event_identity r" "outbox_row_ok r \<Longrightarrow> outbox_row_ok r'"
    "ob_attemptCount r \<le> ob_attemptCount r'" "outbox_final r \<Longrightarrow> r' = r"
  using assms unfolding row_reaches_def
  by (induction rule: rtranclp_induct)
     (auto dest: step_identity step_row_ok step_attempts step_not_final)

section \<open>Evolution of the table\<close>

definition is_new_event :: "runtime_outbox \<Rightarrow> bool" where
  "is_new_event r = (\<exists>i now x. r = new_event i now x)"

definition outbox_evolves :: "runtime_outbox list \<Rightarrow> runtime_outbox list \<Rightarrow> bool" where
  "outbox_evolves t t' =
     (\<exists>u v. t' = u @ v \<and> list_all2 row_reaches t u \<and>
        list_all (\<lambda>r. \<exists>r0. is_new_event r0 \<and> row_reaches r0 r) v)"

lemma evolves_refl [simp]: "outbox_evolves t t"
  unfolding outbox_evolves_def
  by (rule exI [of _ t], rule exI [of _ "[]"]) (simp add: list_all2_refl)

lemma evolves_trans:
  assumes "outbox_evolves t t'" "outbox_evolves t' t''"
  shows "outbox_evolves t t''"
proof -
  from assms(1) obtain u v where uv: "t' = u @ v" "list_all2 row_reaches t u"
    "list_all (\<lambda>r. \<exists>r0. is_new_event r0 \<and> row_reaches r0 r) v"
    unfolding outbox_evolves_def by blast
  from assms(2) obtain u' v' w' where
    w: "t'' = (u' @ v') @ w'" "list_all2 row_reaches u u'" "list_all2 row_reaches v v'"
    "list_all (\<lambda>r. \<exists>r0. is_new_event r0 \<and> row_reaches r0 r) w'"
    unfolding outbox_evolves_def uv(1) list_all2_append1 by blast
  have "list_all2 row_reaches t u'"
    by (rule list_all2_trans [OF row_reaches_trans uv(2) w(2)])
  moreover have "list_all (\<lambda>r. \<exists>r0. is_new_event r0 \<and> row_reaches r0 r) v'"
    using uv(3) w(3) by (fastforce simp: list_all2_conv_all_nth list_all_length intro: row_reaches_trans)
  ultimately show ?thesis
    unfolding outbox_evolves_def using w(1,4)
    by (intro exI [of _ u'] exI [of _ "v' @ w'"]) simp
qed

lemma evolves_update:
  assumes "\<And>r. P r \<Longrightarrow> row_reaches r (f r)"
  shows "outbox_evolves t (update_many P f t)"
proof -
  have "list_all2 row_reaches t (update_many P f t)"
    using assms by (auto simp: update_many_def list_all2_conv_all_nth)
  then show ?thesis unfolding outbox_evolves_def by (intro exI [of _ "[]"] exI) auto
qed

lemma is_new_event_new [simp]: "is_new_event (new_event i now x)"
  by (auto simp: is_new_event_def)

lemma evolves_append_new: "outbox_evolves t (t @ [new_event i now x])"
  unfolding outbox_evolves_def
  by (rule exI [of _ t], rule exI [of _ "[new_event i now x]"])
     (auto intro: list_all2_refl exI [of _ "new_event i now x"])

lemma evolves_row:
  assumes "outbox_evolves t t'" "r \<in> set t"
  obtains r' where "r' \<in> set t'" "row_reaches r r'"
proof -
  from assms(1) obtain u v where uv: "t' = u @ v" "list_all2 row_reaches t u"
    unfolding outbox_evolves_def by blast
  from assms(2) obtain k where "k < length t" "t ! k = r" by (auto simp: in_set_conv_nth)
  with uv(2) have "row_reaches r (u ! k)" "u ! k \<in> set u" by (auto simp: list_all2_conv_all_nth)
  with uv(1) that show thesis by auto
qed

lemma evolves_ok:
  assumes "outbox_evolves t t'" "list_all outbox_row_ok t"
  shows "list_all outbox_row_ok t'"
proof -
  from assms obtain u v where uv: "t' = u @ v" "list_all2 row_reaches t u"
    "list_all (\<lambda>r. \<exists>r0. is_new_event r0 \<and> row_reaches r0 r) v"
    unfolding outbox_evolves_def by blast
  have "list_all outbox_row_ok u"
    using uv(2) assms(2) steps_row(2) by (auto simp: list_all2_conv_all_nth list_all_length)
  moreover have "list_all outbox_row_ok v"
    using uv(3) steps_row(2) new_event_ok by (fastforce simp: list_all_iff is_new_event_def)
  ultimately show ?thesis by (simp add: uv(1))
qed

lemma update_outbox_evolves:
  assumes "\<And>r. P r \<Longrightarrow> outbox_row_step (a r) r (f r)"
  shows "outbox_evolves (runtimeOutbox d) (runtimeOutbox (snd (update_outbox P f d)))"
proof -
  have "outbox_evolves (runtimeOutbox d) (update_many P f (runtimeOutbox d))"
    by (rule evolves_update) (rule row_reaches_step [OF assms])
  then show ?thesis by (simp add: update_outbox_def)
qed

lemma claim_event_evolves: "outbox_evolves (runtimeOutbox d) (runtimeOutbox (snd (claim_event now ms l i d)))"
  unfolding claim_event_def
  by (rule update_outbox_evolves [where a = "\<lambda>_. Some l"]) (simp add: outbox_row_step.claim)

lemma renew_lease_evolves: "outbox_evolves (runtimeOutbox d) (runtimeOutbox (snd (renew_lease at now ms l i d)))"
  unfolding renew_lease_def
  by (rule update_outbox_evolves [where a = "\<lambda>_. Some l"]) (rule outbox_row_step.renew, simp)

lemma mark_published_evolves: "outbox_evolves (runtimeOutbox d) (runtimeOutbox (snd (mark_published at l i d)))"
  unfolding mark_published_def
  by (rule update_outbox_evolves [where a = "\<lambda>_. Some l"]) (rule outbox_row_step.publish, simp)

lemma mark_failed_evolves: "outbox_evolves (runtimeOutbox d) (runtimeOutbox (snd (mark_failed tm at dt l i d)))"
  unfolding mark_failed_def
  by (rule update_outbox_evolves [where a = "\<lambda>_. Some l"]) (rule outbox_row_step.fail, simp)

lemma fail_effects_outbox [simp]:
  "runtimeOutbox (fail_ai_reply ev data dt at d) = runtimeOutbox d"
  "runtimeOutbox (fail_knowledge_source ev data at1 at2 d) = runtimeOutbox d"
  "runtimeOutbox (fail_import_parse ev data d) = runtimeOutbox d"
  "runtimeOutbox (fail_import_project ev data d) = runtimeOutbox d"
  "runtimeOutbox (fail_information_project ev data d) = runtimeOutbox d"
  "runtimeOutbox (fail_channel_send ev data d) = runtimeOutbox d"
  by (simp_all add: fail_ai_reply_def fail_knowledge_source_def fail_import_parse_def
      fail_import_project_def fail_information_project_def fail_channel_send_def Let_def
      split: option.split)

lemma fail_aggregate_outbox [simp]:
  "runtimeOutbox (fail_aggregate event details clock d) = runtimeOutbox d"
  by (simp add: fail_aggregate_def Let_def)

lemma failClaimedEvent_evolves:
  "outbox_evolves (runtimeOutbox d) (runtimeOutbox (failClaimedEvent ev l dt tm delay now clk d))"
  using mark_failed_evolves [of d tm "now + delay" dt l "ob_id ev"]
  by (cases "mark_failed tm (now + delay) dt l (ob_id ev) d") (simp add: failClaimedEvent_def)

section \<open>Dispatching among other processes\<close>

text \<open>Other processes may do to the outbox whatever its statements allow.\<close>

definition outbox_benign :: "(db \<Rightarrow> db) \<Rightarrow> bool" where
  "outbox_benign f = (\<forall>d. outbox_evolves (runtimeOutbox d) (runtimeOutbox (f d)))"

definition env_benign :: "dispatch_env \<Rightarrow> bool" where
  "env_benign env =
     (outbox_benign (de_beforeRead env) \<and> outbox_benign (de_beforePublished env) \<and>
      outbox_benign (de_beforeFail env) \<and> (\<forall>w\<in>set (de_renewals env). outbox_benign (rw_before w)))"

lemma benignD: "outbox_benign f \<Longrightarrow> outbox_evolves t (runtimeOutbox d) \<Longrightarrow> outbox_evolves t (runtimeOutbox (f d))"
  unfolding outbox_benign_def by (blast intro: evolves_trans)

lemma run_renewals_evolves:
  assumes "\<forall>w\<in>set ws. outbox_benign (rw_before w)" "outbox_evolves t (runtimeOutbox (snd s))"
  shows "outbox_evolves t (runtimeOutbox (snd (run_renewals ms l i ws s)))"
  using assms
proof (induction ms l i ws s rule: run_renewals.induct)
  case (2 ms l i w ws lost d)
  have before: "outbox_evolves t (runtimeOutbox (rw_before w d))"
    using 2(2,3) benignD by simp
  have "outbox_evolves t (runtimeOutbox (snd (renew_lease a n ms l i (rw_before w d))))" for a n
    using evolves_trans [OF before renew_lease_evolves] .
  then show ?case
    using 2(1) 2(2) before by (auto split: option.splits prod.splits simp: split_beta)
qed simp

lemma dispatch_try_evolves:
  assumes "env_benign env" "outbox_evolves t (runtimeOutbox d)"
  shows "outbox_evolves t (runtimeOutbox (fst (dispatch_try env event d)))"
proof -
  obtain lost d1 where r:
    "run_renewals (de_leaseMs env) (de_lockId env) (ob_id event) (de_renewals env) (False, d) = (lost, d1)"
    by fastforce
  have d1: "outbox_evolves t (runtimeOutbox d1)"
    using run_renewals_evolves [of "de_renewals env" t "(False, d)"] assms r
    by (metis env_benign_def snd_conv)
  have d2: "outbox_evolves t (runtimeOutbox (de_beforePublished env d1))"
    using assms(1) d1 benignD by (auto simp: env_benign_def)
  have "outbox_evolves t (runtimeOutbox (snd (mark_published at l i (de_beforePublished env d1))))" for at l i
    using evolves_trans [OF d2 mark_published_evolves] .
  then show ?thesis
    using d1 d2 assms(2)
    by (simp add: dispatch_try_def r Let_def split_beta split: option.split sum.split)
qed

lemma dispatch_catch_evolves:
  assumes "env_benign env" "outbox_evolves t (runtimeOutbox d)"
  shows "outbox_evolves t (runtimeOutbox (dispatch_catch env event e d))"
  using assms benignD evolves_trans [OF _ failClaimedEvent_evolves]
  by (simp add: dispatch_catch_def env_benign_def)

lemma dispatch_evolves:
  assumes "env_benign env"
  shows "outbox_evolves (runtimeOutbox d) (runtimeOutbox (fst (dispatch env i d)))"
proof -
  obtain n d1 where c: "claim_event (de_now env) (de_leaseMs env) (de_lockId env) i d = (n, d1)"
    by fastforce
  let ?d2 = "de_beforeRead env d1"
  have d1: "outbox_evolves (runtimeOutbox d) (runtimeOutbox d1)"
    using claim_event_evolves [of d "de_now env" "de_leaseMs env" "de_lockId env" i] c by simp
  then have d2: "outbox_evolves (runtimeOutbox d) (runtimeOutbox ?d2)"
    using assms benignD by (auto simp: env_benign_def)
  have d3: "outbox_evolves (runtimeOutbox d) (runtimeOutbox (fst (dispatch_try env ev ?d2)))" for ev
    by (rule dispatch_try_evolves [OF assms d2])
  have "outbox_evolves (runtimeOutbox d)
      (runtimeOutbox (dispatch_catch env ev e (fst (dispatch_try env ev ?d2))))" for ev e
    by (rule dispatch_catch_evolves [OF assms d3])
  then show ?thesis
    using d2 d3 unfolding dispatch_def c
    by (auto simp: Let_def split: option.split prod.split sum.split) (metis fst_conv)+
qed

section \<open>Dispatching alone\<close>

text \<open>
  The specification of a dispatch that no other process disturbs: one atomic step that either
  publishes the event or records its failure. Leases, guards and renewals do not show.
\<close>

definition env_quiet :: "dispatch_env \<Rightarrow> bool" where
  "env_quiet env =
     (de_beforeRead env = (\<lambda>d. d) \<and> de_beforePublished env = (\<lambda>d. d) \<and> de_beforeFail env = (\<lambda>d. d) \<and>
      (\<forall>w\<in>set (de_renewals env). rw_before w = (\<lambda>d. d) \<and> rw_times w \<noteq> None) \<and>
      de_publishStatementError env = None \<and> \<not> de_failStatementFails env)"

definition put_event :: "runtime_outbox \<Rightarrow> db \<Rightarrow> db" where
  "put_event r d = d\<lparr>runtimeOutbox := put_row ob_id r (runtimeOutbox d)\<rparr>"

definition publish_outcome :: "dispatch_env \<Rightarrow> runtime_outbox \<Rightarrow> error + envelope \<times> string" where
  "publish_outcome env event =
     (if (case ob_deadlineAt event of None \<Rightarrow> False | Some t \<Rightarrow> t \<le> de_deadlineNow env)
      then Inl (RuntimeOutboxDeadlineError (ob_id event))
      else andThen (parseRuntimeQueueEnvelope (ob_payload event)) (\<lambda>e.
        case de_publisher env (dispatchEnvelope event e) of
          Some err \<Rightarrow> Inl err
        | None \<Rightarrow> Inr (dispatchEnvelope event e, en_jobId e)))"

definition dispatch_spec ::
    "dispatch_env \<Rightarrow> runtime_outbox \<Rightarrow> db \<Rightarrow> db \<times> envelope list \<times> (error + dispatch_result)" where
  "dispatch_spec env r d =
     (let event = outbox_claim (de_now env) (de_now env + de_leaseMs env) (de_lockId env) r in
      case publish_outcome env event of
        Inr (msg, jobId) \<Rightarrow>
          (put_event (outbox_published (de_publishedAt env) event) d, [msg],
           Inr \<lparr>dr_eventId = ob_id r, dr_jobId = jobId, dr_status = published\<rparr>)
      | Inl e \<Rightarrow>
          (let terminal = dispatch_terminal env event e;
               d1 = put_event (outbox_failed terminal
                      (de_failNow env + dispatch_delay (ob_attemptCount event)) (errorDetails e) event) d
           in (if terminal then fail_aggregate event (errorDetails e) (de_failClock env) d1 else d1,
               [], Inl e)))"

lemma outbox_row_id [simp]:
  "ob_id (outbox_claim now till l r) = ob_id r" "ob_id (outbox_renewed at till r) = ob_id r"
  "ob_id (outbox_published at r) = ob_id r" "ob_id (outbox_failed tm at dt r) = ob_id r"
  by (simp_all add: outbox_row_defs)

lemma update_outbox_row:
  assumes "unique_on ob_id (runtimeOutbox d)" "r \<in> set (runtimeOutbox d)" "Q r" "ob_id (f r) = ob_id r"
  shows "update_outbox (\<lambda>x. ob_id x = ob_id r \<and> Q x) f d = (1, put_event (f r) d)"
  using update_many_unique [where key = ob_id and Q = Q and f = f, OF assms]
    count_where_one [where key = ob_id and Q = Q, OF assms(1-3)]
  by (simp add: update_outbox_def put_event_def)

lemma put_event_simps [simp]:
  "unique_on ob_id (runtimeOutbox (put_event r d)) = unique_on ob_id (runtimeOutbox d)"
  "ob_id r = ob_id r' \<Longrightarrow> put_event r' (put_event r d) = put_event r' d"
  by (simp_all add: put_event_def put_row_put_row)

lemma in_put_event: "x \<in> set (runtimeOutbox d) \<Longrightarrow> ob_id x = ob_id r \<Longrightarrow> r \<in> set (runtimeOutbox (put_event r d))"
  by (simp add: put_event_def in_put_row)

lemma renewed_overwritten [simp]:
  "outbox_published p (outbox_renewed at till r) = outbox_published p r"
  "outbox_failed tm a dt (outbox_renewed at till r) = outbox_failed tm a dt r"
  "outbox_owned l (outbox_renewed at till r) = outbox_owned l r"
  by (simp_all add: outbox_row_defs outbox_owned_def)

text \<open>A row that went through some renewals.\<close>

definition renewed_from :: "runtime_outbox \<Rightarrow> runtime_outbox \<Rightarrow> bool" where
  "renewed_from r r' =
     (ob_id r' = ob_id r \<and> (\<forall>l. outbox_owned l r' = outbox_owned l r) \<and>
      (\<forall>p. outbox_published p r' = outbox_published p r) \<and>
      (\<forall>tm a dt. outbox_failed tm a dt r' = outbox_failed tm a dt r))"

lemma renewed_from_refl [simp]: "renewed_from r r"
  by (simp add: renewed_from_def)

lemma run_renewals_quiet:
  assumes "unique_on ob_id (runtimeOutbox d)" "x \<in> set (runtimeOutbox d)" "ob_id x = ob_id r"
    and "outbox_owned l r" "\<forall>w\<in>set ws. rw_before w = (\<lambda>d. d) \<and> rw_times w \<noteq> None"
  shows "\<exists>r'. renewed_from r r' \<and>
    run_renewals ms l (ob_id r) ws (False, put_event r d) = (False, put_event r' d)"
  using assms(3-5)
proof (induction ws arbitrary: r)
  case Nil
  then show ?case by (auto intro: exI [of _ r])
next
  case (Cons w ws)
  obtain at n where w: "rw_before w = (\<lambda>d. d)" "rw_times w = Some (at, n)" using Cons.prems(3) by auto
  let ?r = "outbox_renewed at (n + ms) r"
  have "renew_lease at n ms l (ob_id r) (put_event r d) = (1, put_event ?r (put_event r d))"
    unfolding renew_lease_def
    by (rule update_outbox_row) (use assms(1,2) Cons.prems in \<open>simp_all add: in_put_event\<close>)
  then have step: "run_renewals ms l (ob_id r) (w # ws) (False, put_event r d) =
      run_renewals ms l (ob_id ?r) ws (False, put_event ?r d)"
    by (simp add: w)
  obtain r' where r': "renewed_from ?r r'"
    "run_renewals ms l (ob_id ?r) ws (False, put_event ?r d) = (False, put_event r' d)"
    using Cons.IH [of ?r] Cons.prems by auto
  have "renewed_from r r'" using r'(1) by (simp add: renewed_from_def)
  with step r'(2) show ?case by auto
qed

lemma claim_quiet:
  assumes "unique_on ob_id (runtimeOutbox d)" "r \<in> set (runtimeOutbox d)" "outbox_claimable now r"
  shows "claim_event now ms l (ob_id r) d = (1, put_event (outbox_claim now (now + ms) l r) d)"
  unfolding claim_event_def by (rule update_outbox_row) (use assms in simp_all)

lemma mark_quiet:
  assumes "unique_on ob_id (runtimeOutbox d)" "x \<in> set (runtimeOutbox d)" "ob_id x = ob_id r"
    and "outbox_owned l r"
  shows "mark_published at l (ob_id r) (put_event r d) = (1, put_event (outbox_published at r) d)"
    and "mark_failed tm at dt l (ob_id r) (put_event r d) = (1, put_event (outbox_failed tm at dt r) d)"
proof -
  have r: "r \<in> set (runtimeOutbox (put_event r d))" using assms in_put_event by blast
  have "mark_published at l (ob_id r) (put_event r d) =
      (1, put_event (outbox_published at r) (put_event r d))"
    unfolding mark_published_def by (rule update_outbox_row) (use assms r in simp_all)
  then show "mark_published at l (ob_id r) (put_event r d) = (1, put_event (outbox_published at r) d)"
    by simp
  have "mark_failed tm at dt l (ob_id r) (put_event r d) =
      (1, put_event (outbox_failed tm at dt r) (put_event r d))"
    unfolding mark_failed_def by (rule update_outbox_row) (use assms r in simp_all)
  then show "mark_failed tm at dt l (ob_id r) (put_event r d) = (1, put_event (outbox_failed tm at dt r) d)"
    by simp
qed

lemma dispatch_catch_quiet:
  assumes "env_quiet env" "unique_on ob_id (runtimeOutbox d)" "x \<in> set (runtimeOutbox d)"
    and "ob_id x = ob_id ev" "outbox_owned (de_lockId env) ev" "renewed_from ev ev'"
  shows "dispatch_catch env ev e (put_event ev' d) =
    (let d1 = put_event (outbox_failed (dispatch_terminal env ev e)
           (de_failNow env + dispatch_delay (ob_attemptCount ev)) (errorDetails e) ev) d
     in if dispatch_terminal env ev e then fail_aggregate ev (errorDetails e) (de_failClock env) d1 else d1)"
proof -
  have ev': "ob_id ev' = ob_id ev" "outbox_owned (de_lockId env) ev'"
    "\<And>tm a dt. outbox_failed tm a dt ev' = outbox_failed tm a dt ev"
    using assms(5,6) by (auto simp: renewed_from_def)
  have "mark_failed tm at dt (de_lockId env) (ob_id ev) (put_event ev' d) =
      (1, put_event (outbox_failed tm at dt ev) d)" for tm at dt
    using mark_quiet(2) [OF assms(2,3) _ ev'(2), of tm at dt] ev' assms(4) by simp
  then show ?thesis
    using assms(1) by (simp add: dispatch_catch_def env_quiet_def failClaimedEvent_def Let_def)
qed

lemma dispatch_try_quiet:
  assumes "env_quiet env" "unique_on ob_id (runtimeOutbox d)" "x \<in> set (runtimeOutbox d)"
    and "ob_id x = ob_id ev" "outbox_owned (de_lockId env) ev"
  shows "case publish_outcome env ev of
       Inr (msg, jobId) \<Rightarrow> dispatch_try env ev (put_event ev d) =
         (put_event (outbox_published (de_publishedAt env) ev) d, [msg],
          Inr \<lparr>dr_eventId = ob_id ev, dr_jobId = jobId, dr_status = published\<rparr>)
     | Inl e \<Rightarrow> \<exists>ev'. renewed_from ev ev' \<and> dispatch_try env ev (put_event ev d) = (put_event ev' d, [], Inl e)"
proof -
  have "\<forall>w\<in>set (de_renewals env). rw_before w = (\<lambda>d. d) \<and> rw_times w \<noteq> None"
    using assms(1) by (simp add: env_quiet_def)
  from run_renewals_quiet [OF assms(2-5) this]
  obtain ev' where ev': "renewed_from ev ev'"
    and run: "run_renewals (de_leaseMs env) (de_lockId env) (ob_id ev) (de_renewals env) (False, put_event ev d)
       = (False, put_event ev' d)" by blast
  have same: "ob_id ev' = ob_id ev" "outbox_owned (de_lockId env) ev'"
    "\<And>p. outbox_published p ev' = outbox_published p ev"
    using ev' assms(5) by (auto simp: renewed_from_def)
  have mark: "mark_published at (de_lockId env) (ob_id ev) (put_event ev' d) =
      (1, put_event (outbox_published at ev) d)" for at
    using mark_quiet(1) [OF assms(2,3) _ same(2), of at] same assms(4) by simp
  have q: "de_beforePublished env = (\<lambda>d. d)" "de_publishStatementError env = None"
    using assms(1) by (simp_all add: env_quiet_def)
  show ?thesis
    using ev'
    by (auto simp: publish_outcome_def dispatch_try_def run mark q Let_def intro: exI [of _ ev]
        split: option.split sum.split)
qed

lemma dispatch_quiet_eq:
  assumes "unique_on ob_id (runtimeOutbox d)" "r \<in> set (runtimeOutbox d)"
    and "outbox_claimable (de_now env) r" "env_quiet env"
  shows "dispatch env (ob_id r) d = dispatch_spec env r d"
proof -
  let ?ev = "outbox_claim (de_now env) (de_now env + de_leaseMs env) (de_lockId env) r"
  have find: "List.find (\<lambda>x. ob_id x = ob_id r) (runtimeOutbox (put_event ?ev d)) = Some ?ev"
    using find_put_row [OF assms(2), of ob_id ?ev] by (simp add: put_event_def)
  have q: "de_beforeRead env = (\<lambda>d. d)" using assms(4) by (simp add: env_quiet_def)
  have own: "outbox_owned (de_lockId env) ?ev" by (rule ob_lease.owned_claim)
  note body = dispatch_try_quiet [OF assms(4,1,2) _ own]
  note catch = dispatch_catch_quiet [OF assms(4,1,2) _ own]
  show ?thesis
  proof (cases "publish_outcome env ?ev")
    case (Inl e)
    with body obtain ev' where "renewed_from ?ev ev'"
      "dispatch_try env ?ev (put_event ?ev d) = (put_event ev' d, [], Inl e)" by auto
    with catch [of ev'] Inl show ?thesis
      by (simp add: dispatch_def dispatch_spec_def claim_quiet [OF assms(1-3)] q find Let_def)
  next
    case (Inr x)
    with body show ?thesis
      by (cases x) (simp add: dispatch_def dispatch_spec_def claim_quiet [OF assms(1-3)] q find Let_def)
  qed
qed

end
