(* ===== verification/Transactions.thy ===== *)
theory Transactions
  imports Database
begin

text \<open>
  Transactions that are tried again. Several services run an interactive transaction in a loop and
  repeat it while the database reports a conflict, up to a fixed number of tries. Try \<open>k\<close> runs on
  the database it finds; its commit may fail with an error of its own; a try that fails leaves the
  database as it found it.
\<close>

definition try_outcome ::
    "(nat \<Rightarrow> db) \<Rightarrow> (nat \<Rightarrow> error option) \<Rightarrow> (nat \<Rightarrow> db \<Rightarrow> error + ('a \<times> db)) \<Rightarrow> nat \<Rightarrow> error + ('a \<times> db)" where
  "try_outcome dbs commitErrors work k =
     (case work k (dbs k) of
        Inl e \<Rightarrow> Inl e
      | Inr r \<Rightarrow> (case commitErrors k of Some e \<Rightarrow> Inl e | None \<Rightarrow> Inr r))"

text \<open>The loop: \<open>last\<close> is the number of the last try.\<close>

function retry_tx ::
    "nat \<Rightarrow> (error \<Rightarrow> bool) \<Rightarrow> (nat \<Rightarrow> db) \<Rightarrow> (nat \<Rightarrow> error option) \<Rightarrow> (nat \<Rightarrow> db \<Rightarrow> error + ('a \<times> db)) \<Rightarrow> nat
     \<Rightarrow> db \<times> (error + 'a)" where
  "retry_tx final retryable dbs commitErrors work k =
     (case try_outcome dbs commitErrors work k of
        Inr (x, d') \<Rightarrow> (d', Inr x)
      | Inl e \<Rightarrow> if k \<ge> final \<or> \<not> retryable e then (dbs k, Inl e)
                 else retry_tx final retryable dbs commitErrors work (Suc k))"
  by pat_completeness auto
termination by (relation "measure (\<lambda>(final, _, _, _, _, k). final - k)") auto

declare retry_tx.simps [simp del]

definition tx_result :: "(nat \<Rightarrow> db) \<Rightarrow> nat \<Rightarrow> error + ('a \<times> db) \<Rightarrow> db \<times> (error + 'a)" where
  "tx_result dbs n r = (case r of Inr (x, d') \<Rightarrow> (d', Inr x) | Inl e \<Rightarrow> (dbs n, Inl e))"

lemma retry_tx_result:
  "k \<le> final \<Longrightarrow> \<exists>n. k \<le> n \<and> n \<le> final \<and>
     (\<forall>j. k \<le> j \<and> j < n \<longrightarrow> (\<exists>e. try_outcome dbs ce work j = Inl e \<and> retryable e)) \<and>
     retry_tx final retryable dbs ce work k = tx_result dbs n (try_outcome dbs ce work n) \<and>
     (n < final \<longrightarrow> (\<forall>e. try_outcome dbs ce work n = Inl e \<longrightarrow> \<not> retryable e))"
proof (induction "final - k" arbitrary: k)
  case 0
  then have k: "k = final" by simp
  show ?case
    by (rule exI [of _ final], subst k, subst retry_tx.simps) (auto simp: k tx_result_def split: sum.splits)
next
  case (Suc m)
  show ?case
  proof (cases "\<exists>e. try_outcome dbs ce work k = Inl e \<and> retryable e")
    case True
    have lt: "k < final" and m: "m = final - Suc k" using Suc(2) by simp_all
    obtain n where n: "Suc k \<le> n" "n \<le> final"
      "\<forall>j. Suc k \<le> j \<and> j < n \<longrightarrow> (\<exists>e. try_outcome dbs ce work j = Inl e \<and> retryable e)"
      "retry_tx final retryable dbs ce work (Suc k) = tx_result dbs n (try_outcome dbs ce work n)"
      "n < final \<longrightarrow> (\<forall>e. try_outcome dbs ce work n = Inl e \<longrightarrow> \<not> retryable e)"
      using Suc.hyps(1) [OF m] lt by auto
    have s: "retry_tx final retryable dbs ce work k = retry_tx final retryable dbs ce work (Suc k)"
      by (subst retry_tx.simps) (use True lt in auto)
    have "\<exists>e. try_outcome dbs ce work j = Inl e \<and> retryable e" if "k \<le> j" "j < n" for j
      using that n(3) True by (cases "j = k") auto
    with n s show ?thesis by (intro exI [of _ n]) auto
  next
    case False
    then have "retry_tx final retryable dbs ce work k = tx_result dbs k (try_outcome dbs ce work k)"
      by (subst retry_tx.simps) (auto simp: tx_result_def split: sum.splits)
    with False Suc.prems show ?thesis by (intro exI [of _ k]) auto
  qed
qed

lemma retry_tx_Inr:
  assumes "retry_tx final retryable dbs ce work 0 = (d', Inr x)"
  obtains k where "k \<le> final" "work k (dbs k) = Inr (x, d')" "ce k = None"
proof -
  obtain n where n: "n \<le> final"
    "retry_tx final retryable dbs ce work 0 = tx_result dbs n (try_outcome dbs ce work n)"
    using retry_tx_result [of 0 final dbs ce work retryable] by auto
  then have "work n (dbs n) = Inr (x, d') \<and> ce n = None"
    using assms by (auto simp: tx_result_def try_outcome_def split: sum.splits option.splits)
  with n(1) that show thesis by blast
qed

lemma retry_tx_Inl:
  assumes "retry_tx final retryable dbs ce work 0 = (d', Inl e)"
  obtains k where "k \<le> final" "d' = dbs k"
proof -
  obtain n where n: "n \<le> final"
    "retry_tx final retryable dbs ce work 0 = tx_result dbs n (try_outcome dbs ce work n)"
    using retry_tx_result [of 0 final dbs ce work retryable] by auto
  then have "d' = dbs n" using assms by (auto simp: tx_result_def split: sum.splits)
  with n(1) that show thesis by blast
qed

lemma retry_tx_first:
  "work 0 (dbs 0) = Inr (x, d') \<Longrightarrow> ce 0 = None \<Longrightarrow> retry_tx final retryable dbs ce work 0 = (d', Inr x)"
  by (subst retry_tx.simps) (simp add: try_outcome_def)

lemma retry_tx_first_error:
  "work 0 (dbs 0) = Inl e \<Longrightarrow> \<not> retryable e \<Longrightarrow> retry_tx final retryable dbs ce work 0 = (dbs 0, Inl e)"
  by (subst retry_tx.simps) (simp add: try_outcome_def)

end
