(* ===== verification/Ai_Reply_Run.thy ===== *)
theory Ai_Reply_Run
  imports Reply_Admission Outbox_Protocol Transactions
begin

text \<open>
  Runs of automatic replies. Enqueueing a reply with its run and outbox event
  (\<open>packages/runtime-queue/src/index.ts\<close>), the worker's attempts on a run
  (\<open>apps/worker/src/ai/ai-reply-reliability.ts\<close>), the business identity an attempt loads
  (\<open>packages/knowledge/src/ai-business-identity.ts\<close>), and the fences of the API that revoke
  pending replies (\<open>conversations.service.ts\<close>, \<open>channels.service.ts\<close>,
  \<open>knowledge-v2-capability.service.ts\<close>).
\<close>

section \<open>Statements on runs and conversations\<close>

definition insert_run :: "ai_reply_run \<Rightarrow> db \<Rightarrow> error + db" where
  "insert_run r d =
     (if list_ex (\<lambda>x. rn_id x = rn_id r \<or>
            (rn_tenantId x, rn_idempotencyKey x) = (rn_tenantId r, rn_idempotencyKey r) \<or>
            (rn_tenantId x, rn_inboundMessageId x) = (rn_tenantId r, rn_inboundMessageId r) \<or>
            (rn_conversationId x, rn_sequence x) = (rn_conversationId r, rn_sequence r)) (aiReplyRuns d)
      then Inl (PrismaError ''P2002'')
      else Inr (d\<lparr>aiReplyRuns := aiReplyRuns d @ [r]\<rparr>))"

definition update_run :: "string \<Rightarrow> (ai_reply_run \<Rightarrow> ai_reply_run) \<Rightarrow> db \<Rightarrow> db" where
  "update_run runId f d = d\<lparr>aiReplyRuns := update_many (\<lambda>r. rn_id r = runId) f (aiReplyRuns d)\<rparr>"

definition run_superseded :: "int \<Rightarrow> string \<Rightarrow> ai_reply_run \<Rightarrow> ai_reply_run" where
  "run_superseded at code r =
     r\<lparr>rn_status := Rn_SUPERSEDED, rn_completedAt := Some at, rn_errorCode := Some code,
       rn_errorMessage := None\<rparr>"

text \<open>Superseding the open runs of a conversation that come before a generation and sequence.\<close>

definition supersede_older :: "string \<Rightarrow> string \<Rightarrow> int \<Rightarrow> int \<Rightarrow> int \<Rightarrow> db \<Rightarrow> db" where
  "supersede_older tenantId conversationId generation sequence at d =
     d\<lparr>aiReplyRuns := update_many
         (\<lambda>r. rn_tenantId r = tenantId \<and> rn_conversationId r = conversationId \<and> run_active (rn_status r) \<and>
              (rn_generation r < generation \<or> rn_generation r = generation \<and> rn_sequence r < sequence))
         (run_superseded at ''SUPERSEDED_BY_NEWER_INPUT'') (aiReplyRuns d)\<rparr>"

definition find_conversation :: "string \<Rightarrow> string \<Rightarrow> db \<Rightarrow> conversation option" where
  "find_conversation tenantId conversationId d =
     List.find (\<lambda>c. cv_id c = conversationId \<and> cv_tenantId c = tenantId \<and> cv_deletedAt c = None)
       (conversations d)"

definition find_inbound :: "string \<Rightarrow> string \<Rightarrow> string \<Rightarrow> db \<Rightarrow> message option" where
  "find_inbound tenantId conversationId messageId d =
     List.find (\<lambda>m. ms_id m = messageId \<and> ms_tenantId m = tenantId \<and>
                    ms_conversationId m = conversationId \<and> ms_direction m = INBOUND) (messages d)"

definition find_run_of_message :: "string \<Rightarrow> string \<Rightarrow> db \<Rightarrow> ai_reply_run option" where
  "find_run_of_message tenantId messageId d =
     List.find (\<lambda>r. rn_tenantId r = tenantId \<and> rn_inboundMessageId r = messageId) (aiReplyRuns d)"

section \<open>Enqueueing a reply\<close>

record reply_request =
  rq_tenantId :: string
  rq_conversationId :: string
  rq_triggerMessageId :: string
  rq_text :: string
  rq_source :: string
  rq_requestedByUserId :: "string option option"

datatype AiReplyQueueEventRejectionReason =
    AdmissionRejected AutomaticReplyAdmissionReason
  | EXISTING_AI_REPLY_RUN_PUBLICATION_MISMATCH
  | EXISTING_AI_REPLY_RUN_CAPABILITY_MISMATCH
  | EXISTING_AI_REPLY_RUN_OPERATIONAL_BINDING_MISMATCH

record queued_reply =
  qr_event :: runtime_outbox
  qr_run :: ai_reply_run
  qr_admission :: admission_binding

text \<open>
  The surroundings of the transaction: the host, the identifiers drawn for a new run and a new
  event, and the readings of the clock in program order.
\<close>

record enqueue_env =
  ee_host :: host
  ee_runId :: string
  ee_eventId :: string
  ee_clock :: "nat \<Rightarrow> int"

definition identity_json :: "customer_identity \<Rightarrow> json" where
  "identity_json c = JObj [(''id'', JStr (ci_id c)), (''version'', JInt (ci_version c)),
     (''subjectHash'', JStr (ci_subjectHash c)), (''attestationHash'', JStr (ci_attestationHash c))]"

definition job_data_json :: "ai_reply_job \<Rightarrow> json_object" where
  "job_data_json j =
     [(''tenantId'', JStr (aj_tenantId j)), (''conversationId'', JStr (aj_conversationId j)),
      (''triggerMessageId'', JStr (aj_triggerMessageId j)), (''source'', JStr (aj_source j))] @
     (case aj_customerIdentity j of None \<Rightarrow> [] | Some c \<Rightarrow> [(''customerIdentity'', identity_json c)]) @
     (case aj_requestedByUserId j of None \<Rightarrow> []
      | Some u \<Rightarrow> [(''requestedByUserId'', opt_json JStr u)])"

definition request_job :: "reply_request \<Rightarrow> message \<Rightarrow> ai_reply_job" where
  "request_job rq inbound =
     \<lparr>aj_tenantId = rq_tenantId rq, aj_conversationId = rq_conversationId rq,
      aj_triggerMessageId = rq_triggerMessageId rq, aj_source = rq_source rq,
      aj_customerIdentity = ms_authenticatedCustomerIdentity inbound,
      aj_requestedByUserId = rq_requestedByUserId rq\<rparr>"

definition new_run ::
    "string \<Rightarrow> int \<Rightarrow> ai_reply_job \<Rightarrow> string \<Rightarrow> admission_binding \<Rightarrow> run_identity \<Rightarrow> int \<Rightarrow> int \<Rightarrow> ai_reply_run" where
  "new_run runId now j inboundId b identity generation sequence =
     \<lparr>rn_id = runId, rn_tenantId = aj_tenantId j, rn_conversationId = aj_conversationId j,
      rn_inboundMessageId = inboundId, rn_replyMessageId = None,
      rn_publicationId = Some (ad_publicationId b),
      rn_capabilitySetHash = Some (ad_capabilitySetHash b),
      rn_operationalBindingHash = Some (ad_operationalBindingHash b),
      rn_operationalPermissionGeneration = Some (ad_operationalPermissionGeneration b),
      rn_capabilityType = None, rn_allowedAutonomy = None, rn_requiredAutonomy = None,
      rn_capabilityDecision = None, rn_replyDisposition = None, rn_replyContentHash = None,
      rn_replyTemplateVersion = None,
      rn_idempotencyKey = ri_idempotencyKey identity, rn_inputHash = ri_inputHash identity,
      rn_generation = generation, rn_sequence = sequence, rn_status = Rn_QUEUED,
      rn_attemptCount = 0, rn_maxAttempts = 5, rn_availableAt = now, rn_errorCode = None,
      rn_errorMessage = None, rn_startedAt = None, rn_heartbeatAt = None,
      rn_cancelRequestedAt = None, rn_completedAt = None\<rparr>"

text \<open>The branch without a run: draw the next sequence, move the fence to it, supersede what came
  before and create the run.\<close>

definition allocate_sequence :: "string \<Rightarrow> int \<Rightarrow> db \<Rightarrow> db" where
  "allocate_sequence conversationId sequence d =
     d\<lparr>conversations := update_many (\<lambda>c. cv_id c = conversationId)
         (\<lambda>c. c\<lparr>cv_aiReplySequence := sequence, cv_aiReplyFence := sequence\<rparr>) (conversations d)\<rparr>"

definition create_queued_run ::
    "enqueue_env \<Rightarrow> ai_reply_job \<Rightarrow> conversation \<Rightarrow> string \<Rightarrow> admission_binding \<Rightarrow> run_identity \<Rightarrow> db
     \<Rightarrow> error + (ai_reply_run \<times> db)" where
  "create_queued_run env j c inboundId b identity d =
     (let sequence = cv_aiReplySequence c + 1;
          d1 = allocate_sequence (cv_id c) sequence d;
          d2 = supersede_older (aj_tenantId j) (aj_conversationId j) (cv_aiGeneration c) sequence
                 (ee_clock env 1) d1;
          run = new_run (ee_runId env) (ee_clock env 2) j inboundId b identity (cv_aiGeneration c) sequence
      in andThen (insert_run run d2) (\<lambda>d3. Inr (run, d3)))"

definition existing_run_check ::
    "run_identity \<Rightarrow> admission_binding \<Rightarrow> ai_reply_run
     \<Rightarrow> error + AiReplyQueueEventRejectionReason option" where
  "existing_run_check identity b run =
     (if rn_idempotencyKey run \<noteq> ri_idempotencyKey identity \<or> rn_inputHash run \<noteq> ri_inputHash identity
      then Inl (Error ''AI reply idempotency key was reused with different input.'')
      else if rn_publicationId run \<noteq> Some (ad_publicationId b)
      then Inr (Some EXISTING_AI_REPLY_RUN_PUBLICATION_MISMATCH)
      else if rn_capabilitySetHash run \<noteq> Some (ad_capabilitySetHash b)
      then Inr (Some EXISTING_AI_REPLY_RUN_CAPABILITY_MISMATCH)
      else if rn_operationalBindingHash run \<noteq> Some (ad_operationalBindingHash b) \<or>
              rn_operationalPermissionGeneration run \<noteq> Some (ad_operationalPermissionGeneration b)
      then Inr (Some EXISTING_AI_REPLY_RUN_OPERATIONAL_BINDING_MISMATCH)
      else Inr None)"

definition ai_reply_job_id :: "ai_reply_job \<Rightarrow> string" where
  "ai_reply_job_id j = ''ai-reply:'' @ aj_conversationId j @ '':'' @ aj_triggerMessageId j"

definition ai_reply_event :: "enqueue_env \<Rightarrow> ai_reply_job \<Rightarrow> ai_reply_run \<Rightarrow> create_event_input" where
  "ai_reply_event env j run =
     \<lparr>ce_tenantId = aj_tenantId j, ce_aggregateType = ''conversation'',
      ce_aggregateId = aj_triggerMessageId j, ce_aggregateVersion = rn_sequence run,
      ce_generation = Some (rn_generation run), ce_eventType = ''ai.reply.requested'',
      ce_dedupeKey = ai_reply_job_id j,
      ce_envelope = \<lparr>en_queueName = Q_ai_reply, en_jobName = ''generate-reply'',
        en_jobId = ai_reply_job_id j, en_data = job_data_json j, en_attempts = rn_maxAttempts run,
        en_backoffMs = 1000\<rparr>,
      ce_deadlineAt = Some (ee_clock env 3 + 5 * 60000), ce_traceId = None, ce_traceParent = None\<rparr>"

text \<open>The part after the admission and the checks of the inbound message.\<close>

definition enqueue_admitted ::
    "enqueue_env \<Rightarrow> ai_reply_job \<Rightarrow> conversation \<Rightarrow> message \<Rightarrow> admission_binding \<Rightarrow> db
     \<Rightarrow> error + ((AiReplyQueueEventRejectionReason + queued_reply) \<times> db)" where
  "enqueue_admitted env j c inbound b d =
     (let identity = aiReplyRunIdentity (ee_host env) j inbound (cv_leadId c);
          finish = (\<lambda>run d'.
            andThen (createRuntimeQueueEvent (ee_host env) (ee_eventId env) (ee_clock env 4)
                       (ai_reply_event env j run) d')
              (\<lambda>(event, d''). Inr (Inr \<lparr>qr_event = event, qr_run = run, qr_admission = b\<rparr>, d'')))
      in case find_run_of_message (aj_tenantId j) (ms_id inbound) d of
           Some run \<Rightarrow>
             andThen (existing_run_check identity b run) (\<lambda>rejected.
               case rejected of Some reason \<Rightarrow> Inr (Inl reason, d) | None \<Rightarrow> finish run d)
         | None \<Rightarrow>
             andThen (create_queued_run env j c (ms_id inbound) b identity d) (\<lambda>(run, d'). finish run d'))"

definition inbound_error :: error where
  "inbound_error = Error ''AI reply outbox requires the persisted inbound message.''"

definition createAiReplyQueueEvent ::
    "enqueue_env \<Rightarrow> reply_request \<Rightarrow> db
     \<Rightarrow> error + ((AiReplyQueueEventRejectionReason + queued_reply) \<times> db)" where
  "createAiReplyQueueEvent env rq d =
     andThen (automaticReplyAdmissionState (ee_host env) (ee_clock env 0) d (rq_tenantId rq) (rq_conversationId rq))
       (\<lambda>admission.
     if admission = Inl conversationNotFound
     then Inl (Error ''AI reply outbox conversation was not found.'')
     else
       (case find_inbound (rq_tenantId rq) (rq_conversationId rq) (rq_triggerMessageId rq) d of
          None \<Rightarrow> Inl inbound_error
        | Some inbound \<Rightarrow>
            if (case ms_text inbound of Some s \<Rightarrow> s | None \<Rightarrow> []) \<noteq> rq_text rq then Inl inbound_error
            else if (case ms_authenticatedCustomerIdentity inbound of None \<Rightarrow> False
                     | Some c \<Rightarrow> \<not> validIdentityReference (identity_json c))
            then Inl (Error ''AI reply outbox customer identity is invalid.'')
            else
              (case admission of
                 Inl reason \<Rightarrow> Inr (Inl (AdmissionRejected reason), d)
               | Inr b \<Rightarrow>
                   (case find_conversation (rq_tenantId rq) (rq_conversationId rq) d of
                      None \<Rightarrow> Inl (Error ''AI reply outbox conversation was not found.'')
                    | Some c \<Rightarrow> enqueue_admitted env (request_job rq inbound) c inbound b d))))"

section \<open>Business identity\<close>

record business_identity =
  bn_businessName :: string
  bn_businessType :: "string option"

definition neutralAiBusinessIdentity :: business_identity where
  "neutralAiBusinessIdentity = \<lparr>bn_businessName = ''the business'', bn_businessType = None\<rparr>"

definition nonEmptyText :: "json \<Rightarrow> string option" where
  "nonEmptyText v = (case v of JStr s \<Rightarrow> (if js_trim s = [] then None else Some (js_trim s)) | _ \<Rightarrow> None)"

definition fact_text :: "published_fact \<Rightarrow> string option" where
  "fact_text f =
     (case nonEmptyText (opt_json JStr (pf_displayValue f)) of
        Some s \<Rightarrow> Some s | None \<Rightarrow> nonEmptyText (pf_normalizedValue f))"

text \<open>The \<open>Map\<close> built from the facts keeps the last value of a key.\<close>

definition publishedAiBusinessIdentityFromFacts :: "published_fact list \<Rightarrow> business_identity" where
  "publishedAiBusinessIdentityFromFacts facts =
     (let values = map_of (rev (map (\<lambda>f. (pf_factKey f, fact_text f)) facts)) in
      \<lparr>bn_businessName = (case values ''business/name'' of
          Some (Some s) \<Rightarrow> s | _ \<Rightarrow> bn_businessName neutralAiBusinessIdentity),
       bn_businessType = (case values ''business/type'' of Some v \<Rightarrow> v | None \<Rightarrow> None)\<rparr>)"

definition aiBusinessIdentityForCorpus ::
    "KnowledgeCorpusKind \<Rightarrow> business_identity \<Rightarrow> business_identity option \<Rightarrow> business_identity" where
  "aiBusinessIdentityForCorpus corpusKind legacyIdentity publishedIdentity =
     (if corpusKind = LEGACY_V1 then legacyIdentity
      else (case publishedIdentity of Some i \<Rightarrow> i | None \<Rightarrow> neutralAiBusinessIdentity))"

definition resolvePublishedAiBusinessIdentity :: "db \<Rightarrow> string \<Rightarrow> string \<Rightarrow> business_identity option" where
  "resolvePublishedAiBusinessIdentity d tenantId publicationId =
     (case List.find (\<lambda>p. pb_id p = publicationId \<and> pb_tenantId p = tenantId \<and>
               pb_targetKey p = ''workspace-v2'' \<and> pb_corpusKind p = STRUCTURED_V2 \<and>
               pb_status p = Pb_ACTIVE) (publications d) of
        None \<Rightarrow> None
      | Some p \<Rightarrow>
          Some (publishedAiBusinessIdentityFromFacts
            (List.map_filter pi_factVersion
              (js_sort (\<lambda>l r. str_cmp (pi_itemId l) (pi_itemId r))
                (filter (\<lambda>i. pi_tenantId i = tenantId \<and> pi_publicationId i = pb_id p \<and>
                     pi_corpusKind i = STRUCTURED_V2 \<and> pi_itemType i = ''FACT_VERSION'' \<and>
                     (case pi_factVersion i of None \<Rightarrow> False
                      | Some f \<Rightarrow> js_includes [''business/name'', ''business/type''] (pf_factKey f)))
                  (publicationItems d))))))"

text \<open>\<open>legacyIdentity\<close> is the callback of the caller; it may throw.\<close>

definition resolveAiBusinessIdentity ::
    "db \<Rightarrow> string \<Rightarrow> (error + business_identity) \<Rightarrow> error + business_identity" where
  "resolveAiBusinessIdentity d tenantId legacyIdentity =
     (let corpusKind = (case List.find (\<lambda>s. cs_tenantId s = tenantId) (corpusSelectors d) of
            Some s \<Rightarrow> cs_corpusKind s | None \<Rightarrow> LEGACY_V1)
      in if corpusKind = LEGACY_V1 then legacyIdentity
         else
           Inr (aiBusinessIdentityForCorpus corpusKind neutralAiBusinessIdentity
             (case List.find (\<lambda>p. ap_tenantId p = tenantId \<and> ap_targetKey p = ''workspace-v2'')
                     (activePublications d) of
                None \<Rightarrow> None
              | Some p \<Rightarrow> resolvePublishedAiBusinessIdentity d tenantId (ap_publicationId p))))"

section \<open>Attempts\<close>

record ai_reply_attempt =
  at_runId :: string
  at_tenantId :: string
  at_conversationId :: string
  at_inboundMessageId :: string
  at_publicationId :: "string option"
  at_capabilitySetHash :: "string option"
  at_operationalBindingHash :: "string option"
  at_operationalPermissionGeneration :: "int option"
  at_capabilityType :: "KnowledgeV2CapabilityType option"
  at_allowedAutonomy :: "KnowledgeV2CapabilityAutonomy option"
  at_requiredAutonomy :: "KnowledgeV2CapabilityAutonomy option"
  at_capabilityDecision :: "KnowledgeV2CapabilityDecision option"
  at_idempotencyKey :: string
  at_inputHash :: string
  at_inputData :: ai_reply_job
  at_generation :: int
  at_sequence :: int
  at_attemptCount :: int
  at_maxAttempts :: int

record runtime_input =
  rt_inputText :: string
  rt_receivedAt :: int
  rt_businessName :: string
  rt_businessType :: "string option"
  rt_leadId :: "string option"
  rt_leadStatus :: "string option"

datatype begin_result =
    Active ai_reply_attempt runtime_input
  | Duplicate ai_reply_attempt string
  | Superseded ai_reply_attempt string

definition attemptFromRun :: "ai_reply_run \<Rightarrow> ai_reply_job \<Rightarrow> ai_reply_attempt" where
  "attemptFromRun run data =
     \<lparr>at_runId = rn_id run, at_tenantId = rn_tenantId run, at_conversationId = rn_conversationId run,
      at_inboundMessageId = rn_inboundMessageId run, at_publicationId = rn_publicationId run,
      at_capabilitySetHash = rn_capabilitySetHash run,
      at_operationalBindingHash = rn_operationalBindingHash run,
      at_operationalPermissionGeneration = rn_operationalPermissionGeneration run,
      at_capabilityType = rn_capabilityType run, at_allowedAutonomy = rn_allowedAutonomy run,
      at_requiredAutonomy = rn_requiredAutonomy run, at_capabilityDecision = rn_capabilityDecision run,
      at_idempotencyKey = rn_idempotencyKey run, at_inputHash = rn_inputHash run,
      at_inputData = data, at_generation = rn_generation run, at_sequence = rn_sequence run,
      at_attemptCount = rn_attemptCount run, at_maxAttempts = rn_maxAttempts run\<rparr>"

text \<open>
  The intent classifier is a function of the text: whether the route is the human handoff, and the
  capability type if there is one.
\<close>

type_synonym classifier = "string \<Rightarrow> bool \<times> KnowledgeV2CapabilityType option"

record capability_binding =
  cb_capabilityDecision :: KnowledgeV2CapabilityDecision
  cb_capabilityType :: "KnowledgeV2CapabilityType option"
  cb_allowedAutonomy :: "KnowledgeV2CapabilityAutonomy option"
  cb_requiredAutonomy :: KnowledgeV2CapabilityAutonomy

definition handoff_binding :: capability_binding where
  "handoff_binding = \<lparr>cb_capabilityDecision = HANDOFF, cb_capabilityType = None,
     cb_allowedAutonomy = None, cb_requiredAutonomy = ANSWER_ONLY\<rparr>"

definition resolveCapabilityBinding ::
    "classifier \<Rightarrow> db \<Rightarrow> string \<Rightarrow> string \<Rightarrow> string \<Rightarrow> string \<Rightarrow> int \<Rightarrow> error + capability_binding" where
  "resolveCapabilityBinding classify d tenantId publicationId txt bindHash generation =
     (case classify txt of
        (False, Some capabilityType) \<Rightarrow>
          (case List.find (\<lambda>c. pc_tenantId c = tenantId \<and> pc_publicationId c = publicationId \<and>
                               pc_capabilityType c = capabilityType) (publicationCapabilities d) of
             None \<Rightarrow> Inr handoff_binding
           | Some s \<Rightarrow>
               if pc_operationalBindingHash s \<noteq> Some bindHash \<or>
                  pc_operationalPermissionGeneration s \<noteq> Some generation
               then Inl (AiReplyFenceError AI_REPLY_AUTOMATIC_REPLY_REVOKED)
               else Inr \<lparr>cb_capabilityDecision = AUTHORIZED, cb_capabilityType = Some (pc_capabilityType s),
                         cb_allowedAutonomy = Some (pc_allowedAutonomy s),
                         cb_requiredAutonomy = ANSWER_ONLY\<rparr>)
      | _ \<Rightarrow> Inr handoff_binding)"

definition capabilityBindingMatches :: "ai_reply_run \<Rightarrow> capability_binding \<Rightarrow> bool" where
  "capabilityBindingMatches run b =
     (rn_capabilityDecision run = Some (cb_capabilityDecision b) \<and>
      rn_capabilityType run = cb_capabilityType b \<and>
      rn_allowedAutonomy run = cb_allowedAutonomy b \<and>
      rn_requiredAutonomy run = Some (cb_requiredAutonomy b))"

definition with_binding :: "capability_binding \<Rightarrow> ai_reply_run \<Rightarrow> ai_reply_run" where
  "with_binding b r =
     r\<lparr>rn_capabilityDecision := Some (cb_capabilityDecision b), rn_capabilityType := cb_capabilityType b,
       rn_allowedAutonomy := cb_allowedAutonomy b, rn_requiredAutonomy := Some (cb_requiredAutonomy b)\<rparr>"

text \<open>
  \<open>serializable\<close>: a serialization conflict (P2034) is retried, at most four times; any other error
  and the fifth conflict are thrown.
\<close>

definition retryableTransactionError :: "error \<Rightarrow> bool" where
  "retryableTransactionError e = (e = PrismaError ''P2034'')"

definition serializable ::
    "(nat \<Rightarrow> db) \<Rightarrow> (nat \<Rightarrow> error option) \<Rightarrow> (nat \<Rightarrow> db \<Rightarrow> error + ('a \<times> db)) \<Rightarrow> db \<times> (error + 'a)" where
  "serializable dbs commitErrors work = retry_tx 4 retryableTransactionError dbs commitErrors work 0"

definition loadRuntimeInput :: "db \<Rightarrow> conversation \<Rightarrow> message \<Rightarrow> error + runtime_input" where
  "loadRuntimeInput d c inbound =
     andThen (resolveAiBusinessIdentity d (cv_tenantId c)
        (case List.find (\<lambda>t. tn_id t = cv_tenantId c) (tenants d) of
           None \<Rightarrow> Inl (PrismaError ''P2025'')
         | Some t \<Rightarrow> Inr \<lparr>bn_businessName = tn_name t, bn_businessType = tn_businessType t\<rparr>))
       (\<lambda>identity. Inr
         \<lparr>rt_inputText = (case ms_text inbound of Some s \<Rightarrow> s | None \<Rightarrow> []),
          rt_receivedAt = ms_createdAt inbound,
          rt_businessName = bn_businessName identity, rt_businessType = bn_businessType identity,
          rt_leadId = cv_leadId c,
          rt_leadStatus = (case cv_leadId c of
             None \<Rightarrow> None
           | Some leadId \<Rightarrow> if leadId = [] then None else
               map_option ld_status (List.find (\<lambda>l. ld_id l = leadId \<and> ld_tenantId l = cv_tenantId c) (leads d)))\<rparr>)"

definition hasLaterInboundMessage :: "db \<Rightarrow> string \<Rightarrow> string \<Rightarrow> message \<Rightarrow> bool" where
  "hasLaterInboundMessage d tenantId conversationId inbound =
     list_ex (\<lambda>m. ms_tenantId m = tenantId \<and> ms_conversationId m = conversationId \<and>
                  ms_direction m = INBOUND \<and>
                  (ms_createdAt m > ms_createdAt inbound \<or>
                   ms_createdAt m = ms_createdAt inbound \<and> str_less (ms_id inbound) (ms_id m)))
       (messages d)"

definition externalOperationIdentity ::
    "host \<Rightarrow> ai_reply_attempt \<Rightarrow> string \<Rightarrow> json \<Rightarrow> string \<times> string" where
  "externalOperationIdentity h attempt callId request =
     (''aiop_'' @ sha256 h (json_stringify (JArr [JStr ''ai-internal-operation-v1'',
         JStr (at_tenantId attempt), JStr (at_runId attempt), JStr callId])),
      ''sha256:'' @ sha256 h (json_stringify request))"

record begin_env =
  be_host :: host
  be_classify :: classifier
  be_runId :: string
  be_admissionNow :: int
  be_now :: int
  be_completedAt :: int
  be_rowNow :: int

definition terminalWithoutReply :: "AiReplyRunStatus \<Rightarrow> bool" where
  "terminalWithoutReply s = (s \<in> {Rn_SKIPPED, Rn_CANCELLED, Rn_TIMED_OUT, Rn_SUPERSEDED, Rn_DEAD_LETTER})"

definition run_bound :: "admission_binding \<Rightarrow> ai_reply_run \<Rightarrow> bool" where
  "run_bound b r =
     (rn_publicationId r = Some (ad_publicationId b) \<and>
      rn_capabilitySetHash r = Some (ad_capabilitySetHash b) \<and>
      rn_operationalBindingHash r = Some (ad_operationalBindingHash b) \<and>
      rn_operationalPermissionGeneration r = Some (ad_operationalPermissionGeneration b))"

text \<open>Close a run that is still open; the attempt is reported as superseded.\<close>

definition supersede_existing ::
    "begin_env \<Rightarrow> ai_reply_job \<Rightarrow> string \<Rightarrow> string \<Rightarrow> ai_reply_run \<Rightarrow> db \<Rightarrow> begin_result \<times> db" where
  "supersede_existing env data inboundId code run d =
     (Superseded (attemptFromRun run data) inboundId,
      if run_active (rn_status run)
      then update_run (rn_id run) (run_superseded (be_completedAt env) code) d else d)"

definition run_closed :: "int \<Rightarrow> AiReplyRunStatus \<Rightarrow> string \<Rightarrow> ai_reply_run \<Rightarrow> ai_reply_run" where
  "run_closed at status code r =
     r\<lparr>rn_status := status, rn_completedAt := Some at, rn_errorCode := Some code\<rparr>"

definition run_started :: "int \<Rightarrow> ai_reply_run \<Rightarrow> ai_reply_run" where
  "run_started now r =
     r\<lparr>rn_status := Rn_RUNNING, rn_attemptCount := rn_attemptCount r + 1, rn_availableAt := now,
       rn_startedAt := (case rn_startedAt r of Some t \<Rightarrow> Some t | None \<Rightarrow> Some now),
       rn_heartbeatAt := Some now, rn_completedAt := None, rn_errorCode := None, rn_errorMessage := None\<rparr>"

text \<open>An attempt on a run that exists and whose binding holds.\<close>

definition begin_existing ::
    "begin_env \<Rightarrow> ai_reply_job \<Rightarrow> run_identity \<Rightarrow> conversation \<Rightarrow> message \<Rightarrow> ai_reply_run \<Rightarrow> db
     \<Rightarrow> error + (begin_result \<times> db)" where
  "begin_existing env data identity c inbound run d =
     (if rn_idempotencyKey run \<noteq> ri_idempotencyKey identity \<or> rn_inputHash run \<noteq> ri_inputHash identity
      then Inl (AiReplyFenceError AI_REPLY_INPUT_MISMATCH)
      else if rn_status run = Rn_SUCCEEDED then
        (case rn_replyMessageId run of
           None \<Rightarrow> Inl (AiReplyFenceError AI_REPLY_RUN_CORRUPT)
         | Some reply \<Rightarrow>
             if reply = [] then Inl (AiReplyFenceError AI_REPLY_RUN_CORRUPT)
             else Inr (Duplicate (attemptFromRun run data) reply, d))
      else
        let newer = hasLaterInboundMessage d (aj_tenantId data) (aj_conversationId data) inbound;
            cancelRequested = (rn_status run = Rn_CANCEL_REQUESTED \<or> rn_cancelRequestedAt run \<noteq> None);
            exhausted = rn_attemptCount run \<ge> rn_maxAttempts run
        in if terminalWithoutReply (rn_status run) \<or> cancelRequested \<or> newer \<or>
              rn_generation run \<noteq> cv_aiGeneration c \<or> rn_sequence run \<noteq> cv_aiReplyFence c \<or> exhausted
           then
             let status = (if cancelRequested then Rn_CANCELLED
                           else if exhausted then Rn_DEAD_LETTER else Rn_SUPERSEDED);
                 code = (if cancelRequested then ''CANCEL_REQUESTED''
                         else if newer then ''SUPERSEDED_BY_NEWER_INPUT''
                         else if exhausted then ''MAX_ATTEMPTS_EXCEEDED'' else ''SUPERSEDED_BY_FENCE'')
             in Inr (Superseded (attemptFromRun run data) (ms_id inbound),
                     if run_active (rn_status run)
                     then update_run (rn_id run) (run_closed (be_completedAt env) status code) d else d)
           else
             let d1 = update_run (rn_id run) (run_started (be_now env)) d
             in andThen (loadRuntimeInput d1 c inbound) (\<lambda>input.
                  Inr (Active (attemptFromRun (run_started (be_now env) run) data) input, d1)))"

definition new_running_run ::
    "begin_env \<Rightarrow> ai_reply_job \<Rightarrow> string \<Rightarrow> admission_binding \<Rightarrow> capability_binding \<Rightarrow> run_identity \<Rightarrow> int \<Rightarrow> int
     \<Rightarrow> ai_reply_run" where
  "new_running_run env data inboundId b cb identity generation sequence =
     (with_binding cb (new_run (be_runId env) (be_rowNow env) data inboundId b identity generation sequence))
       \<lparr>rn_status := Rn_RUNNING, rn_attemptCount := 1, rn_startedAt := Some (be_now env),
        rn_heartbeatAt := Some (be_now env)\<rparr>"

text \<open>An attempt without a run: the worker creates it at the next sequence.\<close>

definition begin_new ::
    "begin_env \<Rightarrow> ai_reply_job \<Rightarrow> run_identity \<Rightarrow> admission_binding \<Rightarrow> capability_binding
     \<Rightarrow> conversation \<Rightarrow> message \<Rightarrow> db \<Rightarrow> error + (begin_result \<times> db)" where
  "begin_new env data identity b cb c inbound d =
     (if hasLaterInboundMessage d (aj_tenantId data) (aj_conversationId data) inbound
      then Inl (AiReplyFenceError AI_REPLY_NEWER_INBOUND)
      else
        let sequence = cv_aiReplySequence c + 1;
            d1 = allocate_sequence (cv_id c) sequence d;
            d2 = supersede_older (aj_tenantId data) (aj_conversationId data) (cv_aiGeneration c) sequence
                   (be_now env) d1;
            run = new_running_run env data (ms_id inbound) b cb identity (cv_aiGeneration c) sequence
        in andThen (insert_run run d2) (\<lambda>d3.
             andThen (loadRuntimeInput d3 c inbound) (\<lambda>input.
               Inr (Active (attemptFromRun run data) input, d3))))"

text \<open>The part of the transaction after the checks on the conversation and the inbound message.\<close>

definition begin_checked ::
    "begin_env \<Rightarrow> ai_reply_job \<Rightarrow> conversation \<Rightarrow> message \<Rightarrow> AutomaticReplyAdmissionReason + admission_binding
     \<Rightarrow> db \<Rightarrow> error + (begin_result \<times> db)" where
  "begin_checked env data c inbound admission d =
     (let identity = aiReplyRunIdentity (be_host env) data inbound (cv_leadId c);
          existing = find_run_of_message (aj_tenantId data) (ms_id inbound) d
      in case (admission, existing) of
           (Inl _, Some run) \<Rightarrow>
             Inr (supersede_existing env data (ms_id inbound) ''AUTOMATIC_REPLY_ADMISSION_REVOKED'' run d)
         | (Inl _, None) \<Rightarrow> Inl (AiReplyFenceError AI_REPLY_AUTOMATIC_REPLY_REVOKED)
         | (Inr b, _) \<Rightarrow>
             if (case existing of None \<Rightarrow> False | Some run \<Rightarrow> \<not> run_bound b run)
             then Inr (supersede_existing env data (ms_id inbound) ''AUTOMATIC_REPLY_ADMISSION_REVOKED''
                        (the existing) d)
             else
               andThen (resolveCapabilityBinding (be_classify env) d (aj_tenantId data) (ad_publicationId b)
                          (case ms_text inbound of Some s \<Rightarrow> s | None \<Rightarrow> [])
                          (ad_operationalBindingHash b) (ad_operationalPermissionGeneration b))
                 (\<lambda>cb.
                   case existing of
                     None \<Rightarrow> begin_new env data identity b cb c inbound d
                   | Some run0 \<Rightarrow>
                       (let unbound = (rn_capabilityDecision run0 = None);
                            run = (if unbound then with_binding cb run0 else run0);
                            d1 = (if unbound then update_run (rn_id run0) (with_binding cb) d else d)
                        in if \<not> capabilityBindingMatches run cb
                           then Inr (supersede_existing env data (ms_id inbound)
                                      ''CAPABILITY_AUTONOMY_BINDING_REVOKED'' run d1)
                           else begin_existing env data identity c inbound run d1)))"

definition begin_attempt_tx :: "begin_env \<Rightarrow> ai_reply_job \<Rightarrow> db \<Rightarrow> error + (begin_result \<times> db)" where
  "begin_attempt_tx env data d =
     (case find_conversation (aj_tenantId data) (aj_conversationId data) d of
        None \<Rightarrow> Inl (AiReplyFenceError AI_REPLY_INBOUND_NOT_FOUND)
      | Some c \<Rightarrow>
          andThen (automaticReplyAdmissionState (be_host env) (be_admissionNow env) d
                     (aj_tenantId data) (aj_conversationId data)) (\<lambda>admission.
          case find_inbound (aj_tenantId data) (aj_conversationId data) (aj_triggerMessageId data) d of
            None \<Rightarrow> Inl (AiReplyFenceError AI_REPLY_INBOUND_NOT_FOUND)
          | Some inbound \<Rightarrow> begin_checked env data c inbound admission d))"

definition beginAiReplyAttempt ::
    "(nat \<Rightarrow> db) \<Rightarrow> (nat \<Rightarrow> error option) \<Rightarrow> (nat \<Rightarrow> begin_env) \<Rightarrow> ai_reply_job \<Rightarrow> db \<times> (error + begin_result)" where
  "beginAiReplyAttempt dbs commitErrors env data =
     serializable dbs commitErrors (\<lambda>k. begin_attempt_tx (env k) data)"

section \<open>Work under the fence\<close>

definition attempt_revoked ::
    "(AutomaticReplyAdmissionReason + admission_binding) option \<Rightarrow> ai_reply_run option
     \<Rightarrow> capability_binding option \<Rightarrow> bool" where
  "attempt_revoked admission run cb =
     (case (admission, cb) of
        (Some (Inr b), Some binding) \<Rightarrow>
          (case run of None \<Rightarrow> True
           | Some r \<Rightarrow> \<not> run_bound b r \<or> \<not> capabilityBindingMatches r binding)
      | _ \<Rightarrow> True)"

definition attempt_current ::
    "ai_reply_attempt \<Rightarrow> string option \<Rightarrow> conversation \<Rightarrow> ai_reply_run \<Rightarrow> bool" where
  "attempt_current a rederivedInputHash c r =
     (rn_tenantId r = at_tenantId a \<and> rn_conversationId r = at_conversationId a \<and>
      rn_inboundMessageId r = at_inboundMessageId a \<and> rn_inputHash r = at_inputHash a \<and>
      rederivedInputHash = Some (at_inputHash a) \<and> rn_status r = Rn_RUNNING \<and>
      rn_generation r = at_generation a \<and> rn_sequence r = at_sequence a \<and>
      rn_attemptCount r = at_attemptCount a \<and> cv_aiGeneration c = at_generation a \<and>
      cv_aiReplyFence c = at_sequence a \<and> rn_cancelRequestedAt r = None)"

text \<open>What the assertion reads: every value of the code that its test mentions.\<close>

record attempt_view =
  av_conversation :: "conversation option"
  av_admission :: "(AutomaticReplyAdmissionReason + admission_binding) option"
  av_lockedRun :: "ai_reply_run option"
  av_run :: "ai_reply_run option"
  av_inbound :: "message option"
  av_newerInboundExists :: bool
  av_rederivedInputHash :: "string option"
  av_currentCapabilityBinding :: "capability_binding option"

definition load_attempt_admission ::
    "host \<Rightarrow> int \<Rightarrow> ai_reply_attempt \<Rightarrow> db
     \<Rightarrow> error + (AutomaticReplyAdmissionReason + admission_binding) option" where
  "load_attempt_admission h admissionNow a d =
     (case find_conversation (at_tenantId a) (at_conversationId a) d of
        None \<Rightarrow> Inr None
      | Some _ \<Rightarrow> andThen (automaticReplyAdmissionState h admissionNow d (at_tenantId a) (at_conversationId a))
                   (\<lambda>adm. Inr (Some adm)))"

definition load_attempt_binding ::
    "classifier \<Rightarrow> ai_reply_attempt \<Rightarrow> (AutomaticReplyAdmissionReason + admission_binding) option
     \<Rightarrow> message option \<Rightarrow> db \<Rightarrow> error + capability_binding option" where
  "load_attempt_binding classify a admission inbound d =
     (case (admission, inbound) of
        (Some (Inr b), Some m) \<Rightarrow>
          andThen (resolveCapabilityBinding classify d (at_tenantId a) (ad_publicationId b)
                     (case ms_text m of Some s \<Rightarrow> s | None \<Rightarrow> [])
                     (ad_operationalBindingHash b) (ad_operationalPermissionGeneration b))
            (\<lambda>cb. Inr (Some cb))
      | _ \<Rightarrow> Inr None)"

definition load_attempt_view ::
    "host \<Rightarrow> classifier \<Rightarrow> int \<Rightarrow> ai_reply_attempt \<Rightarrow> db \<Rightarrow> error + attempt_view" where
  "load_attempt_view h classify admissionNow a d =
     (let conv = find_conversation (at_tenantId a) (at_conversationId a) d;
          inbound = find_inbound (at_tenantId a) (at_conversationId a) (at_inboundMessageId a) d
      in andThen (load_attempt_admission h admissionNow a d) (\<lambda>admission.
         andThen (load_attempt_binding classify a admission inbound d) (\<lambda>cb.
         Inr \<lparr>av_conversation = conv, av_admission = admission,
              av_lockedRun = List.find (\<lambda>r. rn_id r = at_runId a \<and> rn_tenantId r = at_tenantId a) (aiReplyRuns d),
              av_run = List.find (\<lambda>r. rn_id r = at_runId a) (aiReplyRuns d),
              av_inbound = inbound,
              av_newerInboundExists =
                (case inbound of None \<Rightarrow> False
                 | Some m \<Rightarrow> hasLaterInboundMessage d (at_tenantId a) (at_conversationId a) m),
              av_rederivedInputHash =
                (case (conv, inbound) of
                   (Some c, Some m) \<Rightarrow> Some (ri_inputHash (aiReplyRunIdentity h (at_inputData a) m (cv_leadId c)))
                 | _ \<Rightarrow> None),
              av_currentCapabilityBinding = cb\<rparr>)))"

definition attempt_verdict :: "ai_reply_attempt \<Rightarrow> attempt_view \<Rightarrow> AiReplyFenceCode + ai_reply_run" where
  "attempt_verdict a v =
     (let revoked = attempt_revoked (av_admission v) (av_run v) (av_currentCapabilityBinding v);
          refused = Inl (if av_newerInboundExists v then AI_REPLY_NEWER_INBOUND
                         else if revoked then AI_REPLY_AUTOMATIC_REPLY_REVOKED
                         else AI_REPLY_RUN_SUPERSEDED)
      in case (av_conversation v, av_lockedRun v, av_run v, av_inbound v) of
           (Some c, Some _, Some r, Some _) \<Rightarrow>
             if attempt_current a (av_rederivedInputHash v) c r \<and> \<not> av_newerInboundExists v \<and> \<not> revoked
             then Inr r else refused
         | _ \<Rightarrow> refused)"

definition assertAttempt ::
    "host \<Rightarrow> classifier \<Rightarrow> int \<Rightarrow> int \<Rightarrow> ai_reply_attempt \<Rightarrow> db \<Rightarrow> error + (ai_reply_run \<times> db)" where
  "assertAttempt h classify admissionNow heartbeat a d =
     andThen (load_attempt_view h classify admissionNow a d) (\<lambda>v.
       case attempt_verdict a v of
         Inl c \<Rightarrow> Inl (AiReplyFenceError c)
       | Inr r \<Rightarrow> Inr (r, update_run (at_runId a) (\<lambda>x. x\<lparr>rn_heartbeatAt := Some heartbeat\<rparr>) d))"

definition attempt_row :: "ai_reply_attempt \<Rightarrow> ai_reply_run \<Rightarrow> bool" where
  "attempt_row a r =
     (rn_id r = at_runId a \<and> rn_tenantId r = at_tenantId a \<and> rn_status r = Rn_RUNNING \<and>
      rn_attemptCount r = at_attemptCount a \<and> rn_generation r = at_generation a \<and>
      rn_sequence r = at_sequence a)"

definition fence_error_code :: "AiReplyFenceCode \<Rightarrow> string" where
  "fence_error_code c =
     (if c = AI_REPLY_NEWER_INBOUND then ''SUPERSEDED_BY_NEWER_INPUT''
      else if c = AI_REPLY_AUTOMATIC_REPLY_REVOKED then ''AUTOMATIC_REPLY_ADMISSION_REVOKED''
      else ''SUPERSEDED_BY_FENCE'')"

definition supersede_attempt :: "ai_reply_attempt \<Rightarrow> int \<Rightarrow> AiReplyFenceCode \<Rightarrow> db \<Rightarrow> db" where
  "supersede_attempt a at c d =
     d\<lparr>aiReplyRuns := update_many (attempt_row a) (run_superseded at (fence_error_code c)) (aiReplyRuns d)\<rparr>"

text \<open>
  A transaction under the fence: the work runs after the attempt was asserted in the same
  transaction. Whether the statement that closes a superseded attempt succeeds is given by the
  surroundings; its failure is swallowed.
\<close>

record fenced_env =
  fe_host :: host
  fe_classify :: classifier
  fe_dbs :: "nat \<Rightarrow> db"
  fe_commitErrors :: "nat \<Rightarrow> error option"
  fe_admissionNow :: "nat \<Rightarrow> int"
  fe_heartbeat :: "nat \<Rightarrow> int"
  fe_supersedeAt :: int
  fe_supersedeFails :: bool

definition withFencedAiReplyTransaction ::
    "fenced_env \<Rightarrow> ai_reply_attempt \<Rightarrow> (db \<Rightarrow> ai_reply_run \<Rightarrow> error + ('a \<times> db)) \<Rightarrow> db \<times> (error + 'a)" where
  "withFencedAiReplyTransaction env a work =
     (case serializable (fe_dbs env) (fe_commitErrors env)
             (\<lambda>k d. andThen (assertAttempt (fe_host env) (fe_classify env) (fe_admissionNow env k)
                              (fe_heartbeat env k) a d) (\<lambda>(run, d'). work d' run)) of
        (d, Inr x) \<Rightarrow> (d, Inr x)
      | (d, Inl e) \<Rightarrow>
          ((case e of
              AiReplyFenceError c \<Rightarrow>
                if c \<in> {AI_REPLY_RUN_SUPERSEDED, AI_REPLY_NEWER_INBOUND, AI_REPLY_AUTOMATIC_REPLY_REVOKED} \<and>
                   \<not> fe_supersedeFails env
                then supersede_attempt a (fe_supersedeAt env) c d else d
            | _ \<Rightarrow> d), Inl e))"

definition attempt_delay :: "int \<Rightarrow> int" where
  "attempt_delay attemptCount = min 60000 (1000 * 2 ^ nat (max 0 (attemptCount - 1)))"

definition run_attempt_failed ::
    "(nat \<Rightarrow> int) \<Rightarrow> ai_reply_attempt \<Rightarrow> string \<Rightarrow> bool \<Rightarrow> ai_reply_run \<Rightarrow> ai_reply_run" where
  "run_attempt_failed clock a msg timedOut r =
     (let terminal = at_attemptCount a \<ge> at_maxAttempts a in
      r\<lparr>rn_status := (if terminal then (if timedOut then Rn_TIMED_OUT else Rn_DEAD_LETTER)
                      else Rn_RETRY_SCHEDULED),
        rn_errorCode := Some (if timedOut then ''WORKER_TIMEOUT''
                              else if terminal then ''MAX_ATTEMPTS_EXCEEDED'' else ''ATTEMPT_FAILED''),
        rn_errorMessage := Some (take 2000 msg),
        rn_availableAt := (if terminal then clock 0
                           else clock 0 + attempt_delay (at_attemptCount a)),
        rn_completedAt := (if terminal then Some (clock 1) else None),
        rn_heartbeatAt := Some (clock 2)\<rparr>)"

definition markAiReplyAttemptFailed ::
    "(nat \<Rightarrow> int) \<Rightarrow> ai_reply_attempt \<Rightarrow> string \<Rightarrow> bool \<Rightarrow> db \<Rightarrow> db" where
  "markAiReplyAttemptFailed clock a msg timedOut d =
     d\<lparr>aiReplyRuns := update_many (attempt_row a) (run_attempt_failed clock a msg timedOut) (aiReplyRuns d)\<rparr>"

section \<open>Fences of the API\<close>

definition fence_outbox :: "string \<Rightarrow> string \<Rightarrow> (runtime_outbox \<Rightarrow> bool) \<Rightarrow> db \<Rightarrow> db" where
  "fence_outbox tenantId code selected d =
     d\<lparr>runtimeOutbox := update_many
         (\<lambda>r. ob_tenantId r = tenantId \<and> ob_eventType r = ''ai.reply.requested'' \<and>
              ob_status r \<in> {Ob_PENDING, Ob_PUBLISHING, Ob_FAILED} \<and> selected r)
         (outbox_fence code) (runtimeOutbox d)\<rparr>"

definition bump_generation :: "conversation \<Rightarrow> conversation" where
  "bump_generation c =
     c\<lparr>cv_aiGeneration := cv_aiGeneration c + 1, cv_aiReplySequence := cv_aiReplySequence c + 1,
       cv_aiReplyFence := cv_aiReplySequence c + 1\<rparr>"

definition fencePendingAiReply ::
    "string \<Rightarrow> string \<Rightarrow> string \<Rightarrow> int \<Rightarrow> db \<Rightarrow> error + db" where
  "fencePendingAiReply tenantId conversationId reason at d =
     (case find_conversation tenantId conversationId d of
        None \<Rightarrow> Inl (OtherError ''NotFoundException'' ''Conversation was not found.'')
      | Some _ \<Rightarrow>
          (let d1 = d\<lparr>aiReplyRuns := update_many
                 (\<lambda>r. rn_tenantId r = tenantId \<and> rn_conversationId r = conversationId \<and> run_active (rn_status r))
                 (run_superseded at reason) (aiReplyRuns d)\<rparr>;
               d2 = fence_outbox tenantId reason
                 (\<lambda>r. list_ex (\<lambda>m. ms_tenantId m = ob_tenantId r \<and> ms_id m = ob_aggregateId r \<and>
                                  ms_conversationId m = conversationId) (messages d1)) d1
           in Inr (d2\<lparr>conversations := update_many
                (\<lambda>c. cv_id c = conversationId \<and> cv_tenantId c = tenantId) bump_generation (conversations d2)\<rparr>)))"

definition run_on_channels :: "db \<Rightarrow> string list \<Rightarrow> ai_reply_run \<Rightarrow> bool" where
  "run_on_channels d channelIds r =
     list_ex (\<lambda>c. cv_tenantId c = rn_tenantId r \<and> cv_id c = rn_conversationId r \<and>
                  (case cv_channelId c of None \<Rightarrow> False | Some ch \<Rightarrow> js_includes channelIds ch)) (conversations d)"

definition supersede_channel_runs :: "string \<Rightarrow> string list \<Rightarrow> string \<Rightarrow> int \<Rightarrow> db \<Rightarrow> db" where
  "supersede_channel_runs tenantId channelIds code at d =
     d\<lparr>aiReplyRuns := update_many
         (\<lambda>r. rn_tenantId r = tenantId \<and> run_on_channels d channelIds r \<and> run_active (rn_status r))
         (run_superseded at code) (aiReplyRuns d)\<rparr>"

definition on_channels :: "string \<Rightarrow> string list \<Rightarrow> conversation \<Rightarrow> bool" where
  "on_channels tenantId channelIds c =
     (cv_tenantId c = tenantId \<and> cv_deletedAt c = None \<and>
      (case cv_channelId c of None \<Rightarrow> False | Some ch \<Rightarrow> js_includes channelIds ch))"

definition fenceChannelAutomaticReplies ::
    "string \<Rightarrow> string \<Rightarrow> bool \<Rightarrow> string \<Rightarrow> int \<Rightarrow> db \<Rightarrow> db" where
  "fenceChannelAutomaticReplies tenantId channelId enabled reason at d =
     (let code = ''AUTOMATIC_REPLIES_'' @ reason;
          d1 = fence_outbox tenantId code
            (\<lambda>r. list_ex (\<lambda>run. rn_tenantId run = tenantId \<and> run_on_channels d [channelId] run \<and>
                               rn_inboundMessageId run = ob_aggregateId r) (aiReplyRuns d)) d;
          d2 = supersede_channel_runs tenantId [channelId] code at d1
      in d2\<lparr>conversations := update_many (on_channels tenantId [channelId])
              (\<lambda>c. (bump_generation c)\<lparr>cv_aiEnabled :=
                      enabled \<and> cv_status c = Cv_OPEN \<and> \<not> cv_handoffRequested c\<rparr>)
              (conversations d2)\<rparr>)"

definition channel_unbound :: "channel \<Rightarrow> channel" where
  "channel_unbound ch =
     ch\<lparr>ch_automaticRepliesEnabled := False,
        ch_automaticRepliesGeneration := ch_automaticRepliesGeneration ch + 1,
        ch_automaticRepliesPublicationId := None, ch_automaticRepliesPublicationEtag := None,
        ch_automaticRepliesCapabilitySetHash := None,
        ch_automaticRepliesOperationalBindingHash := None,
        ch_automaticRepliesOperationalPermissionGeneration := None,
        ch_automaticRepliesChannelFingerprint := None, ch_automaticRepliesActivatedAt := None,
        ch_automaticRepliesActivatedByUserId := None\<rparr>"

definition revokeAutomaticReplies :: "string \<Rightarrow> int \<Rightarrow> db \<Rightarrow> db" where
  "revokeAutomaticReplies tenantId at d =
     (let enabled = (\<lambda>ch. ch_tenantId ch = tenantId \<and> ch_deletedAt ch = None \<and> ch_automaticRepliesEnabled ch);
          channelIds = js_sort str_cmp (map ch_id (filter enabled (channels d)))
      in if channelIds = [] then d
         else
           let d1 = d\<lparr>channels := update_many
                  (\<lambda>ch. ch_tenantId ch = tenantId \<and> js_includes channelIds (ch_id ch)) channel_unbound (channels d)\<rparr>;
               d2 = fence_outbox tenantId ''CAPABILITY_CONFIGURATION_CHANGED''
                  (\<lambda>r. list_ex (\<lambda>m. ms_tenantId m = ob_tenantId r \<and> ms_id m = ob_aggregateId r \<and>
                        list_ex (\<lambda>c. cv_tenantId c = ms_tenantId m \<and> cv_id c = ms_conversationId m \<and>
                              (case cv_channelId c of None \<Rightarrow> False | Some ch \<Rightarrow> js_includes channelIds ch))
                          (conversations d1)) (messages d1)) d1;
               d3 = supersede_channel_runs tenantId channelIds ''CAPABILITY_CONFIGURATION_CHANGED'' at d2
           in d3\<lparr>conversations := update_many (on_channels tenantId channelIds)
                   (\<lambda>c. (bump_generation c)\<lparr>cv_aiEnabled := False\<rparr>) (conversations d3)\<rparr>)"

section \<open>Completion\<close>

text \<open>
  The last statement of the work of a reply: the run succeeds with its reply message and, where the
  graph decided one, the outcome of the reply.
\<close>

record reply_outcome =
  yo_disposition :: KnowledgeV2ReplyDisposition
  yo_contentHash :: string
  yo_templateVersion :: "string option"

definition with_outcome :: "reply_outcome option \<Rightarrow> ai_reply_run \<Rightarrow> ai_reply_run" where
  "with_outcome replyOutcome r =
     (case replyOutcome of
        None \<Rightarrow> r
      | Some o1 \<Rightarrow> r\<lparr>rn_replyDisposition := Some (yo_disposition o1),
                      rn_replyContentHash := Some (yo_contentHash o1),
                      rn_replyTemplateVersion := yo_templateVersion o1\<rparr>)"

lemma with_outcome_frame [simp, row_frame]:
  "rn_id (with_outcome out r) = rn_id r"
  "rn_tenantId (with_outcome out r) = rn_tenantId r"
  "rn_conversationId (with_outcome out r) = rn_conversationId r"
  "rn_inboundMessageId (with_outcome out r) = rn_inboundMessageId r"
  "rn_idempotencyKey (with_outcome out r) = rn_idempotencyKey r"
  "rn_inputHash (with_outcome out r) = rn_inputHash r"
  "rn_generation (with_outcome out r) = rn_generation r"
  "rn_sequence (with_outcome out r) = rn_sequence r"
  "rn_attemptCount (with_outcome out r) = rn_attemptCount r"
  by (simp_all add: with_outcome_def split: option.splits)

definition succeed_run ::
    "int \<Rightarrow> int \<Rightarrow> string \<Rightarrow> string option \<Rightarrow> reply_outcome option \<Rightarrow> string \<Rightarrow> db \<Rightarrow> db" where
  "succeed_run completedAt heartbeatAt replyMessageId publicationId replyOutcome runId =
     update_run runId (\<lambda>r. (with_outcome replyOutcome r)\<lparr>rn_replyMessageId := Some replyMessageId,
       rn_publicationId := publicationId,
       rn_status := Rn_SUCCEEDED, rn_completedAt := Some completedAt, rn_heartbeatAt := Some heartbeatAt,
       rn_errorCode := None, rn_errorMessage := None\<rparr>)"

end
