(* ===== verification/Ai_Reply_Protocol.thy ===== *)
theory Ai_Reply_Protocol
  imports Ai_Reply_Run
begin

text \<open>
  The runs of a conversation as a protocol: every operation that touches runs or the counters of
  a conversation is a step, and the reachable databases keep the invariant that an open run sits
  exactly at the generation and the fence of its conversation.
\<close>

section \<open>The invariant\<close>

definition run_owner :: "conversation \<Rightarrow> ai_reply_run \<Rightarrow> bool" where
  "run_owner c r = (cv_id c = rn_conversationId r \<and> cv_tenantId c = rn_tenantId r)"

definition run_at_fence :: "conversation \<Rightarrow> ai_reply_run \<Rightarrow> bool" where
  "run_at_fence c r =
     (rn_generation r \<le> cv_aiGeneration c \<and> rn_sequence r \<le> cv_aiReplySequence c \<and>
      (run_active (rn_status r) \<longrightarrow> rn_generation r = cv_aiGeneration c \<and> rn_sequence r = cv_aiReplyFence c))"

definition reply_inv :: "db \<Rightarrow> bool" where
  "reply_inv d =
     (run_keys (aiReplyRuns d) \<and> unique_on cv_id (conversations d) \<and>
      (\<forall>c\<in>set (conversations d). cv_aiReplyFence c \<le> cv_aiReplySequence c) \<and>
      (\<forall>r\<in>set (aiReplyRuns d). \<exists>c\<in>set (conversations d). run_owner c r \<and> run_at_fence c r))"

text \<open>The columns that identify a run; no statement changes them.\<close>

definition run_identity_columns ::
    "ai_reply_run \<Rightarrow> string \<times> string \<times> string \<times> string \<times> string \<times> int \<times> int" where
  "run_identity_columns r =
     (rn_id r, rn_tenantId r, rn_conversationId r, rn_inboundMessageId r, rn_idempotencyKey r,
      rn_generation r, rn_sequence r)"

lemma run_keys_update:
  assumes "run_keys t" "\<And>r. P r \<Longrightarrow> run_identity_columns (f r) = run_identity_columns r"
  shows "run_keys (update_many P f t)"
  using assms by (simp add: run_keys_def run_identity_columns_def unique_on_update_many)

lemma inv_update_runs:
  assumes inv: "reply_inv d"
    and cols: "\<And>r. P r \<Longrightarrow> run_identity_columns (f r) = run_identity_columns r"
    and act: "\<And>r. r \<in> set (aiReplyRuns d) \<Longrightarrow> P r \<Longrightarrow> run_active (rn_status (f r)) \<Longrightarrow> run_active (rn_status r)"
  shows "reply_inv (d\<lparr>aiReplyRuns := update_many P f (aiReplyRuns d)\<rparr>)"
proof -
  have "\<exists>c\<in>set (conversations d). run_owner c r \<and> run_at_fence c r"
    if "r \<in> set (update_many P f (aiReplyRuns d))" for r
    using that
  proof (cases rule: in_update_manyE)
    case (changed r0)
    then obtain c where "c \<in> set (conversations d)" "run_owner c r0" "run_at_fence c r0"
      using inv by (auto simp: reply_inv_def)
    with changed cols [OF changed(2)] act [OF changed(1,2)] show ?thesis
      by (intro bexI [of _ c]) (auto simp: run_owner_def run_at_fence_def run_identity_columns_def)
  next
    case kept
    then show ?thesis using inv by (auto simp: reply_inv_def)
  qed
  then show ?thesis using inv run_keys_update [OF _ cols] by (simp add: reply_inv_def)
qed

lemma inv_update_conversations:
  assumes inv: "reply_inv d"
    and same: "\<And>c. Q c \<Longrightarrow> cv_id (g c) = cv_id c \<and> cv_tenantId (g c) = cv_tenantId c"
    and grow: "\<And>c. c \<in> set (conversations d) \<Longrightarrow> Q c \<Longrightarrow> cv_aiGeneration c \<le> cv_aiGeneration (g c) \<and>
        cv_aiReplySequence c \<le> cv_aiReplySequence (g c) \<and> cv_aiReplyFence (g c) \<le> cv_aiReplySequence (g c)"
    and idle: "\<And>c r. c \<in> set (conversations d) \<Longrightarrow> Q c \<Longrightarrow> r \<in> set (aiReplyRuns d) \<Longrightarrow> run_owner c r \<Longrightarrow>
        \<not> run_active (rn_status r)"
  shows "reply_inv (d\<lparr>conversations := update_many Q g (conversations d)\<rparr>)"
proof -
  have "\<exists>c\<in>set (update_many Q g (conversations d)). run_owner c r \<and> run_at_fence c r"
    if r: "r \<in> set (aiReplyRuns d)" for r
  proof -
    obtain c where c: "c \<in> set (conversations d)" "run_owner c r" "run_at_fence c r"
      using inv r by (auto simp: reply_inv_def)
    show ?thesis
    proof (cases "Q c")
      case True
      have "run_at_fence (g c) r"
        using c(3) grow [OF c(1) True] idle [OF c(1) True r c(2)] by (auto simp: run_at_fence_def)
      moreover have "run_owner (g c) r" using c(2) same [OF True] by (simp add: run_owner_def)
      ultimately show ?thesis using in_update_many_changed [of c _ Q g] c(1) True by blast
    next
      case False
      then show ?thesis using in_update_many_kept [of c _ Q g] c by blast
    qed
  qed
  moreover have "\<forall>c\<in>set (update_many Q g (conversations d)). cv_aiReplyFence c \<le> cv_aiReplySequence c"
    using inv grow by (auto simp: reply_inv_def elim!: in_update_manyE)
  moreover have "unique_on cv_id (update_many Q g (conversations d))"
    using inv same by (simp add: reply_inv_def unique_on_update_many)
  ultimately show ?thesis using inv by (simp add: reply_inv_def)
qed

lemma insert_run_Inr_iff:
  "insert_run r d = Inr d' \<longleftrightarrow>
     d' = d\<lparr>aiReplyRuns := aiReplyRuns d @ [r]\<rparr> \<and>
     (\<forall>x\<in>set (aiReplyRuns d). rn_id x \<noteq> rn_id r \<and>
        (rn_tenantId x, rn_idempotencyKey x) \<noteq> (rn_tenantId r, rn_idempotencyKey r) \<and>
        (rn_tenantId x, rn_inboundMessageId x) \<noteq> (rn_tenantId r, rn_inboundMessageId r) \<and>
        (rn_conversationId x, rn_sequence x) \<noteq> (rn_conversationId r, rn_sequence r))"
  by (auto simp: insert_run_def list_ex_iff)

lemma inv_insert_run:
  assumes "reply_inv d" "insert_run r d = Inr d'"
    and "c \<in> set (conversations d)" "run_owner c r" "run_at_fence c r"
  shows "reply_inv d'"
  using assms
  by (auto simp: insert_run_Inr_iff reply_inv_def run_keys_def unique_on_append1)

text \<open>In a database that keeps the invariant, an open run belongs to the fence of its conversation.\<close>

lemma inv_active:
  assumes "reply_inv d" "r \<in> set (aiReplyRuns d)" "run_active (rn_status r)"
    and "c \<in> set (conversations d)" "run_owner c r"
  shows "rn_generation r = cv_aiGeneration c \<and> rn_sequence r = cv_aiReplyFence c \<and>
         rn_sequence r \<le> cv_aiReplySequence c"
proof -
  obtain c' where c': "c' \<in> set (conversations d)" "run_owner c' r" "run_at_fence c' r"
    using assms(1,2) by (auto simp: reply_inv_def)
  then have "c' = c"
    using assms(1,4,5) unique_onD [of cv_id "conversations d" c' c]
    by (auto simp: reply_inv_def run_owner_def)
  with c' assms(3) show ?thesis by (simp add: run_at_fence_def)
qed

section \<open>Operations keep the invariant\<close>

lemma run_column_simps [simp]:
  "run_identity_columns (run_superseded at code r) = run_identity_columns r"
  "run_identity_columns (run_closed at s code r) = run_identity_columns r"
  "run_identity_columns (run_started now r) = run_identity_columns r"
  "run_identity_columns (with_binding b r) = run_identity_columns r"
  "\<not> run_active (rn_status (run_superseded at code r))"
  "rn_status (with_binding b r) = rn_status r"
  by (simp_all add: run_identity_columns_def run_superseded_def run_closed_def run_started_def
      with_binding_def run_active_def)

text \<open>Drawing a sequence for a conversation and superseding what came before leaves no open run.\<close>

lemma inv_allocate:
  assumes inv: "reply_inv d" and c: "c \<in> set (conversations d)"
    and t: "t = cv_tenantId c" and i: "i = cv_id c"
    and d2_def: "d2 = supersede_older t i (cv_aiGeneration c) (cv_aiReplySequence c + 1) at
                   (allocate_sequence i (cv_aiReplySequence c + 1) d)"
  shows "reply_inv d2"
    and "c\<lparr>cv_aiReplySequence := cv_aiReplySequence c + 1, cv_aiReplyFence := cv_aiReplySequence c + 1\<rparr>
         \<in> set (conversations d2)"
proof -
  let ?s = "cv_aiReplySequence c + 1"
  let ?d1 = "supersede_older t i (cv_aiGeneration c) ?s at d"
  have u: "unique_on cv_id (conversations d)" using inv by (simp add: reply_inv_def)
  have swap: "d2 = allocate_sequence i ?s ?d1"
    by (simp add: d2_def supersede_older_def allocate_sequence_def)
  have inv1: "reply_inv ?d1"
    unfolding supersede_older_def by (rule inv_update_runs [OF inv]) simp_all
  have idle: "\<not> run_active (rn_status r)"
    if r: "r \<in> set (aiReplyRuns ?d1)" and x: "x \<in> set (conversations ?d1)" "cv_id x = i" "run_owner x r" for r x
  proof
    assume act: "run_active (rn_status r)"
    have xc: "x = c" using unique_onD [OF u _ c] x(1,2) i by (simp add: supersede_older_def)
    from r [unfolded supersede_older_def, simplified] show False
    proof (cases rule: in_update_manyE)
      case changed
      then show ?thesis using act by simp
    next
      case kept
      then show ?thesis
        using inv_active [OF inv kept(1) act c] x(3) act t i by (auto simp: xc run_owner_def)
    qed
  qed
  show "reply_inv d2"
    unfolding swap allocate_sequence_def
  proof (rule inv_update_conversations [OF inv1], simp, goal_cases)
    case (1 x)
    then have "x = c" using unique_onD [OF u _ c] i by (simp add: supersede_older_def)
    then show ?case by simp
  next
    case (2 x r)
    then show ?case using idle by blast
  qed
  show "c\<lparr>cv_aiReplySequence := ?s, cv_aiReplyFence := ?s\<rparr> \<in> set (conversations d2)"
    using in_update_many_changed [OF c, of "\<lambda>x. cv_id x = i"] i
    by (simp add: d2_def supersede_older_def allocate_sequence_def)
qed

lemma find_conversationD:
  "find_conversation t i d = Some c \<Longrightarrow>
   c \<in> set (conversations d) \<and> cv_id c = i \<and> cv_tenantId c = t \<and> cv_deletedAt c = None"
  unfolding find_conversation_def by (auto dest: find_SomeD)

lemma create_event_tables:
  assumes "createRuntimeQueueEvent h n now i d = Inr (r, d')"
  shows "aiReplyRuns d' = aiReplyRuns d" "conversations d' = conversations d" "messages d' = messages d"
  using assms
  by (auto simp: createRuntimeQueueEvent_def andThen_Inr_iff insert_event_def
      split: option.splits if_splits)

lemma reply_inv_cong:
  "aiReplyRuns d' = aiReplyRuns d \<Longrightarrow> conversations d' = conversations d \<Longrightarrow> reply_inv d' = reply_inv d"
  by (simp add: reply_inv_def)

lemma create_queued_run_inv:
  assumes "reply_inv d" "c \<in> set (conversations d)" "cv_tenantId c = aj_tenantId j" "cv_id c = aj_conversationId j"
    and "create_queued_run env j c m b identity d = Inr (run, d')"
  shows "reply_inv d'"
proof -
  let ?s = "cv_aiReplySequence c + 1"
  let ?d2 = "supersede_older (aj_tenantId j) (aj_conversationId j) (cv_aiGeneration c) ?s (ee_clock env 1)
    (allocate_sequence (aj_conversationId j) ?s d)"
  let ?c = "c\<lparr>cv_aiReplySequence := ?s, cv_aiReplyFence := ?s\<rparr>"
  note a = inv_allocate [OF assms(1,2) assms(3)[symmetric] assms(4)[symmetric] refl, of "ee_clock env 1"]
  have run: "insert_run run ?d2 = Inr d'"
    "run = new_run (ee_runId env) (ee_clock env 2) j m b identity (cv_aiGeneration c) ?s"
    using assms(4,5) by (auto simp: create_queued_run_def Let_def andThen_Inr_iff)
  show ?thesis
    by (rule inv_insert_run [OF a(1) run(1) a(2)])
       (use assms(3,4) in \<open>simp_all add: run(2) new_run_def run_owner_def run_at_fence_def\<close>)
qed

lemma enqueue_admitted_inv:
  assumes "reply_inv d" "c \<in> set (conversations d)" "cv_tenantId c = aj_tenantId j" "cv_id c = aj_conversationId j"
    and "enqueue_admitted env j c inbound b d = Inr (res, d')"
  shows "reply_inv d'"
proof (cases "find_run_of_message (aj_tenantId j) (ms_id inbound) d")
  case None
  then obtain run d1 q where
    "create_queued_run env j c (ms_id inbound) b (aiReplyRunIdentity (ee_host env) j inbound (cv_leadId c)) d = Inr (run, d1)"
    and "createRuntimeQueueEvent (ee_host env) (ee_eventId env) (ee_clock env 4) (ai_reply_event env j run) d1 = Inr (q, d')"
    using assms(5) by (auto simp: enqueue_admitted_def Let_def andThen_Inr_iff)
  then show ?thesis
    using create_queued_run_inv [OF assms(1-4)] create_event_tables reply_inv_cong by metis
next
  case (Some run)
  then consider "d' = d" | q where
    "createRuntimeQueueEvent (ee_host env) (ee_eventId env) (ee_clock env 4) (ai_reply_event env j run) d = Inr (q, d')"
    using assms(5) by (auto simp: enqueue_admitted_def Let_def andThen_Inr_iff split: option.splits)
  then show ?thesis
    using assms(1) create_event_tables reply_inv_cong by cases (blast, metis)
qed

lemma enqueue_inv:
  assumes "reply_inv d" "createAiReplyQueueEvent env rq d = Inr (res, d')"
  shows "reply_inv d'"
proof -
  from assms(2) consider "d' = d"
    | c inbound b where "find_conversation (rq_tenantId rq) (rq_conversationId rq) d = Some c"
        "enqueue_admitted env (request_job rq inbound) c inbound b d = Inr (res, d')"
    by (auto simp: createAiReplyQueueEvent_def andThen_Inr_iff split: if_splits option.splits sum.splits)
  then show ?thesis
  proof cases
    case (2 c inbound b)
    show ?thesis
      by (rule enqueue_admitted_inv [OF assms(1) _ _ _ 2(2)])
         (use find_conversationD [OF 2(1)] in \<open>simp_all add: request_job_def\<close>)
  qed (simp add: assms(1))
qed

lemma inv_update_run:
  assumes "reply_inv d" "\<And>r. run_identity_columns (f r) = run_identity_columns r"
    and "\<And>r. r \<in> set (aiReplyRuns d) \<Longrightarrow> rn_id r = i \<Longrightarrow> run_active (rn_status (f r)) \<Longrightarrow> run_active (rn_status r)"
  shows "reply_inv (update_run i f d)"
  unfolding update_run_def by (rule inv_update_runs) (use assms in auto)

lemma supersede_existing_inv: "reply_inv d \<Longrightarrow> reply_inv (snd (supersede_existing env data m code run d))"
  using inv_update_run [of d "run_superseded (be_completedAt env) code" "rn_id run"]
  by (simp add: supersede_existing_def)

lemma begin_existing_inv:
  assumes inv: "reply_inv d" and run: "\<exists>r\<in>set (aiReplyRuns d). rn_id r = rn_id run \<and> rn_status r = rn_status run"
    and b: "begin_existing env data identity c inbound run d = Inr (res, d')"
  shows "reply_inv d'"
proof -
  have u: "unique_on rn_id (aiReplyRuns d)" using inv by (simp add: reply_inv_def run_keys_def)
  have status: "rn_status r = rn_status run" if "r \<in> set (aiReplyRuns d)" "rn_id r = rn_id run" for r
    using run unique_onD [OF u that(1)] that(2) by metis
  have closed: "reply_inv (update_run (rn_id run) (run_closed at st code) d)" if "\<not> run_active st" for at st code
    by (rule inv_update_run [OF inv], simp) (use that in \<open>simp add: run_closed_def\<close>)
  have started: "reply_inv (update_run (rn_id run) (run_started now) d)"
    if "\<not> terminalWithoutReply (rn_status run)" "rn_status run \<noteq> Rn_SUCCEEDED" for now
  proof (rule inv_update_run [OF inv])
    show "run_active (rn_status r)" if "r \<in> set (aiReplyRuns d)" "rn_id r = rn_id run" for r
      using \<open>\<not> terminalWithoutReply (rn_status run)\<close> \<open>rn_status run \<noteq> Rn_SUCCEEDED\<close> status [OF that]
      by (cases "rn_status run") (auto simp: terminalWithoutReply_def run_active_def)
  qed simp
  have inactive: "\<not> run_active Rn_CANCELLED" "\<not> run_active Rn_DEAD_LETTER" "\<not> run_active Rn_SUPERSEDED"
    by (simp_all add: run_active_def)
  show ?thesis
    using b inv closed started inactive
    by (auto simp: begin_existing_def Let_def andThen_Inr_iff split: if_splits option.splits)
qed

lemma begin_new_inv:
  assumes "reply_inv d" "c \<in> set (conversations d)" "cv_tenantId c = aj_tenantId data"
    and "cv_id c = aj_conversationId data" "begin_new env data identity b cb c inbound d = Inr (res, d')"
  shows "reply_inv d'"
proof -
  let ?s = "cv_aiReplySequence c + 1"
  let ?d2 = "supersede_older (aj_tenantId data) (aj_conversationId data) (cv_aiGeneration c) ?s (be_now env)
    (allocate_sequence (aj_conversationId data) ?s d)"
  let ?c = "c\<lparr>cv_aiReplySequence := ?s, cv_aiReplyFence := ?s\<rparr>"
  let ?run = "new_running_run env data (ms_id inbound) b cb identity (cv_aiGeneration c) ?s"
  note a = inv_allocate [OF assms(1,2) assms(3)[symmetric] assms(4)[symmetric] refl, of "be_now env"]
  have run: "insert_run ?run ?d2 = Inr d'"
    using assms(4,5) by (auto simp: begin_new_def Let_def andThen_Inr_iff split: if_splits)
  show ?thesis
    by (rule inv_insert_run [OF a(1) run a(2)])
       (use assms(3,4) in \<open>simp_all add: new_running_run_def with_binding_def new_run_def run_owner_def run_at_fence_def\<close>)
qed

lemma begin_attempt_inv:
  assumes inv: "reply_inv d" and b: "begin_attempt_tx env data d = Inr (res, d')"
  shows "reply_inv d'"
proof -
  from b obtain c admission inbound where
    c: "find_conversation (aj_tenantId data) (aj_conversationId data) d = Some c"
    and m: "begin_checked env data c inbound admission d = Inr (res, d')"
    by (auto simp: begin_attempt_tx_def andThen_Inr_iff split: option.splits)
  note conv = find_conversationD [OF c]
  let ?id = "aiReplyRunIdentity (be_host env) data inbound (cv_leadId c)"
  have sup: "reply_inv d'" if "Inr (supersede_existing env data i code run d0) = (Inr (res, d') :: error + _)"
    "reply_inv d0" for i code run d0
    using supersede_existing_inv [OF that(2), of env data i code run] that(1) by (metis Inr_inject snd_conv)
  show ?thesis
  proof (cases "find_run_of_message (aj_tenantId data) (ms_id inbound) d")
    case None
    then obtain bnd cb where "begin_new env data ?id bnd cb c inbound d = Inr (res, d')"
      using m by (auto simp: begin_checked_def Let_def andThen_Inr_iff split: sum.splits)
    with conv show ?thesis using begin_new_inv [OF inv] by blast
  next
    case (Some run)
    then have run: "run \<in> set (aiReplyRuns d)"
      unfolding find_run_of_message_def by (auto dest: find_SomeD)
    have bound: "reply_inv (update_run (rn_id run) (with_binding cb) d)" for cb
      by (rule inv_update_run [OF inv]) simp_all
    have in_bound: "\<exists>r\<in>set (aiReplyRuns (update_run (rn_id run) (with_binding cb) d)).
        rn_id r = rn_id (with_binding cb run) \<and> rn_status r = rn_status (with_binding cb run)" for cb
      unfolding update_run_def
      by (simp, rule bexI [OF _ in_update_many_changed [OF run refl]]) simp
    have idw: "rn_id (with_binding cb r) = rn_id r" for cb r by (simp add: with_binding_def)
    have old: "begin_existing env data i c inbound run d = Inr (res, d') \<Longrightarrow> reply_inv d'" for i
      by (rule begin_existing_inv [OF inv]) (use run in blast)
    from m Some show ?thesis
      using sup inv bound old begin_existing_inv [OF bound in_bound]
      by (auto simp: begin_checked_def Let_def andThen_Inr_iff idw split: sum.splits if_splits)
  qed
qed

lemma attempt_statements_inv:
  assumes "reply_inv d"
  shows "reply_inv (supersede_attempt a at c d)"
    and "reply_inv (markAiReplyAttemptFailed clk a msg tm d)"
    and "reply_inv (succeed_run ca ha reply pub oc i d)"
proof -
  show "reply_inv (supersede_attempt a at c d)"
    unfolding supersede_attempt_def by (rule inv_update_runs [OF assms]) simp_all
  show "reply_inv (markAiReplyAttemptFailed clk a msg tm d)"
    unfolding markAiReplyAttemptFailed_def
    by (rule inv_update_runs [OF assms])
       (auto simp: run_attempt_failed_def Let_def run_identity_columns_def attempt_row_def run_active_def)
  show "reply_inv (succeed_run ca ha reply pub oc i d)"
    unfolding succeed_run_def
    by (rule inv_update_run [OF assms]) (simp_all add: run_identity_columns_def run_active_def)
qed

lemma assert_attempt_Inr_iff:
  "assertAttempt h cl an hb a d = Inr (r, d') \<longleftrightarrow>
     (\<exists>v. load_attempt_view h cl an a d = Inr v \<and> attempt_verdict a v = Inr r \<and>
          d' = update_run (at_runId a) (\<lambda>x. x\<lparr>rn_heartbeatAt := Some hb\<rparr>) d)"
proof -
  have "(case q of Inl c \<Rightarrow> Inl (e c) | Inr r \<Rightarrow> Inr (r, y)) = Inr (r, d') \<longleftrightarrow> q = Inr r \<and> d' = y"
    for q :: "AiReplyFenceCode + ai_reply_run" and e :: "AiReplyFenceCode \<Rightarrow> error" and y
    by (cases q) auto
  then show ?thesis unfolding assertAttempt_def andThen_Inr_iff by simp
qed

lemma assert_attempt_inv:
  assumes "reply_inv d" "assertAttempt h cl an hb a d = Inr (r, d')"
  shows "reply_inv d'"
proof -
  have "d' = update_run (at_runId a) (\<lambda>x. x\<lparr>rn_heartbeatAt := Some hb\<rparr>) d"
    using assms(2) by (auto simp: assert_attempt_Inr_iff)
  then show ?thesis
    by (simp, intro inv_update_run [OF assms(1)]) (simp_all add: run_identity_columns_def)
qed

lemma bump_generation_simps [simp]:
  "cv_id (bump_generation c) = cv_id c" "cv_tenantId (bump_generation c) = cv_tenantId c"
  "cv_aiGeneration (bump_generation c) = cv_aiGeneration c + 1"
  "cv_aiReplySequence (bump_generation c) = cv_aiReplySequence c + 1"
  "cv_aiReplyFence (bump_generation c) = cv_aiReplySequence c + 1"
  by (simp_all add: bump_generation_def)

lemma fence_outbox_tables [simp]:
  "aiReplyRuns (fence_outbox t code sel d) = aiReplyRuns d"
  "conversations (fence_outbox t code sel d) = conversations d"
  "messages (fence_outbox t code sel d) = messages d"
  by (simp_all add: fence_outbox_def)

lemma fence_outbox_inv [simp]: "reply_inv (fence_outbox t code sel d) = reply_inv d"
  by (rule reply_inv_cong) simp_all

lemma superseded_idle:
  assumes "r \<in> set (update_many P (run_superseded at code) rows)" "run_active (rn_status r)"
  shows "r \<in> set rows \<and> \<not> P r"
  using assms(1) by (cases rule: in_update_manyE) (use assms(2) in auto)

lemma fence_conversation_inv:
  assumes inv: "reply_inv d" and f: "fencePendingAiReply t i reason at d = Inr d'"
  shows "reply_inv d'"
proof -
  let ?P = "\<lambda>r. rn_tenantId r = t \<and> rn_conversationId r = i \<and> run_active (rn_status r)"
  let ?d1 = "d\<lparr>aiReplyRuns := update_many ?P (run_superseded at reason) (aiReplyRuns d)\<rparr>"
  let ?sel = "\<lambda>r. list_ex (\<lambda>m. ms_tenantId m = ob_tenantId r \<and> ms_id m = ob_aggregateId r \<and>
                  ms_conversationId m = i) (messages ?d1)"
  let ?d2 = "fence_outbox t reason ?sel ?d1"
  have inv2: "reply_inv ?d2"
    unfolding fence_outbox_inv by (rule inv_update_runs [OF inv]) simp_all
  have d': "d' = ?d2\<lparr>conversations := update_many (\<lambda>c. cv_id c = i \<and> cv_tenantId c = t) bump_generation (conversations ?d2)\<rparr>"
    using f by (auto simp: fencePendingAiReply_def Let_def split: option.splits)
  show ?thesis
    unfolding d'
  proof (rule inv_update_conversations [OF inv2], goal_cases)
    case (3 c r)
    then show ?case
      using superseded_idle [of r ?P at reason "aiReplyRuns d"] by (auto simp: run_owner_def)
  qed simp_all
qed

lemma supersede_channel_runs_inv:
  "reply_inv d \<Longrightarrow> reply_inv (supersede_channel_runs t chs code at d)"
  unfolding supersede_channel_runs_def by (rule inv_update_runs) simp_all

lemma supersede_channel_idle:
  assumes "r \<in> set (aiReplyRuns (supersede_channel_runs t chs code at d))"
    and "c \<in> set (conversations d)" "on_channels t chs c" "run_owner c r"
  shows "\<not> run_active (rn_status r)"
proof
  assume act: "run_active (rn_status r)"
  have r: "r \<in> set (aiReplyRuns d)"
    "\<not> (rn_tenantId r = t \<and> run_on_channels d chs r \<and> run_active (rn_status r))"
    using superseded_idle [OF _ act, of _ at code "aiReplyRuns d"] assms(1)
    unfolding supersede_channel_runs_def by auto
  have "run_on_channels d chs r"
    using assms(2-4) by (auto simp: run_on_channels_def list_ex_iff on_channels_def run_owner_def)
  with r(2) act assms(3,4) show False by (simp add: on_channels_def run_owner_def)
qed

lemma supersede_channel_conversations [simp]:
  "conversations (supersede_channel_runs t chs code at d) = conversations d"
  by (simp add: supersede_channel_runs_def)

lemma fence_channel_inv:
  assumes "reply_inv d"
  shows "reply_inv (fenceChannelAutomaticReplies t ch en reason at d)"
  unfolding fenceChannelAutomaticReplies_def Let_def
proof (rule inv_update_conversations, goal_cases)
  case 1
  show ?case by (rule supersede_channel_runs_inv) (simp add: assms)
next
  case (4 c r)
  show ?case
    by (rule supersede_channel_idle [OF 4(3) _ 4(2,4)]) (use 4(1) in \<open>simp only: supersede_channel_conversations\<close>)
qed simp_all

lemma revoke_inv:
  assumes "reply_inv d"
  shows "reply_inv (revokeAutomaticReplies t at d)"
  unfolding revokeAutomaticReplies_def Let_def
proof (split if_split, intro conjI impI, rule assms, rule inv_update_conversations, goal_cases)
  case 1
  show ?case
    by (rule supersede_channel_runs_inv, unfold fence_outbox_inv)
       (use assms reply_inv_cong in \<open>simp add: reply_inv_def\<close>)
next
  case (4 c r)
  show ?case
    by (rule supersede_channel_idle [OF 4(4) _ 4(3,5)]) (use 4(2) in \<open>simp only: supersede_channel_conversations\<close>)
qed simp_all

end
