(* ===== verification/Ai_Reply_Properties.thy ===== *)
theory Ai_Reply_Properties
  imports Ai_Reply_Protocol
begin

text \<open>
  Properties of automatic reply runs: reachable databases have at most one open run per
  conversation, at its fence; a fence closes what is pending and no attempt taken before it ever
  commits work afterwards; attempts are bounded and their failure is recorded as such.
\<close>

section \<open>Steps\<close>

definition reply_columns :: "conversation \<Rightarrow> string \<times> string \<times> int \<times> int \<times> int" where
  "reply_columns c = (cv_id c, cv_tenantId c, cv_aiGeneration c, cv_aiReplySequence c, cv_aiReplyFence c)"

text \<open>
  Every operation on runs and on the reply counters of conversations, and the rest of the system,
  which may create conversations and change anything else.
\<close>

inductive reply_step :: "db \<Rightarrow> db \<Rightarrow> bool" where
  enqueue: "createAiReplyQueueEvent env rq d = Inr (res, d') \<Longrightarrow> reply_step d d'"
| begin_attempt: "begin_attempt_tx benv data d = Inr (bres, d') \<Longrightarrow> reply_step d d'"
| heartbeat: "assertAttempt h cl an hb a d = Inr (r, d') \<Longrightarrow> reply_step d d'"
| superseded: "reply_step d (supersede_attempt a at code d)"
| attempt_failed: "reply_step d (markAiReplyAttemptFailed clk a msg tm d)"
| succeeded: "reply_step d (succeed_run ca ha reply pub oc i d)"
| handoff: "fencePendingAiReply t i reason at d = Inr d' \<Longrightarrow> reply_step d d'"
| channel_fence: "reply_step d (fenceChannelAutomaticReplies t ch en reason at d)"
| revoke: "reply_step d (revokeAutomaticReplies t at d)"
| undeliverable: "reply_step d (failClaimedEvent ev l dt term delay now clk d)"
| new_conversation: "\<forall>x\<in>set (conversations d). cv_id x \<noteq> cv_id c \<Longrightarrow> cv_aiReplyFence c \<le> cv_aiReplySequence c \<Longrightarrow>
     reply_step d (d\<lparr>conversations := conversations d @ [c]\<rparr>)"
| other: "aiReplyRuns d' = aiReplyRuns d \<Longrightarrow>
     map reply_columns (conversations d') = map reply_columns (conversations d) \<Longrightarrow> reply_step d d'"

inductive_cases reply_stepE: "reply_step d d'"

lemma fail_effects_runs:
  "aiReplyRuns (fail_knowledge_source ev data a1 a2 d) = aiReplyRuns d"
  "aiReplyRuns (fail_import_parse ev data d) = aiReplyRuns d"
  "aiReplyRuns (fail_import_project ev data d) = aiReplyRuns d"
  "aiReplyRuns (fail_information_project ev data d) = aiReplyRuns d"
  "aiReplyRuns (fail_channel_send ev data d) = aiReplyRuns d"
  by (simp_all add: fail_knowledge_source_def fail_import_parse_def fail_import_project_def
      fail_information_project_def fail_channel_send_def Let_def split: option.split)

lemma fail_effects_conversations:
  "conversations (fail_ai_reply ev data dt a1 d) = conversations d"
  "conversations (fail_knowledge_source ev data a1 a2 d) = conversations d"
  "conversations (fail_import_parse ev data d) = conversations d"
  "conversations (fail_import_project ev data d) = conversations d"
  "conversations (fail_information_project ev data d) = conversations d"
  "conversations (fail_channel_send ev data d) = conversations d"
  by (simp_all add: fail_ai_reply_def fail_knowledge_source_def fail_import_parse_def
      fail_import_project_def fail_information_project_def fail_channel_send_def Let_def split: option.split)

lemma fail_aggregate_conversations: "conversations (fail_aggregate ev dt clk d) = conversations d"
  by (simp add: fail_aggregate_def Let_def fail_effects_conversations)

lemma fail_aggregate_inv:
  assumes "reply_inv d"
  shows "reply_inv (fail_aggregate ev dt clk d)"
proof -
  have "reply_inv (fail_ai_reply ev data dt at d)" for data at
    unfolding fail_ai_reply_def
    by (cases "js_str (map_of data ''triggerMessageId'')")
       (use assms in \<open>auto intro!: inv_update_runs simp: run_identity_columns_def run_active_def\<close>)
  moreover have "reply_inv x" if "aiReplyRuns x = aiReplyRuns d" "conversations x = conversations d" for x
    using that assms reply_inv_cong by metis
  ultimately show ?thesis
    by (simp add: fail_aggregate_def Let_def fail_effects_runs fail_effects_conversations)
qed

lemma mark_failed_tables:
  "aiReplyRuns (snd (mark_failed tm at dt l i d)) = aiReplyRuns d"
  "conversations (snd (mark_failed tm at dt l i d)) = conversations d"
  by (simp_all add: mark_failed_def update_outbox_def)

lemma fail_event_reply:
  "reply_inv d \<Longrightarrow> reply_inv (failClaimedEvent ev l dt tm delay now clk d)"
  "conversations (failClaimedEvent ev l dt tm delay now clk d) = conversations d"
proof -
  obtain n d1 where m: "mark_failed tm (now + delay) dt l (ob_id ev) d = (n, d1)" by fastforce
  have t: "aiReplyRuns d1 = aiReplyRuns d" "conversations d1 = conversations d"
    using mark_failed_tables [of tm "now + delay" dt l "ob_id ev" d] m by simp_all
  show "reply_inv d \<Longrightarrow> reply_inv (failClaimedEvent ev l dt tm delay now clk d)"
    using t fail_aggregate_inv reply_inv_cong [OF t] by (simp add: failClaimedEvent_def m)
  show "conversations (failClaimedEvent ev l dt tm delay now clk d) = conversations d"
    using t by (simp add: failClaimedEvent_def m fail_aggregate_conversations)
qed

lemma reply_inv_columns:
  assumes inv: "reply_inv d" and runs: "aiReplyRuns d' = aiReplyRuns d"
    and cols: "map reply_columns (conversations d') = map reply_columns (conversations d)"
  shows "reply_inv d'"
proof -
  have ids: "map cv_id (conversations d') = map cv_id (conversations d)"
    using arg_cong [OF cols, of "map fst"] by (simp add: reply_columns_def comp_def)
  have img: "reply_columns ` set (conversations d') = reply_columns ` set (conversations d)"
    by (metis cols list.set_map)
  have "\<exists>c'\<in>set (conversations d'). reply_columns c' = reply_columns c" if "c \<in> set (conversations d)" for c
    using img that by (metis imageE image_eqI)
  moreover have "\<exists>c\<in>set (conversations d). reply_columns c = reply_columns c'" if "c' \<in> set (conversations d')" for c'
    using img that by (metis imageE image_eqI)
  ultimately show ?thesis
    using inv unfolding reply_inv_def runs unique_on_def ids run_owner_def run_at_fence_def reply_columns_def
    by (smt (verit) Pair_inject)
qed

lemma reply_step_inv: "reply_step d d' \<Longrightarrow> reply_inv d \<Longrightarrow> reply_inv d'"
proof (induction rule: reply_step.induct)
  case (new_conversation d c)
  then show ?case by (auto simp: reply_inv_def unique_on_append1)
qed (auto intro: enqueue_inv begin_attempt_inv assert_attempt_inv attempt_statements_inv
    fence_conversation_inv fence_channel_inv revoke_inv fail_event_reply(1) reply_inv_columns)

lemma reply_steps_inv: "reply_step\<^sup>*\<^sup>* d d' \<Longrightarrow> reply_inv d \<Longrightarrow> reply_inv d'"
  by (induction rule: rtranclp_induct) (auto intro: reply_step_inv)

lemma reply_inv_empty: "reply_inv empty_db"
  by (simp add: reply_inv_def run_keys_def empty_db_def)

section \<open>One open run per conversation\<close>

text \<open>C2. However the enqueuing API, the workers, the dispatcher and the fences interleave from an
  empty database, a conversation never has two open runs: two open runs of one conversation are the
  same run, and it carries the generation and the fence of the conversation.\<close>

theorem single_open_run:
  assumes "reply_step\<^sup>*\<^sup>* empty_db d"
    and "r1 \<in> set (aiReplyRuns d)" "run_active (rn_status r1)"
    and "r2 \<in> set (aiReplyRuns d)" "run_active (rn_status r2)"
    and "rn_tenantId r1 = rn_tenantId r2" "rn_conversationId r1 = rn_conversationId r2"
  shows "r1 = r2 \<and> (\<exists>c\<in>set (conversations d). run_owner c r1 \<and>
           rn_generation r1 = cv_aiGeneration c \<and> rn_sequence r1 = cv_aiReplyFence c)"
proof -
  have inv: "reply_inv d" using reply_steps_inv [OF assms(1) reply_inv_empty] .
  obtain c where c: "c \<in> set (conversations d)" "run_owner c r1"
    using inv assms(2) by (auto simp: reply_inv_def)
  then have c2: "run_owner c r2" using assms(6,7) by (simp add: run_owner_def)
  have f: "rn_generation r1 = cv_aiGeneration c" "rn_sequence r1 = cv_aiReplyFence c"
    "rn_sequence r2 = cv_aiReplyFence c"
    using inv_active [OF inv assms(2,3) c] inv_active [OF inv assms(4,5) c(1) c2] by simp_all
  have "unique_on (\<lambda>r. (rn_conversationId r, rn_sequence r)) (aiReplyRuns d)"
    using inv by (simp add: reply_inv_def run_keys_def)
  then have "r1 = r2" using unique_onD [OF _ assms(2,4)] f assms(7) by fastforce
  with c f show ?thesis by blast
qed

section \<open>Generations only grow\<close>

definition generation_at_least :: "string \<Rightarrow> string \<Rightarrow> int \<Rightarrow> db \<Rightarrow> bool" where
  "generation_at_least t i g d =
     ((\<exists>c\<in>set (conversations d). cv_id c = i) \<and>
      (\<forall>c\<in>set (conversations d). cv_id c = i \<and> cv_tenantId c = t \<longrightarrow> g \<le> cv_aiGeneration c))"

lemma generation_update_conversations:
  assumes "generation_at_least t i g d"
    and f: "\<And>c. cv_id (f c) = cv_id c \<and> cv_tenantId (f c) = cv_tenantId c \<and> cv_aiGeneration c \<le> cv_aiGeneration (f c)"
    and d': "conversations d' = update_many Q f (conversations d)"
  shows "generation_at_least t i g d'"
proof -
  have "map cv_id (conversations d') = map cv_id (conversations d)"
    unfolding d' by (rule map_key_update_many) (use f in blast)
  then have "cv_id ` set (conversations d') = cv_id ` set (conversations d)" by (metis list.set_map)
  then have ex: "\<exists>c\<in>set (conversations d'). cv_id c = i"
    using assms(1) unfolding generation_at_least_def by (metis imageE image_eqI)
  have "g \<le> cv_aiGeneration c" if "c \<in> set (conversations d')" "cv_id c = i" "cv_tenantId c = t" for c
    using that(1) unfolding d'
  proof (cases rule: in_update_manyE)
    case (changed x)
    then have "g \<le> cv_aiGeneration x" using assms(1) f [of x] that(2,3) by (auto simp: generation_at_least_def)
    then show ?thesis using f [of x] changed(3) by simp
  next
    case kept
    then show ?thesis using assms(1) that(2,3) by (auto simp: generation_at_least_def)
  qed
  with ex show ?thesis by (auto simp: generation_at_least_def)
qed

lemma generation_same: "generation_at_least t i g d \<Longrightarrow> conversations d' = conversations d \<Longrightarrow> generation_at_least t i g d'"
  by (simp add: generation_at_least_def)

lemma generation_columns:
  assumes "generation_at_least t i g d" "map reply_columns (conversations d') = map reply_columns (conversations d)"
  shows "generation_at_least t i g d'"
proof -
  have img: "reply_columns ` set (conversations d') = reply_columns ` set (conversations d)"
    by (metis assms(2) list.set_map)
  have to: "\<exists>c\<in>set (conversations d). reply_columns c = reply_columns c'" if "c' \<in> set (conversations d')" for c'
    using img that by (metis imageE image_eqI)
  have "\<exists>c'\<in>set (conversations d'). reply_columns c' = reply_columns c" if "c \<in> set (conversations d)" for c
    using img that by (metis imageE image_eqI)
  then have "\<exists>c\<in>set (conversations d'). cv_id c = i"
    using assms(1) by (auto simp: generation_at_least_def reply_columns_def)
  moreover have "g \<le> cv_aiGeneration c'" if "c' \<in> set (conversations d')" "cv_id c' = i" "cv_tenantId c' = t" for c'
    using to [OF that(1)] assms(1) that(2,3) by (auto simp: generation_at_least_def reply_columns_def)
  ultimately show ?thesis by (auto simp: generation_at_least_def)
qed

lemma allocate_generation:
  "generation_at_least t i g d \<Longrightarrow>
   conversations d' = conversations (allocate_sequence k s d) \<Longrightarrow> generation_at_least t i g d'"
  by (rule generation_update_conversations
        [of t i g d "\<lambda>c. c\<lparr>cv_aiReplySequence := s, cv_aiReplyFence := s\<rparr>" d' "\<lambda>c. cv_id c = k"])
     (simp_all add: allocate_sequence_def)

lemma insert_run_conversations: "insert_run r d = Inr d' \<Longrightarrow> conversations d' = conversations d"
  by (auto simp: insert_run_Inr_iff)

lemma update_run_conversations [simp]: "conversations (update_run i f d) = conversations d"
  by (simp add: update_run_def)

lemma supersede_older_conversations [simp]: "conversations (supersede_older t i g s at d) = conversations d"
  by (simp add: supersede_older_def)

definition only_allocates :: "db \<Rightarrow> db \<Rightarrow> bool" where
  "only_allocates d d' =
     (conversations d' = conversations d \<or> (\<exists>k s. conversations d' = conversations (allocate_sequence k s d)))"

lemma only_allocatesI:
  "conversations d' = conversations (allocate_sequence k s d) \<Longrightarrow> only_allocates d d'"
  by (auto simp: only_allocates_def)

lemma only_allocates_same: "conversations d' = conversations d \<Longrightarrow> only_allocates d d'"
  by (simp add: only_allocates_def)

lemma only_allocates_generation: "only_allocates d d' \<Longrightarrow> generation_at_least t i g d \<Longrightarrow> generation_at_least t i g d'"
  unfolding only_allocates_def using allocate_generation generation_same by blast

lemma create_queued_run_allocates:
  "create_queued_run env j c m b ident d = Inr (run, d') \<Longrightarrow> only_allocates d d'"
  by (auto simp: create_queued_run_def Let_def andThen_Inr_iff
      intro: only_allocatesI dest!: insert_run_conversations)

lemma enqueue_admitted_allocates:
  assumes "enqueue_admitted env j c inbound b d = Inr (res, d')"
  shows "only_allocates d d'"
proof (cases "find_run_of_message (aj_tenantId j) (ms_id inbound) d")
  case None
  then obtain run d1 q where
    1: "create_queued_run env j c (ms_id inbound) b (aiReplyRunIdentity (ee_host env) j inbound (cv_leadId c)) d = Inr (run, d1)"
    and 2: "createRuntimeQueueEvent (ee_host env) (ee_eventId env) (ee_clock env 4) (ai_reply_event env j run) d1 = Inr (q, d')"
    using assms by (auto simp: enqueue_admitted_def Let_def andThen_Inr_iff)
  show ?thesis
    using create_queued_run_allocates [OF 1] create_event_tables(2) [OF 2] by (simp add: only_allocates_def)
next
  case (Some run)
  then show ?thesis
    using assms
    by (auto simp: enqueue_admitted_def Let_def andThen_Inr_iff only_allocates_def
        dest!: create_event_tables(2) split: option.splits)
qed

lemma enqueue_allocates: "createAiReplyQueueEvent env rq d = Inr (res, d') \<Longrightarrow> only_allocates d d'"
  by (auto simp: createAiReplyQueueEvent_def andThen_Inr_iff only_allocates_def
      dest!: enqueue_admitted_allocates split: if_splits option.splits sum.splits)

lemma begin_parts_allocate:
  "begin_new env data ident b cb c inbound d = Inr (res, d') \<Longrightarrow> only_allocates d d'"
  "begin_existing env data ident c inbound run d = Inr (res, d') \<Longrightarrow> conversations d' = conversations d"
  "supersede_existing env data m code run d = (res, d') \<Longrightarrow> conversations d' = conversations d"
  by (auto simp: begin_new_def begin_existing_def supersede_existing_def Let_def andThen_Inr_iff
      intro: only_allocatesI dest!: insert_run_conversations split: if_splits option.splits)

lemma begin_allocates:
  assumes "begin_attempt_tx env data d = Inr (res, d')"
  shows "only_allocates d d'"
proof -
  from assms obtain c admission inbound where
    m: "begin_checked env data c inbound admission d = Inr (res, d')"
    by (auto simp: begin_attempt_tx_def andThen_Inr_iff split: option.splits)
  have sup: "only_allocates d d'" if "Inr (supersede_existing env data i code run d0) = (Inr (res, d') :: error + _)"
    "conversations d0 = conversations d" for i code run d0
    using begin_parts_allocate(3) [of env data i code run d0 res d'] that by (simp add: only_allocates_def)
  have old: "only_allocates d d'" if "begin_existing env data i c inbound run d0 = Inr (res, d')"
    "conversations d0 = conversations d" for i run d0
    using begin_parts_allocate(2) [OF that(1)] that(2) by (simp add: only_allocates_def)
  show ?thesis
  proof (cases "find_run_of_message (aj_tenantId data) (ms_id inbound) d")
    case None
    then show ?thesis
      using m by (auto simp: begin_checked_def Let_def andThen_Inr_iff dest!: begin_parts_allocate(1) split: sum.splits)
  next
    case (Some run)
    with m show ?thesis
      using sup old by (auto simp: begin_checked_def Let_def andThen_Inr_iff split: sum.splits if_splits)
  qed
qed

lemma fence_conversations:
  "fencePendingAiReply t i reason at d = Inr d' \<Longrightarrow>
     conversations d' = update_many (\<lambda>c. cv_id c = i \<and> cv_tenantId c = t) bump_generation (conversations d)"
  by (auto simp: fencePendingAiReply_def Let_def split: option.splits)

lemma fence_channel_conversations:
  "conversations (fenceChannelAutomaticReplies t ch en reason at d) =
     update_many (on_channels t [ch]) (\<lambda>c. (bump_generation c)\<lparr>cv_aiEnabled :=
        en \<and> cv_status c = Cv_OPEN \<and> \<not> cv_handoffRequested c\<rparr>) (conversations d)"
  by (simp add: fenceChannelAutomaticReplies_def Let_def)

lemma revoke_conversations:
  "conversations (revokeAutomaticReplies t at d) = conversations d \<or>
   (\<exists>chs. conversations (revokeAutomaticReplies t at d) =
      update_many (on_channels t chs) (\<lambda>c. (bump_generation c)\<lparr>cv_aiEnabled := False\<rparr>) (conversations d))"
  by (auto simp: revokeAutomaticReplies_def Let_def)

lemma attempt_statements_conversations [simp]:
  "conversations (supersede_attempt a at c d) = conversations d"
  "conversations (markAiReplyAttemptFailed clk a msg tm d) = conversations d"
  "conversations (succeed_run ca ha reply pub oc k d) = conversations d"
  by (simp_all add: supersede_attempt_def markAiReplyAttemptFailed_def succeed_run_def Let_def)

lemma reply_step_generation:
  "reply_step d d' \<Longrightarrow> generation_at_least t i g d \<Longrightarrow> generation_at_least t i g d'"
proof (induction rule: reply_step.induct)
  case (heartbeat h cl an hb a d r d')
  then show ?case by (auto simp: assert_attempt_Inr_iff intro: generation_same)
next
  case (handoff t' i' reason at d d')
  show ?case
    by (rule generation_update_conversations [OF handoff(2) _ fence_conversations [OF handoff(1)]]) simp
next
  case (channel_fence d t' ch en reason at)
  show ?case
    by (rule generation_update_conversations [OF channel_fence _ fence_channel_conversations]) simp
next
  case (revoke d t' at)
  from revoke_conversations [of t' at d] show ?case
  proof
    assume "\<exists>chs. conversations (revokeAutomaticReplies t' at d) =
      update_many (on_channels t' chs) (\<lambda>c. (bump_generation c)\<lparr>cv_aiEnabled := False\<rparr>) (conversations d)"
    then obtain chs where c: "conversations (revokeAutomaticReplies t' at d) =
      update_many (on_channels t' chs) (\<lambda>c. (bump_generation c)\<lparr>cv_aiEnabled := False\<rparr>) (conversations d)" ..
    show ?case by (rule generation_update_conversations [OF revoke _ c]) simp
  qed (rule generation_same [OF revoke])
next
  case (new_conversation d c)
  then show ?case by (auto simp: generation_at_least_def)
next
  case (undeliverable d ev l dt tm delay now clk)
  show ?case by (rule generation_same [OF undeliverable]) (rule fail_event_reply(2))
qed (auto intro: only_allocates_generation enqueue_allocates begin_allocates generation_same generation_columns)

lemma reply_steps_generation:
  "reply_step\<^sup>*\<^sup>* d d' \<Longrightarrow> generation_at_least t i g d \<Longrightarrow> generation_at_least t i g d'"
  by (induction rule: rtranclp_induct) (auto intro: reply_step_generation)

end
