(* ===== verification/Outbox_Properties.thy ===== *)
theory Outbox_Properties
  imports Outbox_Protocol
begin

text \<open>
  Properties of the outbox: uniqueness and idempotence of event creation, lease exclusion between
  dispatchers, the fate of a stale dispatcher, soundness of a reported publication, the table
  invariant under interference, and completeness of a drain.
\<close>

section \<open>Creating events\<close>

lemma insert_event_Inr_iff:
  "insert_event r d = Inr d' \<longleftrightarrow>
     d' = d\<lparr>runtimeOutbox := runtimeOutbox d @ [r]\<rparr> \<and>
     (\<forall>x\<in>set (runtimeOutbox d). ob_id x \<noteq> ob_id r \<and>
        (ob_tenantId x, ob_dedupeKey x) \<noteq> (ob_tenantId r, ob_dedupeKey r) \<and>
        outbox_aggregate_key x \<noteq> outbox_aggregate_key r)"
  by (auto simp: insert_event_def list_ex_iff)

lemma create_event_cases:
  assumes "createRuntimeQueueEvent h n now i d = Inr (r, d')"
  obtains (existing) "List.find (\<lambda>r. ob_tenantId r = ce_tenantId i \<and> ob_dedupeKey r = ce_dedupeKey i)
              (runtimeOutbox d) = Some r" "d' = d" "event_matches h i r" "assertEventMetadata i = Inr ()"
  | (created) "List.find (\<lambda>r. ob_tenantId r = ce_tenantId i \<and> ob_dedupeKey r = ce_dedupeKey i)
              (runtimeOutbox d) = None" "r = new_event n now i" "insert_event r d = Inr d'"
              "event_matches h i r" "assertEventMetadata i = Inr ()"
  using assms
  by (auto simp: createRuntimeQueueEvent_def andThen_Inr_iff split: option.splits if_splits)

lemma assert_metadata_deadline:
  "assertEventMetadata (i\<lparr>ce_deadlineAt := x\<rparr>) = assertEventMetadata i"
proof -
  have "aiReplyMetadataMatches (i\<lparr>ce_deadlineAt := x\<rparr>) = aiReplyMetadataMatches i"
    "businessImportMetadataMatches (i\<lparr>ce_deadlineAt := x\<rparr>) = businessImportMetadataMatches i"
    by (simp_all add: aiReplyMetadataMatches_def businessImportMetadataMatches_def Let_def)
  then show ?thesis by (cases "en_queueName (ce_envelope i)") (simp_all add: assertEventMetadata_def)
qed

lemma create_event_again:
  assumes "createRuntimeQueueEvent h n now i d = Inr (r, d')"
  shows "createRuntimeQueueEvent h n' now' (i\<lparr>ce_deadlineAt := x\<rparr>) d' = Inr (r, d')"
proof -
  have m: "event_matches h (i\<lparr>ce_deadlineAt := x\<rparr>) = event_matches h i"
    by (simp add: event_matches_def input_generation_def fun_eq_iff)
  from assms show ?thesis
  proof (cases rule: create_event_cases)
    case existing
    then show ?thesis by (simp add: createRuntimeQueueEvent_def m assert_metadata_deadline)
  next
    case created
    have "List.find (\<lambda>r. ob_tenantId r = ce_tenantId i \<and> ob_dedupeKey r = ce_dedupeKey i)
        (runtimeOutbox d') = Some r"
      using created(1-3) by (simp add: insert_event_Inr_iff find_append new_event_def)
    with created(4,5) show ?thesis by (simp add: createRuntimeQueueEvent_def m assert_metadata_deadline)
  qed
qed

text \<open>Creating an event is idempotent: once a request has created or found its event, the same
  request, retried at any later time, returns the same event and changes nothing.\<close>

theorem create_event_idempotent:
  assumes "createRuntimeQueueEvent h n now i d = Inr (r, d')"
  shows "createRuntimeQueueEvent h n' now' i d' = Inr (r, d')"
  using create_event_again [OF assms, of n' now' "ce_deadlineAt i"] by simp

text \<open>Creating an event keeps the three unique keys of the outbox, leaves every existing row as it
  is and adds at most one row, a pending one with no attempts; and a dedupe key that is already
  taken by an event with other metadata or another payload is rejected.\<close>

theorem create_event_keys:
  assumes "outbox_keys (runtimeOutbox d)"
  shows "case createRuntimeQueueEvent h n now i d of
      Inr (r, d') \<Rightarrow>
        outbox_keys (runtimeOutbox d') \<and> event_matches h i r \<and> r \<in> set (runtimeOutbox d') \<and>
        (d' = d \<or> d' = d\<lparr>runtimeOutbox := runtimeOutbox d @ [r]\<rparr> \<and> ob_status r = Ob_PENDING \<and> ob_attemptCount r = 0)
    | Inl e \<Rightarrow>
        assertEventMetadata i = Inl e \<or> e = PrismaError ''P2002'' \<or>
        (\<exists>r\<in>set (runtimeOutbox d). ob_tenantId r = ce_tenantId i \<and> ob_dedupeKey r = ce_dedupeKey i \<and>
           \<not> event_matches h i r)"
proof (cases "createRuntimeQueueEvent h n now i d")
  case (Inl e)
  show ?thesis
  proof (cases "List.find (\<lambda>r. ob_tenantId r = ce_tenantId i \<and> ob_dedupeKey r = ce_dedupeKey i) (runtimeOutbox d)")
    case None
    have "event_matches h i (new_event n now i)"
      by (simp add: event_matches_def new_event_def)
    with Inl None show ?thesis
      by (auto simp: createRuntimeQueueEvent_def andThen_Inl_iff insert_event_def split: if_splits)
  next
    case (Some r)
    with Inl show ?thesis
      by (auto simp: createRuntimeQueueEvent_def andThen_Inl_iff dest!: find_SomeD split: if_splits)
  qed
next
  case (Inr x)
  obtain r d' where x: "x = (r, d')" by fastforce
  from Inr [unfolded x] show ?thesis
  proof (cases rule: create_event_cases)
    case existing
    with assms Inr x show ?thesis by (auto dest: find_SomeD)
  next
    case created
    have "outbox_keys (runtimeOutbox d')"
      using created(3) assms by (auto simp: insert_event_Inr_iff outbox_keys_def unique_on_append1)
    with created Inr x show ?thesis by (auto simp: insert_event_Inr_iff new_event_def)
  qed
qed

section \<open>Leases\<close>

text \<open>Two dispatchers never hold the same event: once one has claimed it, a claim by anyone else
  before the lease runs out updates no row and leaves the database as it is.\<close>

theorem claim_exclusive:
  assumes "unique_on ob_id (runtimeOutbox d)"
    and "claim_event now ms l i d = (cnt, d')" "cnt \<noteq> 0" "now' < now + ms"
  shows "claim_event now' ms' l' i d' = (0, d')"
proof -
  from assms(2,3) obtain r where r: "r \<in> set (runtimeOutbox d)" "ob_id r = i" "outbox_claimable now r"
    by (auto simp: claim_event_def update_outbox_def count_where_def filter_empty_conv)
  let ?r = "outbox_claim now (now + ms) l r"
  have d': "d' = put_event ?r d"
    using claim_quiet [OF assms(1) r(1,3), of ms l] r(2) assms(2) by simp
  have "\<not> outbox_claimable now' ?r" by (rule ob_lease.claimed_exclusive [OF assms(4)])
  then have "count_where (\<lambda>x. ob_id x = i \<and> outbox_claimable now' x) (runtimeOutbox d') = 0"
    using r(2) by (auto simp: count_where_0_iff d' put_event_def dest!: in_put_rowD)
  then show ?thesis by (simp add: claim_event_def update_outbox_def update_many_none)
qed

text \<open>A step of another lock, or a fence, is a step of another worker for the lease protocol.\<close>

lemma row_step_other:
  assumes "outbox_row_step a r r'" "a \<noteq> Some l"
  shows "ob_lease.other_step l r r'"
  using assms(1)
proof (cases rule: outbox_row_step.cases)
  case (claim now l' till)
  then show ?thesis using assms(2) by (auto simp: ob_lease.other_step_def)
qed (auto simp: ob_lease.other_step_def outbox_row_defs)

definition others :: "string \<Rightarrow> runtime_outbox \<Rightarrow> runtime_outbox \<Rightarrow> bool" where
  "others l r r' = (\<exists>a. a \<noteq> Some l \<and> outbox_row_step a r r')"

lemma others_not_owned: "(others l)\<^sup>*\<^sup>* r r' \<Longrightarrow> ob_lockedBy r \<noteq> Some l \<Longrightarrow> \<not> outbox_owned l r'"
proof -
  assume "(others l)\<^sup>*\<^sup>* r r'"
  then have "(ob_lease.other_step l)\<^sup>*\<^sup>* r r'"
    by (rule rtranclp_mono [THEN predicate2D, rotated]) (auto simp: others_def row_step_other)
  then show "ob_lockedBy r \<noteq> Some l \<Longrightarrow> \<not> outbox_owned l r'" by (rule ob_lease.lost_forever)
qed

lemma update_outbox_none: "\<forall>r\<in>set (runtimeOutbox d). \<not> P r \<Longrightarrow> update_outbox P f d = (0, d)"
  using count_where_0_iff [of P "runtimeOutbox d"] by (simp add: update_outbox_def update_many_none)

text \<open>C7. A dispatcher that lost its lease does no harm: when the row of its event is no longer held
  by its lock, then however the other workers and the fences go on, its renewal and its report of
  the publication update nothing and the failure transaction leaves the database as it is.\<close>

theorem stale_dispatcher_harmless:
  assumes "unique_on ob_id (runtimeOutbox d)" "r' \<in> set (runtimeOutbox d)" "ob_id r' = ob_id ev"
    and "(others l)\<^sup>*\<^sup>* r r'" "ob_lockedBy r \<noteq> Some l"
  shows "renew_lease at now ms l (ob_id ev) d = (0, d) \<and> mark_published at l (ob_id ev) d = (0, d) \<and>
         failClaimedEvent ev l dt tm delay now clk d = d"
proof -
  have none: "\<forall>x\<in>set (runtimeOutbox d). \<not> (ob_id x = ob_id ev \<and> outbox_owned l x)"
    using others_not_owned [OF assms(4,5)] assms(1-3) by (metis unique_onD)
  then show ?thesis
    using update_outbox_none [OF none]
    by (simp add: renew_lease_def mark_published_def failClaimedEvent_def mark_failed_def)
qed

section \<open>Outcome of a dispatch\<close>

text \<open>C3. Undisturbed, the dispatcher with its lease, its guarded statements and its renewals does
  exactly what the specification says in one atomic step: the event becomes PUBLISHED when the
  deadline has not passed, the payload parses and the queue accepts the job, and otherwise it
  becomes FAILED with a back-off, or DEAD_LETTER with the effects on its aggregate; every other
  row is as before.\<close>

theorem dispatch_refines_spec:
  assumes "unique_on ob_id (runtimeOutbox d)" "r \<in> set (runtimeOutbox d)"
    and "outbox_claimable (de_now env) r" "env_quiet env"
  shows "dispatch env (ob_id r) d = dispatch_spec env r d"
  by (rule dispatch_quiet_eq [OF assms])

text \<open>A reported publication is true whatever other processes did meanwhile: when \<open>dispatch\<close>
  returns \<open>published\<close>, the queue accepted exactly the envelope parsed from the event's payload,
  extended by the event id and the generation, and the event's row is PUBLISHED and unlocked.\<close>

theorem dispatch_published_sound:
  assumes "dispatch env i d = (d', sent, Inr res)" "dr_status res = published"
  shows "\<exists>ev e. ob_id ev = i \<and> parseRuntimeQueueEnvelope (ob_payload ev) = Inr e \<and>
           sent = [dispatchEnvelope ev e] \<and> de_publisher env (dispatchEnvelope ev e) = None \<and>
           dr_jobId res = en_jobId e \<and>
           (\<exists>r\<in>set (runtimeOutbox d'). ob_id r = i \<and> ob_status r = Ob_PUBLISHED \<and>
              ob_publishedAt r = Some (de_publishedAt env) \<and> ob_lockedBy r = None)"
proof -
  obtain n d1 where c: "claim_event (de_now env) (de_leaseMs env) (de_lockId env) i d = (n, d1)" by fastforce
  let ?d2 = "de_beforeRead env d1"
  have "n \<noteq> 0"
    using assms by (auto simp: dispatch_def c Let_def andThen_Inr_iff split: option.splits if_splits)
  with assms obtain ev where ev: "List.find (\<lambda>r. ob_id r = i) (runtimeOutbox ?d2) = Some ev"
    and t: "dispatch_try env ev ?d2 = (d', sent, Inr res)"
    by (auto simp: dispatch_def c Let_def split: option.splits prod.splits sum.splits)
  have id: "ob_id ev = i" using ev by (auto dest: find_SomeD)
  obtain lost d3 where r: "run_renewals (de_leaseMs env) (de_lockId env) (ob_id ev) (de_renewals env) (False, ?d2) = (lost, d3)"
    by fastforce
  from t obtain e where e: "parseRuntimeQueueEnvelope (ob_payload ev) = Inr e"
    "de_publisher env (dispatchEnvelope ev e) = None" "sent = [dispatchEnvelope ev e]"
    "dr_jobId res = en_jobId e"
    and m: "fst (mark_published (de_publishedAt env) (de_lockId env) (ob_id ev) (de_beforePublished env d3)) \<noteq> 0"
    "d' = snd (mark_published (de_publishedAt env) (de_lockId env) (ob_id ev) (de_beforePublished env d3))"
    by (auto simp: dispatch_try_def r Let_def split: option.splits prod.splits sum.splits if_splits)
  from m(1) obtain x where x: "x \<in> set (runtimeOutbox (de_beforePublished env d3))"
    "ob_id x = ob_id ev \<and> outbox_owned (de_lockId env) x"
    by (auto simp: mark_published_def update_outbox_def count_where_def filter_empty_conv)
  have "outbox_published (de_publishedAt env) x \<in> set (runtimeOutbox d')"
    unfolding m(2) mark_published_def update_outbox_def
    by (simp, rule in_update_many_changed [OF x(1)]) (rule x(2))
  moreover have "ob_id (outbox_published (de_publishedAt env) x) = i" using x(2) id by simp
  ultimately have "\<exists>r\<in>set (runtimeOutbox d'). ob_id r = i \<and> ob_status r = Ob_PUBLISHED \<and>
      ob_publishedAt r = Some (de_publishedAt env) \<and> ob_lockedBy r = None"
    by (intro bexI [of _ "outbox_published (de_publishedAt env) x"]) (simp_all add: outbox_published_def)
  with e id show ?thesis by blast
qed

text \<open>C17. Whatever processes interleave with a dispatch, as long as each of them uses the outbox
  through its statements, the table keeps its invariant (locks exactly on rows in PUBLISHING, a
  publication time exactly on PUBLISHED rows, at least one attempt once claimed), every event keeps
  its identity and payload, attempts never decrease, and a PUBLISHED or DEAD_LETTER row never
  changes again.\<close>

theorem dispatch_preserves_outbox:
  assumes "env_benign env" "list_all outbox_row_ok (runtimeOutbox d)"
    and "d' = fst (dispatch env i d)"
  shows "list_all outbox_row_ok (runtimeOutbox d') \<and>
     (\<forall>r\<in>set (runtimeOutbox d). \<exists>r'\<in>set (runtimeOutbox d').
        event_identity r' = event_identity r \<and> ob_attemptCount r \<le> ob_attemptCount r' \<and>
        (outbox_final r \<longrightarrow> r' = r))"
proof
  have ev: "outbox_evolves (runtimeOutbox d) (runtimeOutbox d')"
    using dispatch_evolves [OF assms(1)] assms(3) by simp
  then show "list_all outbox_row_ok (runtimeOutbox d')" using assms(2) by (rule evolves_ok)
  show "\<forall>r\<in>set (runtimeOutbox d). \<exists>r'\<in>set (runtimeOutbox d').
        event_identity r' = event_identity r \<and> ob_attemptCount r \<le> ob_attemptCount r' \<and>
        (outbox_final r \<longrightarrow> r' = r)"
    using ev steps_row by (meson evolves_row)
qed

text \<open>The back-off of a failed dispatch grows with the attempts and stays between two seconds and
  one minute.\<close>

theorem dispatch_delay_bounds:
  assumes "1 \<le> a" "a \<le> b"
  shows "2000 \<le> dispatch_delay a \<and> dispatch_delay a \<le> dispatch_delay b \<and> dispatch_delay b \<le> 60000"
proof -
  let ?p = "\<lambda>n. 1000 * 2 ^ nat (min n 6) :: int"
  have "(2::int) ^ 1 \<le> 2 ^ nat (min a 6)" using assms(1) by (intro power_increasing) auto
  then have lo: "2000 \<le> ?p a" by simp
  have "(2::int) ^ nat (min a 6) \<le> 2 ^ nat (min b 6)" using assms by (intro power_increasing) auto
  then have le: "?p a \<le> ?p b" by simp
  show ?thesis unfolding dispatch_delay_def
    using lo min.mono [OF order_refl le, of 60000] by auto
qed

theorem dispatch_delay_bounds_witness:
  "2000 \<le> dispatch_delay 3 \<and> dispatch_delay 3 \<le> dispatch_delay 9 \<and> dispatch_delay 9 \<le> 60000"
  using dispatch_delay_bounds [of 3 9] by simp

section \<open>Draining\<close>

lemma claimable_mono: "outbox_claimable now r \<Longrightarrow> now \<le> now' \<Longrightarrow> outbox_claimable now' r"
  by (auto simp: outbox_claimable_def split: option.splits)

definition publishable :: "dispatch_env \<Rightarrow> runtime_outbox \<Rightarrow> bool" where
  "publishable env r =
     is_ok (publish_outcome env (outbox_claim (de_now env) (de_now env + de_leaseMs env) (de_lockId env) r))"

lemma dispatch_publishable:
  assumes "unique_on ob_id (runtimeOutbox d)" "r \<in> set (runtimeOutbox d)"
    and "outbox_claimable (de_now env) r" "env_quiet env" "publishable env r"
  obtains r' msg res where "dispatch env (ob_id r) d = (put_event r' d, [msg], Inr res)"
    "ob_id r' = ob_id r" "ob_status r' = Ob_PUBLISHED"
proof -
  from assms(5) obtain m where
    "publish_outcome env (outbox_claim (de_now env) (de_now env + de_leaseMs env) (de_lockId env) r) = Inr m"
    by (auto simp: publishable_def is_ok_iff)
  with dispatch_quiet_eq [OF assms(1-4)] show thesis
    by (cases m) (auto simp: dispatch_spec_def outbox_published_def intro!: that)
qed

lemma dispatch_all_publish:
  assumes "distinct ids" "unique_on ob_id (runtimeOutbox d)"
    and "\<forall>i\<in>set ids. \<exists>r\<in>set (runtimeOutbox d). ob_id r = i \<and> outbox_claimable now r \<and> publishable (env i) r"
    and "\<forall>i. env_quiet (env i) \<and> now \<le> de_now (env i)"
    and "dispatch_all env ids (d, sent) = (d', sent')"
  shows "length sent' = length sent + length ids \<and>
    (\<forall>i\<in>set ids. \<exists>r\<in>set (runtimeOutbox d'). ob_id r = i \<and> ob_status r = Ob_PUBLISHED) \<and>
    (\<forall>r\<in>set (runtimeOutbox d). ob_id r \<notin> set ids \<longrightarrow> r \<in> set (runtimeOutbox d'))"
  using assms(1,2,3,5)
proof (induction ids arbitrary: d sent)
  case (Cons i ids)
  from Cons.prems(3) obtain r where r: "r \<in> set (runtimeOutbox d)" "ob_id r = i"
    "outbox_claimable now r" "publishable (env i) r" by auto
  obtain r' msg res where disp: "dispatch (env i) i d = (put_event r' d, [msg], Inr res)"
    and r': "ob_id r' = i" "ob_status r' = Ob_PUBLISHED"
    using dispatch_publishable [OF Cons.prems(2) r(1), of "env i"] claimable_mono [OF r(3)] assms(4) r
    by metis
  let ?d = "put_event r' d"
  have run: "dispatch_all env ids (?d, sent @ [msg]) = (d', sent')" using Cons.prems(4) disp by simp
  have keep: "x \<in> set (runtimeOutbox ?d)" if "x \<in> set (runtimeOutbox d)" "ob_id x \<noteq> i" for x
    using put_row_other [of x "runtimeOutbox d" ob_id r'] that r'(1) by (simp add: put_event_def)
  have "\<forall>j\<in>set ids. \<exists>x\<in>set (runtimeOutbox ?d). ob_id x = j \<and> outbox_claimable now x \<and> publishable (env j) x"
    using Cons.prems(1,3) keep by (metis distinct.simps(2) list.set_intros(2))
  from Cons.IH [OF _ _ this run] Cons.prems(1,2)
  have IH: "length sent' = length (sent @ [msg]) + length ids"
    "\<forall>i\<in>set ids. \<exists>r\<in>set (runtimeOutbox d'). ob_id r = i \<and> ob_status r = Ob_PUBLISHED"
    "\<forall>r\<in>set (runtimeOutbox ?d). ob_id r \<notin> set ids \<longrightarrow> r \<in> set (runtimeOutbox d')"
    by simp_all
  have "r' \<in> set (runtimeOutbox ?d)" using in_put_event [OF r(1)] r(2) r'(1) by simp
  then have "r' \<in> set (runtimeOutbox d')" using IH(3) r'(1) Cons.prems(1) by simp
  with IH r' keep show ?case by auto
qed simp

lemma due_events_props:
  assumes "unique_on ob_id (runtimeOutbox d)"
  shows "distinct (due_events now limit d)"
    and "i \<in> set (due_events now limit d) \<Longrightarrow>
      \<exists>r\<in>set (runtimeOutbox d). ob_id r = i \<and> outbox_claimable now r"
    and "length (due_events now limit d) = min limit (count_where (outbox_claimable now) (runtimeOutbox d))"
proof -
  have "distinct (map ob_id (filter (outbox_claimable now) (runtimeOutbox d)))"
    using assms by (simp add: unique_on_def distinct_map_filter)
  then have "distinct (map ob_id (js_sort (\<lambda>l r. ob_createdAt l - ob_createdAt r)
      (filter (outbox_claimable now) (runtimeOutbox d))))"
    by (simp only: distinct_map_js_sort)
  then show "distinct (due_events now limit d)"
    by (simp add: due_events_def take_map [symmetric] distinct_take)
  show "i \<in> set (due_events now limit d) \<Longrightarrow>
      \<exists>r\<in>set (runtimeOutbox d). ob_id r = i \<and> outbox_claimable now r"
    by (auto simp: due_events_def dest!: in_set_takeD)
  show "length (due_events now limit d) = min limit (count_where (outbox_claimable now) (runtimeOutbox d))"
    by (simp add: due_events_def count_where_def min.commute)
qed

text \<open>C16. A drain delivers: when no other process interferes, the queue accepts what it is given and
  the due events have valid payloads and live deadlines, draining publishes every one of the oldest
  due events up to the limit, hands exactly one job per event to the queue, returns their number and
  leaves all other events as they are.\<close>

theorem drain_publishes_due:
  assumes "unique_on ob_id (runtimeOutbox d)"
    and "\<forall>i. env_quiet (env i) \<and> now \<le> de_now (env i)"
    and "\<forall>r\<in>set (runtimeOutbox d). outbox_claimable now r \<longrightarrow> publishable (env (ob_id r)) r"
    and "drain False now limit env d = (d', sent, n)"
  shows "n = min limit (count_where (outbox_claimable now) (runtimeOutbox d)) \<and> length sent = n \<and>
    (\<forall>i\<in>set (due_events now limit d). \<exists>r\<in>set (runtimeOutbox d'). ob_id r = i \<and> ob_status r = Ob_PUBLISHED) \<and>
    (\<forall>r\<in>set (runtimeOutbox d). ob_id r \<notin> set (due_events now limit d) \<longrightarrow> r \<in> set (runtimeOutbox d'))"
proof -
  let ?ids = "due_events now limit d"
  have run: "dispatch_all env ?ids (d, []) = (d', sent)" and n: "n = length ?ids"
    using assms(4) by (auto simp: drain_def split: prod.splits)
  have "\<forall>i\<in>set ?ids. \<exists>r\<in>set (runtimeOutbox d). ob_id r = i \<and> outbox_claimable now r \<and> publishable (env i) r"
    using due_events_props(2) [OF assms(1)] assms(3) by metis
  from dispatch_all_publish [OF due_events_props(1) [OF assms(1)] assms(1) this assms(2) run]
  show ?thesis using n due_events_props(3) [OF assms(1)] by simp
qed

section \<open>Undeliverable events\<close>

lemma tenant_view_cong:
  "\<lbrakk>conversations d' = conversations d; channels d' = channels d; corpusSelectors d' = corpusSelectors d;
    activePublications d' = activePublications d; publications d' = publications d;
    publicationCapabilities d' = publicationCapabilities d; publicationItems d' = publicationItems d;
    authorizationStates d' = authorizationStates d; integrationAccounts d' = integrationAccounts d;
    tenants d' = tenants d; leads d' = leads d; runtimeInbox d' = runtimeInbox d;
    knowledgeJobAttempts d' = knowledgeJobAttempts d; businessInformationStates d' = businessInformationStates d;
    channelDeliveryOperations d' = channelDeliveryOperations d; retrievalTraces d' = retrievalTraces d;
    filter (\<lambda>r. ms_tenantId r = t) (messages d') = filter (\<lambda>r. ms_tenantId r = t) (messages d);
    filter (\<lambda>r. rn_tenantId r = t) (aiReplyRuns d') = filter (\<lambda>r. rn_tenantId r = t) (aiReplyRuns d);
    filter (\<lambda>r. ob_tenantId r = t) (runtimeOutbox d') = filter (\<lambda>r. ob_tenantId r = t) (runtimeOutbox d);
    filter (\<lambda>r. kj_tenantId r = t) (knowledgeJobs d') = filter (\<lambda>r. kj_tenantId r = t) (knowledgeJobs d);
    filter (\<lambda>r. ks_tenantId r = t) (knowledgeSources d') = filter (\<lambda>r. ks_tenantId r = t) (knowledgeSources d);
    filter (\<lambda>r. bi_tenantId r = t) (businessImports d') = filter (\<lambda>r. bi_tenantId r = t) (businessImports d);
    filter (\<lambda>r. ba_tenantId r = t) (businessImportApplications d') = filter (\<lambda>r. ba_tenantId r = t) (businessImportApplications d);
    filter (\<lambda>r. al_tenantId r = t) (auditLogs d') = filter (\<lambda>r. al_tenantId r = t) (auditLogs d)\<rbrakk>
   \<Longrightarrow> tenant_view t d' = tenant_view t d"
  by (simp add: tenant_view_def)

lemma fail_effects_tenant:
  assumes "ob_tenantId ev \<noteq> t"
  shows "tenant_view t (fail_ai_reply ev data dt at d) = tenant_view t d"
    "tenant_view t (fail_knowledge_source ev data a1 a2 d) = tenant_view t d"
    "tenant_view t (fail_import_parse ev data d) = tenant_view t d"
    "tenant_view t (fail_information_project ev data d) = tenant_view t d"
    "tenant_view t (fail_channel_send ev data d) = tenant_view t d"
  using assms
  by (auto simp: fail_ai_reply_def fail_knowledge_source_def fail_import_parse_def
      fail_information_project_def fail_channel_send_def Let_def
      split: option.split intro!: tenant_view_cong filter_update_many_other)

lemma fail_project_tenant:
  assumes "ob_tenantId ev \<noteq> t"
  shows "tenant_view t (fail_import_project ev data d) = tenant_view t d"
  using assms
  by (auto simp: fail_import_project_def Let_def projection_delayable_def
      split: option.split intro!: tenant_view_cong filter_update_many_other)

lemma fail_aggregate_tenant:
  "ob_tenantId ev \<noteq> t \<Longrightarrow> tenant_view t (fail_aggregate ev dt clk d) = tenant_view t d"
  by (simp add: fail_aggregate_def Let_def fail_effects_tenant fail_project_tenant)

text \<open>Recording the failure of an event, with all its effects on runs, knowledge sources, imports,
  projections, audit log and messages, stays within the tenant of the event: the rows of every
  other tenant are as before.\<close>

theorem fail_event_tenant_isolated:
  assumes "\<forall>r\<in>set (runtimeOutbox d). ob_id r = ob_id ev \<longrightarrow> ob_tenantId r = ob_tenantId ev"
    and "t \<noteq> ob_tenantId ev"
  shows "tenant_view t (failClaimedEvent ev l dt tm delay now clk d) = tenant_view t d"
proof -
  have "filter (\<lambda>r. ob_tenantId r = t)
      (update_many (\<lambda>r. ob_id r = ob_id ev \<and> outbox_owned l r) (outbox_failed tm a dt) rows) =
      filter (\<lambda>r. ob_tenantId r = t) rows"
    if "\<forall>r\<in>set rows. ob_id r = ob_id ev \<longrightarrow> ob_tenantId r = ob_tenantId ev" for a rows
    using that assms(2) by (induction rows) (auto simp: outbox_failed_def)
  then have v: "tenant_view t (snd (mark_failed tm a dt l (ob_id ev) d)) = tenant_view t d" for a
    using assms(1) by (simp add: mark_failed_def update_outbox_def tenant_view_def)
  obtain n d1 where m: "mark_failed tm (now + delay) dt l (ob_id ev) d = (n, d1)" by fastforce
  have "tenant_view t d1 = tenant_view t d" using v [of "now + delay"] m by simp
  then show ?thesis
    using assms(2) by (simp add: failClaimedEvent_def m fail_aggregate_tenant)
qed

text \<open>When the dispatcher gives up on an AI reply event it holds, the runs of that inbound message
  that were still open become DEAD_LETTER with the error; runs that had already finished and the
  runs of other messages keep their state.\<close>

theorem undeliverable_reply_closes_run:
  assumes "unique_on ob_id (runtimeOutbox d)" "ev' \<in> set (runtimeOutbox d)" "ob_id ev' = ob_id ev"
    and "outbox_owned l ev'" "ob_eventType ev = ''ai.reply.requested''"
    and "map_of (event_data ev) ''triggerMessageId'' = Some (JStr m)"
    and "d' = failClaimedEvent ev l dt True delay now clk d"
  shows "aiReplyRuns d' = map (\<lambda>r.
      if rn_tenantId r = ob_tenantId ev \<and> rn_inboundMessageId r = m \<and> run_active (rn_status r)
      then r\<lparr>rn_status := Rn_DEAD_LETTER, rn_errorCode := Some (fst dt),
             rn_errorMessage := Some (snd dt), rn_completedAt := Some (clk 0)\<rparr>
      else r) (aiReplyRuns d)"
proof -
  have "mark_failed True (now + delay) dt l (ob_id ev') d =
      (1, put_event (outbox_failed True (now + delay) dt ev') d)"
    unfolding mark_failed_def by (rule update_outbox_row) (use assms(1,2,4) in simp_all)
  then have "d' = fail_aggregate ev dt clk (put_event (outbox_failed True (now + delay) dt ev') d)"
    using assms(3,7) by (simp add: failClaimedEvent_def)
  then show ?thesis
    using assms(5,6) by (simp add: fail_aggregate_def fail_ai_reply_def put_event_def update_many_def)
qed

section \<open>A concrete outbox\<close>

definition sample_input :: create_event_input where
  "sample_input =
     \<lparr>ce_tenantId = sample_id (CHR ''t''), ce_aggregateType = ''conversation'',
      ce_aggregateId = sample_id (CHR ''m''), ce_aggregateVersion = 1, ce_generation = Some 1,
      ce_eventType = ''ai.reply.requested'', ce_dedupeKey = en_jobId sample_ai_envelope,
      ce_envelope = sample_ai_envelope, ce_deadlineAt = Some 300000, ce_traceId = None,
      ce_traceParent = None\<rparr>"

definition sample_event :: runtime_outbox where
  "sample_event = new_event ''e1'' 1000 sample_input"

definition sample_outbox :: db where
  "sample_outbox = empty_db\<lparr>runtimeOutbox := [sample_event]\<rparr>"

definition sample_env :: dispatch_env where
  "sample_env =
     \<lparr>de_leaseMs = 30000, de_lockId = ''worker:1'', de_now = 2000, de_deadlineNow = 2001,
      de_renewals = [\<lparr>rw_before = (\<lambda>d. d), rw_times = Some (12000, 12000)\<rparr>],
      de_publisher = (\<lambda>_. None), de_publishedAt = 13000, de_publishStatementError = None,
      de_terminalNow = 13001, de_failNow = 13002, de_failClock = (\<lambda>_. 13003),
      de_failStatementFails = False, de_beforeRead = (\<lambda>d. d), de_beforePublished = (\<lambda>d. d),
      de_beforeFail = (\<lambda>d. d)\<rparr>"

lemma sample_outbox_facts:
  "unique_on ob_id (runtimeOutbox sample_outbox)" "outbox_keys (runtimeOutbox sample_outbox)"
  "sample_event \<in> set (runtimeOutbox sample_outbox)" "outbox_claimable 2000 sample_event"
  "env_quiet sample_env" "env_benign sample_env" "list_all outbox_row_ok (runtimeOutbox sample_outbox)"
  "ob_id sample_event = ''e1''" "ob_lockedBy sample_event = None" "de_now sample_env = 2000"
  by (simp_all add: sample_outbox_def sample_event_def outbox_keys_def unique_on_def empty_db_def
      outbox_claimable_def env_quiet_def env_benign_def outbox_benign_def sample_env_def new_event_def
      outbox_row_ok_def)

lemma sample_publishable: "publishable sample_env sample_event"
  unfolding publishable_def publish_outcome_def
  by (simp add: sample_event_def new_event_def sample_input_def outbox_claim_def sample_env_def
      parse_envelope_json [OF sample_ai_envelope_wf])

lemma sample_metadata: "assertEventMetadata sample_input = Inr ()"
  by code_simp

lemma sample_created:
  "createRuntimeQueueEvent h ''e1'' 1000 sample_input empty_db = Inr (sample_event, sample_outbox)"
  by (simp add: createRuntimeQueueEvent_def sample_metadata empty_db_def insert_event_def
      event_matches_def sample_event_def sample_outbox_def new_event_def)

theorem create_event_idempotent_witness:
  "createRuntimeQueueEvent code_unit_host ''e2'' 5000 sample_input sample_outbox =
     Inr (sample_event, sample_outbox)"
  by (rule create_event_idempotent [OF sample_created])

theorem create_event_keys_witness:
  "outbox_keys (runtimeOutbox (empty_db :: db)) \<and> event_matches code_unit_host sample_input sample_event \<and>
   outbox_keys (runtimeOutbox sample_outbox)"
proof -
  have k: "outbox_keys (runtimeOutbox empty_db)" by (simp add: outbox_keys_def empty_db_def)
  then show ?thesis
    using create_event_keys [OF k, where h = code_unit_host and n = "''e1''" and now = 1000 and i = sample_input]
    by (simp add: sample_created)
qed

theorem claim_exclusive_witness:
  "\<exists>d'. claim_event 2000 30000 ''worker:1'' ''e1'' sample_outbox = (1, d') \<and>
        claim_event 31999 30000 ''worker:2'' ''e1'' d' = (0, d')"
proof -
  let ?d = "put_event (outbox_claim 2000 32000 ''worker:1'' sample_event) sample_outbox"
  have c: "claim_event 2000 30000 ''worker:1'' ''e1'' sample_outbox = (1, ?d)"
    using claim_quiet [of sample_outbox sample_event 2000 30000 "''worker:1''"] sample_outbox_facts by simp
  have "claim_event 31999 30000 ''worker:2'' ''e1'' ?d = (0, ?d)"
    by (rule claim_exclusive [OF sample_outbox_facts(1) c]) simp_all
  with c show ?thesis by blast
qed

definition reclaimed_event :: runtime_outbox where
  "reclaimed_event = outbox_claim 40000 70000 ''worker:2'' sample_event"

theorem stale_dispatcher_harmless_witness:
  "mark_published 41000 ''worker:1'' ''e1'' (put_event reclaimed_event sample_outbox) =
     (0, put_event reclaimed_event sample_outbox)"
proof -
  have "others ''worker:1'' sample_event reclaimed_event"
    unfolding others_def reclaimed_event_def
    by (rule exI [of _ "Some ''worker:2''"], rule conjI, simp,
        rule outbox_row_step.claim [OF claimable_mono [OF sample_outbox_facts(4)]]) simp
  then have o: "(others ''worker:1'')\<^sup>*\<^sup>* sample_event reclaimed_event" by blast
  have "mark_published 41000 ''worker:1'' (ob_id sample_event) (put_event reclaimed_event sample_outbox) =
     (0, put_event reclaimed_event sample_outbox)"
    by (rule stale_dispatcher_harmless [OF _ _ _ o, THEN conjunct2, THEN conjunct1])
       (use sample_outbox_facts in \<open>simp_all add: in_put_event [of sample_event] reclaimed_event_def\<close>)
  then show ?thesis by (simp add: sample_outbox_facts)
qed

theorem dispatch_refines_spec_witness:
  "dispatch sample_env ''e1'' sample_outbox = dispatch_spec sample_env sample_event sample_outbox \<and>
   ob_status (hd (runtimeOutbox (fst (dispatch sample_env ''e1'' sample_outbox)))) = Ob_PUBLISHED"
proof -
  have eq: "dispatch sample_env ''e1'' sample_outbox = dispatch_spec sample_env sample_event sample_outbox"
    using dispatch_refines_spec [of sample_outbox sample_event sample_env] sample_outbox_facts by simp
  obtain m where "publish_outcome sample_env
      (outbox_claim (de_now sample_env) (de_now sample_env + de_leaseMs sample_env) (de_lockId sample_env) sample_event) = Inr m"
    using sample_publishable by (auto simp: publishable_def is_ok_iff)
  then have "ob_status (hd (runtimeOutbox (fst (dispatch_spec sample_env sample_event sample_outbox)))) = Ob_PUBLISHED"
    by (cases m) (simp add: dispatch_spec_def put_event_def sample_outbox_def put_row_def
        outbox_published_def outbox_claim_def)
  with eq show ?thesis by simp
qed

lemma sample_dispatch:
  obtains r' msg res where "dispatch sample_env ''e1'' sample_outbox = (put_event r' sample_outbox, [msg], Inr res)"
    "ob_id r' = ''e1''" "ob_status r' = Ob_PUBLISHED" "dr_status res = published"
proof -
  obtain m where "publish_outcome sample_env
      (outbox_claim (de_now sample_env) (de_now sample_env + de_leaseMs sample_env) (de_lockId sample_env) sample_event) = Inr m"
    using sample_publishable by (auto simp: publishable_def is_ok_iff)
  then show thesis
    using dispatch_quiet_eq [of sample_outbox sample_event sample_env] sample_outbox_facts that
    by (cases m) (auto simp: dispatch_spec_def outbox_published_def)
qed

theorem dispatch_published_sound_witness:
  "\<exists>d' res msg. dispatch sample_env ''e1'' sample_outbox = (d', [msg], Inr res) \<and>
     (\<exists>r\<in>set (runtimeOutbox d'). ob_id r = ''e1'' \<and> ob_status r = Ob_PUBLISHED \<and>
        ob_publishedAt r = Some 13000)"
proof -
  obtain r' msg res where s: "dispatch sample_env ''e1'' sample_outbox = (put_event r' sample_outbox, [msg], Inr res)"
    "dr_status res = published" by (rule sample_dispatch)
  have "de_publishedAt sample_env = 13000" by (simp add: sample_env_def)
  with dispatch_published_sound [OF s] s(1) show ?thesis by auto
qed

theorem dispatch_preserves_outbox_witness:
  "list_all outbox_row_ok (runtimeOutbox (fst (dispatch sample_env ''e1'' sample_outbox)))"
  using dispatch_preserves_outbox [OF sample_outbox_facts(6,7) refl] by blast

theorem drain_publishes_due_witness:
  "\<exists>d' sent. drain False 2000 25 (\<lambda>_. sample_env) sample_outbox = (d', sent, 1) \<and> length sent = 1"
proof -
  obtain d' sent n where dr: "drain False 2000 25 (\<lambda>_. sample_env) sample_outbox = (d', sent, n)"
    by (metis prod_cases3)
  have "n = min 25 (count_where (outbox_claimable 2000) (runtimeOutbox sample_outbox)) \<and> length sent = n"
    using drain_publishes_due [OF sample_outbox_facts(1) _ _ dr] sample_outbox_facts sample_publishable
    by (auto simp: sample_outbox_def)
  moreover have "count_where (outbox_claimable 2000) (runtimeOutbox sample_outbox) = 1"
    using sample_outbox_facts(4) by (simp add: sample_outbox_def count_where_def)
  ultimately show ?thesis using dr by auto
qed

theorem fail_event_tenant_isolated_witness:
  "tenant_view ''other'' (failClaimedEvent sample_event ''worker:1'' (''Error'', ''x'') True 2000 9000 (\<lambda>_. 9001) sample_outbox) =
   tenant_view ''other'' sample_outbox"
  by (rule fail_event_tenant_isolated)
     (simp_all add: sample_outbox_def sample_event_def new_event_def sample_input_def sample_id_def)

theorem undeliverable_reply_closes_run_witness:
  "aiReplyRuns (failClaimedEvent sample_event ''worker:1'' (''Error'', ''x'') True 2000 9000 (\<lambda>_. 9001)
     (put_event (outbox_claim 2000 32000 ''worker:1'' sample_event) sample_outbox)) = []"
proof -
  let ?ev = "outbox_claim 2000 32000 ''worker:1'' sample_event"
  have m: "map_of (event_data sample_event) ''triggerMessageId'' = Some (JStr (sample_id (CHR ''m'')))"
    by (simp add: event_data_def sample_event_def new_event_def sample_input_def envelope_json_def
        sample_ai_envelope_def)
  have "aiReplyRuns (put_event ?ev sample_outbox) = []"
    by (simp add: put_event_def sample_outbox_def empty_db_def)
  then show ?thesis
    using undeliverable_reply_closes_run [OF _ _ _ ob_lease.owned_claim _ m refl,
        of "put_event ?ev sample_outbox" 2000 32000 "''worker:1''" sample_event]
      sample_outbox_facts in_put_event [of sample_event sample_outbox ?ev]
    by (simp add: sample_event_def new_event_def sample_input_def)
qed

end
