(* ===== verification/Ai_Reply_Attempts.thy ===== *)
theory Ai_Reply_Attempts
  imports Ai_Reply_Properties Outbox_Properties
begin

text \<open>
  Properties of enqueueing, of the attempts of the workers and of the fences: requests are
  idempotent, retries and attempts are bounded, work commits only under a live attempt, a fence
  closes what is pending and an attempt taken before it never commits work afterwards.
\<close>

section \<open>Serializable retries\<close>

text \<open>C36. A serializable transaction ends after at most five tries: it retries exactly while the
  outcome is a serialization conflict, and its result is the outcome of the last try, which is a
  conflict only when it is the fifth; an error leaves the database of that try as it was.\<close>

theorem serializable_five_tries:
  "\<exists>n\<le>4. (\<forall>j<n. try_outcome dbs ce work j = Inl (PrismaError ''P2034'')) \<and>
     serializable dbs ce work =
       (case try_outcome dbs ce work n of Inr (x, d') \<Rightarrow> (d', Inr x) | Inl e \<Rightarrow> (dbs n, Inl e)) \<and>
     (n = 4 \<or> try_outcome dbs ce work n \<noteq> Inl (PrismaError ''P2034''))"
  using retry_tx_result [of 0 4 dbs ce work retryableTransactionError]
  by (auto simp: serializable_def tx_result_def retryableTransactionError_def le_less)

theorem serializable_five_tries_witness:
  "serializable (\<lambda>_. empty_db) (\<lambda>k. if k < 2 then Some (PrismaError ''P2034'') else None) (\<lambda>k d. Inr (k, d)) =
     (empty_db, Inr 2)"
proof -
  let ?ce = "\<lambda>k::nat. if k < 2 then Some (PrismaError ''P2034'') else None"
  let ?out = "try_outcome (\<lambda>_. empty_db) ?ce (\<lambda>k d. Inr (k, d))"
  have out: "?out k = (if k < 2 then Inl (PrismaError ''P2034'') else Inr (k, empty_db))" for k
    by (simp add: try_outcome_def)
  obtain n where n: "n \<le> 4" "\<forall>j<n. ?out j = Inl (PrismaError ''P2034'')" "n = 4 \<or> ?out n \<noteq> Inl (PrismaError ''P2034'')"
      "serializable (\<lambda>_. empty_db) ?ce (\<lambda>k d. Inr (k, d)) =
         (case ?out n of Inr (x, d') \<Rightarrow> (d', Inr x) | Inl e \<Rightarrow> (empty_db, Inl e))"
    using serializable_five_tries [where dbs = "\<lambda>_. empty_db" and ce = ?ce and work = "\<lambda>k d. Inr (k, d)"] by blast
  have "\<not> n < 2" using n(1,3) out [of n] by auto
  moreover have "\<not> 2 < n" using n(2) out [of 2] by auto
  ultimately have "n = 2" by simp
  then show ?thesis using n(4) out [of 2] by simp
qed

section \<open>Enqueueing twice\<close>

definition same_reply_tables :: "db \<Rightarrow> db \<Rightarrow> bool" where
  "same_reply_tables d d' =
     (binding_tables d' = binding_tables d \<and> messages d' = messages d \<and>
      (conversations d' = conversations d \<or>
       (\<exists>i s. conversations d' = conversations (allocate_sequence i s d))))"

lemma same_reply_admission:
  assumes "same_reply_tables d d'"
  shows "automaticReplyAdmissionState h now d' t i = automaticReplyAdmissionState h now d t i"
proof -
  from assms consider "conversations d' = conversations d"
    | k s where "conversations d' = conversations (allocate_sequence k s d)"
    by (auto simp: same_reply_tables_def)
  then have "conversation_gate d' t i mode = conversation_gate d t i mode" for mode
  proof cases
    case 2
    then have c: "conversations d' = update_many (\<lambda>c. cv_id c = k)
        (\<lambda>c. c\<lparr>cv_aiReplySequence := s, cv_aiReplyFence := s\<rparr>) (conversations d)"
      by (simp add: allocate_sequence_def)
    show ?thesis by (rule conversation_gate_update [OF c]) simp
  qed (simp add: conversation_gate_def)
  moreover have "binding_tables d' = binding_tables d" using assms by (simp add: same_reply_tables_def)
  ultimately show ?thesis unfolding automaticReplyAdmissionState_def by (intro admission_cong)
qed

lemma same_reply_lookups:
  assumes "same_reply_tables d d'"
  shows "find_inbound t i m d' = find_inbound t i m d"
    and "find_conversation t i d = Some c \<Longrightarrow>
      \<exists>c'. find_conversation t i d' = Some c' \<and> cv_leadId c' = cv_leadId c"
proof -
  show "find_inbound t i m d' = find_inbound t i m d"
    using assms by (simp add: same_reply_tables_def find_inbound_def)
  assume c: "find_conversation t i d = Some c"
  show "\<exists>c'. find_conversation t i d' = Some c' \<and> cv_leadId c' = cv_leadId c"
    using assms unfolding same_reply_tables_def
  proof (elim conjE disjE exE)
    fix k s
    assume "conversations d' = conversations (allocate_sequence k s d)"
    then have "find_conversation t i d' = Some (if cv_id c = k then c\<lparr>cv_aiReplySequence := s, cv_aiReplyFence := s\<rparr> else c)"
      using c by (simp add: find_conversation_def allocate_sequence_def find_update_many)
    then show ?thesis by simp
  qed (use c in \<open>simp add: find_conversation_def\<close>)
qed







section \<open>Work under the fence\<close>

lemma verdict_InrE:
  assumes "attempt_verdict a v = Inr r"
  obtains c m where "av_conversation v = Some c" "av_run v = Some r" "av_inbound v = Some m"
    "attempt_current a (av_rederivedInputHash v) c r" "\<not> av_newerInboundExists v"
    "\<not> attempt_revoked (av_admission v) (Some r) (av_currentCapabilityBinding v)"
  using assms
  by (auto simp: attempt_verdict_def Let_def split: option.splits if_splits)

lemma not_revokedE:
  assumes "\<not> attempt_revoked adm (Some r) cb"
  obtains b binding where "adm = Some (Inr b)" "cb = Some binding" "run_bound b r" "capabilityBindingMatches r binding"
  using assms by (auto simp: attempt_revoked_def split: option.splits sum.splits)

lemma load_view_fields:
  assumes "load_attempt_view h cl now a d = Inr v"
  shows "av_conversation v = find_conversation (at_tenantId a) (at_conversationId a) d"
    and "av_run v = List.find (\<lambda>r. rn_id r = at_runId a) (aiReplyRuns d)"
    and "av_inbound v = find_inbound (at_tenantId a) (at_conversationId a) (at_inboundMessageId a) d"
    and "load_attempt_admission h now a d = Inr (av_admission v)"
    and "av_inbound v = Some m \<Longrightarrow>
      av_newerInboundExists v = hasLaterInboundMessage d (at_tenantId a) (at_conversationId a) m"
  using assms by (auto simp: load_attempt_view_def Let_def andThen_Inr_iff)

lemma fenced_Inr:
  assumes "withFencedAiReplyTransaction env a work = (d', Inr x)"
  obtains k r v where "k \<le> 4" "load_attempt_view (fe_host env) (fe_classify env) (fe_admissionNow env k) a (fe_dbs env k) = Inr v"
    "attempt_verdict a v = Inr r" "fe_commitErrors env k = None"
    "work (update_run (at_runId a) (\<lambda>y. y\<lparr>rn_heartbeatAt := Some (fe_heartbeat env k)\<rparr>) (fe_dbs env k)) r = Inr (x, d')"
proof -
  let ?w = "\<lambda>k d. andThen (assertAttempt (fe_host env) (fe_classify env) (fe_admissionNow env k)
                              (fe_heartbeat env k) a d) (\<lambda>(run, d'). work d' run)"
  have "serializable (fe_dbs env) (fe_commitErrors env) ?w = (d', Inr x)"
    using assms by (auto simp: withFencedAiReplyTransaction_def split: prod.splits sum.splits)
  then obtain k where "k \<le> 4" "?w k (fe_dbs env k) = Inr (x, d')" "fe_commitErrors env k = None"
    unfolding serializable_def by (rule retry_tx_Inr)
  then show thesis using that by (auto simp: andThen_Inr_iff assert_attempt_Inr_iff)
qed

text \<open>C18. Work commits only under a live attempt: when a fenced transaction returns, the work ran in
  the same transaction on a database in which the run is RUNNING at the attempt's counter,
  generation and sequence, these are the generation and the fence of its open conversation, no later
  inbound message exists, and the automatic reply is admitted with the binding the run was created
  under.\<close>

theorem fenced_work_is_live:
  assumes "withFencedAiReplyTransaction env a work = (d', Inr x)"
  shows "\<exists>k\<le>4. \<exists>d c r m b.
    d = fe_dbs env k \<and> find_conversation (at_tenantId a) (at_conversationId a) d = Some c \<and>
    r \<in> set (aiReplyRuns d) \<and> rn_id r = at_runId a \<and> rn_tenantId r = at_tenantId a \<and>
    rn_conversationId r = at_conversationId a \<and> rn_status r = Rn_RUNNING \<and>
    rn_attemptCount r = at_attemptCount a \<and> rn_cancelRequestedAt r = None \<and>
    rn_generation r = at_generation a \<and> at_generation a = cv_aiGeneration c \<and>
    rn_sequence r = at_sequence a \<and> at_sequence a = cv_aiReplyFence c \<and>
    find_inbound (at_tenantId a) (at_conversationId a) (at_inboundMessageId a) d = Some m \<and>
    \<not> hasLaterInboundMessage d (at_tenantId a) (at_conversationId a) m \<and>
    automaticReplyAdmissionState (fe_host env) (fe_admissionNow env k) d (at_tenantId a) (at_conversationId a) =
      Inr (Inr b) \<and> run_bound b r \<and> fe_commitErrors env k = None \<and>
    work (update_run (at_runId a) (\<lambda>y. y\<lparr>rn_heartbeatAt := Some (fe_heartbeat env k)\<rparr>) d) r = Inr (x, d')"
proof -
  obtain k r v where k: "k \<le> 4" "fe_commitErrors env k = None"
    "work (update_run (at_runId a) (\<lambda>y. y\<lparr>rn_heartbeatAt := Some (fe_heartbeat env k)\<rparr>) (fe_dbs env k)) r = Inr (x, d')"
    and v: "load_attempt_view (fe_host env) (fe_classify env) (fe_admissionNow env k) a (fe_dbs env k) = Inr v"
    and r: "attempt_verdict a v = Inr r"
    using fenced_Inr [OF assms] by metis
  note f = load_view_fields [OF v]
  obtain c m where c: "av_conversation v = Some c" "av_run v = Some r" "av_inbound v = Some m"
    "attempt_current a (av_rederivedInputHash v) c r" "\<not> av_newerInboundExists v"
    and nr: "\<not> attempt_revoked (av_admission v) (Some r) (av_currentCapabilityBinding v)"
    by (rule verdict_InrE [OF r])
  obtain b binding where b: "av_admission v = Some (Inr b)" "run_bound b r"
    by (rule not_revokedE [OF nr]) blast
  have "automaticReplyAdmissionState (fe_host env) (fe_admissionNow env k) (fe_dbs env k) (at_tenantId a)
      (at_conversationId a) = Inr (Inr b)"
    using f(4) f(1) [symmetric] c(1) b(1) by (simp add: load_attempt_admission_def andThen_Inr_iff)
  moreover have "r \<in> set (aiReplyRuns (fe_dbs env k)) \<and> rn_id r = at_runId a"
    by (rule find_SomeD) (use f(2) c(2) in simp)
  moreover have "find_conversation (at_tenantId a) (at_conversationId a) (fe_dbs env k) = Some c"
    "find_inbound (at_tenantId a) (at_conversationId a) (at_inboundMessageId a) (fe_dbs env k) = Some m"
    "\<not> hasLaterInboundMessage (fe_dbs env k) (at_tenantId a) (at_conversationId a) m"
    using f(1) f(3) f(5) [OF c(3)] c(1,3,5) by simp_all
  ultimately show ?thesis
    using k b(2) c(4) unfolding attempt_current_def
    by (intro exI [of _ k] conjI exI [of _ "fe_dbs env k"] exI [of _ c] exI [of _ r] exI [of _ m]
        exI [of _ b]) simp_all
qed

section \<open>Fences\<close>

text \<open>A fence on a conversation: its hand-over, a change on its channel, a revocation of the
  capabilities behind an automated channel.\<close>

inductive fences :: "string \<Rightarrow> string \<Rightarrow> db \<Rightarrow> db \<Rightarrow> bool" for t i where
  handover: "fencePendingAiReply t i reason at d = Inr d' \<Longrightarrow> fences t i d d'"
| on_channel: "find_conversation t i d = Some c \<Longrightarrow> cv_channelId c = Some ch \<Longrightarrow>
     fences t i d (fenceChannelAutomaticReplies t ch en reason at d)"
| capability: "find_conversation t i d = Some c \<Longrightarrow> cv_channelId c = Some (ch_id ch) \<Longrightarrow>
     ch \<in> set (channels d) \<Longrightarrow> ch_tenantId ch = t \<Longrightarrow> ch_deletedAt ch = None \<Longrightarrow> ch_automaticRepliesEnabled ch \<Longrightarrow>
     fences t i d (revokeAutomaticReplies t at d)"

lemma fences_step: "fences t i d d' \<Longrightarrow> reply_step d d'"
  by (induction rule: fences.induct) (auto intro: reply_step.intros)

lemma generation_bumped:
  assumes "generation_at_least t i g d" "unique_on cv_id (conversations d)"
    and c: "c \<in> set (conversations d)" "cv_id c = i" "Q c"
    and f: "\<And>c. cv_id (f c) = cv_id c \<and> cv_tenantId (f c) = cv_tenantId c \<and> cv_aiGeneration (f c) = cv_aiGeneration c + 1"
    and d': "conversations d' = update_many Q f (conversations d)"
  shows "generation_at_least t i (g + 1) d'"
proof -
  have "g + 1 \<le> cv_aiGeneration x" if "x \<in> set (conversations d')" "cv_id x = i" "cv_tenantId x = t" for x
    using that(1) unfolding d'
  proof (cases rule: in_update_manyE)
    case (changed y)
    then show ?thesis using assms(1) f [of y] that(2,3) by (auto simp: generation_at_least_def)
  next
    case kept
    then have "x = c" using unique_onD [OF assms(2) _ c(1)] c(2) that(2) by simp
    with kept c(3) show ?thesis by simp
  qed
  moreover have "f c \<in> set (conversations d')" unfolding d' by (rule in_update_many_changed) (use c in simp_all)
  ultimately show ?thesis using f [of c] c(2) by (auto simp: generation_at_least_def)
qed

lemma fences_generation:
  assumes "fences t i d d'" "unique_on cv_id (conversations d)" "generation_at_least t i g d"
  shows "generation_at_least t i (g + 1) d'"
  using assms
proof (cases rule: fences.cases)
  case (handover reason at)
  then obtain c where "find_conversation t i d = Some c"
    by (auto simp: fencePendingAiReply_def split: option.splits)
  from find_conversationD [OF this] show ?thesis
    by (intro generation_bumped [OF assms(3,2) _ _ _ _ fence_conversations [OF handover], of c]) auto
next
  case (on_channel c ch en reason at)
  from find_conversationD [OF on_channel(2)] show ?thesis
    unfolding on_channel(1)
    by (intro generation_bumped [OF assms(3,2) _ _ _ _ fence_channel_conversations, of c])
       (auto simp: on_channels_def on_channel(3))
next
  case (capability c ch at)
  let ?ids = "js_sort str_cmp (map ch_id (filter (\<lambda>ch. ch_tenantId ch = t \<and> ch_deletedAt ch = None \<and>
     ch_automaticRepliesEnabled ch) (channels d)))"
  have ch: "ch_id ch \<in> set ?ids" using capability(4-7) by simp
  then have "?ids \<noteq> []" by (metis empty_iff list.set(1))
  then have "conversations d' = update_many (on_channels t ?ids)
      (\<lambda>c. (bump_generation c)\<lparr>cv_aiEnabled := False\<rparr>) (conversations d)"
    unfolding capability(1) by (simp add: revokeAutomaticReplies_def Let_def)
  then show ?thesis
    using find_conversationD [OF capability(2)] ch capability(3)
    by (intro generation_bumped [OF assms(3,2)]) (auto simp: on_channels_def)
qed

lemma stale_generation_refused:
  assumes "generation_at_least (at_tenantId a) (at_conversationId a) g d" "at_generation a < g"
  shows "attempt_verdict a v \<noteq> Inr r \<or> load_attempt_view h cl now a d \<noteq> Inr v"
proof (rule ccontr)
  assume "\<not> ?thesis"
  then have r: "attempt_verdict a v = Inr r" and v: "load_attempt_view h cl now a d = Inr v" by auto
  obtain c where c: "av_conversation v = Some c" "attempt_current a (av_rederivedInputHash v) c r"
    by (rule verdict_InrE [OF r]) blast
  with load_view_fields(1) [OF v] have "g \<le> cv_aiGeneration c"
    using assms(1) find_conversationD [of "at_tenantId a" "at_conversationId a" d c]
    by (auto simp: generation_at_least_def)
  with c(2) assms(2) show False by (simp add: attempt_current_def)
qed

section \<open>Beginning an attempt\<close>

lemma begin_existing_active:
  assumes "begin_existing env data ident c inbound run d = Inr (Active a inp, d')"
  shows "d' = update_run (rn_id run) (run_started (be_now env)) d \<and>
    a = attemptFromRun (run_started (be_now env) run) data \<and> rn_attemptCount run < rn_maxAttempts run"
  using assms
  by (auto simp: begin_existing_def Let_def andThen_Inr_iff split: if_splits option.splits)

lemma begin_active:
  assumes "begin_attempt_tx env data d = Inr (Active a inp, d')"
  shows "\<exists>r\<in>set (aiReplyRuns d'). a = attemptFromRun r data \<and> rn_status r = Rn_RUNNING \<and>
    rn_attemptCount r \<le> rn_maxAttempts r"
proof -
  from assms obtain c admission inbound where
    m: "begin_checked env data c inbound admission d = Inr (Active a inp, d')"
    by (auto simp: begin_attempt_tx_def andThen_Inr_iff split: option.splits)
  show ?thesis
  proof (cases "find_run_of_message (aj_tenantId data) (ms_id inbound) d")
    case None
    with m obtain b cb ident where
      "begin_new env data ident b cb c inbound d = Inr (Active a inp, d')"
      by (auto simp: begin_checked_def Let_def andThen_Inr_iff split: sum.splits)
    then show ?thesis
      by (auto simp: begin_new_def Let_def andThen_Inr_iff insert_run_Inr_iff new_running_run_def
          new_run_def with_binding_def split: if_splits)
  next
    case (Some run0)
    then have run0: "run0 \<in> set (aiReplyRuns d)" unfolding find_run_of_message_def by (blast dest: find_SomeD)
    have no: "Inr (supersede_existing env data i code run d1) \<noteq> (Inr (Active a inp, d') :: error + _)"
      for i code run d1 by (simp add: supersede_existing_def)
    obtain run d1 ident where
      b: "begin_existing env data ident c inbound run d1 = Inr (Active a inp, d')"
      and run: "run \<in> set (aiReplyRuns d1)"
    proof -
      from m Some no obtain cb ident where "begin_existing env data ident c inbound
            (if rn_capabilityDecision run0 = None then with_binding cb run0 else run0)
            (if rn_capabilityDecision run0 = None then update_run (rn_id run0) (with_binding cb) d else d) =
          Inr (Active a inp, d')"
        by (auto simp: begin_checked_def Let_def andThen_Inr_iff split: sum.splits if_splits)
      then show thesis
        by (rule that) (auto simp: update_run_def run0 intro: in_update_many_changed)
    qed
    note f = begin_existing_active [OF b]
    have "run_started (be_now env) run \<in> set (aiReplyRuns d')"
      using f run by (auto simp: update_run_def intro: in_update_many_changed)
    then show ?thesis using f by (intro bexI) (auto simp: run_started_def)
  qed
qed

text \<open>Attempts are bounded: an attempt the worker takes belongs to a run that is now RUNNING with
  exactly the attempt's identity and counter, and the counter never exceeds the maximum of the
  run.\<close>

theorem begin_attempt_bounded:
  assumes "begin_attempt_tx env data d = Inr (Active a inp, d')"
  shows "at_attemptCount a \<le> at_maxAttempts a \<and>
    (\<exists>r\<in>set (aiReplyRuns d'). attempt_row a r \<and> rn_conversationId r = at_conversationId a \<and>
       rn_inboundMessageId r = at_inboundMessageId a \<and> rn_inputHash r = at_inputHash a)"
  using begin_active [OF assms] by (auto simp: attemptFromRun_def attempt_row_def)

lemma begin_generation:
  assumes "reply_inv d" "begin_attempt_tx env data d = Inr (Active a inp, d')"
  shows "generation_at_least (at_tenantId a) (at_conversationId a) (at_generation a) d'"
proof -
  have inv: "reply_inv d'" by (rule begin_attempt_inv [OF assms])
  obtain r where r: "r \<in> set (aiReplyRuns d')" "a = attemptFromRun r data"
    using begin_active [OF assms(2)] by blast
  obtain c where c: "c \<in> set (conversations d')" "run_owner c r" "run_at_fence c r"
    using inv r(1) by (auto simp: reply_inv_def)
  have u: "unique_on cv_id (conversations d')" using inv by (simp add: reply_inv_def)
  have id: "cv_id c = rn_conversationId r" "rn_generation r \<le> cv_aiGeneration c"
    using c(2,3) by (simp_all add: run_owner_def run_at_fence_def)
  then have "rn_generation r \<le> cv_aiGeneration x"
    if "x \<in> set (conversations d')" "cv_id x = rn_conversationId r" for x
    using unique_onD [OF u that(1) c(1)] that(2) by simp
  then show ?thesis
    using c(1) id(1) unfolding generation_at_least_def r(2) by (auto simp: attemptFromRun_def)
qed

text \<open>C1. A fence ends the attempts before it: take any reachable database, any attempt a worker began
  there, and any interleaving of the system that contains, after the beginning, a fence on the
  conversation (a hand-over, a change of its channel, a revocation of its capabilities). From then
  on every fenced transaction of that attempt fails and its work leaves no trace: the database is
  what the last try found, at most with the superseded run closed.\<close>

theorem fenced_attempt_never_commits:
  assumes "reply_step\<^sup>*\<^sup>* empty_db d0" "begin_attempt_tx benv data d0 = Inr (Active a inp, d1)"
    and "reply_step\<^sup>*\<^sup>* d1 d2" "fences (at_tenantId a) (at_conversationId a) d2 d3"
    and "\<forall>k. reply_step\<^sup>*\<^sup>* d3 (fe_dbs env k)"
    and "withFencedAiReplyTransaction env a work = (d', res)"
  shows "\<exists>e k. res = Inl e \<and> k \<le> 4 \<and>
    (d' = fe_dbs env k \<or> (\<exists>at code. d' = supersede_attempt a at code (fe_dbs env k)))"
proof -
  have inv0: "reply_inv d0" by (rule reply_steps_inv [OF assms(1) reply_inv_empty])
  have inv2: "reply_inv d2" by (rule reply_steps_inv [OF assms(3) begin_attempt_inv [OF inv0 assms(2)]])
  have "generation_at_least (at_tenantId a) (at_conversationId a) (at_generation a) d2"
    by (rule reply_steps_generation [OF assms(3) begin_generation [OF inv0 assms(2)]])
  then have g: "generation_at_least (at_tenantId a) (at_conversationId a) (at_generation a + 1) d3"
    using inv2 fences_generation [OF assms(4)] by (simp add: reply_inv_def)
  have refused: "attempt_verdict a v \<noteq> Inr r"
    if "load_attempt_view h cl now a (fe_dbs env k) = Inr v" for h cl now k v r
    using stale_generation_refused [OF reply_steps_generation [OF _ g], of "fe_dbs env k"] assms(5) that by fastforce
  have notInr: "res \<noteq> Inr x" for x
  proof
    assume "res = Inr x"
    with assms(6) have "withFencedAiReplyTransaction env a work = (d', Inr x)" by simp
    then show False by (rule fenced_Inr) (use refused in blast)
  qed
  obtain d outcome where s: "serializable (fe_dbs env) (fe_commitErrors env)
      (\<lambda>k d. andThen (assertAttempt (fe_host env) (fe_classify env) (fe_admissionNow env k)
                       (fe_heartbeat env k) a d) (\<lambda>(run, d'). work d' run)) = (d, outcome)"
    by fastforce
  note r = assms(6) [unfolded withFencedAiReplyTransaction_def s prod.case]
  obtain e where e: "outcome = Inl e" using r notInr by (cases outcome) auto
  have d': "res = Inl e" "d' = d \<or> (\<exists>at code. d' = supersede_attempt a at code d)"
    using r unfolding e by (cases e; auto split: if_splits)+
  obtain k where "k \<le> 4" "d = fe_dbs env k" by (rule retry_tx_Inl [OF s [unfolded e serializable_def]])
  with d' show ?thesis by blast
qed

section \<open>What a hand-over and a failure leave\<close>

lemma handover_tables:
  assumes "fencePendingAiReply t i reason at d = Inr d'"
  shows "aiReplyRuns d' = update_many
      (\<lambda>r. rn_tenantId r = t \<and> rn_conversationId r = i \<and> run_active (rn_status r))
      (run_superseded at reason) (aiReplyRuns d)"
    and "runtimeOutbox d' = update_many
      (\<lambda>r. ob_tenantId r = t \<and> ob_eventType r = ''ai.reply.requested'' \<and>
           ob_status r \<in> {Ob_PENDING, Ob_PUBLISHING, Ob_FAILED} \<and>
           list_ex (\<lambda>m. ms_tenantId m = ob_tenantId r \<and> ms_id m = ob_aggregateId r \<and>
                        ms_conversationId m = i) (messages d'))
      (outbox_fence reason) (runtimeOutbox d)"
    and "messages d' = messages d"
  using assms by (auto simp: fencePendingAiReply_def Let_def fence_outbox_def split: option.splits)

text \<open>C34. Handing a conversation over closes everything pending on it: no run of the conversation
  stays open, no undelivered reply event of one of its messages stays deliverable, and runs that were
  already finished or belong elsewhere are kept as they are.\<close>

theorem handover_closes_pending:
  assumes "fencePendingAiReply t i reason at d = Inr d'"
  shows "(\<forall>r\<in>set (aiReplyRuns d'). rn_tenantId r = t \<and> rn_conversationId r = i \<longrightarrow> \<not> run_active (rn_status r)) \<and>
    (\<forall>r\<in>set (runtimeOutbox d'). ob_tenantId r = t \<and> ob_eventType r = ''ai.reply.requested'' \<and>
       (\<exists>m\<in>set (messages d'). ms_tenantId m = t \<and> ms_id m = ob_aggregateId r \<and> ms_conversationId m = i) \<longrightarrow>
       outbox_final r) \<and>
    (\<forall>r\<in>set (aiReplyRuns d). rn_tenantId r \<noteq> t \<or> rn_conversationId r \<noteq> i \<or> \<not> run_active (rn_status r) \<longrightarrow>
       r \<in> set (aiReplyRuns d'))"
proof (intro conjI ballI impI)
  note h = handover_tables [OF assms]
  fix r
  assume "r \<in> set (aiReplyRuns d')" "rn_tenantId r = t \<and> rn_conversationId r = i"
  then show "\<not> run_active (rn_status r)"
    unfolding h(1) using superseded_idle by blast
next
  note h = handover_tables [OF assms]
  fix r
  assume "r \<in> set (runtimeOutbox d')" and
    p: "ob_tenantId r = t \<and> ob_eventType r = ''ai.reply.requested'' \<and>
       (\<exists>m\<in>set (messages d'). ms_tenantId m = t \<and> ms_id m = ob_aggregateId r \<and> ms_conversationId m = i)"
  from this(1) [unfolded h(2)] show "outbox_final r"
  proof (cases rule: in_update_manyE)
    case (changed x)
    then show ?thesis by (simp add: outbox_fence_def outbox_final_def)
  next
    case kept
    have "list_ex (\<lambda>m. ms_tenantId m = ob_tenantId r \<and> ms_id m = ob_aggregateId r \<and> ms_conversationId m = i) (messages d')"
      using p by (auto simp: list_ex_iff)
    with kept p show ?thesis by (cases "ob_status r") (simp_all add: outbox_final_def)
  qed
next
  note h = handover_tables [OF assms]
  fix r
  assume "r \<in> set (aiReplyRuns d)" "rn_tenantId r \<noteq> t \<or> rn_conversationId r \<noteq> i \<or> \<not> run_active (rn_status r)"
  then show "r \<in> set (aiReplyRuns d')" unfolding h(1) by (intro in_update_many_kept) auto
qed

lemma attempt_delay_range: "1000 \<le> attempt_delay n \<and> attempt_delay n \<le> 60000"
proof -
  have "(1::int) \<le> 2 ^ k" for k by simp
  then show ?thesis unfolding attempt_delay_def by auto
qed

text \<open>C35. A failed attempt is accounted for: the run the worker still holds is scheduled again between
  one second and one minute later while attempts remain, and is otherwise closed as timed out or
  dead-lettered with its completion time; every other run, in particular one that another attempt
  has taken over, is left as it is.\<close>

theorem failed_attempt_accounted:
  assumes "r \<in> set (aiReplyRuns d)"
  shows "\<exists>r'\<in>set (aiReplyRuns (markAiReplyAttemptFailed clock a msg timedOut d)).
    run_identity_columns r' = run_identity_columns r \<and>
    (if \<not> attempt_row a r then r' = r
     else if at_attemptCount a < at_maxAttempts a
     then rn_status r' = Rn_RETRY_SCHEDULED \<and> rn_completedAt r' = None \<and>
          clock 0 + 1000 \<le> rn_availableAt r' \<and> rn_availableAt r' \<le> clock 0 + 60000
     else rn_status r' = (if timedOut then Rn_TIMED_OUT else Rn_DEAD_LETTER) \<and>
          rn_completedAt r' = Some (clock 1) \<and> \<not> run_active (rn_status r'))"
proof (cases "attempt_row a r")
  case True
  then have "run_attempt_failed clock a msg timedOut r \<in> set (aiReplyRuns (markAiReplyAttemptFailed clock a msg timedOut d))"
    using assms by (simp add: markAiReplyAttemptFailed_def in_update_many_changed)
  then show ?thesis
    by (rule bexI [rotated])
       (use True attempt_delay_range [of "at_attemptCount a"] in
        \<open>auto simp: run_identity_columns_def run_active_def run_attempt_failed_def Let_def\<close>)
next
  case False
  then show ?thesis
    using assms by (intro bexI [of _ r]) (auto simp: markAiReplyAttemptFailed_def intro: in_update_many_kept)
qed

section \<open>A concrete conversation\<close>

definition sample_job :: ai_reply_job where
  "sample_job =
     \<lparr>aj_tenantId = sample_id (CHR ''t''), aj_conversationId = sample_id (CHR ''v''),
      aj_triggerMessageId = sample_id (CHR ''m''), aj_source = ''inbox'', aj_customerIdentity = None,
      aj_requestedByUserId = Some None\<rparr>"

definition sample_begin_env :: begin_env where
  "sample_begin_env =
     \<lparr>be_host = digest_host, be_classify = (\<lambda>_. (True, None)), be_runId = ''run1'', be_admissionNow = 2000,
      be_now = 2001, be_completedAt = 2002, be_rowNow = 2003\<rparr>"

definition sample_run :: ai_reply_run where
  "sample_run = new_running_run sample_begin_env sample_job (sample_id (CHR ''m'')) sample_binding handoff_binding
     (aiReplyRunIdentity digest_host sample_job sample_message None) 1 1"

definition sample_attempt :: ai_reply_attempt where
  "sample_attempt = attemptFromRun sample_run sample_job"

definition sample_running :: db where
  "sample_running = (allocate_sequence (sample_id (CHR ''v'')) 1 sample_db)\<lparr>aiReplyRuns := [sample_run]\<rparr>"

definition sample_runtime_input :: runtime_input where
  "sample_runtime_input =
     \<lparr>rt_inputText = ''Hello'', rt_receivedAt = 1000, rt_businessName = ''the business'',
      rt_businessType = None, rt_leadId = None, rt_leadStatus = None\<rparr>"

lemma sample_lookups:
  "find_conversation (sample_id (CHR ''t'')) (sample_id (CHR ''v'')) sample_db = Some sample_conversation"
  "find_inbound (sample_id (CHR ''t'')) (sample_id (CHR ''v'')) (sample_id (CHR ''m'')) sample_db = Some sample_message"
  "find_run_of_message t m sample_db = None"
  "\<not> hasLaterInboundMessage sample_db t i sample_message"
  "resolveCapabilityBinding (\<lambda>_. (True, None)) d t p txt bh g = Inr handoff_binding"
proof -
  show "\<not> hasLaterInboundMessage sample_db t i sample_message"
    by (simp add: hasLaterInboundMessage_def sample_db_def sample_message_def str_less_irrefl)
qed (simp_all add: find_conversation_def find_inbound_def find_run_of_message_def sample_db_def
    sample_conversation_def sample_message_def empty_db_def resolveCapabilityBinding_def)

lemma sample_runtime:
  "loadRuntimeInput sample_running sample_conversation sample_message = Inr sample_runtime_input"
  by (simp add: loadRuntimeInput_def resolveAiBusinessIdentity_def sample_running_def sample_db_def
      allocate_sequence_def aiBusinessIdentityForCorpus_def resolvePublishedAiBusinessIdentity_def empty_db_def
      publishedAiBusinessIdentityFromFacts_def neutralAiBusinessIdentity_def sample_conversation_def
      sample_message_def sample_runtime_input_def List.map_filter_def)

lemma sample_begun:
  "begin_attempt_tx sample_begin_env sample_job sample_db =
     Inr (Active sample_attempt sample_runtime_input, sample_running)"
proof -
  let ?b = "sample_binding"
  have cv: "cv_aiReplySequence sample_conversation = 0" "cv_aiGeneration sample_conversation = 1"
    "cv_leadId sample_conversation = None" "cv_id sample_conversation = sample_id (CHR ''v'')"
    "ms_id sample_message = sample_id (CHR ''m'')"
    by (simp_all add: sample_conversation_def sample_message_def)
  have su: "supersede_older t i g s at (allocate_sequence k s sample_db) = allocate_sequence k s sample_db" for t i g s at k
    by (simp add: supersede_older_def allocate_sequence_def sample_db_def empty_db_def)
  have ins: "insert_run sample_run (allocate_sequence (sample_id (CHR ''v'')) 1 sample_db) = Inr sample_running"
    by (simp add: insert_run_def sample_running_def allocate_sequence_def sample_db_def empty_db_def)
  have env: "be_host sample_begin_env = digest_host" "be_classify sample_begin_env = (\<lambda>_. (True, None))"
    "be_admissionNow sample_begin_env = 2000" by (simp_all add: sample_begin_env_def)
  have job: "aj_tenantId sample_job = sample_id (CHR ''t'')" "aj_conversationId sample_job = sample_id (CHR ''v'')"
    "aj_triggerMessageId sample_job = sample_id (CHR ''m'')" by (simp_all add: sample_job_def)
  have "begin_new sample_begin_env sample_job (aiReplyRunIdentity digest_host sample_job sample_message None)
      ?b handoff_binding sample_conversation sample_message sample_db =
      Inr (Active sample_attempt sample_runtime_input, sample_running)"
    by (simp add: begin_new_def sample_lookups Let_def cv su sample_run_def [symmetric] ins sample_runtime
        sample_attempt_def)
  then show ?thesis
    by (simp add: begin_attempt_tx_def job env sample_lookups sample_admitted begin_checked_def Let_def cv)
qed

definition sample_fenced_env :: "db \<Rightarrow> fenced_env" where
  "sample_fenced_env d =
     \<lparr>fe_host = digest_host, fe_classify = (\<lambda>_. (True, None)), fe_dbs = (\<lambda>_. d), fe_commitErrors = (\<lambda>_. None),
      fe_admissionNow = (\<lambda>_. 3000), fe_heartbeat = (\<lambda>_. 3001), fe_supersedeAt = 3002, fe_supersedeFails = False\<rparr>"

theorem begin_attempt_bounded_witness:
  "begin_attempt_tx sample_begin_env sample_job sample_db =
     Inr (Active sample_attempt sample_runtime_input, sample_running) \<and>
   at_attemptCount sample_attempt \<le> at_maxAttempts sample_attempt"
  using begin_attempt_bounded [OF sample_begun] sample_begun by blast

lemma sample_db_reachable: "reply_step\<^sup>*\<^sup>* empty_db sample_db"
proof -
  let ?d = "empty_db\<lparr>conversations := conversations empty_db @ [sample_conversation]\<rparr>"
  have "reply_step empty_db ?d"
    by (rule new_conversation) (simp_all add: empty_db_def sample_conversation_def)
  moreover have "reply_step ?d sample_db"
    by (rule other) (simp_all add: sample_db_def empty_db_def)
  ultimately show ?thesis by (rule converse_rtranclp_into_rtranclp [OF _ r_into_rtranclp])
qed

lemma sample_running_reachable: "reply_step\<^sup>*\<^sup>* empty_db sample_running"
  using sample_db_reachable begin_attempt [OF sample_begun] by (rule rtranclp.rtrancl_into_rtrancl)

lemma sample_run_fields:
  "rn_id sample_run = ''run1''" "rn_tenantId sample_run = sample_id (CHR ''t'')"
  "rn_conversationId sample_run = sample_id (CHR ''v'')" "rn_status sample_run = Rn_RUNNING"
  "rn_generation sample_run = 1" "rn_sequence sample_run = 1" "rn_attemptCount sample_run = 1"
  "rn_inboundMessageId sample_run = sample_id (CHR ''m'')" "rn_cancelRequestedAt sample_run = None"
  "rn_inputHash sample_run = ri_inputHash (aiReplyRunIdentity digest_host sample_job sample_message None)"
  "run_bound sample_binding sample_run" "capabilityBindingMatches sample_run handoff_binding"
  by (simp_all add: sample_run_def new_running_run_def new_run_def sample_begin_env_def sample_job_def
      run_bound_def capabilityBindingMatches_def with_binding_def handoff_binding_def)

theorem single_open_run_witness:
  "\<exists>c\<in>set (conversations sample_running). run_owner c sample_run \<and> cv_aiReplyFence c = 1"
proof -
  have r: "sample_run \<in> set (aiReplyRuns sample_running)" by (simp add: sample_running_def)
  have a: "run_active (rn_status sample_run)" by (simp add: sample_run_fields run_active_def)
  show ?thesis
    using single_open_run [OF sample_running_reachable r a r a refl refl] by (auto simp: sample_run_fields)
qed

lemma sample_view:
  "same_reply_tables sample_db sample_running"
  "find_conversation (sample_id (CHR ''t'')) (sample_id (CHR ''v'')) sample_running =
     Some (sample_conversation\<lparr>cv_aiReplySequence := 1, cv_aiReplyFence := 1\<rparr>)"
  by (auto simp: same_reply_tables_def sample_running_def binding_tables_def allocate_sequence_def
      find_conversation_def sample_db_def sample_conversation_def)

lemma sample_attempt_fields:
  "at_runId sample_attempt = ''run1''" "at_tenantId sample_attempt = sample_id (CHR ''t'')"
  "at_conversationId sample_attempt = sample_id (CHR ''v'')" "at_inboundMessageId sample_attempt = sample_id (CHR ''m'')"
  "at_inputData sample_attempt = sample_job" "at_generation sample_attempt = 1" "at_sequence sample_attempt = 1"
  "at_attemptCount sample_attempt = 1"
  "at_inputHash sample_attempt = ri_inputHash (aiReplyRunIdentity digest_host sample_job sample_message None)"
  by (simp_all add: sample_attempt_def attemptFromRun_def sample_run_fields)

lemma sample_asserted:
  "assertAttempt digest_host (\<lambda>_. (True, None)) 3000 3001 sample_attempt sample_running =
     Inr (sample_run, update_run ''run1'' (\<lambda>x. x\<lparr>rn_heartbeatAt := Some 3001\<rparr>) sample_running)"
proof -
  have adm: "automaticReplyAdmissionState digest_host 3000 sample_running (sample_id (CHR ''t''))
      (sample_id (CHR ''v'')) = Inr (Inr sample_binding)"
    unfolding same_reply_admission [OF sample_view(1)] by (rule sample_admitted) simp
  have inb: "find_inbound (sample_id (CHR ''t'')) (sample_id (CHR ''v'')) (sample_id (CHR ''m'')) sample_running =
      Some sample_message"
    unfolding same_reply_lookups(1) [OF sample_view(1)] by (rule sample_lookups)
  have later: "\<not> hasLaterInboundMessage sample_running t i sample_message" for t i
    using sample_lookups(4) by (simp add: hasLaterInboundMessage_def sample_running_def allocate_sequence_def)
  have lead: "cv_leadId sample_conversation = None" "cv_aiGeneration sample_conversation = 1"
    by (simp_all add: sample_conversation_def)
  have runs: "aiReplyRuns sample_running = [sample_run]" by (simp add: sample_running_def)
  show ?thesis
    by (simp add: assertAttempt_def load_attempt_view_def load_attempt_admission_def load_attempt_binding_def
        sample_attempt_fields sample_view adm inb later sample_lookups(5) attempt_verdict_def Let_def runs
        attempt_revoked_def attempt_current_def sample_run_fields lead)
qed

lemma sample_fenced_fields [simp]:
  "fe_host (sample_fenced_env d) = digest_host" "fe_classify (sample_fenced_env d) = (\<lambda>_. (True, None))"
  "fe_dbs (sample_fenced_env d) k = d" "fe_commitErrors (sample_fenced_env d) k = None"
  "fe_admissionNow (sample_fenced_env d) k = 3000" "fe_heartbeat (sample_fenced_env d) k = 3001"
  by (simp_all add: sample_fenced_env_def)

theorem fenced_work_is_live_witness:
  "\<exists>r\<in>set (aiReplyRuns sample_running). rn_id r = ''run1'' \<and> rn_status r = Rn_RUNNING"
proof -
  let ?env = "sample_fenced_env sample_running"
  have "\<exists>d'. withFencedAiReplyTransaction ?env sample_attempt (\<lambda>d r. Inr ((), d)) = (d', Inr ())"
    by (simp add: withFencedAiReplyTransaction_def serializable_def retry_tx_first sample_asserted)
  then obtain d' where "withFencedAiReplyTransaction ?env sample_attempt (\<lambda>d r. Inr ((), d)) = (d', Inr ())" ..
  from fenced_work_is_live [OF this] show ?thesis by (auto simp: sample_attempt_fields)
qed

theorem handover_closes_pending_witness:
  "\<exists>d'. fencePendingAiReply (sample_id (CHR ''t'')) (sample_id (CHR ''v'')) ''HUMAN_HANDOFF'' 4000 sample_running = Inr d' \<and>
     (\<forall>r\<in>set (aiReplyRuns d'). rn_tenantId r = sample_id (CHR ''t'') \<and> rn_conversationId r = sample_id (CHR ''v'') \<longrightarrow>
        \<not> run_active (rn_status r))"
proof -
  obtain d' where "fencePendingAiReply (sample_id (CHR ''t'')) (sample_id (CHR ''v'')) ''HUMAN_HANDOFF'' 4000 sample_running = Inr d'"
    using sample_view(2) by (simp add: fencePendingAiReply_def Let_def)
  with handover_closes_pending [OF this] show ?thesis by blast
qed

theorem fenced_attempt_never_commits_witness:
  "\<exists>d3 d' e. fencePendingAiReply (sample_id (CHR ''t'')) (sample_id (CHR ''v'')) ''HUMAN_HANDOFF'' 4000 sample_running = Inr d3 \<and>
     withFencedAiReplyTransaction (sample_fenced_env d3) sample_attempt (\<lambda>d r. Inr ((), d)) = (d', Inl e)"
proof -
  obtain d3 where d3: "fencePendingAiReply (sample_id (CHR ''t'')) (sample_id (CHR ''v'')) ''HUMAN_HANDOFF'' 4000 sample_running = Inr d3"
    using sample_view(2) by (simp add: fencePendingAiReply_def Let_def)
  obtain d' res where w: "withFencedAiReplyTransaction (sample_fenced_env d3) sample_attempt (\<lambda>d r. Inr ((), d)) = (d', res)"
    by fastforce
  have f: "fences (at_tenantId sample_attempt) (at_conversationId sample_attempt) sample_running d3"
    unfolding sample_attempt_fields by (rule handover [OF d3])
  from fenced_attempt_never_commits [OF sample_db_reachable sample_begun rtranclp.rtrancl_refl f _ w]
  show ?thesis using d3 w by auto
qed

theorem failed_attempt_accounted_witness:
  "\<exists>r\<in>set (aiReplyRuns (markAiReplyAttemptFailed (\<lambda>_. 5000) sample_attempt ''boom'' False sample_running)).
     rn_status r = Rn_RETRY_SCHEDULED"
proof -
  have "sample_run \<in> set (aiReplyRuns sample_running)" by (simp add: sample_running_def)
  moreover have "attempt_row sample_attempt sample_run"
    by (simp add: attempt_row_def sample_attempt_fields sample_run_fields)
  moreover have "at_maxAttempts sample_attempt = 5"
    by (simp add: sample_attempt_def attemptFromRun_def sample_run_def new_running_run_def new_run_def with_binding_def)
  ultimately show ?thesis
    using failed_attempt_accounted [of sample_run sample_running "\<lambda>_. 5000" sample_attempt "''boom''" False]
    by (auto simp: sample_attempt_fields)
qed





end
