(* ===== verification/Runtime_Inbox.thy ===== *)
theory Runtime_Inbox
  imports Runtime_Outbox Transactions
begin

text \<open>
  The worker's side of the runtime queue (\<open>apps/worker/src/reliability/worker-reliability.ts\<close>): the
  inbox that makes a job run once, its claim with the authorisation of the job against the persisted
  event, the wait for another consumer, completion and failure, the timeout of a job with its
  fences, and the capture of dead letters.
\<close>

section \<open>Jobs\<close>

datatype LeadVirtQueueName =
    W_ai_reply | W_ai_extractLeadFields | W_ai_followUp | W_channels_processWebhook
  | W_channels_sendMessage | W_business_import | W_knowledge_ingest | W_crm_syncLead
  | W_analytics_aggregate | W_billing_calculateUsage

fun workerQueue_text :: "LeadVirtQueueName \<Rightarrow> string" where
  "workerQueue_text W_ai_reply = ''ai.reply''"
| "workerQueue_text W_ai_extractLeadFields = ''ai.extractLeadFields''"
| "workerQueue_text W_ai_followUp = ''ai.followUp''"
| "workerQueue_text W_channels_processWebhook = ''channels.processWebhook''"
| "workerQueue_text W_channels_sendMessage = ''channels.sendMessage''"
| "workerQueue_text W_business_import = ''business.import''"
| "workerQueue_text W_knowledge_ingest = ''knowledge.ingest''"
| "workerQueue_text W_crm_syncLead = ''crm.syncLead''"
| "workerQueue_text W_analytics_aggregate = ''analytics.aggregate''"
| "workerQueue_text W_billing_calculateUsage = ''billing.calculateUsage''"

text \<open>What the code reads of a BullMQ job; \<open>jb_attempts\<close> is \<open>opts.attempts\<close>.\<close>

record worker_job =
  jb_name :: string
  jb_id :: "string option"
  jb_data :: json_object
  jb_attemptsMade :: int
  jb_attempts :: "int option"

text \<open>
  The two settings are what \<open>Number\<close> reads from the environment variable or its default:
  \<open>None\<close> when the number is not finite.
\<close>

definition workerJobTimeoutMs :: "int option \<Rightarrow> int option \<Rightarrow> LeadVirtQueueName option \<Rightarrow> int" where
  "workerJobTimeoutMs jobSetting parserSetting queueName =
     (let base = (case jobSetting of Some v \<Rightarrow> if v > 0 then v else 30000 | None \<Rightarrow> 30000)
      in if queueName \<noteq> Some W_business_import then base
         else
           let boundedParserTimeout = (case parserSetting of
                 Some p \<Rightarrow> if p \<ge> 1000 then min p 600000 else 300000 | None \<Rightarrow> 300000)
           in max base (boundedParserTimeout + 60000))"

definition stringDataField :: "json_object \<Rightarrow> string \<Rightarrow> string option" where
  "stringDataField data key =
     (case map_of data key of Some (JStr s) \<Rightarrow> if s = [] then None else Some s | _ \<Rightarrow> None)"

record runtime_ref =
  re_eventId :: string
  re_generation :: int
  re_tenantId :: string

definition runtimeEvent :: "json_object \<Rightarrow> runtime_ref option" where
  "runtimeEvent data =
     (case (stringDataField data ''runtimeEventId'', stringDataField data ''tenantId'',
            js_int (map_of data ''runtimeGeneration'')) of
        (Some eventId, Some tenantId, Some generation) \<Rightarrow>
          if generation < 1 then None
          else Some \<lparr>re_eventId = eventId, re_generation = generation, re_tenantId = tenantId\<rparr>
      | _ \<Rightarrow> None)"

definition persistedJobData :: "json_object \<Rightarrow> json_object" where
  "persistedJobData data = filter (\<lambda>(k, _). k \<noteq> ''runtimeEventId'' \<and> k \<noteq> ''runtimeGeneration'') data"

text \<open>A result is a JSON value or \<open>undefined\<close>.\<close>

definition jsonResult :: "json option \<Rightarrow> json" where
  "jsonResult v = (case v of None \<Rightarrow> JObj [(''value'', JNull)] | Some j \<Rightarrow> j)"

section \<open>Expired events\<close>

definition expire_ai_reply :: "string \<Rightarrow> json_object \<Rightarrow> int \<Rightarrow> db \<Rightarrow> db" where
  "expire_ai_reply tenantId data now d =
     (case js_str (map_of data ''triggerMessageId'') of
        None \<Rightarrow> d
      | Some inboundMessageId \<Rightarrow>
          d\<lparr>aiReplyRuns := update_many
             (\<lambda>r. rn_tenantId r = tenantId \<and> rn_inboundMessageId r = inboundMessageId \<and>
                  run_active (rn_status r))
             (\<lambda>r. r\<lparr>rn_status := Rn_DEAD_LETTER, rn_errorCode := Some ''RUNTIME_EVENT_EXPIRED'',
                    rn_errorMessage := Some ''Runtime event expired before worker execution.'',
                    rn_completedAt := Some now\<rparr>)
             (aiReplyRuns d)\<rparr>)"

text \<open>Delaying a projection: the application first, and its import only when the application was
  there.\<close>

definition delay_projection ::
    "(business_import_application \<Rightarrow> bool) \<Rightarrow> (business_import \<Rightarrow> bool) \<Rightarrow> string \<Rightarrow> db \<Rightarrow> db" where
  "delay_projection P Q code d =
     (let d1 = d\<lparr>businessImportApplications :=
                   update_many P (\<lambda>a. a\<lparr>ba_state := Ba_PROJECTION_DELAYED\<rparr>) (businessImportApplications d)\<rparr>
      in if count_where P (businessImportApplications d) = 1 then
           d1\<lparr>businessImports := update_many
              (\<lambda>b. Q b \<and> bi_state b \<in> {Bi_PROJECTING, Bi_PROJECTION_DELAYED})
              (\<lambda>b. b\<lparr>bi_state := Bi_PROJECTION_DELAYED, bi_failureCode := Some code,
                     bi_failureStage := Some ''PROJECTION'', bi_retryable := False,
                     bi_etag := bi_etag b + 1\<rparr>)
              (businessImports d1)\<rparr>
         else d1)"

definition projection_pending ::
    "string \<Rightarrow> string \<Rightarrow> string \<Rightarrow> string \<Rightarrow> int \<Rightarrow> string \<Rightarrow> string \<Rightarrow> business_import_application \<Rightarrow> bool" where
  "projection_pending tenantId importId applicationId revisionId revision eventId dedupeKey a =
     (ba_id a = applicationId \<and> ba_tenantId a = tenantId \<and> ba_importId a = importId \<and>
      ba_businessRevisionId a = revisionId \<and> ba_resultingInformationRevision a = revision \<and>
      ba_projectionOutboxId a = Some eventId \<and> ba_projectionOutboxDedupeKey a = dedupeKey \<and>
      ba_projectionReceiptHash a = None \<and>
      ba_state a \<in> {Ba_COMMITTED, Ba_PROJECTING, Ba_PROJECTION_DELAYED})"

definition import_failed_retryable :: "string \<Rightarrow> string \<Rightarrow> business_import \<Rightarrow> business_import" where
  "import_failed_retryable code stage b =
     b\<lparr>bi_state := Bi_FAILED_RETRYABLE, bi_failureCode := Some code, bi_failureStage := Some stage,
       bi_retryable := True, bi_etag := bi_etag b + 1\<rparr>"

definition expire_import :: "runtime_ref \<Rightarrow> envelope \<Rightarrow> db \<Rightarrow> db" where
  "expire_import runtime e d =
     (let data = map_of (en_data e) in
      case (js_str (data ''importId''), js_int (data ''generation'')) of
        (Some importId, Some generation) \<Rightarrow>
          if en_jobName e = ''project'' then
            (case (js_str (data ''applicationId''), js_str (data ''businessRevisionId''),
                   js_int (data ''businessRevision'')) of
               (Some applicationId, Some revisionId, Some revision) \<Rightarrow>
                 delay_projection
                   (projection_pending (re_tenantId runtime) importId applicationId revisionId revision
                      (re_eventId runtime) (en_jobId e))
                   (\<lambda>b. bi_id b = importId \<and> bi_tenantId b = re_tenantId runtime \<and> bi_generation b = generation)
                   ''BUSINESS_INFORMATION_PROJECTION_RUNTIME_EVENT_EXPIRED'' d
             | _ \<Rightarrow> d)
          else
            d\<lparr>businessImports := update_many
               (\<lambda>b. bi_id b = importId \<and> bi_tenantId b = re_tenantId runtime \<and> bi_generation b = generation \<and>
                    bi_state b \<in> {Bi_UPLOADED, Bi_SCANNING, Bi_PARSING, Bi_EXTRACTING})
               (import_failed_retryable ''BUSINESS_IMPORT_RUNTIME_EVENT_EXPIRED'' ''QUEUE'')
               (businessImports d)\<rparr>
      | _ \<Rightarrow> d)"

definition expired_code :: string where
  "expired_code = ''KNOWLEDGE_DEPENDENCY_RUNTIME_EVENT_EXPIRED''"

definition source_failed :: "bool \<Rightarrow> KnowledgeV2SourceStatus \<Rightarrow> string \<Rightarrow> int \<Rightarrow> knowledge_source \<Rightarrow> knowledge_source" where
  "source_failed isDelete status code now s =
     s\<lparr>ks_status := (if isDelete then ks_status s else status), ks_lastErrorCode := Some code,
       ks_lastErrorAt := Some now, ks_etag := ks_etag s + 1\<rparr>"

definition expire_knowledge :: "string \<Rightarrow> json_object \<Rightarrow> int \<Rightarrow> db \<Rightarrow> db" where
  "expire_knowledge tenantId data now d =
     (let d1 = (case js_str (map_of data ''knowledgeJobId'') of
            None \<Rightarrow> d
          | Some jobId \<Rightarrow>
              d\<lparr>knowledgeJobs := update_many
                 (\<lambda>j. kj_id j = jobId \<and> kj_tenantId j = tenantId \<and>
                      kj_status j \<notin> {Kj_SUCCEEDED, Kj_CANCELLED, Kj_DEAD_LETTER})
                 (\<lambda>j. j\<lparr>kj_status := Kj_DEAD_LETTER, kj_errorCode := Some expired_code,
                        kj_errorMessage := Some ''The knowledge source event expired before processing.'',
                        kj_completedAt := Some now\<rparr>)
                 (knowledgeJobs d)\<rparr>)
      in case (js_str (map_of data ''sourceId''), js_int (map_of data ''generation'')) of
           (Some sourceId, Some generation) \<Rightarrow>
             d1\<lparr>knowledgeSources := update_many
                 (\<lambda>s. ks_id s = sourceId \<and> ks_tenantId s = tenantId \<and> ks_generation s = generation \<and>
                      ks_status s \<notin> {Ks_DELETED, Ks_DISCONNECTED})
                 (source_failed (map_of data ''operation'' = Some (JStr ''DELETE'')) Ks_FAILED expired_code now)
                 (knowledgeSources d1)\<rparr>
         | _ \<Rightarrow> d1)"

definition expire_message :: "string \<Rightarrow> json_object \<Rightarrow> db \<Rightarrow> db" where
  "expire_message tenantId data d =
     (case js_str (map_of data ''messageId'') of
        None \<Rightarrow> d
      | Some messageId \<Rightarrow>
          d\<lparr>messages := update_many
             (\<lambda>m. ms_id m = messageId \<and> ms_tenantId m = tenantId \<and> ms_status m = Ms_QUEUED)
             (\<lambda>m. m\<lparr>ms_status := Ms_FAILED\<rparr>) (messages d)\<rparr>)"

definition expire_event :: "runtime_ref \<Rightarrow> envelope \<Rightarrow> int \<Rightarrow> db \<Rightarrow> db" where
  "expire_event runtime e now =
     (case en_queueName e of
        Q_ai_reply \<Rightarrow> expire_ai_reply (re_tenantId runtime) (en_data e) now
      | Q_business_import \<Rightarrow> expire_import runtime e
      | Q_knowledge_ingest \<Rightarrow> expire_knowledge (re_tenantId runtime) (en_data e) now
      | Q_channels_sendMessage \<Rightarrow> expire_message (re_tenantId runtime) (en_data e))"

section \<open>Claiming\<close>

record inbox_claim =
  ic_eventId :: string
  ic_consumerName :: string
  ic_lockId :: string

datatype claim_result =
    Untracked
  | Outbox_pending RuntimeOutboxStatus
  | Expired
  | Replayed "json option"
  | Busy int
  | Claimed inbox_claim

definition consumer_name :: "LeadVirtQueueName \<Rightarrow> string \<Rightarrow> string" where
  "consumer_name queueName jobName = ''worker.'' @ workerQueue_text queueName @ ''.'' @ jobName @ ''.v1''"

definition job_id_text :: "worker_job \<Rightarrow> string" where
  "job_id_text job = (case jb_id job of None \<Rightarrow> [] | Some i \<Rightarrow> i)"

definition job_authorized :: "host \<Rightarrow> LeadVirtQueueName \<Rightarrow> worker_job \<Rightarrow> envelope \<Rightarrow> bool" where
  "job_authorized h queueName job e =
     (workerQueue_text queueName = queueName_text (en_queueName e) \<and> jb_name job = en_jobName e \<and>
      job_id_text job = en_jobId e \<and>
      runtimeQueueEnvelopeSignature h
        (e\<lparr>en_jobName := jb_name job, en_jobId := job_id_text job, en_data := persistedJobData (jb_data job)\<rparr>) =
      runtimeQueueEnvelopeSignature h e)"

definition inbox_claimable :: "int \<Rightarrow> runtime_inbox \<Rightarrow> bool" where
  "inbox_claimable now r =
     (ib_status r \<noteq> Ib_SUCCEEDED \<and>
      \<not> (ib_status r = Ib_PROCESSING \<and>
         (case ib_lockExpiresAt r of None \<Rightarrow> False | Some t \<Rightarrow> t > now)))"

definition inbox_claimed :: "int \<Rightarrow> int \<Rightarrow> int \<Rightarrow> string \<Rightarrow> runtime_inbox \<Rightarrow> runtime_inbox" where
  "inbox_claimed generation now till lockId r =
     r\<lparr>ib_generation := generation, ib_status := Ib_PROCESSING, ib_attemptCount := ib_attemptCount r + 1,
       ib_startedAt := now, ib_heartbeatAt := Some now, ib_lockedBy := Some lockId,
       ib_lockExpiresAt := Some till, ib_completedAt := None, ib_errorCode := None,
       ib_errorMessage := None\<rparr>"

definition new_inbox :: "string \<Rightarrow> int \<Rightarrow> string \<Rightarrow> runtime_ref \<Rightarrow> int \<Rightarrow> int \<Rightarrow> string \<Rightarrow> runtime_inbox" where
  "new_inbox newId rowNow consumerName runtime now till lockId =
     \<lparr>ib_id = newId, ib_tenantId = re_tenantId runtime, ib_consumerName = consumerName,
      ib_eventId = re_eventId runtime, ib_generation = re_generation runtime, ib_status = Ib_PROCESSING,
      ib_result = None, ib_errorCode = None, ib_errorMessage = None, ib_attemptCount = 1,
      ib_startedAt = rowNow, ib_heartbeatAt = Some now, ib_lockedBy = Some lockId,
      ib_lockExpiresAt = Some till, ib_completedAt = None\<rparr>"

definition insert_inbox :: "runtime_inbox \<Rightarrow> db \<Rightarrow> error + db" where
  "insert_inbox r d =
     (if list_ex (\<lambda>x. ib_id x = ib_id r \<or>
            (ib_consumerName x, ib_eventId x) = (ib_consumerName r, ib_eventId r)) (runtimeInbox d)
      then Inl (PrismaError ''P2002'')
      else Inr (d\<lparr>runtimeInbox := runtimeInbox d @ [r]\<rparr>))"

definition find_inbox :: "string \<Rightarrow> string \<Rightarrow> db \<Rightarrow> runtime_inbox option" where
  "find_inbox consumerName eventId d =
     List.find (\<lambda>r. ib_consumerName r = consumerName \<and> ib_eventId r = eventId) (runtimeInbox d)"

text \<open>
  The surroundings of a claim: the reading of the clock, the identifier drawn for the lock, and for
  every try what the other processes did before it, the error of its commit if there is one, and the
  identifier and time the database gives to a new row.
\<close>

record claim_env =
  ci_now :: int
  ci_uuid :: string
  ci_before :: "nat \<Rightarrow> db \<Rightarrow> db"
  ci_commitErrors :: "nat \<Rightarrow> error option"
  ci_newId :: "nat \<Rightarrow> string"
  ci_rowNow :: "nat \<Rightarrow> int"

definition claim_row ::
    "claim_env \<Rightarrow> nat \<Rightarrow> string \<Rightarrow> string \<Rightarrow> int \<Rightarrow> runtime_ref \<Rightarrow> db \<Rightarrow> error + (claim_result \<times> db)" where
  "claim_row env k consumerName lockId till runtime d =
     (let claim = Claimed \<lparr>ic_eventId = re_eventId runtime, ic_consumerName = consumerName, ic_lockId = lockId\<rparr>
      in case find_inbox consumerName (re_eventId runtime) d of
           None \<Rightarrow>
             andThen (insert_inbox (new_inbox (ci_newId env k) (ci_rowNow env k) consumerName runtime
                        (ci_now env) till lockId) d) (\<lambda>d'. Inr (claim, d'))
         | Some existing \<Rightarrow>
             if ib_status existing = Ib_SUCCEEDED then Inr (Replayed (ib_result existing), d)
             else (case (ib_status existing, ib_lockExpiresAt existing) of
                     (Ib_PROCESSING, Some t) \<Rightarrow>
                       if t > ci_now env then Inr (Busy t, d)
                       else Inr (claim, d\<lparr>runtimeInbox := update_many (\<lambda>r. ib_id r = ib_id existing)
                              (inbox_claimed (re_generation runtime) (ci_now env) till lockId) (runtimeInbox d)\<rparr>)
                   | _ \<Rightarrow> Inr (claim, d\<lparr>runtimeInbox := update_many (\<lambda>r. ib_id r = ib_id existing)
                              (inbox_claimed (re_generation runtime) (ci_now env) till lockId) (runtimeInbox d)\<rparr>)))"

definition claim_inbox_tx ::
    "host \<Rightarrow> claim_env \<Rightarrow> nat \<Rightarrow> LeadVirtQueueName \<Rightarrow> worker_job \<Rightarrow> int \<Rightarrow> runtime_ref \<Rightarrow> db
     \<Rightarrow> error + (claim_result \<times> db)" where
  "claim_inbox_tx h env k queueName job timeoutMs runtime d =
     (let consumerName = consumer_name queueName (jb_name job);
          lockId = consumerName @ '':'' @ ci_uuid env;
          till = ci_now env + timeoutMs + 5000
      in case List.find (\<lambda>r. ob_id r = re_eventId runtime \<and> ob_tenantId r = re_tenantId runtime \<and>
                             ob_generation r = re_generation runtime) (runtimeOutbox d) of
           None \<Rightarrow> Inl (Error ''Runtime outbox event is not valid for this job.'')
         | Some event \<Rightarrow>
             andThen (parseRuntimeQueueEnvelope (ob_payload event)) (\<lambda>e.
               if \<not> job_authorized h queueName job e
               then Inl (Error ''Runtime outbox event does not authorize this queue job.'')
               else if ob_status event \<notin> {Ob_PUBLISHED, Ob_PUBLISHING, Ob_FAILED}
               then Inr (Outbox_pending (ob_status event), d)
               else if (case ob_deadlineAt event of None \<Rightarrow> False | Some t \<Rightarrow> t \<le> ci_now env)
               then Inr (Expired, expire_event runtime e (ci_now env) d)
               else claim_row env k consumerName lockId till runtime d))"

fun claim_dbs :: "claim_env \<Rightarrow> db \<Rightarrow> nat \<Rightarrow> db" where
  "claim_dbs env d 0 = ci_before env 0 d"
| "claim_dbs env d (Suc k) = ci_before env (Suc k) (claim_dbs env d k)"

definition claim_conflict :: "error \<Rightarrow> bool" where
  "claim_conflict e = (e = PrismaError ''P2002'' \<or> e = PrismaError ''P2034'')"

definition claimRuntimeInbox ::
    "host \<Rightarrow> claim_env \<Rightarrow> LeadVirtQueueName \<Rightarrow> worker_job \<Rightarrow> int \<Rightarrow> db \<Rightarrow> db \<times> (error + claim_result)" where
  "claimRuntimeInbox h env queueName job timeoutMs d =
     (case runtimeEvent (jb_data job) of
        None \<Rightarrow> (d, Inr Untracked)
      | Some runtime \<Rightarrow>
          retry_tx 2 claim_conflict (claim_dbs env d) (ci_commitErrors env)
            (\<lambda>k. claim_inbox_tx h env k queueName job timeoutMs runtime) 0)"

section \<open>Waiting for another consumer\<close>

text \<open>
  Between two polls the loop sleeps 250 milliseconds; the surroundings add the delay of the timer
  before the poll, the delay from the poll to the next test, and what the others do in between.
\<close>

record wait_env =
  wt_before :: "nat \<Rightarrow> db \<Rightarrow> db"
  wt_timerDelay :: "nat \<Rightarrow> nat"
  wt_pollDelay :: "nat \<Rightarrow> nat"

datatype wait_result = Wait_replayed "json option" | Wait_retry | Wait_busy

function wait_loop ::
    "wait_env \<Rightarrow> string \<Rightarrow> string \<Rightarrow> int \<Rightarrow> nat \<Rightarrow> int \<Rightarrow> db \<Rightarrow> db \<times> wait_result" where
  "wait_loop env consumerName eventId deadline k now d =
     (if now < deadline then
        (let now' = now + 250 + int (wt_timerDelay env k);
             d' = wt_before env k d
         in case find_inbox consumerName eventId d' of
              None \<Rightarrow> (d', Wait_retry)
            | Some existing \<Rightarrow>
                if ib_status existing = Ib_SUCCEEDED then (d', Wait_replayed (ib_result existing))
                else if ib_status existing \<noteq> Ib_PROCESSING \<or>
                        (case ib_lockExpiresAt existing of None \<Rightarrow> True | Some t \<Rightarrow> t \<le> now')
                then (d', Wait_retry)
                else wait_loop env consumerName eventId deadline (Suc k) (now' + int (wt_pollDelay env k)) d')
      else (d, Wait_busy))"
  by pat_completeness auto
termination by (relation "measure (\<lambda>(_, _, _, deadline, _, now, _). nat (deadline - now))") auto

declare wait_loop.simps [simp del]

definition waitForRuntimeInbox ::
    "wait_env \<Rightarrow> int \<Rightarrow> int \<Rightarrow> string \<Rightarrow> string \<Rightarrow> int \<Rightarrow> db \<Rightarrow> db \<times> wait_result" where
  "waitForRuntimeInbox env now timeoutMs consumerName eventId lockExpiresAt d =
     wait_loop env consumerName eventId (min (lockExpiresAt + 1000) (now + timeoutMs + 10000)) 0 now d"

section \<open>Completion and failure\<close>

definition inbox_owned :: "string \<Rightarrow> runtime_inbox \<Rightarrow> bool" where
  "inbox_owned lockId r = (ib_status r = Ib_PROCESSING \<and> ib_lockedBy r = Some lockId)"

definition claim_rows :: "inbox_claim \<Rightarrow> runtime_inbox \<Rightarrow> bool" where
  "claim_rows c r =
     ((ib_consumerName r, ib_eventId r) = (ic_consumerName c, ic_eventId c) \<and> inbox_owned (ic_lockId c) r)"

definition inbox_succeeded :: "int \<Rightarrow> int \<Rightarrow> json option \<Rightarrow> runtime_inbox \<Rightarrow> runtime_inbox" where
  "inbox_succeeded heartbeatAt completedAt result r =
     r\<lparr>ib_status := Ib_SUCCEEDED, ib_result := Some (jsonResult result), ib_heartbeatAt := Some heartbeatAt,
       ib_completedAt := Some completedAt, ib_lockedBy := None, ib_lockExpiresAt := None,
       ib_errorCode := None, ib_errorMessage := None\<rparr>"

definition completeRuntimeInbox ::
    "int \<times> int \<Rightarrow> inbox_claim \<Rightarrow> json option \<Rightarrow> db \<Rightarrow> db \<times> (error + unit)" where
  "completeRuntimeInbox clock c result d =
     (d\<lparr>runtimeInbox := update_many (claim_rows c) (inbox_succeeded (fst clock) (snd clock) result) (runtimeInbox d)\<rparr>,
      if count_where (claim_rows c) (runtimeInbox d) \<noteq> 1
      then Inl (Error ''Runtime inbox lease was lost before completion.'') else Inr ())"

definition inbox_failed :: "int \<Rightarrow> int \<Rightarrow> error \<Rightarrow> runtime_inbox \<Rightarrow> runtime_inbox" where
  "inbox_failed heartbeatAt completedAt e r =
     r\<lparr>ib_status := Ib_FAILED, ib_heartbeatAt := Some heartbeatAt, ib_completedAt := Some completedAt,
       ib_lockedBy := None, ib_lockExpiresAt := None, ib_errorCode := Some (error_name e),
       ib_errorMessage := Some (take 500 (error_text e))\<rparr>"

definition failRuntimeInbox :: "int \<times> int \<Rightarrow> inbox_claim \<Rightarrow> error \<Rightarrow> db \<Rightarrow> db" where
  "failRuntimeInbox clock c e d =
     d\<lparr>runtimeInbox := update_many (claim_rows c) (inbox_failed (fst clock) (snd clock) e) (runtimeInbox d)\<rparr>"

end
