(* ===== verification/Worker_Job.thy ===== *)
theory Worker_Job
  imports Runtime_Inbox
begin

text \<open>
  Running a job under the inbox (\<open>apps/worker/src/reliability/worker-reliability.ts\<close>): the timeout
  with its fences on knowledge and import jobs, the whole of \<open>processLeadVirtJobWithReliability\<close>,
  and what is recorded when a job is given up.
\<close>

section \<open>Timeouts\<close>

definition positive_int :: "json option \<Rightarrow> int option" where
  "positive_int v = (case js_int v of Some n \<Rightarrow> if n < 1 then None else Some n | None \<Rightarrow> None)"

definition interrupted_code :: string where
  "interrupted_code = ''KNOWLEDGE_DEPENDENCY_INGESTION_INTERRUPTED''"

definition attempt_timed_out :: "int \<Rightarrow> knowledge_job_attempt \<Rightarrow> knowledge_job_attempt" where
  "attempt_timed_out now a =
     a\<lparr>ka_status := Ka_TIMED_OUT, ka_errorCode := Some interrupted_code,
       ka_errorMessage := Some ''Knowledge ingestion was interrupted.'', ka_heartbeatAt := Some now,
       ka_completedAt := Some now\<rparr>"

definition job_rescheduled :: "int \<Rightarrow> knowledge_job \<Rightarrow> knowledge_job" where
  "job_rescheduled now j =
     j\<lparr>kj_status := Kj_RETRY_SCHEDULED, kj_availableAt := now + 2000, kj_errorCode := Some interrupted_code,
       kj_errorMessage := Some ''Knowledge ingestion was interrupted.'', kj_heartbeatAt := Some now,
       kj_completedAt := None\<rparr>"

definition fenceTimedOutKnowledgeJob :: "int \<Rightarrow> worker_job \<Rightarrow> db \<Rightarrow> db" where
  "fenceTimedOutKnowledgeJob now job d =
     (let data = jb_data job in
      case (stringDataField data ''tenantId'', stringDataField data ''sourceId'',
            stringDataField data ''knowledgeJobId'', positive_int (map_of data ''generation'')) of
        (Some tenantId, Some sourceId, Some jobId, Some generation) \<Rightarrow>
          (let running = (\<lambda>j. kj_id j = jobId \<and> kj_tenantId j = tenantId \<and> kj_generation j = generation \<and>
                              kj_status j = Kj_RUNNING);
               d1 = d\<lparr>knowledgeJobAttempts := update_many
                       (\<lambda>a. ka_tenantId a = tenantId \<and> ka_jobId a = jobId \<and> ka_status a = Ka_RUNNING)
                       (attempt_timed_out now) (knowledgeJobAttempts d)\<rparr>;
               d2 = d1\<lparr>knowledgeJobs := update_many running (job_rescheduled now) (knowledgeJobs d1)\<rparr>
           in if count_where running (knowledgeJobs d1) = 1 then
                d2\<lparr>knowledgeSources := update_many
                    (\<lambda>s. ks_id s = sourceId \<and> ks_tenantId s = tenantId \<and> ks_generation s = generation)
                    (source_failed (stringDataField data ''operation'' = Some ''DELETE'') Ks_SYNCING interrupted_code now)
                    (knowledgeSources d2)\<rparr>
              else d2)
      | _ \<Rightarrow> d)"

definition import_project_key :: "string \<Rightarrow> int \<Rightarrow> string" where
  "import_project_key applicationId revision =
     ''business-import-project:'' @ applicationId @ '':'' @ int_str revision"

text \<open>Delaying the projection a job was to carry out; its identifiers are all required.\<close>

definition delay_job_projection ::
    "string \<Rightarrow> string \<Rightarrow> string \<Rightarrow> string \<Rightarrow> string \<Rightarrow> int \<Rightarrow> string \<Rightarrow> int \<Rightarrow> string \<Rightarrow> db \<Rightarrow> db" where
  "delay_job_projection tenantId sourceId importId applicationId revisionId revision eventId generation code =
     delay_projection
       (\<lambda>a. projection_pending tenantId importId applicationId revisionId revision eventId
              (import_project_key applicationId revision) a \<and> ba_sourceId a = sourceId)
       (\<lambda>b. bi_id b = importId \<and> bi_tenantId b = tenantId \<and> bi_sourceId b = sourceId \<and>
            bi_generation b = generation) code"

definition fenceTimedOutBusinessImportJob :: "worker_job \<Rightarrow> db \<Rightarrow> db" where
  "fenceTimedOutBusinessImportJob job d =
     (let data = jb_data job in
      if jb_name job = ''project-revision'' then d
      else case (stringDataField data ''tenantId'', stringDataField data ''importId'',
                 stringDataField data ''sourceId'', positive_int (map_of data ''generation'')) of
        (Some tenantId, Some importId, Some sourceId, Some generation) \<Rightarrow>
          if jb_name job = ''project'' then
            (case (stringDataField data ''applicationId'', stringDataField data ''businessRevisionId'',
                   stringDataField data ''runtimeEventId'', positive_int (map_of data ''businessRevision'')) of
               (Some applicationId, Some revisionId, Some eventId, Some revision) \<Rightarrow>
                 delay_job_projection tenantId sourceId importId applicationId revisionId revision eventId
                   generation ''BUSINESS_INFORMATION_PROJECTION_INTERRUPTED'' d
             | _ \<Rightarrow> d)
          else
            d\<lparr>businessImports := update_many
               (\<lambda>b. bi_id b = importId \<and> bi_tenantId b = tenantId \<and> bi_sourceId b = sourceId \<and>
                    bi_generation b = generation \<and> bi_state b \<in> {Bi_SCANNING, Bi_PARSING, Bi_EXTRACTING})
               (import_failed_retryable ''BUSINESS_IMPORT_PROCESSING_INTERRUPTED'' ''PROCESSING'')
               (businessImports d)\<rparr>
      | _ \<Rightarrow> d)"

text \<open>
  The race of the work against its timer. If the work settles before the timer fires, its outcome
  stands. Otherwise the timer's error is thrown after the fence of the timeout has run, whether the
  work settles later or never; an error of the fence is dropped.
\<close>

definition withWorkerJobTimeout ::
    "bool \<Rightarrow> int \<Rightarrow> (db \<Rightarrow> db) \<Rightarrow> (db \<Rightarrow> db \<times> (error + 'a)) \<Rightarrow> db \<Rightarrow> db \<times> (error + 'a)" where
  "withWorkerJobTimeout inTime timeoutMs onTimeout work d =
     (let (d', outcome) = work d in
      if inTime then (d', outcome) else (onTimeout d', Inl (WorkerJobTimeoutError timeoutMs)))"

definition isFinalAttempt :: "worker_job option \<Rightarrow> error option \<Rightarrow> bool" where
  "isFinalAttempt job e =
     ((case e of None \<Rightarrow> False | Some err \<Rightarrow> error_name err = ''UnrecoverableError'') \<or>
      (case job of
         None \<Rightarrow> True
       | Some j \<Rightarrow>
           jb_attemptsMade j \<ge> (case jb_attempts j of Some n \<Rightarrow> if n > 0 then n else 1 | None \<Rightarrow> 1)))"

section \<open>Processing\<close>

text \<open>
  The surroundings of one delivery: the settings, the claims in order (the first, up to eight while
  the outbox row is pending, and the one after a wait), the wait, the processor with its effect on
  the database (and that of everyone else meanwhile) and its outcome, whether it settled in time,
  the clock of the fence and whether the fence failed, and the closing statement.
\<close>

record process_env =
  pe_host :: host
  pe_jobSetting :: "int option"
  pe_parserSetting :: "int option"
  pe_claims :: "nat \<Rightarrow> claim_env"
  pe_waitNow :: int
  pe_wait :: wait_env
  pe_processor :: "LeadVirtQueueName \<Rightarrow> worker_job \<Rightarrow> db \<Rightarrow> db \<times> (error + json option)"
  pe_inTime :: bool
  pe_fenceNow :: int
  pe_fenceFails :: bool
  pe_beforeClose :: "db \<Rightarrow> db"
  pe_closeClock :: "int \<times> int"
  pe_completeError :: "error option"
  pe_beforeFail :: "db \<Rightarrow> db"
  pe_failClock :: "int \<times> int"
  pe_failFails :: bool

definition env_timeout :: "process_env \<Rightarrow> LeadVirtQueueName \<Rightarrow> int" where
  "env_timeout env queueName = workerJobTimeoutMs (pe_jobSetting env) (pe_parserSetting env) (Some queueName)"

definition env_claim ::
    "process_env \<Rightarrow> LeadVirtQueueName \<Rightarrow> worker_job \<Rightarrow> nat \<Rightarrow> db \<Rightarrow> db \<times> (error + claim_result)" where
  "env_claim env queueName job n =
     claimRuntimeInbox (pe_host env) (pe_claims env n) queueName job (env_timeout env queueName)"

text \<open>The loop on a pending outbox row; \<open>n\<close> is the number of the claim just made.\<close>

fun claim_while_pending ::
    "process_env \<Rightarrow> LeadVirtQueueName \<Rightarrow> worker_job \<Rightarrow> nat \<Rightarrow> nat \<Rightarrow> db \<times> (error + claim_result)
     \<Rightarrow> db \<times> (error + claim_result)" where
  "claim_while_pending env queueName job 0 n s = s"
| "claim_while_pending env queueName job (Suc left) n (d, r) =
     (case r of
        Inr (Outbox_pending _) \<Rightarrow>
          claim_while_pending env queueName job left (Suc n) (env_claim env queueName job (Suc n) d)
      | _ \<Rightarrow> (d, r))"

definition timeout_fence :: "process_env \<Rightarrow> LeadVirtQueueName \<Rightarrow> worker_job \<Rightarrow> db \<Rightarrow> db" where
  "timeout_fence env queueName job d =
     (if pe_fenceFails env then d
      else if queueName = W_knowledge_ingest then fenceTimedOutKnowledgeJob (pe_fenceNow env) job d
      else if queueName = W_business_import then fenceTimedOutBusinessImportJob job d
      else d)"

text \<open>The \<open>try\<close> block and its handler, for the claim the delivery has ended up with.\<close>

definition run_claimed ::
    "process_env \<Rightarrow> LeadVirtQueueName \<Rightarrow> worker_job \<Rightarrow> claim_result \<Rightarrow> db \<Rightarrow> db \<times> (error + json option)" where
  "run_claimed env queueName job inbox d =
     (let failed = (\<lambda>d' e.
            (case inbox of
               Claimed c \<Rightarrow> if pe_failFails env then pe_beforeFail env d'
                            else failRuntimeInbox (pe_failClock env) c e (pe_beforeFail env d')
             | _ \<Rightarrow> d', Inl e))
      in case withWorkerJobTimeout (pe_inTime env) (env_timeout env queueName) (timeout_fence env queueName job)
                (pe_processor env queueName job) d of
           (d1, Inl e) \<Rightarrow> failed d1 e
         | (d1, Inr result) \<Rightarrow>
             (case inbox of
                Claimed c \<Rightarrow>
                  (case pe_completeError env of
                     Some e \<Rightarrow> failed (pe_beforeClose env d1) e
                   | None \<Rightarrow>
                       (case completeRuntimeInbox (pe_closeClock env) c result (pe_beforeClose env d1) of
                          (d2, Inl e) \<Rightarrow> failed d2 e
                        | (d2, Inr _) \<Rightarrow> (d2, Inr result)))
              | _ \<Rightarrow> (d1, Inr result)))"

definition outboxStatus_lower :: "RuntimeOutboxStatus \<Rightarrow> string" where
  "outboxStatus_lower s =
     (case s of Ob_PENDING \<Rightarrow> ''pending'' | Ob_PUBLISHING \<Rightarrow> ''publishing'' | Ob_PUBLISHED \<Rightarrow> ''published''
      | Ob_FAILED \<Rightarrow> ''failed'' | Ob_DEAD_LETTER \<Rightarrow> ''dead_letter'')"

definition busy_error :: error where
  "busy_error = Error ''Runtime event is still being processed by an active consumer.''"

definition process_busy ::
    "process_env \<Rightarrow> LeadVirtQueueName \<Rightarrow> worker_job \<Rightarrow> int \<Rightarrow> db \<Rightarrow> db \<times> (error + json option)" where
  "process_busy env queueName job lockExpiresAt d =
     (case waitForRuntimeInbox (pe_wait env) (pe_waitNow env) (env_timeout env queueName)
             (consumer_name queueName (jb_name job))
             (case runtimeEvent (jb_data job) of None \<Rightarrow> [] | Some r \<Rightarrow> re_eventId r) lockExpiresAt d of
        (d1, Wait_replayed result) \<Rightarrow> (d1, Inr result)
      | (d1, Wait_busy) \<Rightarrow> (d1, Inl busy_error)
      | (d1, Wait_retry) \<Rightarrow>
          (case env_claim env queueName job 9 d1 of
             (d2, Inl e) \<Rightarrow> (d2, Inl e)
           | (d2, Inr inbox) \<Rightarrow>
               (case inbox of Busy _ \<Rightarrow> (d2, Inl busy_error) | _ \<Rightarrow> run_claimed env queueName job inbox d2)))"

definition processLeadVirtJobWithReliability ::
    "process_env \<Rightarrow> LeadVirtQueueName \<Rightarrow> worker_job \<Rightarrow> db \<Rightarrow> db \<times> (error + json option)" where
  "processLeadVirtJobWithReliability env queueName job d =
     (let first = env_claim env queueName job 0 d in
      if queueName \<in> {W_ai_reply, W_channels_sendMessage} \<and> snd first = Inr Untracked
      then (fst first, Inl (UnrecoverableError (workerQueue_text queueName @ '' job is not backed by RuntimeOutbox.'')))
      else
        case claim_while_pending env queueName job 8 0 first of
          (d1, Inl e) \<Rightarrow> (d1, Inl e)
        | (d1, Inr inbox) \<Rightarrow>
            (case inbox of
               Outbox_pending s \<Rightarrow>
                 (d1, Inl (Error (''Runtime outbox event is '' @ outboxStatus_lower s @ '', not published.'')))
             | Expired \<Rightarrow> (d1, Inl (UnrecoverableError ''Runtime event expired before worker execution.''))
             | Replayed result \<Rightarrow> (d1, Inr result)
             | Busy t \<Rightarrow> process_busy env queueName job t d1
             | _ \<Rightarrow> run_claimed env queueName job inbox d1))"

end
