(* ===== verification/Inbox_Protocol.thy ===== *)
theory Inbox_Protocol
  imports Worker_Job Outbox_Properties
begin

text \<open>
  The inbox as a leased row and as a table: the claim, completion and failure of one row, what
  every operation of the worker keeps of the table, and the fate of a completed row.
\<close>

section \<open>The lease of an inbox row\<close>

definition inbox_final :: "runtime_inbox \<Rightarrow> bool" where
  "inbox_final r = (ib_status r = Ib_SUCCEEDED)"

lemma inbox_claimed_simps [simp]:
  "ib_id (inbox_claimed g now till l r) = ib_id r"
  "ib_consumerName (inbox_claimed g now till l r) = ib_consumerName r"
  "ib_eventId (inbox_claimed g now till l r) = ib_eventId r"
  "ib_status (inbox_claimed g now till l r) = Ib_PROCESSING"
  "ib_lockedBy (inbox_claimed g now till l r) = Some l"
  "ib_lockExpiresAt (inbox_claimed g now till l r) = Some till"
  by (simp_all add: inbox_claimed_def)

interpretation ib_lease: leased_row ib_lockedBy ib_lockExpiresAt inbox_final inbox_claimable
    "inbox_claimed g" inbox_owned for g
  by unfold_locales (auto simp: inbox_final_def inbox_claimable_def inbox_owned_def)

section \<open>Rows\<close>

definition inbox_key :: "runtime_inbox \<Rightarrow> string \<times> string" where
  "inbox_key r = (ib_consumerName r, ib_eventId r)"

lemma inbox_keys_alt: "inbox_keys t = (unique_on ib_id t \<and> unique_on inbox_key t)"
  by (simp add: inbox_keys_def unique_on_def inbox_key_def [abs_def])

definition inbox_row_ok :: "runtime_inbox \<Rightarrow> bool" where
  "inbox_row_ok r =
     ((ib_status r = Ib_PROCESSING \<longleftrightarrow> ib_lockedBy r \<noteq> None) \<and>
      (ib_lockedBy r \<noteq> None \<longleftrightarrow> ib_lockExpiresAt r \<noteq> None) \<and>
      (ib_completedAt r = None \<longleftrightarrow> ib_status r = Ib_PROCESSING) \<and>
      (ib_status r = Ib_SUCCEEDED \<longrightarrow> ib_result r \<noteq> None) \<and> 1 \<le> ib_attemptCount r)"

inductive inbox_row_step :: "runtime_inbox \<Rightarrow> runtime_inbox \<Rightarrow> bool" where
  claim: "inbox_claimable now r \<Longrightarrow> inbox_row_step r (inbox_claimed g now till l r)"
| complete: "inbox_owned l r \<Longrightarrow> inbox_row_step r (inbox_succeeded hb at res r)"
| fail: "inbox_owned l r \<Longrightarrow> inbox_row_step r (inbox_failed hb at e r)"

lemmas inbox_row_defs = inbox_claimed_def inbox_succeeded_def inbox_failed_def

lemma row_step_facts:
  assumes "inbox_row_step r r'"
  shows "ib_id r' = ib_id r" "inbox_key r' = inbox_key r" "ib_attemptCount r \<le> ib_attemptCount r'"
    and "\<not> inbox_final r" "inbox_row_ok r \<Longrightarrow> inbox_row_ok r'"
  using assms
  by (induction rule: inbox_row_step.induct)
     (simp_all add: inbox_row_defs inbox_key_def inbox_final_def inbox_claimable_def inbox_owned_def inbox_row_ok_def)

text \<open>A row goes on by steps; a table keeps its rows, each having gone on, and may gain rows that
  are being processed for the first time.\<close>

abbreviation row_goes_on :: "runtime_inbox \<Rightarrow> runtime_inbox \<Rightarrow> bool" where
  "row_goes_on r r' \<equiv> r' = r \<or> inbox_row_step r r'"

definition inbox_evolves :: "runtime_inbox list \<Rightarrow> runtime_inbox list \<Rightarrow> bool" where
  "inbox_evolves t t' =
     (\<exists>old new. t' = old @ new \<and> list_all2 row_goes_on t old \<and>
        list_all (\<lambda>r. inbox_row_ok r \<and> ib_attemptCount r = 1) new \<and>
        (inbox_keys t \<longrightarrow> inbox_keys t'))"

lemma inbox_evolves_update:
  assumes "\<And>r. r \<in> set t \<Longrightarrow> P r \<Longrightarrow> inbox_row_step r (f r)"
  shows "inbox_evolves t (update_many P f t)"
proof -
  have l: "list_all2 row_goes_on t (update_many P f t)"
    using assms by (induction t) auto
  have "map ib_id (update_many P f t) = map ib_id t" "map inbox_key (update_many P f t) = map inbox_key t"
    using assms row_step_facts(1,2) by (induction t) auto
  then have "inbox_keys t \<longrightarrow> inbox_keys (update_many P f t)"
    by (simp add: inbox_keys_alt unique_on_def)
  with l show ?thesis unfolding inbox_evolves_def by (intro exI [of _ "update_many P f t"] exI [of _ "[]"]) simp
qed

lemma inbox_evolves_refl: "inbox_evolves t t"
  unfolding inbox_evolves_def by (rule exI [of _ t], rule exI [of _ "[]"]) (simp add: list.rel_refl)

lemma inbox_evolves_insert:
  assumes "insert_inbox r d = Inr d'" "inbox_row_ok r" "ib_attemptCount r = 1"
  shows "inbox_evolves (runtimeInbox d) (runtimeInbox d')"
proof -
  have d': "runtimeInbox d' = runtimeInbox d @ [r]"
    and new: "\<forall>x\<in>set (runtimeInbox d). ib_id x \<noteq> ib_id r \<and> (ib_consumerName x, ib_eventId x) \<noteq> (ib_consumerName r, ib_eventId r)"
    using assms(1) by (auto simp: insert_inbox_def list_ex_iff split: if_splits)
  have "inbox_keys (runtimeInbox d) \<longrightarrow> inbox_keys (runtimeInbox d')"
    using new unfolding d' inbox_keys_def unique_on_append1 by blast
  then show ?thesis
    unfolding inbox_evolves_def d' using assms(2,3)
    by (intro exI [of _ "runtimeInbox d"] exI [of _ "[r]"]) (simp add: list.rel_refl)
qed

lemma inbox_evolves_row:
  assumes "inbox_evolves t t'" "r \<in> set t"
  obtains r' where "r' \<in> set t'" "row_goes_on r r'"
proof -
  obtain old new where t': "t' = old @ new" "list_all2 row_goes_on t old"
    using assms(1) by (auto simp: inbox_evolves_def)
  obtain i where i: "i < length t" "t ! i = r" using assms(2) by (auto simp: in_set_conv_nth)
  then have "row_goes_on r (old ! i)" "i < length old"
    using list_all2_nthD [OF t'(2), of i] list_all2_lengthD [OF t'(2)] by auto
  then show thesis using that [of "old ! i"] t'(1) by simp
qed

lemma inbox_evolves_ok:
  assumes "inbox_evolves t t'" "list_all inbox_row_ok t"
  shows "list_all inbox_row_ok t'"
proof -
  obtain old new where t': "t' = old @ new" "list_all2 row_goes_on t old" "list_all inbox_row_ok new"
    using assms(1) by (auto simp: inbox_evolves_def list_all_iff)
  have "list_all inbox_row_ok old"
    using t'(2) assms(2) by (induction rule: list_all2_induct) (auto dest: row_step_facts(5))
  with t'(1,3) show ?thesis by simp
qed

section \<open>Operations\<close>

lemma find_inboxD:
  "find_inbox c e d = Some r \<Longrightarrow> r \<in> set (runtimeInbox d) \<and> ib_consumerName r = c \<and> ib_eventId r = e"
  unfolding find_inbox_def by (auto dest: find_SomeD)

lemma find_inbox_unique:
  assumes "inbox_keys (runtimeInbox d)" "r \<in> set (runtimeInbox d)"
  shows "find_inbox (ib_consumerName r) (ib_eventId r) d = Some r"
proof -
  have u: "unique_on (\<lambda>r. (ib_consumerName r, ib_eventId r)) (runtimeInbox d)"
    using assms(1) by (simp add: inbox_keys_def)
  show ?thesis
    unfolding find_inbox_def
    using find_Some_unique_iff [OF u, of "\<lambda>x. ib_consumerName x = ib_consumerName r \<and> ib_eventId x = ib_eventId r"
        "(ib_consumerName r, ib_eventId r)" r] assms(2) by simp
qed

lemma claim_row_cases:
  assumes "claim_row env k cn l till rt d = Inr (res, d')"
  obtains (created) "find_inbox cn (re_eventId rt) d = None"
      "insert_inbox (new_inbox (ci_newId env k) (ci_rowNow env k) cn rt (ci_now env) till l) d = Inr d'"
      "res = Claimed \<lparr>ic_eventId = re_eventId rt, ic_consumerName = cn, ic_lockId = l\<rparr>"
  | (replayed) r where "find_inbox cn (re_eventId rt) d = Some r" "inbox_final r" "res = Replayed (ib_result r)" "d' = d"
  | (busy) r t where "find_inbox cn (re_eventId rt) d = Some r" "ib_status r = Ib_PROCESSING"
      "ib_lockExpiresAt r = Some t" "ci_now env < t" "res = Busy t" "d' = d"
  | (reclaimed) r where "find_inbox cn (re_eventId rt) d = Some r" "inbox_claimable (ci_now env) r"
      "res = Claimed \<lparr>ic_eventId = re_eventId rt, ic_consumerName = cn, ic_lockId = l\<rparr>"
      "d' = d\<lparr>runtimeInbox := update_many (\<lambda>x. ib_id x = ib_id r)
                (inbox_claimed (re_generation rt) (ci_now env) till l) (runtimeInbox d)\<rparr>"
proof (cases "find_inbox cn (re_eventId rt) d")
  case None
  then show thesis using assms created by (auto simp: claim_row_def Let_def andThen_Inr_iff)
next
  case (Some r)
  show thesis
  proof (cases "ib_status r = Ib_SUCCEEDED")
    case True
    have "res = Replayed (ib_result r)" "d' = d"
      using assms [unfolded claim_row_def Let_def Some option.case if_P [OF True]] by auto
    then show thesis using replayed [OF Some] True by (simp add: inbox_final_def)
  next
    case False
    show thesis
    proof (cases "\<exists>t. ib_status r = Ib_PROCESSING \<and> ib_lockExpiresAt r = Some t \<and> ci_now env < t")
      case True
      then obtain t where t: "ib_status r = Ib_PROCESSING" "ib_lockExpiresAt r = Some t" "ci_now env < t" by blast
      have "res = Busy t" "d' = d"
        using assms [unfolded claim_row_def Let_def Some option.case if_not_P [OF False] t(1,2) prod.case
            RuntimeInboxStatus.case if_P [OF t(3)]] by auto
      then show thesis by (rule busy [OF Some t])
    next
      case no: False
      then have "inbox_claimable (ci_now env) r"
        using False by (auto simp: inbox_claimable_def split: option.splits)
      moreover have "res = Claimed \<lparr>ic_eventId = re_eventId rt, ic_consumerName = cn, ic_lockId = l\<rparr> \<and>
          d' = d\<lparr>runtimeInbox := update_many (\<lambda>x. ib_id x = ib_id r)
                (inbox_claimed (re_generation rt) (ci_now env) till l) (runtimeInbox d)\<rparr>"
        using assms [unfolded claim_row_def Let_def Some option.case if_not_P [OF False]] False no
        by (cases "ib_status r"; cases "ib_lockExpiresAt r") auto
      ultimately show thesis using reclaimed [OF Some] by blast
    qed
  qed
qed

lemma expire_inbox [simp]: "runtimeInbox (expire_event rt e now d) = runtimeInbox d"
  by (simp add: expire_event_def expire_ai_reply_def expire_import_def expire_knowledge_def expire_message_def
      delay_projection_def Let_def split: RuntimeQueueName.split option.split)

lemma claim_tx_cases:
  assumes "claim_inbox_tx h env k q job t rt d = Inr (res, d')"
  obtains (pending) s where "res = Outbox_pending s" "d' = d"
  | (expired) e where "res = Expired" "d' = expire_event rt e (ci_now env) d"
  | (row) "claim_row env k (consumer_name q (jb_name job)) (consumer_name q (jb_name job) @ '':'' @ ci_uuid env)
       (ci_now env + t + 5000) rt d = Inr (res, d')"
proof -
  note r = assms [unfolded claim_inbox_tx_def Let_def]
  let ?ev = "List.find (\<lambda>r. ob_id r = re_eventId rt \<and> ob_tenantId r = re_tenantId rt \<and>
     ob_generation r = re_generation rt) (runtimeOutbox d)"
  obtain ev where ev: "?ev = Some ev" using r by (cases ?ev) simp_all
  obtain e where e: "parseRuntimeQueueEnvelope (ob_payload ev) = Inr e"
    using r by (auto simp: ev andThen_Inr_iff)
  note r = r [unfolded ev option.case e andThen_simps guard_Inr_iff]
  show thesis
  proof (cases "ob_status ev \<notin> {Ob_PUBLISHED, Ob_PUBLISHING, Ob_FAILED}")
    case True
    then show thesis using r [unfolded if_P [OF True]] pending [of "ob_status ev"] by simp
  next
    case pub: False
    show thesis
    proof (cases "case ob_deadlineAt ev of None \<Rightarrow> False | Some t \<Rightarrow> t \<le> ci_now env")
      case True
      then show thesis using r [unfolded if_not_P [OF pub] if_P [OF True]] expired [of e] by simp
    next
      case False
      then show thesis using r [unfolded if_not_P [OF pub] if_not_P [OF False]] row by simp
    qed
  qed
qed

lemma claim_tx_evolves:
  assumes "inbox_keys (runtimeInbox d)" "claim_inbox_tx h env k q job t rt d = Inr (res, d')"
  shows "inbox_evolves (runtimeInbox d) (runtimeInbox d')"
  using assms(2)
proof (cases rule: claim_tx_cases)
  case row
  then show ?thesis
  proof (cases rule: claim_row_cases)
    case created
    show ?thesis
      by (rule inbox_evolves_insert [OF created(2)]) (simp_all add: new_inbox_def inbox_row_ok_def)
  next
    case (reclaimed r)
    have u: "unique_on ib_id (runtimeInbox d)" using assms(1) by (simp add: inbox_keys_def)
    have "inbox_evolves (runtimeInbox d) (update_many (\<lambda>x. ib_id x = ib_id r)
        (inbox_claimed (re_generation rt) (ci_now env) (ci_now env + t + 5000)
          (consumer_name q (jb_name job) @ '':'' @ ci_uuid env)) (runtimeInbox d))"
    proof (rule inbox_evolves_update)
      fix x
      assume "x \<in> set (runtimeInbox d)" "ib_id x = ib_id r"
      then have "x = r" using unique_onD [OF u] find_inboxD [OF reclaimed(1)] by blast
      with reclaimed(2) show "inbox_row_step x (inbox_claimed (re_generation rt) (ci_now env) (ci_now env + t + 5000)
          (consumer_name q (jb_name job) @ '':'' @ ci_uuid env) x)" by (auto intro: inbox_row_step.claim)
    qed
    then show ?thesis using reclaimed(4) by simp
  qed (simp_all add: inbox_evolves_refl)
qed (simp_all add: inbox_evolves_refl)

lemma close_evolves:
  "inbox_evolves (runtimeInbox d) (runtimeInbox (fst (completeRuntimeInbox clk c res d)))"
  "inbox_evolves (runtimeInbox d) (runtimeInbox (failRuntimeInbox clk c e d))"
  by (auto simp: completeRuntimeInbox_def failRuntimeInbox_def claim_rows_def
      intro!: inbox_evolves_update intro: inbox_row_step.complete inbox_row_step.fail)

text \<open>The operations of the consumers in any order, with everything else that leaves the inbox alone.\<close>

inductive inbox_step :: "db \<Rightarrow> db \<Rightarrow> bool" where
  claim: "claim_inbox_tx h env k q job t rt d = Inr (res, d') \<Longrightarrow> inbox_step d d'"
| complete: "completeRuntimeInbox clk c result d = (d', res) \<Longrightarrow> inbox_step d d'"
| fail: "inbox_step d (failRuntimeInbox clk c e d)"
| other: "runtimeInbox d' = runtimeInbox d \<Longrightarrow> inbox_step d d'"

definition inbox_inv :: "db \<Rightarrow> bool" where
  "inbox_inv d = (inbox_keys (runtimeInbox d) \<and> list_all inbox_row_ok (runtimeInbox d))"

lemma inbox_step_evolves:
  assumes "inbox_step d d'" "inbox_inv d"
  shows "inbox_evolves (runtimeInbox d) (runtimeInbox d')"
  using assms
proof (induction rule: inbox_step.induct)
  case (claim h env k q job t rt d res d')
  then show ?case by (auto simp: inbox_inv_def intro: claim_tx_evolves)
next
  case (complete clk c result d d' res)
  then show ?case using close_evolves(1) [of d clk c result] by simp
qed (simp_all add: close_evolves(2) inbox_evolves_refl)

lemma inbox_step_inv: "inbox_step d d' \<Longrightarrow> inbox_inv d \<Longrightarrow> inbox_inv d'"
  using inbox_step_evolves [of d d'] inbox_evolves_ok
  unfolding inbox_inv_def inbox_evolves_def by blast

lemma final_row_kept:
  assumes "inbox_step\<^sup>*\<^sup>* d d'" "inbox_inv d" "r \<in> set (runtimeInbox d)" "inbox_final r"
  shows "inbox_inv d' \<and> r \<in> set (runtimeInbox d')"
  using assms(1)
proof (induction rule: rtranclp_induct)
  case base
  then show ?case using assms(2,3) by blast
next
  case (step d1 d2)
  then have "inbox_evolves (runtimeInbox d1) (runtimeInbox d2)" using inbox_step_evolves by blast
  then obtain r' where r': "r' \<in> set (runtimeInbox d2)" "row_goes_on r r'" using step inbox_evolves_row by metis
  then have "r' = r" using row_step_facts(4) assms(4) by blast
  with r'(1) show ?case using step inbox_step_inv by blast
qed

end
