(* ===== verification/Dead_Letter.thy ===== *)
theory Dead_Letter
  imports Worker_Job
begin

text \<open>
  Capturing a job that has used up its attempts (\<open>captureDeadLetterJob\<close> of
  \<open>apps/worker/src/reliability/worker-reliability.ts\<close>): the summary that may be logged, the effects
  on knowledge jobs and projections, and the audit entry. The model is of a capture whose statements
  all reach the database.
\<close>

section \<open>Summaries\<close>

datatype safe_id_kind = Id_cuid | Id_uuid | Id_job

definition is_uuid_1_5 :: "string \<Rightarrow> bool" where
  "is_uuid_1_5 s =
     (length s = 36 \<and>
      list_all hex_any (take 8 s) \<and> s ! 8 = CHR ''-'' \<and>
      list_all hex_any (take 4 (drop 9 s)) \<and> s ! 13 = CHR ''-'' \<and>
      s ! 14 \<in> set ''12345'' \<and> list_all hex_any (take 3 (drop 15 s)) \<and> s ! 18 = CHR ''-'' \<and>
      s ! 19 \<in> set ''89abAB'' \<and> list_all hex_any (take 3 (drop 20 s)) \<and> s ! 23 = CHR ''-'' \<and>
      list_all hex_any (take 12 (drop 24 s)))"

text \<open>The prefix of a job identifier is matched without regard to case.\<close>

definition ascii_lower :: "char \<Rightarrow> char" where
  "ascii_lower c = (if 65 \<le> (of_char c :: nat) \<and> (of_char c :: nat) \<le> 90 then char_of ((of_char c :: nat) + 32) else c)"

fun safe_id_pattern :: "safe_id_kind \<Rightarrow> string \<Rightarrow> bool" where
  "safe_id_pattern Id_cuid s =
     (s \<noteq> [] \<and> hd s = CHR ''c'' \<and> list_all lower_alnum (tl s) \<and> 20 \<le> length (tl s) \<and> length (tl s) \<le> 30)"
| "safe_id_pattern Id_uuid s = is_uuid_1_5 s"
| "safe_id_pattern Id_job s =
     (length s = 53 \<and> map ascii_lower (take 17 s) = ''knowledge-source:'' \<and>
      list_all (\<lambda>c. hex_any c \<or> c = CHR ''-'') (drop 17 s))"

definition safeKnowledgeId :: "string option \<Rightarrow> safe_id_kind \<Rightarrow> string option" where
  "safeKnowledgeId v kind =
     (case v of None \<Rightarrow> None | Some s \<Rightarrow> if s \<noteq> [] \<and> safe_id_pattern kind s then Some s else None)"

definition field_json :: "json_object \<Rightarrow> string \<Rightarrow> string \<times> json" where
  "field_json data key = (key, opt_json JStr (stringDataField data key))"

definition int_json :: "json_object \<Rightarrow> string \<Rightarrow> string \<times> json" where
  "int_json data key = (key, opt_json JInt (js_int (map_of data key)))"

definition safeDataSummary :: "json_object option \<Rightarrow> LeadVirtQueueName \<Rightarrow> json_object" where
  "safeDataSummary jobData queueName =
     (case jobData of
        None \<Rightarrow> []
      | Some data \<Rightarrow>
          if queueName = W_knowledge_ingest then
            [(''tenantId'', opt_json JStr (safeKnowledgeId (stringDataField data ''tenantId'') Id_cuid)),
             (''sourceId'', opt_json JStr (safeKnowledgeId (stringDataField data ''sourceId'') Id_cuid)),
             (''knowledgeJobId'', opt_json JStr (safeKnowledgeId (stringDataField data ''knowledgeJobId'') Id_uuid)),
             (''operation'', (case stringDataField data ''operation'' of
                Some operation \<Rightarrow> if js_includes [''IMPORT'', ''SYNC'', ''RECONCILE'', ''DELETE''] operation
                                   then JStr operation else JNull
              | None \<Rightarrow> JNull)),
             (''generation'', opt_json JInt (positive_int (map_of data ''generation'')))]
          else if queueName = W_business_import then
            [field_json data ''tenantId'', field_json data ''sourceId'', field_json data ''importId'',
             field_json data ''applicationId'', field_json data ''businessRevisionId'',
             int_json data ''businessRevision'', field_json data ''operation'',
             int_json data ''generation'', field_json data ''runtimeEventId'']
          else
            [field_json data ''tenantId'', field_json data ''conversationId'', field_json data ''messageId'',
             field_json data ''leadId'', field_json data ''triggerMessageId'', field_json data ''source'',
             field_json data ''sourceId'', field_json data ''knowledgeJobId'', field_json data ''operation'',
             int_json data ''generation''])"

section \<open>Effects\<close>

text \<open>
  \<open>safeError\<close> is \<open>knowledgeIngestionSafeError\<close> of the ingestion processor: the code and the
  message that may be stored for an error.
\<close>

definition dead_letter_knowledge :: "(string \<times> string) \<Rightarrow> int \<Rightarrow> string \<Rightarrow> json_object \<Rightarrow> db \<Rightarrow> db" where
  "dead_letter_knowledge safe now tenantId data d =
     (case stringDataField data ''knowledgeJobId'' of
        None \<Rightarrow> d
      | Some jobId \<Rightarrow>
          (let d1 = d\<lparr>knowledgeJobs := update_many
                 (\<lambda>j. kj_id j = jobId \<and> kj_tenantId j = tenantId \<and>
                      kj_status j \<notin> {Kj_SUCCEEDED, Kj_CANCELLED, Kj_DEAD_LETTER})
                 (\<lambda>j. j\<lparr>kj_status := Kj_DEAD_LETTER, kj_errorCode := Some (fst safe),
                        kj_errorMessage := Some (snd safe), kj_heartbeatAt := Some now,
                        kj_completedAt := Some now\<rparr>) (knowledgeJobs d)\<rparr>;
               d2 = d1\<lparr>knowledgeJobAttempts := update_many
                 (\<lambda>a. ka_tenantId a = tenantId \<and> ka_jobId a = jobId \<and> ka_status a = Ka_RUNNING)
                 (\<lambda>a. a\<lparr>ka_status := Ka_FAILED, ka_errorCode := Some (fst safe),
                        ka_errorMessage := Some (snd safe), ka_heartbeatAt := Some now,
                        ka_completedAt := Some now\<rparr>) (knowledgeJobAttempts d1)\<rparr>
           in case (stringDataField data ''sourceId'', js_int (map_of data ''generation'')) of
                (Some sourceId, Some generation) \<Rightarrow>
                  d2\<lparr>knowledgeSources := update_many
                      (\<lambda>s. ks_id s = sourceId \<and> ks_tenantId s = tenantId \<and> ks_generation s = generation \<and>
                           ks_status s \<notin> {Ks_DELETED, Ks_DISCONNECTED})
                      (source_failed (stringDataField data ''operation'' = Some ''DELETE'') Ks_FAILED (fst safe) now)
                      (knowledgeSources d2)\<rparr>
              | _ \<Rightarrow> d2))"

definition dead_letter_project :: "string \<Rightarrow> json_object \<Rightarrow> db \<Rightarrow> db" where
  "dead_letter_project tenantId data d =
     (case (stringDataField data ''importId'', stringDataField data ''sourceId'',
            stringDataField data ''applicationId'', stringDataField data ''businessRevisionId'',
            stringDataField data ''runtimeEventId'', js_int (map_of data ''businessRevision''),
            js_int (map_of data ''generation'')) of
        (Some importId, Some sourceId, Some applicationId, Some revisionId, Some eventId, Some revision,
         Some generation) \<Rightarrow>
          delay_job_projection tenantId sourceId importId applicationId revisionId revision eventId generation
            ''BUSINESS_INFORMATION_PROJECTION_DEAD_LETTER'' d
      | _ \<Rightarrow> d)"

definition dead_letter_revision :: "string \<Rightarrow> json_object \<Rightarrow> db \<Rightarrow> db" where
  "dead_letter_revision tenantId data d =
     (case (stringDataField data ''businessRevisionId'', stringDataField data ''runtimeEventId'',
            js_int (map_of data ''businessRevision'')) of
        (Some revisionId, Some eventId, Some revision) \<Rightarrow>
          (let state = List.find (\<lambda>s. bs_tenantId s = tenantId) (businessInformationStates d)
           in d\<lparr>auditLogs := auditLogs d @ [
             \<lparr>al_tenantId = tenantId, al_actorUserId = None,
              al_action = ''business_information.projection_delayed'',
              al_entityType = ''BusinessInformationRevision'', al_entityId = Some revisionId,
              al_payload = JObj [
                (''businessRevisionId'', JStr revisionId), (''businessRevision'', JInt revision),
                (''runtimeEventId'', JStr eventId),
                (''failureCode'', JStr ''BUSINESS_INFORMATION_PROJECTION_DEAD_LETTER''),
                (''currentRevisionId'', opt_json JStr (Option.bind state bs_currentRevisionId)),
                (''currentRevision'', opt_json (\<lambda>s. JInt (bs_revision s)) state),
                (''lastProjectedRevisionId'', opt_json JStr (Option.bind state bs_lastProjectedRevisionId)),
                (''lastProjectedRevision'', opt_json JInt (Option.bind state bs_lastProjectedRevision)),
                (''receiptCreated'', JBool False), (''publicationChanged'', JBool False)]\<rparr>]\<rparr>)
      | _ \<Rightarrow> d)"

definition dead_letter_job_id :: "LeadVirtQueueName \<Rightarrow> worker_job option \<Rightarrow> string option" where
  "dead_letter_job_id queueName job =
     (let i = Option.bind job jb_id in
      if queueName = W_knowledge_ingest then safeKnowledgeId i Id_job else i)"

definition dead_letter_payload ::
    "(error \<Rightarrow> string \<times> string) \<Rightarrow> LeadVirtQueueName \<Rightarrow> worker_job option \<Rightarrow> error \<Rightarrow> json" where
  "dead_letter_payload safeError queueName job e =
     JObj [
       (''queueName'', JStr (workerQueue_text queueName)),
       (''jobName'',
          if queueName = W_knowledge_ingest \<and>
             \<not> js_includes [''import'', ''sync'', ''reconcile'', ''delete'']
                 (case job of None \<Rightarrow> [] | Some j \<Rightarrow> jb_name j)
          then JStr ''invalid'' else opt_json (\<lambda>j. JStr (jb_name j)) job),
       (''jobId'', opt_json JStr (dead_letter_job_id queueName job)),
       (''attemptsMade'', opt_json (\<lambda>j. JInt (jb_attemptsMade j)) job),
       (''attempts'', JInt (case Option.bind job jb_attempts of Some n \<Rightarrow> if n > 0 then n else 1 | None \<Rightarrow> 1)),
       (''failedReason'', JStr (if queueName = W_knowledge_ingest then snd (safeError e) else error_text e)),
       (''data'', JObj (safeDataSummary (map_option jb_data job) queueName))]"

definition captureDeadLetterJob ::
    "(error \<Rightarrow> string \<times> string) \<Rightarrow> int \<Rightarrow> LeadVirtQueueName \<Rightarrow> worker_job option \<Rightarrow> error \<Rightarrow> db \<Rightarrow> db" where
  "captureDeadLetterJob safeError now queueName job e d =
     (case job of
        None \<Rightarrow> d
      | Some j \<Rightarrow>
          (case stringDataField (jb_data j) ''tenantId'' of
             None \<Rightarrow> d
           | Some tenantId \<Rightarrow>
               (let d1 = (if queueName = W_knowledge_ingest
                          then dead_letter_knowledge (safeError e) now tenantId (jb_data j) d else d);
                    d2 = (if queueName = W_business_import \<and> jb_name j = ''project''
                          then dead_letter_project tenantId (jb_data j) d1 else d1);
                    d3 = (if queueName = W_business_import \<and> jb_name j = ''project-revision''
                          then dead_letter_revision tenantId (jb_data j) d2 else d2)
                in d3\<lparr>auditLogs := auditLogs d3 @ [
                     \<lparr>al_tenantId = tenantId, al_actorUserId = None, al_action = ''worker.job.dlq'',
                      al_entityType = workerQueue_text queueName,
                      al_entityId = dead_letter_job_id queueName job,
                      al_payload = dead_letter_payload safeError queueName job e\<rparr>]\<rparr>)))"

end
