(* ===== verification/Inbox_Properties.thy ===== *)
theory Inbox_Properties
  imports Inbox_Protocol Dead_Letter Reply_Admission
begin

text \<open>
  Properties of the worker's inbox: a completed job is never claimed again, a live lease excludes
  every other consumer and its holder can complete, a consumer that lost its lease changes nothing,
  a redelivery replays the stored result, and the two orders of events in which the code runs a
  processor again or fails an aggregate although the job had completed.
\<close>

section \<open>At most once\<close>

text \<open>C6. A completed job is never claimed again: once a row of the inbox is SUCCEEDED, whatever the
  consumers do in whatever order, the row stays as it is, and every later claim for the same consumer
  and event replays its result, unless the outbox row is pending or expired.\<close>

theorem completed_job_never_claimed:
  assumes "inbox_inv d" "r \<in> set (runtimeInbox d)" "ib_status r = Ib_SUCCEEDED" "inbox_step\<^sup>*\<^sup>* d d1"
    and "consumer_name q (jb_name job) = ib_consumerName r" "re_eventId rt = ib_eventId r"
    and "claim_inbox_tx h env k q job t rt d1 = Inr (res, d2)"
  shows "(res = Replayed (ib_result r) \<or> res = Expired \<or> (\<exists>s. res = Outbox_pending s)) \<and>
    r \<in> set (runtimeInbox d2)"
proof -
  have final: "inbox_final r" using assms(3) by (simp add: inbox_final_def)
  have d1: "inbox_inv d1" "r \<in> set (runtimeInbox d1)"
    using final_row_kept [OF assms(4,1,2) final] by simp_all
  then have f: "find_inbox (consumer_name q (jb_name job)) (re_eventId rt) d1 = Some r"
    unfolding assms(5,6) by (intro find_inbox_unique) (simp_all add: inbox_inv_def)
  from assms(7) show ?thesis
  proof (cases rule: claim_tx_cases)
    case row
    then show ?thesis
    proof (cases rule: claim_row_cases)
      case (reclaimed x)
      then have "inbox_claimable (ci_now env) r" using f by simp
      then show ?thesis using ib_lease.claimable_not_final final by blast
    qed (use f d1(2) final in \<open>auto simp: inbox_final_def\<close>)
  qed (use d1(2) in auto)
qed

section \<open>One consumer at a time\<close>

lemma claimed_row:
  assumes "inbox_inv d" "claim_inbox_tx h env k q job t rt d = Inr (Claimed c, d1)"
  shows "\<exists>r\<in>set (runtimeInbox d1). claim_rows c r \<and> ib_lockExpiresAt r = Some (ci_now env + t + 5000)"
    and "ic_consumerName c = consumer_name q (jb_name job)" "ic_eventId c = re_eventId rt"
proof -
  have row: "claim_row env k (consumer_name q (jb_name job)) (consumer_name q (jb_name job) @ '':'' @ ci_uuid env)
       (ci_now env + t + 5000) rt d = Inr (Claimed c, d1)"
    using assms(2) by (cases rule: claim_tx_cases) auto
  then have "(\<exists>r\<in>set (runtimeInbox d1). claim_rows c r \<and> ib_lockExpiresAt r = Some (ci_now env + t + 5000)) \<and>
      ic_consumerName c = consumer_name q (jb_name job) \<and> ic_eventId c = re_eventId rt"
  proof (cases rule: claim_row_cases)
    case created
    then show ?thesis
      by (auto simp: insert_inbox_def claim_rows_def inbox_owned_def new_inbox_def split: if_splits)
  next
    case (reclaimed r)
    have "inbox_claimed (re_generation rt) (ci_now env) (ci_now env + t + 5000)
        (consumer_name q (jb_name job) @ '':'' @ ci_uuid env) r \<in> set (runtimeInbox d1)"
      unfolding reclaimed(4) using find_inboxD [OF reclaimed(1)] by (simp add: in_update_many_changed)
    then show ?thesis
      using reclaimed(3) find_inboxD [OF reclaimed(1)]
      by (intro conjI bexI) (auto simp: claim_rows_def inbox_owned_def)
  qed simp_all
  then show "\<exists>r\<in>set (runtimeInbox d1). claim_rows c r \<and> ib_lockExpiresAt r = Some (ci_now env + t + 5000)"
    "ic_consumerName c = consumer_name q (jb_name job)" "ic_eventId c = re_eventId rt" by simp_all
qed

lemma complete_owned:
  assumes "inbox_keys (runtimeInbox d)" "r \<in> set (runtimeInbox d)" "claim_rows c r"
  shows "completeRuntimeInbox clk c result d =
    (d\<lparr>runtimeInbox := put_row inbox_key (inbox_succeeded (fst clk) (snd clk) result r) (runtimeInbox d)\<rparr>, Inr ())"
proof -
  have u: "unique_on inbox_key (runtimeInbox d)" using assms(1) by (simp add: inbox_keys_alt)
  have P: "claim_rows c = (\<lambda>x. inbox_key x = inbox_key r \<and> inbox_owned (ic_lockId c) x)"
    using assms(3) by (auto simp: fun_eq_iff claim_rows_def inbox_key_def)
  have own: "inbox_owned (ic_lockId c) r" using assms(3) by (simp add: claim_rows_def)
  show ?thesis
    unfolding completeRuntimeInbox_def P count_where_one [OF u assms(2), where Q = "inbox_owned (ic_lockId c)", OF own]
    by (subst update_many_unique [OF u assms(2), where Q = "inbox_owned (ic_lockId c)", OF own]) (simp_all add: inbox_key_def inbox_succeeded_def)
qed

text \<open>C4. A live lease is exclusive: until the timeout of the job plus five seconds have passed since a
  claim, every other claim for the same consumer and event is told to wait (or that the event is
  pending or expired) and leaves the inbox as it is, and the holder can complete the job.\<close>

theorem claim_excludes_others:
  assumes "inbox_inv d" "claim_inbox_tx h env k q job t rt d = Inr (Claimed c, d1)"
    and "consumer_name q' (jb_name job') = consumer_name q (jb_name job)" "re_eventId rt' = re_eventId rt"
    and "ci_now env' < ci_now env + t + 5000"
    and "claim_inbox_tx h' env' k' q' job' t' rt' d1 = Inr (res, d2)"
  shows "(res = Busy (ci_now env + t + 5000) \<or> res = Expired \<or> (\<exists>s. res = Outbox_pending s)) \<and>
    runtimeInbox d2 = runtimeInbox d1 \<and> snd (completeRuntimeInbox clk c result d2) = Inr ()"
proof -
  have keys: "inbox_keys (runtimeInbox d1)"
    using inbox_step_inv [OF inbox_step.claim [OF assms(2)] assms(1)] by (simp add: inbox_inv_def)
  obtain r where r: "r \<in> set (runtimeInbox d1)" "claim_rows c r" "ib_lockExpiresAt r = Some (ci_now env + t + 5000)"
    using claimed_row(1) [OF assms(1,2)] by blast
  have own: "inbox_owned (ic_lockId c) r" using r(2) by (simp add: claim_rows_def)
  have f: "find_inbox (consumer_name q' (jb_name job')) (re_eventId rt') d1 = Some r"
    using find_inbox_unique [OF keys r(1)] r(2) claimed_row(2,3) [OF assms(1,2)] assms(3,4)
    by (simp add: claim_rows_def)
  have ni: "\<not> inbox_claimable (ci_now env') r"
    by (rule ib_lease.lease_exclusive [OF own r(3) assms(5)])
  have "(res = Busy (ci_now env + t + 5000) \<or> res = Expired \<or> (\<exists>s. res = Outbox_pending s)) \<and>
      runtimeInbox d2 = runtimeInbox d1"
    using assms(6)
  proof (cases rule: claim_tx_cases)
    case row
    then show ?thesis
    proof (cases rule: claim_row_cases)
      case (replayed x)
      then show ?thesis using f own by (simp add: inbox_final_def inbox_owned_def)
    next
      case (reclaimed x)
      then show ?thesis using f ni by simp
    qed (use f r(3) in simp_all)
  qed simp_all
  moreover have "snd (completeRuntimeInbox clk c result d2) = Inr ()" if "runtimeInbox d2 = runtimeInbox d1"
    using complete_owned [of d2 r c clk result] keys r(1,2) that by simp
  ultimately show ?thesis by blast
qed

section \<open>A lost lease\<close>

text \<open>A step of another consumer on a row, seen from the holder of a lock.\<close>

definition inbox_others :: "string \<Rightarrow> runtime_inbox \<Rightarrow> runtime_inbox \<Rightarrow> bool" where
  "inbox_others l r r' = (inbox_row_step r r' \<and> ib_lockedBy r' \<noteq> Some l)"

lemma others_lost: "(inbox_others l)\<^sup>*\<^sup>* r0 r \<Longrightarrow> ib_lockedBy r0 \<noteq> Some l \<Longrightarrow> \<not> inbox_owned l r \<and> inbox_key r = inbox_key r0"
  by (induction rule: rtranclp_induct)
     (auto simp: inbox_others_def row_step_facts(2) dest: ib_lease.owned_holder)

text \<open>A consumer that has lost its row is harmless: after another consumer took the row over, and
  whatever the others did to it since, completing reports the lost lease and neither completing nor
  failing changes the database.\<close>

theorem stale_consumer_harmless:
  assumes "inbox_keys (runtimeInbox d)" "r \<in> set (runtimeInbox d)"
    and "(inbox_others (ic_lockId c))\<^sup>*\<^sup>* r0 r" "ib_lockedBy r0 \<noteq> Some (ic_lockId c)"
    and "inbox_key r0 = (ic_consumerName c, ic_eventId c)"
  shows "completeRuntimeInbox clk c result d =
      (d, Inl (Error ''Runtime inbox lease was lost before completion.'')) \<and>
    failRuntimeInbox clk' c e d = d"
proof -
  have r: "\<not> inbox_owned (ic_lockId c) r" "inbox_key r = (ic_consumerName c, ic_eventId c)"
    using others_lost [OF assms(3,4)] assms(5) by simp_all
  have u: "unique_on inbox_key (runtimeInbox d)" using assms(1) by (simp add: inbox_keys_alt)
  have "\<not> claim_rows c x" if "x \<in> set (runtimeInbox d)" for x
  proof
    assume x: "claim_rows c x"
    then have "inbox_key x = inbox_key r" using r(2) by (simp add: claim_rows_def inbox_key_def)
    then have "x = r" by (rule unique_onD [OF u that assms(2)])
    with x r(1) show False by (simp add: claim_rows_def)
  qed
  then have z: "count_where (claim_rows c) (runtimeInbox d) = 0" by (simp add: count_where_0_iff)
  show ?thesis
    by (simp add: completeRuntimeInbox_def failRuntimeInbox_def z update_many_none [OF z])
qed

section \<open>Deliveries\<close>

definition event_of :: "runtime_ref \<Rightarrow> runtime_outbox \<Rightarrow> bool" where
  "event_of rt r = (ob_id r = re_eventId rt \<and> ob_tenantId r = re_tenantId rt \<and> ob_generation r = re_generation rt)"

text \<open>An event the worker accepts for a job at a time: the row its data refers to, with a payload that
  authorises the job, handed to the queue and not past its deadline.\<close>

definition deliverable ::
    "host \<Rightarrow> LeadVirtQueueName \<Rightarrow> worker_job \<Rightarrow> runtime_ref \<Rightarrow> int \<Rightarrow> db \<Rightarrow> bool" where
  "deliverable h q job rt now d =
     (runtimeEvent (jb_data job) = Some rt \<and>
      (case List.find (event_of rt) (runtimeOutbox d) of
         None \<Rightarrow> False
       | Some ev \<Rightarrow>
           (case parseRuntimeQueueEnvelope (ob_payload ev) of
              Inl _ \<Rightarrow> False
            | Inr e \<Rightarrow> job_authorized h q job e) \<and>
           ob_status ev \<in> {Ob_PUBLISHED, Ob_PUBLISHING, Ob_FAILED} \<and>
           (case ob_deadlineAt ev of None \<Rightarrow> True | Some t \<Rightarrow> now < t)))"

definition claim_quiet_env :: "claim_env \<Rightarrow> bool" where
  "claim_quiet_env env = (ci_before env 0 = (\<lambda>d. d) \<and> ci_commitErrors env 0 = None)"

lemma claim_deliverable:
  assumes "deliverable h q job rt (ci_now env) d"
  shows "claim_inbox_tx h env k q job t rt d =
    claim_row env k (consumer_name q (jb_name job)) (consumer_name q (jb_name job) @ '':'' @ ci_uuid env)
      (ci_now env + t + 5000) rt d"
proof -
  obtain ev e where ev: "List.find (event_of rt) (runtimeOutbox d) = Some ev"
    "parseRuntimeQueueEnvelope (ob_payload ev) = Inr e" and a: "job_authorized h q job e"
    and s: "\<not> ob_status ev \<notin> {Ob_PUBLISHED, Ob_PUBLISHING, Ob_FAILED}"
    and dl: "\<not> (case ob_deadlineAt ev of None \<Rightarrow> False | Some t \<Rightarrow> t \<le> ci_now env)"
    using assms by (auto simp: deliverable_def split: option.splits sum.splits)
  have ev': "List.find (\<lambda>r. ob_id r = re_eventId rt \<and> ob_tenantId r = re_tenantId rt \<and>
     ob_generation r = re_generation rt) (runtimeOutbox d) = Some ev"
    using ev(1) by (simp add: event_of_def [abs_def])
  show ?thesis
    unfolding claim_inbox_tx_def Let_def ev' option.case ev(2) andThen_simps if_not_P [OF s] if_not_P [OF dl]
    by (simp add: a)
qed

lemma claim_first:
  assumes "claim_quiet_env env" "deliverable h q job rt (ci_now env) d"
    and "claim_row env 0 (consumer_name q (jb_name job)) (consumer_name q (jb_name job) @ '':'' @ ci_uuid env)
      (ci_now env + t + 5000) rt d = Inr (res, d')"
  shows "claimRuntimeInbox h env q job t d = (d', Inr res)"
proof -
  have rt: "runtimeEvent (jb_data job) = Some rt" using assms(2) by (simp add: deliverable_def)
  have q: "claim_dbs env d 0 = d" "ci_commitErrors env 0 = None"
    using assms(1) by (simp_all add: claim_quiet_env_def)
  show ?thesis
    unfolding claimRuntimeInbox_def rt option.case
    by (rule retry_tx_first) (use q assms(3) claim_deliverable [OF assms(2)] in simp_all)
qed

lemma process_first:
  assumes "env_claim env q job 0 d = (d', Inr res)" "res \<noteq> Untracked" "\<And>s. res \<noteq> Outbox_pending s"
  shows "processLeadVirtJobWithReliability env q job d =
    (case res of
       Expired \<Rightarrow> (d', Inl (UnrecoverableError ''Runtime event expired before worker execution.''))
     | Replayed result \<Rightarrow> (d', Inr result)
     | Busy t \<Rightarrow> process_busy env q job t d'
     | _ \<Rightarrow> run_claimed env q job res d')"
proof -
  have "claim_while_pending env q job 8 0 (d', Inr res) = (d', Inr res)"
    by (cases res) (use assms(3) in \<open>auto simp: numeral_eq_Suc\<close>)
  then show ?thesis
    unfolding processLeadVirtJobWithReliability_def Let_def assms(1)
    by (cases res) (use assms(2,3) in simp_all)
qed

text \<open>A redelivery replays: when a job whose inbox row is SUCCEEDED arrives again, the delivery
  returns the stored result, runs no processor and changes nothing.\<close>

theorem redelivery_replays:
  assumes "inbox_keys (runtimeInbox d)" "r \<in> set (runtimeInbox d)" "ib_status r = Ib_SUCCEEDED"
    and "claim_quiet_env (pe_claims env 0)"
    and "deliverable (pe_host env) q job rt (ci_now (pe_claims env 0)) d"
    and "ib_consumerName r = consumer_name q (jb_name job)" "ib_eventId r = re_eventId rt"
  shows "processLeadVirtJobWithReliability env q job d = (d, Inr (ib_result r))"
proof -
  have f: "find_inbox (consumer_name q (jb_name job)) (re_eventId rt) d = Some r"
    using find_inbox_unique [OF assms(1,2)] assms(6,7) by simp
  have "claim_row (pe_claims env 0) 0 (consumer_name q (jb_name job))
      (consumer_name q (jb_name job) @ '':'' @ ci_uuid (pe_claims env 0))
      (ci_now (pe_claims env 0) + env_timeout env q + 5000) rt d = Inr (Replayed (ib_result r), d)"
    unfolding claim_row_def Let_def f option.case if_P [OF assms(3)] ..
  then have "env_claim env q job 0 d = (d, Inr (Replayed (ib_result r)))"
    unfolding env_claim_def by (rule claim_first [OF assms(4,5)])
  from process_first [OF this] show ?thesis by simp
qed

lemma claim_row_granted:
  assumes "case find_inbox cn (re_eventId rt) d of
           None \<Rightarrow> \<forall>x\<in>set (runtimeInbox d). ib_id x \<noteq> ci_newId env k
         | Some r \<Rightarrow> inbox_claimable (ci_now env) r"
  shows "\<exists>d1. claim_row env k cn l till rt d =
    Inr (Claimed \<lparr>ic_eventId = re_eventId rt, ic_consumerName = cn, ic_lockId = l\<rparr>, d1)"
proof (cases "find_inbox cn (re_eventId rt) d")
  case None
  then have "\<forall>x\<in>set (runtimeInbox d). (ib_consumerName x, ib_eventId x) \<noteq> (cn, re_eventId rt)"
    by (auto simp: find_inbox_def find_None_iff')
  moreover have "\<forall>x\<in>set (runtimeInbox d). ib_id x \<noteq> ci_newId env k" using assms None by simp
  ultimately have "\<not> list_ex (\<lambda>x. ib_id x = ci_newId env k \<or> (ib_consumerName x, ib_eventId x) = (cn, re_eventId rt)) (runtimeInbox d)"
    by (auto simp: list_ex_iff)
  then show ?thesis
    unfolding claim_row_def Let_def None option.case insert_inbox_def by (simp add: new_inbox_def)
next
  case (Some r)
  then have c: "inbox_claimable (ci_now env) r" using assms by simp
  then have "ib_status r \<noteq> Ib_SUCCEEDED" by (simp add: inbox_claimable_def)
  then show ?thesis
    unfolding claim_row_def Let_def Some option.case
    by (cases "ib_status r"; cases "ib_lockExpiresAt r") (use c in \<open>auto simp: inbox_claimable_def\<close>)
qed

text \<open>C22. A delivery gets done: when a deliverable job meets no inbox row or a claimable one, and its
  processor settles in time with a result and leaves the inbox alone, the delivery returns the
  result and its row ends SUCCEEDED holding the result as JSON.\<close>

theorem delivery_completes:
  assumes "inbox_inv d" "claim_quiet_env (pe_claims env 0)"
    and "deliverable (pe_host env) q job rt (ci_now (pe_claims env 0)) d"
    and "case find_inbox (consumer_name q (jb_name job)) (re_eventId rt) d of
           None \<Rightarrow> \<forall>x\<in>set (runtimeInbox d). ib_id x \<noteq> ci_newId (pe_claims env 0) 0
         | Some r \<Rightarrow> inbox_claimable (ci_now (pe_claims env 0)) r"
    and "\<forall>d. runtimeInbox (pe_beforeClose env (fst (pe_processor env q job d))) = runtimeInbox d"
    and "\<forall>d. snd (pe_processor env q job d) = Inr result" "pe_inTime env" "pe_completeError env = None"
  shows "\<exists>d' r. processLeadVirtJobWithReliability env q job d = (d', Inr result) \<and>
    r \<in> set (runtimeInbox d') \<and> ib_consumerName r = consumer_name q (jb_name job) \<and>
    ib_eventId r = re_eventId rt \<and> ib_status r = Ib_SUCCEEDED \<and> ib_result r = Some (jsonResult result)"
proof -
  let ?ce = "pe_claims env 0" and ?cn = "consumer_name q (jb_name job)"
  let ?c = "\<lparr>ic_eventId = re_eventId rt, ic_consumerName = ?cn, ic_lockId = ?cn @ '':'' @ ci_uuid ?ce\<rparr>"
  let ?row = "claim_row ?ce 0 ?cn (?cn @ '':'' @ ci_uuid ?ce) (ci_now ?ce + env_timeout env q + 5000) rt d"
  have "\<exists>d1. ?row = Inr (Claimed ?c, d1)" by (rule claim_row_granted [OF assms(4)])
  then obtain d1 where d1: "?row = Inr (Claimed ?c, d1)" ..
  have cl: "env_claim env q job 0 d = (d1, Inr (Claimed ?c))"
    unfolding env_claim_def by (rule claim_first [OF assms(2,3) d1])
  have tx: "claim_inbox_tx (pe_host env) ?ce 0 q job (env_timeout env q) rt d = Inr (Claimed ?c, d1)"
    using claim_deliverable [OF assms(3)] d1 by simp
  have keys: "inbox_keys (runtimeInbox d1)"
    using inbox_step_inv [OF inbox_step.claim [OF tx] assms(1)] by (simp add: inbox_inv_def)
  obtain r where r: "r \<in> set (runtimeInbox d1)" "claim_rows ?c r" using claimed_row(1) [OF assms(1) tx] by blast
  let ?d2 = "pe_beforeClose env (fst (pe_processor env q job d1))"
  let ?r = "inbox_succeeded (fst (pe_closeClock env)) (snd (pe_closeClock env)) result r"
  let ?d3 = "?d2\<lparr>runtimeInbox := put_row inbox_key ?r (runtimeInbox ?d2)\<rparr>"
  have d2: "runtimeInbox ?d2 = runtimeInbox d1" using assms(5) by blast
  have closed: "completeRuntimeInbox (pe_closeClock env) ?c result ?d2 = (?d3, Inr ())"
    by (rule complete_owned) (use d2 keys r in simp_all)
  have "pe_processor env q job d1 = (fst (pe_processor env q job d1), Inr result)"
    using assms(6) by (metis prod.collapse)
  then have "withWorkerJobTimeout (pe_inTime env) (env_timeout env q) (timeout_fence env q job)
      (pe_processor env q job) d1 = (fst (pe_processor env q job d1), Inr result)"
    using assms(7) by (simp add: withWorkerJobTimeout_def split: prod.splits)
  then have "run_claimed env q job (Claimed ?c) d1 = (?d3, Inr result)"
    unfolding run_claimed_def Let_def using assms(8) closed by simp
  then have p: "processLeadVirtJobWithReliability env q job d = (?d3, Inr result)"
    using process_first [OF cl] by simp
  have "?r \<in> set (runtimeInbox ?d3)"
    using in_put_row [OF r(1), of inbox_key ?r] d2 by (simp add: inbox_key_def inbox_succeeded_def)
  then show ?thesis
    using p r(2) by (intro exI [of _ ?d3] exI [of _ ?r]) (simp add: inbox_succeeded_def claim_rows_def)
qed

section \<open>Jobs of the dispatcher\<close>

text \<open>The job BullMQ hands to the worker for what the dispatcher adds to the queue: the name, the
  identifier, the data and the number of attempts of the envelope.\<close>

definition queued_job :: "envelope \<Rightarrow> worker_job" where
  "queued_job e =
     \<lparr>jb_name = en_jobName e, jb_id = Some (en_jobId e), jb_data = en_data e, jb_attemptsMade = 0,
      jb_attempts = Some (en_attempts e)\<rparr>"

definition runtime_keys_free :: "json_object \<Rightarrow> bool" where
  "runtime_keys_free kvs = (''runtimeEventId'' \<notin> fst ` set kvs \<and> ''runtimeGeneration'' \<notin> fst ` set kvs)"

lemma dispatch_data:
  assumes "runtime_keys_free (en_data e)"
  shows "en_data (dispatchEnvelope ev e) = en_data e @ [(''runtimeEventId'', JStr (ob_id ev)),
    (''runtimeGeneration'', JInt (ob_generation ev))]"
  using assms by (simp add: dispatchEnvelope_def obj_set_new runtime_keys_free_def)

lemma map_of_append_new: "k \<noteq> k1 \<Longrightarrow> k \<noteq> k2 \<Longrightarrow> map_of (kvs @ [(k1, v1), (k2, v2)]) k = map_of kvs k"
  by (simp add: map_add_def split: option.splits)

lemma filter_other_keys:
  "a \<notin> fst ` set kvs \<Longrightarrow> b \<notin> fst ` set kvs \<Longrightarrow> filter (\<lambda>(k, _). k \<noteq> a \<and> k \<noteq> b) kvs = kvs"
  by (induction kvs) auto

lemma dispatched_job:
  assumes "runtime_keys_free (en_data e)" "ob_id ev \<noteq> []" "1 \<le> ob_generation ev"
    and "map_of (en_data e) ''tenantId'' = Some (JStr (ob_tenantId ev))" "ob_tenantId ev \<noteq> []"
    and "workerQueue_text q = queueName_text (en_queueName e)"
  shows "job_authorized h q (queued_job (dispatchEnvelope ev e)) e"
    and "runtimeEvent (jb_data (queued_job (dispatchEnvelope ev e))) =
      Some \<lparr>re_eventId = ob_id ev, re_generation = ob_generation ev, re_tenantId = ob_tenantId ev\<rparr>"
proof -
  have n: "map_of (en_data e) ''runtimeEventId'' = None" "map_of (en_data e) ''runtimeGeneration'' = None"
    using assms(1) by (simp_all add: runtime_keys_free_def map_of_eq_None_iff)
  have p: "persistedJobData (en_data (dispatchEnvelope ev e)) = en_data e"
    unfolding dispatch_data [OF assms(1)] persistedJobData_def
    using assms(1) by (simp add: runtime_keys_free_def filter_other_keys)
  show "job_authorized h q (queued_job (dispatchEnvelope ev e)) e"
    using assms(6) p by (simp add: job_authorized_def queued_job_def job_id_text_def)
       (simp add: dispatchEnvelope_def)
  have t: "map_of (en_data (dispatchEnvelope ev e)) ''tenantId'' = Some (JStr (ob_tenantId ev))"
    unfolding dispatch_data [OF assms(1)] using assms(4) by (subst map_of_append_new) simp_all
  have i: "map_of (en_data (dispatchEnvelope ev e)) ''runtimeEventId'' = Some (JStr (ob_id ev))"
    "map_of (en_data (dispatchEnvelope ev e)) ''runtimeGeneration'' = Some (JInt (ob_generation ev))"
    unfolding dispatch_data [OF assms(1)] using n by (simp_all add: map_add_def)
  show "runtimeEvent (jb_data (queued_job (dispatchEnvelope ev e))) =
      Some \<lparr>re_eventId = ob_id ev, re_generation = ob_generation ev, re_tenantId = ob_tenantId ev\<rparr>"
    using assms(2,3,5) by (simp add: runtimeEvent_def queued_job_def stringDataField_def t i)
qed

section \<open>Two unsafe orders\<close>

text \<open>C39. A processor can run again after its job has completed: when a delivery waits for another
  consumer, the wait ends with a retry, and the other consumer completes before the second claim,
  the replay that this claim reports is not returned; the processor runs, its result is returned
  and nothing is recorded in the inbox.\<close>

theorem replay_after_wait_reruns:
  assumes "waitForRuntimeInbox (pe_wait env) (pe_waitNow env) (env_timeout env q)
      (consumer_name q (jb_name job)) (re_eventId rt) t d = (d1, Wait_retry)"
    and "runtimeEvent (jb_data job) = Some rt" "env_claim env q job 9 d1 = (d2, Inr (Replayed stored))"
    and "pe_processor env q job d2 = (d3, Inr result)" "pe_inTime env"
  shows "process_busy env q job t d = (d3, Inr result)"
proof -
  have "run_claimed env q job (Replayed stored) d2 = (d3, Inr result)"
    using assms(4,5) by (simp add: run_claimed_def withWorkerJobTimeout_def)
  then show ?thesis using assms(1-3) by (simp add: process_busy_def)
qed

text \<open>C40. Expiry takes precedence over completion: a job delivered again after the deadline of its
  event is reported as expired and the expiry is written to its aggregate, also when the inbox row
  says that the job had succeeded.\<close>

theorem expiry_precedes_replay:
  assumes "List.find (event_of rt) (runtimeOutbox d) = Some ev" "parseRuntimeQueueEnvelope (ob_payload ev) = Inr e"
    and "job_authorized h q job e" "ob_status ev \<in> {Ob_PUBLISHED, Ob_PUBLISHING, Ob_FAILED}"
    and "ob_deadlineAt ev = Some t" "t \<le> ci_now env"
    and "r \<in> set (runtimeInbox d)" "ib_status r = Ib_SUCCEEDED"
    and "ib_consumerName r = consumer_name q (jb_name job)" "ib_eventId r = re_eventId rt"
  shows "claim_inbox_tx h env k q job timeout rt d = Inr (Expired, expire_event rt e (ci_now env) d)"
proof -
  have ev: "List.find (\<lambda>r. ob_id r = re_eventId rt \<and> ob_tenantId r = re_tenantId rt \<and>
     ob_generation r = re_generation rt) (runtimeOutbox d) = Some ev"
    using assms(1) by (simp add: event_of_def [abs_def])
  have s: "\<not> ob_status ev \<notin> {Ob_PUBLISHED, Ob_PUBLISHING, Ob_FAILED}" using assms(4) by blast
  show ?thesis
    unfolding claim_inbox_tx_def Let_def ev option.case assms(2) andThen_simps if_not_P [OF s]
    using assms(3,5,6) by simp
qed

section \<open>Dead letters\<close>

text \<open>What is logged of a dead knowledge job is redacted: every string in its summary is an
  identifier of the expected shape or one of the four operations, whatever the job carried.\<close>

theorem dead_letter_summary_redacted:
  assumes "(k, JStr s) \<in> set (safeDataSummary (Some data) W_knowledge_ingest)"
  shows "safe_id_pattern Id_cuid s \<or> safe_id_pattern Id_uuid s \<or> s \<in> {''IMPORT'', ''SYNC'', ''RECONCILE'', ''DELETE''}"
proof -
  have j: "opt_json JInt x \<noteq> JStr s" for x by (cases x) simp_all
  have i: "opt_json JStr (safeKnowledgeId v kind) = JStr s \<Longrightarrow> safe_id_pattern kind s" for v kind
    by (auto simp: safeKnowledgeId_def split: option.splits if_splits)
  have o: "(case v of Some x \<Rightarrow> if js_includes ops x then JStr x else JNull | None \<Rightarrow> JNull) = JStr s \<Longrightarrow> s \<in> set ops"
    for v ops by (auto split: option.splits if_splits)
  obtain ops where ops: "ops = [''IMPORT'', ''SYNC'', ''RECONCILE'', ''DELETE'']" by blast
  have "JStr s \<in> snd ` set (safeDataSummary (Some data) W_knowledge_ingest)" using assms by force
  then have "JStr s \<in> {opt_json JStr (safeKnowledgeId (stringDataField data ''tenantId'') Id_cuid),
      opt_json JStr (safeKnowledgeId (stringDataField data ''sourceId'') Id_cuid),
      opt_json JStr (safeKnowledgeId (stringDataField data ''knowledgeJobId'') Id_uuid),
      (case stringDataField data ''operation'' of Some x \<Rightarrow> if js_includes ops x then JStr x else JNull | None \<Rightarrow> JNull),
      opt_json JInt (positive_int (map_of data ''generation''))}"
    unfolding safeDataSummary_def ops by (simp only: option.case simp_thms if_True list.set image_insert snd_conv image_empty)
  then have "safe_id_pattern Id_cuid s \<or> safe_id_pattern Id_uuid s \<or> s \<in> set ops"
    using i [OF sym] o [OF sym] j [symmetric] by (elim insertE emptyE) blast+
  then show ?thesis unfolding ops by simp
qed

section \<open>A concrete delivery\<close>

definition published_event :: runtime_outbox where
  "published_event = outbox_published 13000 (outbox_claim 2000 32000 ''worker:1'' sample_event)"

definition delivery_db :: db where
  "delivery_db = empty_db\<lparr>runtimeOutbox := [published_event]\<rparr>"

definition delivery_job :: worker_job where
  "delivery_job = queued_job (dispatchEnvelope sample_event sample_ai_envelope)"

definition delivery_ref :: runtime_ref where
  "delivery_ref = \<lparr>re_eventId = ''e1'', re_generation = 1, re_tenantId = sample_id (CHR ''t'')\<rparr>"

definition claim_at :: "int \<Rightarrow> (db \<Rightarrow> db) \<Rightarrow> string \<Rightarrow> claim_env" where
  "claim_at now before uuid =
     \<lparr>ci_now = now, ci_uuid = uuid, ci_before = (\<lambda>_. before), ci_commitErrors = (\<lambda>_. None),
      ci_newId = (\<lambda>_. ''i1''), ci_rowNow = (\<lambda>_. now)\<rparr>"

definition delivery_row :: "int \<Rightarrow> string \<Rightarrow> runtime_inbox" where
  "delivery_row now uuid = new_inbox ''i1'' now (consumer_name W_ai_reply ''generate-reply'') delivery_ref now (now + 35000)
     (consumer_name W_ai_reply ''generate-reply'' @ '':'' @ uuid)"

definition completed_row :: runtime_inbox where
  "completed_row = inbox_succeeded 15000 15000 (Some (JStr ''sent'')) (delivery_row 14000 ''u1'')"

definition completed_db :: db where
  "completed_db = delivery_db\<lparr>runtimeInbox := [completed_row]\<rparr>"

definition redelivery_env :: "(nat \<Rightarrow> claim_env) \<Rightarrow> (nat \<Rightarrow> db \<Rightarrow> db) \<Rightarrow> process_env" where
  "redelivery_env claims polls =
     \<lparr>pe_host = digest_host, pe_jobSetting = Some 30000, pe_parserSetting = None, pe_claims = claims,
      pe_waitNow = 16000, pe_wait = \<lparr>wt_before = polls, wt_timerDelay = (\<lambda>_. 0), wt_pollDelay = (\<lambda>_. 0)\<rparr>,
      pe_processor = (\<lambda>_ _ d. (d, Inr (Some (JStr ''sent again'')))), pe_inTime = True, pe_fenceNow = 0,
      pe_fenceFails = False, pe_beforeClose = (\<lambda>d. d), pe_closeClock = (17000, 17000),
      pe_completeError = None, pe_beforeFail = (\<lambda>d. d), pe_failClock = (17000, 17000), pe_failFails = False\<rparr>"

lemma sample_runtime_keys: "runtime_keys_free (en_data sample_ai_envelope)"
  by (simp add: runtime_keys_free_def sample_ai_envelope_def)

lemma delivery_authorized:
  "job_authorized h W_ai_reply delivery_job sample_ai_envelope"
  "runtimeEvent (jb_data delivery_job) = Some delivery_ref"
proof -
  have f: "ob_id sample_event = ''e1''" "ob_generation sample_event = 1" "ob_tenantId sample_event = sample_id (CHR ''t'')"
    by (simp_all add: sample_event_def new_event_def sample_input_def input_generation_def)
  have t: "map_of (en_data sample_ai_envelope) ''tenantId'' = Some (JStr (ob_tenantId sample_event))"
    by (simp add: sample_ai_envelope_def f)
  have q: "workerQueue_text W_ai_reply = queueName_text (en_queueName sample_ai_envelope)"
    by (simp add: sample_ai_envelope_def)
  have n: "ob_tenantId sample_event \<noteq> []" by (simp add: f sample_id_def)
  note j = dispatched_job [OF sample_runtime_keys _ _ t n q]
  show "job_authorized h W_ai_reply delivery_job sample_ai_envelope"
    unfolding delivery_job_def by (rule j(1)) (simp_all add: f)
  show "runtimeEvent (jb_data delivery_job) = Some delivery_ref"
    unfolding delivery_job_def delivery_ref_def by (subst j(2)) (simp_all add: f)
qed

lemma published_event_fields:
  "parseRuntimeQueueEnvelope (ob_payload published_event) = Inr sample_ai_envelope"
  "ob_status published_event = Ob_PUBLISHED" "ob_deadlineAt published_event = Some 300000"
  "event_of delivery_ref published_event"
  by (simp_all add: published_event_def outbox_published_def outbox_claim_def sample_event_def new_event_def
      sample_input_def parse_envelope_json [OF sample_ai_envelope_wf] event_of_def delivery_ref_def input_generation_def)

lemma sample_deliverable:
  assumes "runtimeOutbox d = [published_event]" "now < 300000"
  shows "deliverable h W_ai_reply delivery_job delivery_ref now d"
  using assms published_event_fields delivery_authorized by (simp add: deliverable_def)

lemma delivery_names: "consumer_name W_ai_reply (jb_name delivery_job) = consumer_name W_ai_reply ''generate-reply''"
  by (simp add: delivery_job_def queued_job_def dispatchEnvelope_def sample_ai_envelope_def)

lemma completed_row_fields:
  "ib_status completed_row = Ib_SUCCEEDED" "ib_result completed_row = Some (JStr ''sent'')"
  "ib_consumerName completed_row = consumer_name W_ai_reply (jb_name delivery_job)"
  "ib_eventId completed_row = re_eventId delivery_ref" "inbox_row_ok completed_row"
  unfolding delivery_names
  by (simp_all add: completed_row_def inbox_succeeded_def delivery_row_def new_inbox_def jsonResult_def inbox_row_ok_def)

lemma completed_inv: "inbox_inv completed_db"
  by (simp add: inbox_inv_def inbox_keys_def unique_on_def completed_db_def completed_row_fields)

lemma delivery_db_inv: "inbox_inv delivery_db"
  by (simp add: inbox_inv_def inbox_keys_def delivery_db_def empty_db_def)

lemma claim_at_fields [simp]:
  "ci_now (claim_at now f u) = now" "ci_uuid (claim_at now f u) = u" "ci_newId (claim_at now f u) k = ''i1''"
  "claim_quiet_env (claim_at now (\<lambda>d. d) u)"
  by (simp_all add: claim_at_def claim_quiet_env_def)

lemma redelivery_env_fields [simp]:
  "pe_host (redelivery_env c p) = digest_host" "pe_claims (redelivery_env c p) = c"
  "pe_processor (redelivery_env c p) q j d = (d, Inr (Some (JStr ''sent again'')))" "pe_inTime (redelivery_env c p)"
  "pe_beforeClose (redelivery_env c p) = (\<lambda>d. d)" "pe_completeError (redelivery_env c p) = None"
  by (simp_all add: redelivery_env_def)

theorem redelivery_replays_witness:
  "processLeadVirtJobWithReliability (redelivery_env (\<lambda>_. claim_at 16000 (\<lambda>d. d) ''u2'') (\<lambda>_ d. d)) W_ai_reply delivery_job
     completed_db = (completed_db, Inr (Some (JStr ''sent'')))"
proof -
  have "processLeadVirtJobWithReliability (redelivery_env (\<lambda>_. claim_at 16000 (\<lambda>d. d) ''u2'') (\<lambda>_ d. d)) W_ai_reply delivery_job
     completed_db = (completed_db, Inr (ib_result completed_row))"
    by (rule redelivery_replays [where rt = delivery_ref])
       (use completed_inv sample_deliverable in \<open>simp_all add: inbox_inv_def completed_db_def delivery_db_def completed_row_fields\<close>)
  then show ?thesis by (simp add: completed_row_fields)
qed

theorem delivery_completes_witness:
  "\<exists>d' r. processLeadVirtJobWithReliability (redelivery_env (\<lambda>_. claim_at 14000 (\<lambda>d. d) ''u1'') (\<lambda>_ d. d)) W_ai_reply delivery_job
     delivery_db = (d', Inr (Some (JStr ''sent again''))) \<and> r \<in> set (runtimeInbox d') \<and> ib_status r = Ib_SUCCEEDED"
proof -
  have e: "runtimeInbox delivery_db = []" by (simp add: delivery_db_def empty_db_def)
  then have f: "find_inbox c i delivery_db = None" for c i by (simp add: find_inbox_def)
  have d: "deliverable digest_host W_ai_reply delivery_job delivery_ref 14000 delivery_db"
    by (rule sample_deliverable) (simp_all add: delivery_db_def)
  have "\<exists>d' r. processLeadVirtJobWithReliability (redelivery_env (\<lambda>_. claim_at 14000 (\<lambda>d. d) ''u1'') (\<lambda>_ d. d)) W_ai_reply
      delivery_job delivery_db = (d', Inr (Some (JStr ''sent again''))) \<and> r \<in> set (runtimeInbox d') \<and>
      ib_consumerName r = consumer_name W_ai_reply (jb_name delivery_job) \<and> ib_eventId r = re_eventId delivery_ref \<and>
      ib_status r = Ib_SUCCEEDED \<and> ib_result r = Some (jsonResult (Some (JStr ''sent again'')))"
    by (rule delivery_completes) (use delivery_db_inv d in \<open>simp_all add: f e\<close>)
  then show ?thesis by blast
qed

lemma first_claim:
  "claim_inbox_tx digest_host (claim_at 14000 (\<lambda>d. d) ''u1'') 0 W_ai_reply delivery_job 30000 delivery_ref delivery_db =
     Inr (Claimed \<lparr>ic_eventId = ''e1'', ic_consumerName = consumer_name W_ai_reply ''generate-reply'',
       ic_lockId = consumer_name W_ai_reply ''generate-reply'' @ '':u1''\<rparr>,
       delivery_db\<lparr>runtimeInbox := [delivery_row 14000 ''u1'']\<rparr>)"
proof -
  have d: "deliverable digest_host W_ai_reply delivery_job delivery_ref (ci_now (claim_at 14000 (\<lambda>d. d) ''u1'')) delivery_db"
    using sample_deliverable [of delivery_db 14000] by (simp add: delivery_db_def)
  show ?thesis
    unfolding claim_deliverable [OF d] delivery_names
    by (simp add: claim_row_def find_inbox_def delivery_db_def empty_db_def insert_inbox_def delivery_row_def
        delivery_ref_def claim_at_def)
qed

theorem claim_excludes_others_witness:
  "\<exists>d1. claim_inbox_tx digest_host (claim_at 14000 (\<lambda>d. d) ''u1'') 0 W_ai_reply delivery_job 30000 delivery_ref delivery_db =
       Inr (Claimed \<lparr>ic_eventId = ''e1'', ic_consumerName = consumer_name W_ai_reply ''generate-reply'',
         ic_lockId = consumer_name W_ai_reply ''generate-reply'' @ '':u1''\<rparr>, d1) \<and>
     claim_inbox_tx digest_host (claim_at 20000 (\<lambda>d. d) ''u2'') 0 W_ai_reply delivery_job 30000 delivery_ref d1 =
       Inr (Busy 49000, d1)"
proof -
  let ?d1 = "delivery_db\<lparr>runtimeInbox := [delivery_row 14000 ''u1'']\<rparr>"
  have d: "deliverable digest_host W_ai_reply delivery_job delivery_ref (ci_now (claim_at 20000 (\<lambda>d. d) ''u2'')) ?d1"
    using sample_deliverable [of ?d1 20000] by (simp add: delivery_db_def)
  have r: "ib_consumerName (delivery_row 14000 ''u1'') = consumer_name W_ai_reply ''generate-reply''"
    "ib_eventId (delivery_row 14000 ''u1'') = re_eventId delivery_ref" "ib_status (delivery_row 14000 ''u1'') = Ib_PROCESSING"
    "ib_lockExpiresAt (delivery_row 14000 ''u1'') = Some 49000"
    by (simp_all add: delivery_row_def new_inbox_def)
  have c2: "claim_inbox_tx digest_host (claim_at 20000 (\<lambda>d. d) ''u2'') 0 W_ai_reply delivery_job 30000 delivery_ref ?d1 =
       Inr (Busy 49000, ?d1)"
    unfolding claim_deliverable [OF d] delivery_names
    by (simp add: claim_row_def find_inbox_def r)
  have "runtimeInbox ?d1 = runtimeInbox ?d1 \<and> (Busy 49000 = Busy (ci_now (claim_at 14000 (\<lambda>d. d) ''u1'') + 30000 + 5000) \<or>
      Busy 49000 = Expired \<or> (\<exists>s. Busy 49000 = Outbox_pending s))"
    using claim_excludes_others [OF delivery_db_inv first_claim refl refl _ c2] by simp
  then show ?thesis using first_claim c2 by blast
qed

theorem completed_job_never_claimed_witness:
  "\<exists>d2. claim_inbox_tx digest_host (claim_at 16000 (\<lambda>d. d) ''u2'') 0 W_ai_reply delivery_job 30000 delivery_ref completed_db =
     Inr (Replayed (Some (JStr ''sent'')), d2)"
proof -
  have d: "deliverable digest_host W_ai_reply delivery_job delivery_ref (ci_now (claim_at 16000 (\<lambda>d. d) ''u2'')) completed_db"
    using sample_deliverable [of completed_db 16000] by (simp add: completed_db_def delivery_db_def)
  have c: "claim_inbox_tx digest_host (claim_at 16000 (\<lambda>d. d) ''u2'') 0 W_ai_reply delivery_job 30000 delivery_ref completed_db =
      Inr (Replayed (Some (JStr ''sent'')), completed_db)"
    unfolding claim_deliverable [OF d]
    by (simp add: claim_row_def find_inbox_def completed_db_def completed_row_fields)
  have "Replayed (Some (JStr ''sent'')) = Replayed (ib_result completed_row) \<or> Replayed (Some (JStr ''sent'')) = Expired \<or>
      (\<exists>s. Replayed (Some (JStr ''sent'')) = Outbox_pending s)"
    by (rule completed_job_never_claimed [OF completed_inv _ _ rtranclp.rtrancl_refl _ _ c, THEN conjunct1])
       (simp_all add: completed_db_def completed_row_fields)
  with c show ?thesis by blast
qed

theorem stale_consumer_harmless_witness:
  "snd (completeRuntimeInbox (18000, 18000) \<lparr>ic_eventId = ''e1'', ic_consumerName = consumer_name W_ai_reply ''generate-reply'',
       ic_lockId = ''lost''\<rparr> (Some JNull) completed_db) = Inl (Error ''Runtime inbox lease was lost before completion.'')"
proof -
  have "inbox_key completed_row = (consumer_name W_ai_reply ''generate-reply'', ''e1'')"
    using completed_row_fields(3,4) unfolding delivery_names by (simp add: inbox_key_def delivery_ref_def)
  moreover have "ib_lockedBy completed_row \<noteq> Some ''lost''" by (simp add: completed_row_def inbox_succeeded_def)
  ultimately show ?thesis
    using stale_consumer_harmless [of completed_db completed_row "\<lparr>ic_eventId = ''e1'',
         ic_consumerName = consumer_name W_ai_reply ''generate-reply'', ic_lockId = ''lost''\<rparr>" completed_row
         "(18000, 18000)" "Some JNull"] completed_inv
    by (simp add: inbox_inv_def completed_db_def)
qed

text \<open>The other consumer has failed at the first poll and completes before the second claim.\<close>

theorem replay_after_wait_reruns_witness:
  "\<exists>env d d'. process_busy env W_ai_reply delivery_job 49000 d = (d', Inr (Some (JStr ''sent again''))) \<and>
     completed_row \<in> set (runtimeInbox d')"
proof -
  let ?env = "redelivery_env (\<lambda>_. claim_at 16500 (\<lambda>_. completed_db) ''u2'') (\<lambda>_ d. d)"
  have w: "waitForRuntimeInbox (pe_wait ?env) (pe_waitNow ?env) (env_timeout ?env W_ai_reply)
      (consumer_name W_ai_reply (jb_name delivery_job)) (re_eventId delivery_ref) 49000 delivery_db = (delivery_db, Wait_retry)"
    unfolding waitForRuntimeInbox_def
    by (subst wait_loop.simps)
       (simp add: redelivery_env_def env_timeout_def workerJobTimeoutMs_def find_inbox_def delivery_db_def empty_db_def)
  have d: "deliverable digest_host W_ai_reply delivery_job delivery_ref 16500 completed_db"
    using sample_deliverable [of completed_db 16500] by (simp add: completed_db_def delivery_db_def)
  have "claim_row (claim_at 16500 (\<lambda>_. completed_db) ''u2'') k (consumer_name W_ai_reply (jb_name delivery_job)) l till
      delivery_ref completed_db = Inr (Replayed (Some (JStr ''sent'')), completed_db)" for k l till
    by (simp add: claim_row_def find_inbox_def completed_db_def completed_row_fields)
  then have c: "env_claim ?env W_ai_reply delivery_job 9 delivery_db = (completed_db, Inr (Replayed (Some (JStr ''sent''))))"
    unfolding env_claim_def claimRuntimeInbox_def delivery_authorized(2) option.case
    by (intro retry_tx_first) (use d in \<open>simp_all add: claim_deliverable claim_at_def\<close>)
  have "process_busy ?env W_ai_reply delivery_job 49000 delivery_db = (completed_db, Inr (Some (JStr ''sent again'')))"
    by (rule replay_after_wait_reruns [OF w delivery_authorized(2) c]) simp_all
  then show ?thesis by (intro exI conjI) (auto simp: completed_db_def)
qed

theorem expiry_precedes_replay_witness:
  "\<exists>d'. claim_inbox_tx digest_host (claim_at 300000 (\<lambda>d. d) ''u2'') 0 W_ai_reply delivery_job 30000 delivery_ref completed_db =
     Inr (Expired, d')"
proof -
  have f: "List.find (event_of delivery_ref) (runtimeOutbox completed_db) = Some published_event"
    by (simp add: completed_db_def delivery_db_def published_event_fields)
  have r: "completed_row \<in> set (runtimeInbox completed_db)" by (simp add: completed_db_def)
  show ?thesis
    using expiry_precedes_replay [OF f published_event_fields(1) delivery_authorized(1) _ published_event_fields(3) _ r
        completed_row_fields(1,3,4), of "claim_at 300000 (\<lambda>d. d) ''u2''"] published_event_fields(2) by simp
qed

theorem dead_letter_summary_redacted_witness:
  "safe_id_pattern Id_cuid (sample_id (CHR ''t'')) \<or> safe_id_pattern Id_uuid (sample_id (CHR ''t'')) \<or>
   sample_id (CHR ''t'') \<in> {''IMPORT'', ''SYNC'', ''RECONCILE'', ''DELETE''}"
proof (rule dead_letter_summary_redacted)
  have "safe_id_pattern Id_cuid (sample_id (CHR ''t''))" by code_simp
  then have "safeKnowledgeId (Some (sample_id (CHR ''t''))) Id_cuid = Some (sample_id (CHR ''t''))"
    by (simp add: safeKnowledgeId_def sample_id_def)
  moreover have "stringDataField [(''tenantId'', JStr (sample_id (CHR ''t'')))] ''tenantId'' = Some (sample_id (CHR ''t''))"
    by (simp add: stringDataField_def sample_id_def)
  ultimately show "(''tenantId'', JStr (sample_id (CHR ''t''))) \<in>
      set (safeDataSummary (Some [(''tenantId'', JStr (sample_id (CHR ''t'')))]) W_knowledge_ingest)"
    by (simp add: safeDataSummary_def)
qed

end
