(* ===== verification/Webhook_Claim.thy ===== *)
theory Webhook_Claim
  imports Database Lease
begin

text \<open>
  The intake of webhook events (\<open>apps/api/src/common/webhook-event-claim.ts\<close>) on the table of
  webhook events: claiming an event for processing, renewing the claim, completing its stages, and
  completing or failing it. The advisory lock makes the claim one atomic step.
\<close>

section \<open>Events\<close>

record webhook_event =
  we_id :: string
  we_tenantId :: "string option"
  we_provider :: string
  we_externalEventId :: string
  we_payloadHash :: string
  we_payload :: json
  we_status :: string
  we_errorMessage :: "string option"
  we_receivedAt :: int
  we_processedAt :: "int option"
  we_processingAttempt :: int
  we_leaseToken :: "string option"
  we_leaseAcquiredAt :: "int option"
  we_leaseExpiresAt :: "int option"
  we_intakeCompletedAt :: "int option"
  we_aiDispatchCompletedAt :: "int option"
  we_workflowDispatchCompletedAt :: "int option"

datatype WebhookEventStage = intakeCompletedAt | aiDispatchCompletedAt | workflowDispatchCompletedAt

fun stage_at :: "WebhookEventStage \<Rightarrow> webhook_event \<Rightarrow> int option" where
  "stage_at intakeCompletedAt e = we_intakeCompletedAt e"
| "stage_at aiDispatchCompletedAt e = we_aiDispatchCompletedAt e"
| "stage_at workflowDispatchCompletedAt e = we_workflowDispatchCompletedAt e"

fun set_stage :: "WebhookEventStage \<Rightarrow> int \<Rightarrow> webhook_event \<Rightarrow> webhook_event" where
  "set_stage intakeCompletedAt at e = e\<lparr>we_intakeCompletedAt := Some at\<rparr>"
| "set_stage aiDispatchCompletedAt at e = e\<lparr>we_aiDispatchCompletedAt := Some at\<rparr>"
| "set_stage workflowDispatchCompletedAt at e = e\<lparr>we_workflowDispatchCompletedAt := Some at\<rparr>"

definition WEBHOOK_EVENT_LEASE_MS :: int where
  "WEBHOOK_EVENT_LEASE_MS = 5 * 60000"

definition leaseExpiresAt :: "int \<Rightarrow> int" where
  "leaseExpiresAt now = now + WEBHOOK_EVENT_LEASE_MS"

definition claim_lost :: error where
  "claim_lost = OtherError ''WebhookEventClaimLostError'' ''Webhook event processing lease was lost.''"

section \<open>Claiming\<close>

record webhook_input =
  wi_tenantId :: string
  wi_provider :: string
  wi_externalEventId :: string
  wi_payloadHash :: string
  wi_payload :: json
  wi_receivedAt :: int

record webhook_claim =
  wc_claimed :: bool
  wc_resumed :: bool
  wc_claimToken :: "string option"
  wc_event :: webhook_event

definition webhook_claimable :: "int \<Rightarrow> webhook_event \<Rightarrow> bool" where
  "webhook_claimable now e =
     (we_status e = ''FAILED'' \<or>
      we_status e = ''RECEIVED'' \<and> (case we_leaseExpiresAt e of None \<Rightarrow> True | Some t \<Rightarrow> t \<le> now))"

definition webhook_leased :: "int \<Rightarrow> int \<Rightarrow> string \<Rightarrow> webhook_event \<Rightarrow> webhook_event" where
  "webhook_leased now till token e =
     e\<lparr>we_status := ''RECEIVED'', we_errorMessage := None, we_processedAt := None,
       we_processingAttempt := we_processingAttempt e + 1, we_leaseToken := Some token,
       we_leaseAcquiredAt := Some now, we_leaseExpiresAt := Some till\<rparr>"

definition new_webhook_event :: "string \<Rightarrow> string \<Rightarrow> webhook_input \<Rightarrow> webhook_event" where
  "new_webhook_event newId token i =
     \<lparr>we_id = newId, we_tenantId = Some (wi_tenantId i), we_provider = wi_provider i,
      we_externalEventId = wi_externalEventId i, we_payloadHash = wi_payloadHash i,
      we_payload = wi_payload i, we_status = ''RECEIVED'', we_errorMessage = None,
      we_receivedAt = wi_receivedAt i, we_processedAt = None, we_processingAttempt = 1,
      we_leaseToken = Some token, we_leaseAcquiredAt = Some (wi_receivedAt i),
      we_leaseExpiresAt = Some (leaseExpiresAt (wi_receivedAt i)), we_intakeCompletedAt = None,
      we_aiDispatchCompletedAt = None, we_workflowDispatchCompletedAt = None\<rparr>"

definition find_webhook :: "string \<Rightarrow> string \<Rightarrow> webhook_event list \<Rightarrow> webhook_event option" where
  "find_webhook provider externalEventId t =
     List.find (\<lambda>e. we_provider e = provider \<and> we_externalEventId e = externalEventId) t"

definition claimWebhookEvent ::
    "string \<Rightarrow> string \<Rightarrow> webhook_input \<Rightarrow> webhook_event list \<Rightarrow> error + (webhook_claim \<times> webhook_event list)" where
  "claimWebhookEvent newId leaseToken i t =
     (let now = wi_receivedAt i in
      case find_webhook (wi_provider i) (wi_externalEventId i) t of
        Some existing \<Rightarrow>
          if we_tenantId existing \<noteq> Some (wi_tenantId i) \<or> we_payloadHash existing \<noteq> wi_payloadHash i
          then Inl (OtherError ''ConflictException'' ''Webhook event identity was reused with different input.'')
          else if \<not> webhook_claimable now existing
          then Inr (\<lparr>wc_claimed = False, wc_resumed = False, wc_claimToken = None, wc_event = existing\<rparr>, t)
          else
            (let lease = webhook_leased now (leaseExpiresAt now) leaseToken
             in Inr (\<lparr>wc_claimed = True, wc_resumed = True, wc_claimToken = Some leaseToken,
                      wc_event = lease existing\<rparr>,
                     update_many (\<lambda>e. we_id e = we_id existing) lease t))
      | None \<Rightarrow>
          (let event = new_webhook_event newId leaseToken i
           in if list_ex (\<lambda>e. we_id e = newId) t then Inl (PrismaError ''P2002'')
              else Inr (\<lparr>wc_claimed = True, wc_resumed = False, wc_claimToken = Some leaseToken,
                         wc_event = event\<rparr>, t @ [event])))"

section \<open>Working under a claim\<close>

definition webhook_owned :: "string \<Rightarrow> webhook_event \<Rightarrow> bool" where
  "webhook_owned claimToken e = (we_status e = ''RECEIVED'' \<and> we_leaseToken e = Some claimToken)"

definition webhook_renewed :: "int \<Rightarrow> webhook_event \<Rightarrow> webhook_event" where
  "webhook_renewed now e = e\<lparr>we_leaseExpiresAt := Some (leaseExpiresAt now)\<rparr>"

definition renewWebhookEventClaim ::
    "string \<Rightarrow> string \<Rightarrow> int \<Rightarrow> webhook_event list \<Rightarrow> webhook_event list \<times> (error + unit)" where
  "renewWebhookEventClaim eventId claimToken now t =
     (let P = (\<lambda>e. we_id e = eventId \<and> webhook_owned claimToken e) in
      (update_many P (webhook_renewed now) t,
       if count_where P t \<noteq> 1 then Inl claim_lost else Inr ()))"

definition stage_open :: "string \<Rightarrow> string \<Rightarrow> WebhookEventStage \<Rightarrow> webhook_event \<Rightarrow> bool" where
  "stage_open eventId claimToken stage e =
     (we_id e = eventId \<and> webhook_owned claimToken e \<and> stage_at stage e = None)"

definition stage_done :: "WebhookEventStage \<Rightarrow> int \<Rightarrow> webhook_event \<Rightarrow> webhook_event" where
  "stage_done stage at e = webhook_renewed at (set_stage stage at e)"

text \<open>The three statements of a stage are not one transaction; \<open>other1\<close> and \<open>other2\<close> are what the
  other processes do between them.\<close>

definition completeWebhookEventStage ::
    "(webhook_event list \<Rightarrow> webhook_event list) \<Rightarrow> (webhook_event list \<Rightarrow> webhook_event list)
     \<Rightarrow> string \<Rightarrow> string \<Rightarrow> WebhookEventStage \<Rightarrow> int \<Rightarrow> webhook_event list
     \<Rightarrow> webhook_event list \<times> (error + unit)" where
  "completeWebhookEventStage other1 other2 eventId claimToken stage completedAt t =
     (let t1 = update_many (stage_open eventId claimToken stage) (stage_done stage completedAt) t
      in if count_where (stage_open eventId claimToken stage) t = 1 then (t1, Inr ())
         else
           let t2 = other1 t1 in
           case List.find (\<lambda>e. we_id e = eventId) t2 of
             None \<Rightarrow> (t2, Inl claim_lost)
           | Some event \<Rightarrow>
               if \<not> webhook_owned claimToken event \<or> stage_at stage event = None then (t2, Inl claim_lost)
               else renewWebhookEventClaim eventId claimToken completedAt (other2 t2))"

definition webhook_processed :: "int \<Rightarrow> webhook_event \<Rightarrow> webhook_event" where
  "webhook_processed at e =
     e\<lparr>we_status := ''PROCESSED'', we_errorMessage := None, we_processedAt := Some at,
       we_leaseToken := None, we_leaseAcquiredAt := None, we_leaseExpiresAt := None\<rparr>"

definition completeWebhookEvent ::
    "string \<Rightarrow> string \<Rightarrow> int \<Rightarrow> webhook_event list \<Rightarrow> webhook_event list \<times> (error + unit)" where
  "completeWebhookEvent eventId claimToken processedAt t =
     (let P = (\<lambda>e. we_id e = eventId \<and> webhook_owned claimToken e) in
      (update_many P (webhook_processed processedAt) t,
       if count_where P t \<noteq> 1 then Inl claim_lost else Inr ()))"

definition webhook_failed :: "string \<Rightarrow> int \<Rightarrow> webhook_event \<Rightarrow> webhook_event" where
  "webhook_failed msg at e =
     e\<lparr>we_status := ''FAILED'', we_errorMessage := Some msg, we_processedAt := Some at,
       we_leaseToken := None, we_leaseAcquiredAt := None, we_leaseExpiresAt := None\<rparr>"

definition failWebhookEvent ::
    "string \<Rightarrow> string \<Rightarrow> string \<Rightarrow> int \<Rightarrow> webhook_event list \<Rightarrow> webhook_event list \<times> bool" where
  "failWebhookEvent eventId claimToken msg processedAt t =
     (let P = (\<lambda>e. we_id e = eventId \<and> webhook_owned claimToken e) in
      (update_many P (webhook_failed msg processedAt) t, count_where P t = 1))"

section \<open>Leases\<close>

definition webhook_final :: "webhook_event \<Rightarrow> bool" where
  "webhook_final e = (we_status e = ''PROCESSED'')"

lemma webhook_leased_simps [simp]:
  "we_id (webhook_leased now till tok e) = we_id e" "we_provider (webhook_leased now till tok e) = we_provider e"
  "we_externalEventId (webhook_leased now till tok e) = we_externalEventId e"
  "we_status (webhook_leased now till tok e) = ''RECEIVED''" "we_leaseToken (webhook_leased now till tok e) = Some tok"
  "we_leaseExpiresAt (webhook_leased now till tok e) = Some till" "we_tenantId (webhook_leased now till tok e) = we_tenantId e"
  "we_payloadHash (webhook_leased now till tok e) = we_payloadHash e"
  by (simp_all add: webhook_leased_def)

interpretation wh_lease: leased_row we_leaseToken we_leaseExpiresAt webhook_final webhook_claimable
    webhook_leased webhook_owned
  by unfold_locales (auto simp: webhook_final_def webhook_claimable_def webhook_owned_def)

end
