(* ===== verification/Webhook_Properties.thy ===== *)
theory Webhook_Properties
  imports Webhook_Claim
begin

text \<open>
  Properties of the webhook intake: the tables that any interleaving of its statements can reach
  are well formed and lose nothing, a claim excludes every other claim of the same event until its
  lease ends, and a stage is recorded once.
\<close>

section \<open>Rows\<close>

definition webhook_key :: "webhook_event \<Rightarrow> string \<times> string" where
  "webhook_key e = (we_provider e, we_externalEventId e)"

definition webhook_ok :: "webhook_event \<Rightarrow> bool" where
  "webhook_ok e =
     (we_status e \<in> {''RECEIVED'', ''PROCESSED'', ''FAILED''} \<and>
      (we_leaseToken e \<noteq> None \<longleftrightarrow> we_status e = ''RECEIVED'') \<and>
      (we_leaseAcquiredAt e \<noteq> None \<longleftrightarrow> we_status e = ''RECEIVED'') \<and>
      (we_leaseExpiresAt e \<noteq> None \<longleftrightarrow> we_status e = ''RECEIVED'') \<and>
      (we_processedAt e = None \<longleftrightarrow> we_status e = ''RECEIVED'') \<and>
      (we_errorMessage e \<noteq> None \<longleftrightarrow> we_status e = ''FAILED'') \<and> 1 \<le> we_processingAttempt e)"

text \<open>What a row keeps: its identity and content, its completed stages, and everything once it is
  PROCESSED; the attempts are never counted down.\<close>

definition webhook_kept :: "webhook_event \<Rightarrow> webhook_event \<Rightarrow> bool" where
  "webhook_kept e e' =
     (we_id e' = we_id e \<and> webhook_key e' = webhook_key e \<and> we_tenantId e' = we_tenantId e \<and>
      we_payloadHash e' = we_payloadHash e \<and> we_payload e' = we_payload e \<and>
      we_receivedAt e' = we_receivedAt e \<and> we_processingAttempt e \<le> we_processingAttempt e' \<and>
      (\<forall>s a. stage_at s e = Some a \<longrightarrow> stage_at s e' = Some a) \<and>
      (we_status e = ''PROCESSED'' \<longrightarrow> e' = e))"

inductive webhook_row_step :: "webhook_event \<Rightarrow> webhook_event \<Rightarrow> bool" where
  claim: "webhook_claimable now e \<Longrightarrow> webhook_row_step e (webhook_leased now till tok e)"
| renew: "webhook_owned tok e \<Longrightarrow> webhook_row_step e (webhook_renewed now e)"
| stage: "webhook_owned tok e \<Longrightarrow> stage_at s e = None \<Longrightarrow> webhook_row_step e (stage_done s at e)"
| complete: "webhook_owned tok e \<Longrightarrow> webhook_row_step e (webhook_processed at e)"
| fail: "webhook_owned tok e \<Longrightarrow> webhook_row_step e (webhook_failed msg at e)"

lemmas webhook_row_defs = webhook_leased_def webhook_renewed_def stage_done_def webhook_processed_def webhook_failed_def

lemma stage_at_set_stage: "stage_at s (set_stage s' at e) = (if s = s' then Some at else stage_at s e)"
  by (cases s; cases s') simp_all

lemma stage_at_fields [simp]:
  "stage_at s (webhook_leased now till tok e) = stage_at s e" "stage_at s (webhook_renewed now e) = stage_at s e"
  "stage_at s (webhook_processed at e) = stage_at s e" "stage_at s (webhook_failed msg at e) = stage_at s e"
  by (cases s; simp add: webhook_row_defs)+

lemma stage_at_done [simp]: "stage_at s (stage_done s' at e) = (if s = s' then Some at else stage_at s e)"
  by (simp add: stage_done_def stage_at_set_stage)

lemma stage_done_fields [simp]:
  "we_id (stage_done s at e) = we_id e" "webhook_key (stage_done s at e) = webhook_key e"
  "we_tenantId (stage_done s at e) = we_tenantId e" "we_payloadHash (stage_done s at e) = we_payloadHash e"
  "we_payload (stage_done s at e) = we_payload e" "we_receivedAt (stage_done s at e) = we_receivedAt e"
  "we_status (stage_done s at e) = we_status e" "we_errorMessage (stage_done s at e) = we_errorMessage e"
  "we_processedAt (stage_done s at e) = we_processedAt e"
  "we_processingAttempt (stage_done s at e) = we_processingAttempt e"
  "we_leaseToken (stage_done s at e) = we_leaseToken e" "we_leaseAcquiredAt (stage_done s at e) = we_leaseAcquiredAt e"
  "we_leaseExpiresAt (stage_done s at e) = Some (leaseExpiresAt at)"
  by (cases s; simp add: stage_done_def webhook_renewed_def webhook_key_def)+

lemma row_step_kept:
  assumes "webhook_row_step e e'"
  shows "webhook_kept e e'"
  using assms
proof cases
  case (stage tok s at)
  then show ?thesis by (auto simp: webhook_kept_def webhook_owned_def)
qed (auto simp: webhook_kept_def webhook_claimable_def webhook_owned_def, auto simp: webhook_row_defs webhook_key_def)

lemma row_step_ok:
  assumes "webhook_row_step e e'" "webhook_ok e"
  shows "webhook_ok e'"
  using assms(1)
proof cases
  case (stage tok s at)
  then show ?thesis using assms(2) by (simp add: webhook_ok_def webhook_owned_def)
qed (use assms(2) in \<open>simp_all add: webhook_ok_def webhook_row_defs webhook_owned_def\<close>)

lemma webhook_kept_refl [simp]: "webhook_kept e e"
  by (simp add: webhook_kept_def)

lemma webhook_kept_trans: "webhook_kept e e' \<Longrightarrow> webhook_kept e' e'' \<Longrightarrow> webhook_kept e e''"
  unfolding webhook_kept_def by (elim conjE, intro conjI allI impI) (simp_all | (blast intro: order_trans) | force)+

section \<open>Tables\<close>

definition webhook_inv :: "webhook_event list \<Rightarrow> bool" where
  "webhook_inv t = (unique_on we_id t \<and> unique_on webhook_key t \<and> list_all webhook_ok t)"

text \<open>The statements the processes of the API interleave.\<close>

inductive webhook_op :: "webhook_event list \<Rightarrow> webhook_event list \<Rightarrow> bool" where
  claim: "claimWebhookEvent newId tok i t = Inr (c, t') \<Longrightarrow> webhook_op t t'"
| renew: "webhook_op t (fst (renewWebhookEventClaim ev tok now t))"
| stage: "webhook_op t (update_many (stage_open ev tok s) (stage_done s at) t)"
| complete: "webhook_op t (fst (completeWebhookEvent ev tok at t))"
| fail: "webhook_op t (fst (failWebhookEvent ev tok msg at t))"

lemma find_webhookD:
  "find_webhook p x t = Some e \<Longrightarrow> e \<in> set t \<and> webhook_key e = (p, x)"
  unfolding find_webhook_def webhook_key_def by (auto dest: find_SomeD)

lemma find_webhook_unique:
  assumes "unique_on webhook_key t" "e \<in> set t" "webhook_key e = (p, x)"
  shows "find_webhook p x t = Some e"
  unfolding find_webhook_def
  using find_Some_unique_iff [OF assms(1), of "\<lambda>e. we_provider e = p \<and> we_externalEventId e = x" "(p, x)" e] assms(2,3)
  by (simp add: webhook_key_def)

lemma claimWebhookEvent_cases [consumes 1, case_names held resumed created]:
  assumes "claimWebhookEvent newId tok i t = Inr (c, t')"
  obtains (held) e where "e \<in> set t" "webhook_key e = (wi_provider i, wi_externalEventId i)"
      "\<not> webhook_claimable (wi_receivedAt i) e" "t' = t" "\<not> wc_claimed c" "wc_event c = e"
  | (resumed) e where "e \<in> set t" "webhook_key e = (wi_provider i, wi_externalEventId i)"
      "we_tenantId e = Some (wi_tenantId i)" "we_payloadHash e = wi_payloadHash i"
      "webhook_claimable (wi_receivedAt i) e"
      "t' = update_many (\<lambda>x. we_id x = we_id e) (webhook_leased (wi_receivedAt i) (leaseExpiresAt (wi_receivedAt i)) tok) t"
      "wc_claimed c" "wc_event c = webhook_leased (wi_receivedAt i) (leaseExpiresAt (wi_receivedAt i)) tok e"
  | (created) "\<forall>e\<in>set t. webhook_key e \<noteq> (wi_provider i, wi_externalEventId i) \<and> we_id e \<noteq> newId"
      "t' = t @ [new_webhook_event newId tok i]" "wc_claimed c" "wc_event c = new_webhook_event newId tok i"
proof (cases "find_webhook (wi_provider i) (wi_externalEventId i) t")
  case None
  then have n: "\<forall>e\<in>set t. webhook_key e \<noteq> (wi_provider i, wi_externalEventId i)"
    by (auto simp: find_webhook_def webhook_key_def find_None_iff)
  show thesis
    using assms None n
    by (intro created) (auto simp: claimWebhookEvent_def Let_def list_ex_iff split: if_splits)
next
  case (Some e)
  note e = find_webhookD [OF Some]
  show thesis
  proof (cases "webhook_claimable (wi_receivedAt i) e")
    case True
    then show thesis
      using assms Some e by (intro resumed [of e]) (auto simp: claimWebhookEvent_def Let_def split: if_splits)
  next
    case False
    then show thesis
      using assms Some e by (intro held [of e]) (auto simp: claimWebhookEvent_def Let_def split: if_splits)
  qed
qed

lemma webhook_update:
  assumes "webhook_inv t" "\<And>e. e \<in> set t \<Longrightarrow> P e \<Longrightarrow> webhook_row_step e (f e)"
  shows "webhook_inv (update_many P f t) \<and> (\<forall>e\<in>set t. \<exists>e'\<in>set (update_many P f t). webhook_kept e e')"
proof (intro conjI ballI)
  have k: "webhook_kept e (f e)" if "e \<in> set t" "P e" for e
    using assms(2) [OF that] by (rule row_step_kept)
  have "map we_id (update_many P f t) = map we_id t" "map webhook_key (update_many P f t) = map webhook_key t"
    using k by (induction t) (auto simp: webhook_kept_def)
  moreover have "list_all webhook_ok (update_many P f t)"
    using assms by (auto simp: webhook_inv_def list_all_iff elim!: in_update_manyE intro: row_step_ok)
  ultimately show "webhook_inv (update_many P f t)"
    using assms(1) by (simp add: webhook_inv_def unique_on_def)
  show "\<exists>e'\<in>set (update_many P f t). webhook_kept e e'" if "e \<in> set t" for e
  proof (cases "P e")
    case True
    then show ?thesis using k [OF that] in_update_many_changed [OF that] by blast
  next
    case False
    then show ?thesis using webhook_kept_refl in_update_many_kept [OF that] by blast
  qed
qed

lemma new_webhook_ok [simp]: "webhook_ok (new_webhook_event n tok i)"
  by (simp add: webhook_ok_def new_webhook_event_def)

lemma new_webhook_key [simp]:
  "we_id (new_webhook_event n tok i) = n"
  "webhook_key (new_webhook_event n tok i) = (wi_provider i, wi_externalEventId i)"
  by (simp_all add: webhook_key_def new_webhook_event_def)

lemma webhook_op_inv:
  assumes "webhook_op t t'" "webhook_inv t"
  shows "webhook_inv t' \<and> (\<forall>e\<in>set t. \<exists>e'\<in>set t'. webhook_kept e e')"
  using assms(1)
proof cases
  case (claim newId tok i c)
  then show ?thesis
  proof (cases rule: claimWebhookEvent_cases)
    case (resumed e)
    have "webhook_row_step x (webhook_leased (wi_receivedAt i) (leaseExpiresAt (wi_receivedAt i)) tok x)"
      if "x \<in> set t" "we_id x = we_id e" for x
    proof -
      have "x = e" using that resumed(1) assms(2) by (auto simp: webhook_inv_def dest: unique_onD)
      then show ?thesis using resumed(5) by (simp add: webhook_row_step.claim)
    qed
    then show ?thesis unfolding resumed(6) by (intro webhook_update [OF assms(2)])
  next
    case created
    have "webhook_inv t'"
      using assms(2) created(1) unfolding created(2) webhook_inv_def unique_on_append1 by simp
    moreover have "\<forall>e\<in>set t. e \<in> set t'" unfolding created(2) by simp
    ultimately show ?thesis using webhook_kept_refl by blast
  qed (use assms(2) webhook_kept_refl in blast)
next
  case (renew ev tok now)
  show ?thesis
    unfolding renew renewWebhookEventClaim_def Let_def fst_conv
    by (rule webhook_update [OF assms(2)]) (auto intro: webhook_row_step.renew)
next
  case (stage ev tok s at)
  show ?thesis
    unfolding stage by (rule webhook_update [OF assms(2)]) (auto simp: stage_open_def intro: webhook_row_step.stage)
next
  case (complete ev tok at)
  show ?thesis
    unfolding complete completeWebhookEvent_def Let_def fst_conv
    by (rule webhook_update [OF assms(2)]) (auto intro: webhook_row_step.complete)
next
  case (fail ev tok msg at)
  show ?thesis
    unfolding fail failWebhookEvent_def Let_def fst_conv
    by (rule webhook_update [OF assms(2)]) (auto intro: webhook_row_step.fail)
qed

lemma webhook_ops_inv:
  assumes "webhook_op\<^sup>*\<^sup>* t t'" "webhook_inv t"
  shows "webhook_inv t' \<and> (\<forall>e\<in>set t. \<exists>e'\<in>set t'. webhook_kept e e')"
  using assms
proof (induction rule: rtranclp_induct)
  case (step t1 t2)
  then show ?case using webhook_op_inv [OF step.hyps(2)] webhook_kept_trans by meson
qed (use webhook_kept_refl in blast)

section \<open>Histories\<close>


definition sample_webhook :: webhook_input where
  "sample_webhook = \<lparr>wi_tenantId = ''t1'', wi_provider = ''telegram'', wi_externalEventId = ''42'',
     wi_payloadHash = ''h'', wi_payload = JNull, wi_receivedAt = 1000\<rparr>"

definition sample_webhook_event :: webhook_event where
  "sample_webhook_event = new_webhook_event ''w1'' ''lease-1'' sample_webhook"

lemma sample_webhook_claim:
  "claimWebhookEvent ''w1'' ''lease-1'' sample_webhook [] =
     Inr (\<lparr>wc_claimed = True, wc_resumed = False, wc_claimToken = Some ''lease-1'', wc_event = sample_webhook_event\<rparr>,
          [sample_webhook_event])"
  by (simp add: claimWebhookEvent_def find_webhook_def sample_webhook_event_def Let_def)

lemma sample_webhook_inv: "webhook_inv [sample_webhook_event]" "webhook_inv []"
  by (simp_all add: webhook_inv_def unique_on_def sample_webhook_event_def)

lemma sample_webhook_owned: "webhook_owned ''lease-1'' sample_webhook_event" "we_id sample_webhook_event = ''w1''"
  by (simp_all add: webhook_owned_def sample_webhook_event_def new_webhook_event_def)


section \<open>Exclusion\<close>

lemma claimed_webhook:
  assumes "webhook_inv t" "claimWebhookEvent newId tok i t = Inr (c, t')" "wc_claimed c"
  shows "wc_event c \<in> set t'" "webhook_owned tok (wc_event c)"
    "we_leaseExpiresAt (wc_event c) = Some (leaseExpiresAt (wi_receivedAt i))"
    "webhook_key (wc_event c) = (wi_provider i, wi_externalEventId i)"
    "we_tenantId (wc_event c) = Some (wi_tenantId i)" "we_payloadHash (wc_event c) = wi_payloadHash i"
proof -
  have "wc_event c \<in> set t' \<and> webhook_owned tok (wc_event c) \<and>
    we_leaseExpiresAt (wc_event c) = Some (leaseExpiresAt (wi_receivedAt i)) \<and>
    webhook_key (wc_event c) = (wi_provider i, wi_externalEventId i) \<and>
    we_tenantId (wc_event c) = Some (wi_tenantId i) \<and> we_payloadHash (wc_event c) = wi_payloadHash i"
    using assms(2)
  proof (cases rule: claimWebhookEvent_cases)
    case (held e)
    then show ?thesis using assms(3) by simp
  next
    case (resumed e)
    then show ?thesis
      using in_update_many_changed [OF resumed(1), of "\<lambda>x. we_id x = we_id e"]
      by (simp add: wh_lease.owned_claim webhook_key_def)
  next
    case created
    show ?thesis
      unfolding created(2,4) by (simp add: webhook_owned_def) (simp add: new_webhook_event_def)
  qed
  then show "wc_event c \<in> set t'" "webhook_owned tok (wc_event c)"
    "we_leaseExpiresAt (wc_event c) = Some (leaseExpiresAt (wi_receivedAt i))"
    "webhook_key (wc_event c) = (wi_provider i, wi_externalEventId i)"
    "we_tenantId (wc_event c) = Some (wi_tenantId i)" "we_payloadHash (wc_event c) = wi_payloadHash i"
    by blast+
qed

lemma owned_webhook_update:
  assumes "unique_on we_id t" "e \<in> set t" "Q e"
  shows "count_where (\<lambda>x. we_id x = we_id e \<and> Q x) t = 1"
  using count_where_one [OF assms(1,2), where Q = Q] assms(3) by simp

text \<open>C8. One worker per webhook event: after a granted claim, every other delivery of the same event
  that arrives before the five minutes of the lease have passed changes nothing and is not claimed, or
  is refused when it names another tenant or another payload; and the worker that holds the claim can
  complete the event.\<close>

theorem webhook_claim_exclusive:
  assumes "webhook_inv t" "claimWebhookEvent newId tok i t = Inr (c, t1)" "wc_claimed c"
    and "wi_provider j = wi_provider i" "wi_externalEventId j = wi_externalEventId i"
    and "wi_receivedAt j < wi_receivedAt i + 300000"
  shows "claimWebhookEvent newId' tok' j t1 =
      (if wi_tenantId j \<noteq> wi_tenantId i \<or> wi_payloadHash j \<noteq> wi_payloadHash i
       then Inl (OtherError ''ConflictException'' ''Webhook event identity was reused with different input.'')
       else Inr (\<lparr>wc_claimed = False, wc_resumed = False, wc_claimToken = None, wc_event = wc_event c\<rparr>, t1)) \<and>
    snd (completeWebhookEvent (we_id (wc_event c)) tok at t1) = Inr ()"
proof
  have inv: "webhook_inv t1" using webhook_op_inv [OF webhook_op.claim [OF assms(2)] assms(1)] by simp
  note e = claimed_webhook [OF assms(1,2,3)]
  have nc: "\<not> webhook_claimable (wi_receivedAt j) (wc_event c)"
    by (rule wh_lease.lease_exclusive [OF e(2,3)]) (use assms(6) in \<open>simp add: leaseExpiresAt_def WEBHOOK_EVENT_LEASE_MS_def\<close>)
  have f: "find_webhook (wi_provider j) (wi_externalEventId j) t1 = Some (wc_event c)"
    using find_webhook_unique [OF _ e(1)] inv e(4) assms(4,5) by (simp add: webhook_inv_def)
  show "claimWebhookEvent newId' tok' j t1 =
      (if wi_tenantId j \<noteq> wi_tenantId i \<or> wi_payloadHash j \<noteq> wi_payloadHash i
       then Inl (OtherError ''ConflictException'' ''Webhook event identity was reused with different input.'')
       else Inr (\<lparr>wc_claimed = False, wc_resumed = False, wc_claimToken = None, wc_event = wc_event c\<rparr>, t1))"
    unfolding claimWebhookEvent_def Let_def f option.case using nc e(5,6) by auto
  show "snd (completeWebhookEvent (we_id (wc_event c)) tok at t1) = Inr ()"
    using owned_webhook_update [OF _ e(1), of "webhook_owned tok"] inv e(2)
    by (simp add: completeWebhookEvent_def Let_def webhook_inv_def)
qed

theorem webhook_claim_exclusive_witness:
  "claimWebhookEvent ''w2'' ''lease-2'' (sample_webhook\<lparr>wi_receivedAt := 300999\<rparr>) [sample_webhook_event] =
     Inr (\<lparr>wc_claimed = False, wc_resumed = False, wc_claimToken = None, wc_event = sample_webhook_event\<rparr>,
          [sample_webhook_event])"
  using webhook_claim_exclusive [OF sample_webhook_inv(2) sample_webhook_claim,
      where j = "sample_webhook\<lparr>wi_receivedAt := 300999\<rparr>" and newId' = "''w2''" and tok' = "''lease-2''"]
  by (simp add: sample_webhook_def)

section \<open>Stages\<close>

lemma renew_ok:
  assumes "renewWebhookEventClaim ev tok now t = (t', Inr ())"
  shows "\<exists>e\<in>set t. we_id e = ev \<and> webhook_owned tok e \<and> webhook_renewed now e \<in> set t'"
proof -
  let ?P = "\<lambda>e. we_id e = ev \<and> webhook_owned tok e"
  have c: "count_where ?P t = 1" and t': "t' = update_many ?P (webhook_renewed now) t"
    using assms by (auto simp: renewWebhookEventClaim_def Let_def split: if_splits)
  from c have "0 < count_where ?P t" by simp
  then obtain e where e: "e \<in> set t" "we_id e = ev" "webhook_owned tok e" unfolding count_where_pos_iff by blast
  have "webhook_renewed now e \<in> set t'"
    unfolding t' using in_update_many_changed [OF e(1), where P = ?P and f = "webhook_renewed now"] e(2,3) by simp
  with e show ?thesis by blast
qed

definition stage_recorded :: "string \<Rightarrow> WebhookEventStage \<Rightarrow> int \<Rightarrow> webhook_event \<Rightarrow> webhook_event list \<Rightarrow> bool" where
  "stage_recorded tok s at e t' =
     (\<exists>e'\<in>set t'. webhook_kept e e' \<and> webhook_owned tok e' \<and>
        we_leaseExpiresAt e' = Some (leaseExpiresAt at) \<and> stage_at s e' \<noteq> None)"

lemma stage_first:
  assumes "webhook_inv t" "e \<in> set t" "count_where (stage_open (we_id e) tok s) t = 1"
  shows "stage_recorded tok s at e (update_many (stage_open (we_id e) tok s) (stage_done s at) t)"
proof -
  have "0 < count_where (stage_open (we_id e) tok s) t" using assms(3) by simp
  then obtain x where x: "x \<in> set t" "stage_open (we_id e) tok s x" unfolding count_where_pos_iff by blast
  have "x = e"
    using unique_onD [of we_id t x e] x assms(1,2) by (simp add: stage_open_def webhook_inv_def)
  then have so: "webhook_owned tok e" "stage_at s e = None" using x(2) by (simp_all add: stage_open_def)
  have "webhook_kept e (stage_done s at e)" by (rule row_step_kept [OF webhook_row_step.stage [OF so]])
  moreover have "stage_done s at e \<in> set (update_many (stage_open (we_id e) tok s) (stage_done s at) t)"
    using in_update_many_changed [of x t "stage_open (we_id e) tok s" "stage_done s at"] x \<open>x = e\<close> by simp
  ultimately show ?thesis
    using so(1) unfolding stage_recorded_def by (intro bexI [of _ "stage_done s at e"]) (simp_all add: webhook_owned_def)
qed

lemma same_webhook:
  assumes "webhook_inv t" "x \<in> set t" "y \<in> set t" "we_id x = we_id y"
  shows "x = y"
  using assms unique_onD [of we_id t x y] by (simp add: webhook_inv_def)

lemma stage_again:
  assumes "webhook_inv t" "e \<in> set t" "webhook_op\<^sup>*\<^sup>* t t1" "webhook_op\<^sup>*\<^sup>* t1 t2"
    and "x \<in> set t1" "we_id x = we_id e" "stage_at s x \<noteq> None"
    and "renewWebhookEventClaim (we_id e) tok at t2 = (t', Inr ())"
  shows "stage_recorded tok s at e t'"
proof -
  note i1 = webhook_ops_inv [OF assms(3,1)]
  note i2 = webhook_ops_inv [OF assms(4) conjunct1 [OF i1]]
  obtain e1 where e1: "e1 \<in> set t1" "webhook_kept e e1" using i1 assms(2) by blast
  obtain e2 where e2: "e2 \<in> set t2" "webhook_kept x e2" using i2 assms(5) by blast
  obtain y where y: "y \<in> set t2" "we_id y = we_id e" "webhook_owned tok y" "webhook_renewed at y \<in> set t'"
    using renew_ok [OF assms(8)] by blast
  have "e1 = x" using same_webhook [OF conjunct1 [OF i1] e1(1) assms(5)] e1(2) assms(6) by (simp add: webhook_kept_def)
  have "y = e2" using same_webhook [OF conjunct1 [OF i2] y(1) e2(1)] e2(2) y(2) assms(6) by (simp add: webhook_kept_def)
  have "webhook_kept e y" using webhook_kept_trans e1(2) e2(2) unfolding \<open>e1 = x\<close> \<open>y = e2\<close> by blast
  then have "webhook_kept e (webhook_renewed at y)"
    using webhook_kept_trans row_step_kept [OF webhook_row_step.renew [OF y(3)]] by blast
  moreover have "stage_at s y \<noteq> None" using assms(7) e2(2) \<open>y = e2\<close> by (auto simp: webhook_kept_def)
  moreover have "webhook_owned tok (webhook_renewed at y)" "we_leaseExpiresAt (webhook_renewed at y) = Some (leaseExpiresAt at)"
    using y(3) by (simp_all add: webhook_owned_def webhook_renewed_def)
  ultimately show ?thesis
    using y(4) unfolding stage_recorded_def by (intro bexI [of _ "webhook_renewed at y"]) simp_all
qed

lemma stage_refused:
  assumes "webhook_inv t" "e \<in> set t" "\<not> webhook_owned tok e"
  shows "completeWebhookEventStage (\<lambda>u. u) other2 (we_id e) tok s at t = (t, Inl claim_lost)"
proof -
  have "\<not> stage_open (we_id e) tok s x" if "x \<in> set t" for x
    using same_webhook [OF assms(1) that assms(2)] assms(3) by (auto simp: stage_open_def)
  then have z: "count_where (stage_open (we_id e) tok s) t = 0" by (simp add: count_where_0_iff)
  have f: "List.find (\<lambda>x. we_id x = we_id e) t = Some e"
    using find_Some_unique_iff [of we_id t "\<lambda>x. we_id x = we_id e" "we_id e" e] assms(1,2)
    by (simp add: webhook_inv_def)
  show ?thesis using z f assms(3) by (simp add: completeWebhookEventStage_def Let_def update_many_none)
qed

text \<open>A stage is recorded once: when completing a stage returns, whatever the other processes did
  between its statements, the caller holds the claim with a fresh lease and the stage has a completion
  time, which is the first one if the stage was completed before; and a caller that does not hold the
  claim is refused with the table unchanged.\<close>

theorem webhook_stage_once:
  assumes "webhook_inv t" "e \<in> set t" "\<And>u. webhook_op\<^sup>*\<^sup>* u (other1 u)" "\<And>u. webhook_op\<^sup>*\<^sup>* u (other2 u)"
  shows "(\<forall>t'. completeWebhookEventStage other1 other2 (we_id e) tok s at t = (t', Inr ()) \<longrightarrow>
      (\<exists>e'\<in>set t'. webhook_kept e e' \<and> webhook_owned tok e' \<and>
        we_leaseExpiresAt e' = Some (leaseExpiresAt at) \<and> stage_at s e' \<noteq> None)) \<and>
    (\<not> webhook_owned tok e \<longrightarrow>
      completeWebhookEventStage (\<lambda>u. u) other2 (we_id e) tok s at t = (t, Inl claim_lost))"
  unfolding stage_recorded_def [symmetric]
proof (intro conjI allI impI)
  let ?t1 = "update_many (stage_open (we_id e) tok s) (stage_done s at) t"
  fix t' assume r: "completeWebhookEventStage other1 other2 (we_id e) tok s at t = (t', Inr ())"
  show "stage_recorded tok s at e t'"
  proof (cases "count_where (stage_open (we_id e) tok s) t = 1")
    case True
    then show ?thesis
      using r stage_first [OF assms(1,2) True, of at] by (auto simp: completeWebhookEventStage_def Let_def)
  next
    case False
    note r' = r [unfolded completeWebhookEventStage_def Let_def if_not_P [OF False]]
    obtain x where x: "List.find (\<lambda>e'. we_id e' = we_id e) (other1 ?t1) = Some x"
      using r' by (cases "List.find (\<lambda>e'. we_id e' = we_id e) (other1 ?t1)") auto
    have xs: "stage_at s x \<noteq> None"
      and rn: "renewWebhookEventClaim (we_id e) tok at (other2 (other1 ?t1)) = (t', Inr ())"
      using r' [unfolded x option.case] by (auto split: if_splits)
    have h1: "webhook_op\<^sup>*\<^sup>* t (other1 ?t1)"
      using webhook_op.stage assms(3) by (rule converse_rtranclp_into_rtranclp)
    show ?thesis
      by (rule stage_again [OF assms(1,2) h1 assms(4) _ _ xs rn]) (use find_SomeD [OF x] in auto)
  qed
qed (rule stage_refused [OF assms(1,2)])

theorem webhook_stage_once_witness:
  "\<exists>t' e'. completeWebhookEventStage (\<lambda>u. u) (\<lambda>u. u) ''w1'' ''lease-1'' intakeCompletedAt 2000
      [set_stage intakeCompletedAt 1500 sample_webhook_event] = (t', Inr ()) \<and> e' \<in> set t' \<and>
    stage_at intakeCompletedAt e' = Some 1500 \<and> we_leaseExpiresAt e' = Some 302000"
proof -
  let ?e = "set_stage intakeCompletedAt 1500 sample_webhook_event"
  have id: "we_id ?e = ''w1''" and own: "webhook_owned ''lease-1'' ?e" and st: "stage_at intakeCompletedAt ?e = Some 1500"
    using sample_webhook_owned by (simp_all add: webhook_owned_def)
  have inv: "webhook_inv [?e]"
    by (simp add: webhook_inv_def unique_on_def webhook_ok_def sample_webhook_event_def new_webhook_event_def)
  have run: "completeWebhookEventStage (\<lambda>u. u) (\<lambda>u. u) ''w1'' ''lease-1'' intakeCompletedAt 2000 [?e] =
      ([webhook_renewed 2000 ?e], Inr ())"
    using id own st
    by (simp add: completeWebhookEventStage_def renewWebhookEventClaim_def stage_open_def count_where_def Let_def
        del: set_stage.simps stage_at.simps)
  obtain e' where e': "e' \<in> set [webhook_renewed 2000 ?e]" "webhook_kept ?e e'" "we_leaseExpiresAt e' = Some (leaseExpiresAt 2000)"
    using webhook_stage_once [OF inv, where e = ?e and ?other1.0 = "\<lambda>u. u" and ?other2.0 = "\<lambda>u. u"
        and tok = "''lease-1''" and s = intakeCompletedAt and at = 2000] run unfolding id by auto
  have "stage_at intakeCompletedAt e' = Some 1500" using e'(2) st unfolding webhook_kept_def by blast
  moreover have "we_leaseExpiresAt e' = Some 302000" using e'(3) by (simp add: leaseExpiresAt_def WEBHOOK_EVENT_LEASE_MS_def)
  ultimately show ?thesis using run e'(1) by blast
qed

end
