(* ===== verification/Totp.thy ===== *)
theory Totp
  imports Js_Time Js_Text Database "HOL-Library.Word"
begin

text \<open>
  One-time passwords from an authenticator (\<open>apps/api/src/modules/auth/totp.ts\<close>): the base32
  encoding of secrets on the 32-bit integers of the bitwise operators, the counter and the
  truncation of HOTP, the acceptance window, the stored form of an encrypted secret and the recovery
  codes. HMAC-SHA1 and AES-256-GCM of \<open>node:crypto\<close> are arguments, and so are the random bytes.
\<close>

unbundle bit_operations_syntax

type_synonym byte = "8 word"
type_synonym int32 = "32 word"

section \<open>Base32\<close>

definition base32Alphabet :: string where
  "base32Alphabet = ''ABCDEFGHIJKLMNOPQRSTUVWXYZ234567''"

definition totpPeriodSeconds :: int where
  "totpPeriodSeconds = 30"

definition totpDigits :: nat where
  "totpDigits = 6"

definition symbol :: "int32 \<Rightarrow> char" where
  "symbol i = base32Alphabet ! unat i"

fun encode_flush :: "nat \<Rightarrow> int32 \<Rightarrow> string \<Rightarrow> nat \<times> string" where
  "encode_flush bits value out =
     (if bits \<ge> 5
      then encode_flush (bits - 5) value (out @ [symbol (drop_bit (bits - 5) value AND 31)])
      else (bits, out))"

declare encode_flush.simps [simp del]

fun encode_bytes :: "byte list \<Rightarrow> nat \<Rightarrow> int32 \<Rightarrow> string \<Rightarrow> nat \<times> int32 \<times> string" where
  "encode_bytes [] bits value out = (bits, value, out)"
| "encode_bytes (b # bs) bits value out =
     (let value' = push_bit 8 value OR ucast b;
          (bits', out') = encode_flush (bits + 8) value' out
      in encode_bytes bs bits' value' out')"

definition base32Encode :: "byte list \<Rightarrow> string" where
  "base32Encode buffer =
     (case encode_bytes buffer 0 0 [] of
        (bits, value, out) \<Rightarrow>
          if bits > 0 then out @ [symbol (push_bit (5 - bits) value AND 31)] else out)"

fun index_of :: "string \<Rightarrow> char \<Rightarrow> nat option" where
  "index_of [] c = None"
| "index_of (x # xs) c = (if x = c then Some 0 else map_option Suc (index_of xs c))"

fun decode_chars :: "string \<Rightarrow> nat \<Rightarrow> int32 \<Rightarrow> byte list \<Rightarrow> error + byte list" where
  "decode_chars [] bits current bytes = Inr bytes"
| "decode_chars (c # cs) bits current bytes =
     (case index_of base32Alphabet c of
        None \<Rightarrow> Inl (Error ''Invalid base32 secret.'')
      | Some index \<Rightarrow>
          (let current' = push_bit 5 current OR of_nat index; bits' = bits + 5
           in if bits' \<ge> 8
              then decode_chars cs (bits' - 8) current' (bytes @ [ucast (drop_bit (bits' - 8) current' AND 255)])
              else decode_chars cs bits' current' bytes))"

definition base32Decode :: "string \<Rightarrow> error + byte list" where
  "base32Decode value =
     decode_chars (filter (\<lambda>c. \<not> (js_space c \<or> c = CHR ''='')) (toUpperCase value)) 0 0 []"

section \<open>HOTP and TOTP\<close>

definition bytes_be32 :: "int \<Rightarrow> byte list" where
  "bytes_be32 n = map (\<lambda>k. word_of_int (n div 2 ^ k)) [24, 16, 8, 0]"

text \<open>\<open>writeUInt32BE\<close> rejects a value outside of 32 bits; the lower half is \<open>counter >>> 0\<close>.\<close>

definition counterBuffer :: "int \<Rightarrow> error + byte list" where
  "counterBuffer counter =
     (let hi = counter div 2 ^ 32 in
      if hi < 0 \<or> hi \<ge> 2 ^ 32 then Inl (OtherError ''RangeError'' ''ERR_OUT_OF_RANGE'')
      else Inr (bytes_be32 hi @ bytes_be32 (counter mod 2 ^ 32)))"

text \<open>An element that is not there reads as \<open>undefined\<close>, which the bitwise operators take as 0.\<close>

definition byte_at :: "byte list \<Rightarrow> nat \<Rightarrow> int32" where
  "byte_at bs i = (if i < length bs then ucast (bs ! i) else 0)"

text \<open>The sign bit of the truncated value is cleared, so the remainder is taken of a natural number.\<close>

definition truncated :: "byte list \<Rightarrow> nat" where
  "truncated digest =
     (let offset = unat (byte_at digest (length digest - 1) AND 0x0f)
      in unat (push_bit 24 (byte_at digest offset AND 0x7f) OR
               push_bit 16 (byte_at digest (offset + 1) AND 0xff) OR
               push_bit 8 (byte_at digest (offset + 2) AND 0xff) OR
               (byte_at digest (offset + 3) AND 0xff)) mod 10 ^ totpDigits)"

type_synonym hmac = "byte list \<Rightarrow> byte list \<Rightarrow> byte list"

definition hotp :: "hmac \<Rightarrow> string \<Rightarrow> int \<Rightarrow> error + string" where
  "hotp hmacSha1 secret counter =
     andThen (base32Decode secret) (\<lambda>key.
     andThen (counterBuffer counter) (\<lambda>buf.
       Inr (pad totpDigits (truncated (hmacSha1 key buf)))))"

definition normalizeCode :: "string \<Rightarrow> string" where
  "normalizeCode code = filter (\<lambda>c. \<not> (js_space c \<or> c = CHR ''-'')) code"

definition is_digit :: "char \<Rightarrow> bool" where
  "is_digit c = (c \<in> set ''0123456789'')"

fun any_drift :: "hmac \<Rightarrow> string \<Rightarrow> int \<Rightarrow> string \<Rightarrow> int list \<Rightarrow> error + bool" where
  "any_drift hmacSha1 secret counter normalized [] = Inr False"
| "any_drift hmacSha1 secret counter normalized (drift # ds) =
     andThen (hotp hmacSha1 secret (counter + drift)) (\<lambda>c.
       if c = normalized then Inr True else any_drift hmacSha1 secret counter normalized ds)"

definition verifyTotpCode :: "hmac \<Rightarrow> string \<Rightarrow> string \<Rightarrow> int \<Rightarrow> error + bool" where
  "verifyTotpCode hmacSha1 secret code now =
     (let normalized = normalizeCode code in
      if \<not> (length normalized = 6 \<and> list_all is_digit normalized) then Inr False
      else any_drift hmacSha1 secret (now div (1000 * totpPeriodSeconds)) normalized [-1, 0, 1])"

section \<open>Secrets at rest\<close>

definition generateTotpSecret :: "byte list \<Rightarrow> string" where
  "generateTotpSecret randomBytes20 = base32Encode randomBytes20"

text \<open>What the stored form takes from the host: sealing and opening under the configured key, and
  base64url.\<close>

record cipher_host =
  seal :: "byte list \<Rightarrow> string \<Rightarrow> byte list \<times> byte list"
  open_sealed :: "byte list \<Rightarrow> byte list \<Rightarrow> byte list \<Rightarrow> error + string"
  base64url :: "byte list \<Rightarrow> string"
  from_base64url :: "string \<Rightarrow> byte list"

definition encryptTotpSecret :: "cipher_host \<Rightarrow> byte list \<Rightarrow> string \<Rightarrow> string" where
  "encryptTotpSecret ch iv secret =
     (case seal ch iv secret of
        (tag, encrypted) \<Rightarrow> join '':'' [''v1'', base64url ch iv, base64url ch tag, base64url ch encrypted])"

definition decryptTotpSecret :: "cipher_host \<Rightarrow> string \<Rightarrow> error + string" where
  "decryptTotpSecret ch encryptedSecret =
     (case js_split (CHR '':'') encryptedSecret of
        version # iv # tag # encrypted # _ \<Rightarrow>
          if version \<noteq> ''v1'' \<or> iv = [] \<or> tag = [] \<or> encrypted = []
          then Inl (Error ''Unsupported TOTP secret format.'')
          else open_sealed ch (from_base64url ch iv) (from_base64url ch tag) (from_base64url ch encrypted)
      | _ \<Rightarrow> Inl (Error ''Unsupported TOTP secret format.''))"

definition hex_upper :: "byte list \<Rightarrow> string" where
  "hex_upper bs = concat (map (\<lambda>b. [''0123456789ABCDEF'' ! (unat b div 16), ''0123456789ABCDEF'' ! (unat b mod 16)]) bs)"

definition generateRecoveryCodes :: "(byte list \<times> byte list) list \<Rightarrow> string list" where
  "generateRecoveryCodes rnd = map (\<lambda>(left, right). ''LV-'' @ hex_upper left @ ''-'' @ hex_upper right) rnd"

end
