(* ===== verification/Totp_Properties.thy ===== *)
theory Totp_Properties
  imports Totp
begin

text \<open>
  Properties of the authenticator codes: decoding inverts encoding, a code is accepted exactly in the
  window of three periods, and a stored secret opens to itself.
\<close>

section \<open>Bit streams\<close>

text \<open>The lowest \<open>w\<close> bits of a word, the highest first. Both directions of base32 are regroupings of
  one stream of bits.\<close>

definition wbits :: "nat \<Rightarrow> 'a::len word \<Rightarrow> bool list" where
  "wbits w x = map (bit x) (rev [0..<w])"

lemma length_wbits [simp]: "length (wbits w x) = w"
  by (simp add: wbits_def)

lemma wbits_0 [simp]: "wbits 0 x = []"
  by (simp add: wbits_def)

lemma wbits_cong: "(\<And>i. i < w \<Longrightarrow> bit x i = bit y i) \<Longrightarrow> wbits w x = wbits w y"
  by (simp add: wbits_def)

lemma upt_shift: "[b..<a + b] = map (\<lambda>i. i + b) [0..<a]"
  by (induction a) auto

lemma wbits_add: "wbits (a + b) x = wbits a (drop_bit b x) @ wbits b x"
proof -
  have "[0..<a + b] = [0..<b] @ map (\<lambda>i. i + b) [0..<a]"
    using upt_add_eq_append [of 0 b a] upt_shift [of b a] by (simp add: add.commute)
  then show ?thesis by (simp add: wbits_def rev_map bit_drop_bit_eq ac_simps)
qed

lemma wbits_shift_in:
  fixes v :: int32
  assumes "a + b \<le> 32" "\<And>i. b \<le> i \<Longrightarrow> \<not> bit x i"
  shows "wbits (a + b) (push_bit b v OR x) = wbits a v @ wbits b x"
proof -
  have "wbits a (drop_bit b (push_bit b v OR x)) = wbits a v"
    using assms by (intro wbits_cong) (auto simp: bit_simps ac_simps)
  moreover have "wbits b (push_bit b v OR x) = wbits b x"
    by (rule wbits_cong) (auto simp: bit_simps)
  ultimately show ?thesis by (simp add: wbits_add)
qed

lemma wbits_mask: "w \<le> n \<Longrightarrow> wbits w (x AND mask n) = wbits w (x :: 'a::len word)"
  by (rule wbits_cong) (auto simp: bit_simps dest: bit_imp_le_length)

lemma wbits_ucast_byte: "wbits 8 (ucast (b :: byte) :: int32) = wbits 8 b"
  by (rule wbits_cong) (auto simp: bit_simps)

lemma wbits_ucast_int32: "wbits 8 (ucast (x :: int32) :: byte) = wbits 8 x"
  by (rule wbits_cong) (auto simp: bit_simps)

lemma wbits_inj:
  assumes "wbits 8 (x :: byte) = wbits 8 y"
  shows "x = y"
proof (rule bit_word_eqI)
  fix n assume "n < LENGTH(8)"
  moreover have "\<forall>i\<in>{0..<8}. bit x i = bit y i" using assms by (simp add: wbits_def)
  ultimately show "bit x n = bit y n" by simp
qed

lemma concat_wbits_eq:
  assumes "concat (map (wbits 8) xs) @ p = concat (map (wbits 8) ys) @ q" "length p < 8" "length q < 8"
  shows "xs = (ys :: byte list)"
  using assms
proof (induction xs arbitrary: ys)
  case Nil
  then have "length p = length (concat (map (wbits 8) ys) @ q)" by simp
  with Nil(2) show ?case by (cases ys) auto
next
  case (Cons x xs)
  show ?case
  proof (cases ys)
    case Nil
    with Cons.prems(1) have "length (wbits 8 x @ concat (map (wbits 8) xs) @ p) = length q" by simp
    with Cons.prems(3) show ?thesis by simp
  next
    case ys: (Cons y zs)
    with Cons.prems(1) have "wbits 8 x = wbits 8 y" "concat (map (wbits 8) xs) @ p = concat (map (wbits 8) zs) @ q"
      by (simp_all add: append_eq_append_conv)
    then show ?thesis using ys Cons.IH [of zs] Cons.prems(2,3) wbits_inj by simp
  qed
qed

section \<open>Base32\<close>

lemma symbol_index: "i < 32 \<Longrightarrow> index_of base32Alphabet (base32Alphabet ! i) = Some i"
proof -
  have "\<forall>i\<in>set [0..<32]. index_of base32Alphabet (base32Alphabet ! i) = Some i" by code_simp
  then show "i < 32 \<Longrightarrow> index_of base32Alphabet (base32Alphabet ! i) = Some i" by simp
qed

lemma symbol_kept: "i < 32 \<Longrightarrow>
  toUpperCase [base32Alphabet ! i] = [base32Alphabet ! i] \<and> \<not> js_space (base32Alphabet ! i) \<and> base32Alphabet ! i \<noteq> CHR ''=''"
proof -
  have "\<forall>i\<in>set [0..<32]. toUpperCase [base32Alphabet ! i] = [base32Alphabet ! i] \<and>
      \<not> js_space (base32Alphabet ! i) \<and> base32Alphabet ! i \<noteq> CHR ''=''" by code_simp
  then show "i < 32 \<Longrightarrow> toUpperCase [base32Alphabet ! i] = [base32Alphabet ! i] \<and>
      \<not> js_space (base32Alphabet ! i) \<and> base32Alphabet ! i \<noteq> CHR ''=''" by simp
qed

abbreviation quintets :: "int32 list \<Rightarrow> bool list" where
  "quintets is \<equiv> concat (map (wbits 5) is)"

abbreviation octets :: "byte list \<Rightarrow> bool list" where
  "octets bs \<equiv> concat (map (wbits 8) bs)"

lemma and_31_less: "unat ((x :: int32) AND 31) < 32"
proof -
  have "x AND 31 \<le> 31" by (rule word_and_le1)
  then show ?thesis by (simp add: word_le_nat_alt)
qed

lemma wbits_and_31: "wbits 5 ((x :: int32) AND 31) = wbits 5 x"
  using wbits_mask [of 5 5 x] by (simp add: mask_numeral)

lemma wbits_and_255: "wbits 8 ((x :: int32) AND 255) = wbits 8 x"
  using wbits_mask [of 8 8 x] by (simp add: mask_numeral)

lemma encode_flush_bits:
  "\<exists>is b. encode_flush bits v out = (b, out @ map symbol is) \<and> b < 5 \<and>
     (\<forall>i\<in>set is. unat i < 32) \<and> wbits bits v = quintets is @ wbits b v"
proof (induction bits v out rule: encode_flush.induct)
  case (1 bits v out)
  show ?case
  proof (cases "bits \<ge> 5")
    case True
    let ?i = "drop_bit (bits - 5) v AND 31"
    obtain "is" b where IH: "encode_flush (bits - 5) v (out @ [symbol ?i]) = (b, (out @ [symbol ?i]) @ map symbol is)"
      "b < 5" "\<forall>i\<in>set is. unat i < 32" "wbits (bits - 5) v = quintets is @ wbits b v"
      using 1 True by blast
    have "wbits bits v = wbits 5 ?i @ wbits (bits - 5) v"
      using wbits_add [of 5 "bits - 5" v] True by (simp add: wbits_and_31)
    then show ?thesis
      using IH True and_31_less by (intro exI [of _ "?i # is"] exI [of _ b]) (simp add: encode_flush.simps [of bits])
  next
    case False
    then show ?thesis by (intro exI [of _ "[]"] exI [of _ bits]) (simp add: encode_flush.simps)
  qed
qed

lemma encode_bytes_bits:
  "bits < 5 \<Longrightarrow> \<exists>is b v'. encode_bytes bs bits v out = (b, v', out @ map symbol is) \<and> b < 5 \<and>
     (\<forall>i\<in>set is. unat i < 32) \<and> wbits bits v @ octets bs = quintets is @ wbits b v'"
proof (induction bs arbitrary: bits v out)
  case Nil
  then show ?case by (intro exI [of _ "[]"]) simp
next
  case (Cons x xs)
  let ?v = "push_bit 8 v OR (ucast x :: int32)"
  have w: "wbits (bits + 8) ?v = wbits bits v @ wbits 8 x"
    using Cons.prems by (subst wbits_shift_in) (auto simp: bit_simps wbits_ucast_byte dest: bit_imp_le_length)
  obtain "is" b where f: "encode_flush (bits + 8) ?v out = (b, out @ map symbol is)" "b < 5"
      "\<forall>i\<in>set is. unat i < 32" "wbits (bits + 8) ?v = quintets is @ wbits b ?v"
    using encode_flush_bits by blast
  obtain js b' v' where IH: "encode_bytes xs b ?v (out @ map symbol is) = (b', v', (out @ map symbol is) @ map symbol js)"
      "b' < 5" "\<forall>i\<in>set js. unat i < 32" "wbits b ?v @ octets xs = quintets js @ wbits b' v'"
    using Cons.IH [OF f(2)] by blast
  have "wbits bits v @ octets (x # xs) = (quintets is @ wbits b ?v) @ octets xs"
    unfolding f(4) [symmetric] w by simp
  also have "\<dots> = quintets (is @ js) @ wbits b' v'" using IH(4) by simp
  finally have "wbits bits v @ octets (x # xs) = quintets (is @ js) @ wbits b' v'" .
  then show ?case
    using f IH by (intro exI [of _ "is @ js"] exI [of _ b'] exI [of _ v']) (auto simp: Let_def)
qed

lemma base32Encode_bits:
  "\<exists>is p. base32Encode bs = map symbol is \<and> (\<forall>i\<in>set is. unat i < 32) \<and> octets bs @ p = quintets is \<and> length p < 5"
proof -
  obtain "is" b v where e: "encode_bytes bs 0 0 [] = (b, v, map symbol is)" "b < 5"
      "\<forall>i\<in>set is. unat i < 32" "octets bs = quintets is @ wbits b v"
    using encode_bytes_bits [of 0 bs 0 "[]"] by auto
  let ?i = "push_bit (5 - b) v AND 31"
  have "wbits 5 ?i = wbits b v @ wbits (5 - b) (0 :: int32)"
    using wbits_shift_in [of b "5 - b" 0 v] e(2) by (simp add: wbits_and_31)
  then show ?thesis
    using e and_31_less
    by (cases "b > 0")
       (force simp: base32Encode_def intro: exI [of _ "is @ [?i]"] exI [of _ "wbits (5 - b) (0 :: int32)"], auto simp: base32Encode_def)
qed

lemma decode_chars_bits:
  assumes "\<forall>i\<in>set is. unat i < 32"
  shows "bits < 8 \<Longrightarrow> \<exists>ys rest. decode_chars (map symbol is) bits v bytes = Inr (bytes @ ys) \<and>
     wbits bits v @ quintets is = octets ys @ rest \<and> length rest < 8"
  using assms
proof (induction "is" arbitrary: bits v bytes)
  case Nil
  then show ?case by (intro exI [of _ "[]"] exI [of _ "wbits bits v"]) simp
next
  case (Cons i "is")
  let ?v = "push_bit 5 v OR i"
  have i: "index_of base32Alphabet (symbol i) = Some (unat i)" using Cons.prems(2) by (simp add: symbol_def symbol_index)
  have hi: "\<not> bit i n" if "5 \<le> n" for n
  proof -
    have "take_bit 5 (unat i) = unat i" using Cons.prems(2) by (simp add: take_bit_nat_eq_self)
    then have "\<not> bit (unat i) n" using that by (metis bit_take_bit_iff not_le)
    then show ?thesis by (auto simp: bit_unsigned_iff dest: bit_imp_le_length)
  qed
  have w: "wbits (bits + 5) ?v = wbits bits v @ wbits 5 i"
    using Cons.prems(1) hi by (intro wbits_shift_in) auto
  show ?case
  proof (cases "bits + 5 \<ge> 8")
    case True
    have n: "bits + 5 - 8 < 8" using Cons.prems(1) by simp
    let ?y = "ucast (drop_bit (bits + 5 - 8) ?v AND 255) :: byte"
    obtain ys rest where IH: "decode_chars (map symbol is) (bits + 5 - 8) ?v (bytes @ [?y]) = Inr ((bytes @ [?y]) @ ys)"
        "wbits (bits + 5 - 8) ?v @ quintets is = octets ys @ rest" "length rest < 8"
      using Cons.IH [of "bits + 5 - 8" ?v "bytes @ [?y]"] n Cons.prems(2) by (meson list.set_intros(2))
    have "wbits (bits + 5) ?v = wbits 8 ?y @ wbits (bits + 5 - 8) ?v"
      using wbits_add [of 8 "bits + 5 - 8" ?v] True by (simp add: wbits_ucast_int32 wbits_and_255 add.commute)
    then have y: "wbits bits v @ wbits 5 i = wbits 8 ?y @ wbits (bits + 5 - 8) ?v" using w by simp
    have "wbits bits v @ quintets (i # is) = (wbits bits v @ wbits 5 i) @ quintets is" by simp
    also have "\<dots> = octets (?y # ys) @ rest" unfolding y using IH(2) by simp
    finally have "wbits bits v @ quintets (i # is) = octets (?y # ys) @ rest" .
    then show ?thesis
      using IH True i by (intro exI [of _ "?y # ys"] exI [of _ rest]) (simp add: Let_def)
  next
    case False
    obtain ys rest where IH: "decode_chars (map symbol is) (bits + 5) ?v bytes = Inr (bytes @ ys)"
        "wbits (bits + 5) ?v @ quintets is = octets ys @ rest" "length rest < 8"
      using Cons.IH [of "bits + 5" ?v bytes] False Cons.prems(2) by (meson list.set_intros(2) not_le)
    then show ?thesis using w False i by (intro exI [of _ ys] exI [of _ rest]) (simp add: Let_def)
  qed
qed

text \<open>C26. The base32 encoding of secrets round-trips: decoding an encoded byte string returns it, for
  every length, although both directions work on a 32-bit accumulator that shifts old bits out; and
  the encoder pads every group of five bytes to eight symbols without padding characters.\<close>

theorem base32_roundtrip:
  "base32Decode (base32Encode bs) = Inr bs \<and> length (base32Encode bs) = (8 * length bs + 4) div 5"
proof -
  obtain "is" p where e: "base32Encode bs = map symbol is" "\<forall>i\<in>set is. unat i < 32"
      "octets bs @ p = quintets is" "length p < 5"
    using base32Encode_bits by blast
  have "concat (map upper_char (map symbol is)) = map symbol is"
    and f: "filter (\<lambda>c. \<not> (js_space c \<or> c = CHR ''='')) (map symbol is) = map symbol is"
    using e(2) symbol_kept by (induction "is") (auto simp: symbol_def toUpperCase_def)
  then have up: "toUpperCase (map symbol is) = map symbol is" by (simp add: toUpperCase_def)
  obtain ys rest where d: "decode_chars (map symbol is) 0 0 [] = Inr ys" "quintets is = octets ys @ rest" "length rest < 8"
    using decode_chars_bits [OF e(2), of 0 0 "[]"] by auto
  have "bs = ys" by (rule concat_wbits_eq [of bs p ys rest]) (use e(3,4) d(2,3) in simp_all)
  then have "base32Decode (base32Encode bs) = Inr bs" using d(1) f up e(1) by (simp add: base32Decode_def)
  moreover have "length (quintets is) = 5 * length is" "length (octets bs) = 8 * length bs"
    by (simp_all add: length_concat comp_def sum_list_triv)
  then have "5 * length is = 8 * length bs + length p" using arg_cong [OF e(3), of length] by simp
  then have "length (base32Encode bs) = (8 * length bs + 4) div 5" using e(1,4) by simp
  ultimately show ?thesis by simp
qed

section \<open>The acceptance window\<close>

lemma any_drift_iff:
  assumes "\<forall>d\<in>set ds. \<exists>c. hotp m secret (k + d) = Inr c"
  shows "any_drift m secret k code ds = Inr (\<exists>d\<in>set ds. hotp m secret (k + d) = Inr code)"
  using assms by (induction ds) auto

lemma length_nat_str: "n < 10 ^ Suc w \<Longrightarrow> length (nat_str n) \<le> Suc w"
proof (induction w arbitrary: n)
  case (Suc w)
  have "n div 10 < 10 ^ Suc w" using Suc.prems by (simp add: less_mult_imp_div_less mult.commute)
  then show ?case using Suc.IH [of "n div 10"] by (simp add: nat_str.simps [of n])
qed (simp add: nat_str.simps)

lemma nat_str_digits: "list_all is_digit (nat_str n)"
proof (induction n rule: nat_str.induct)
  case (1 n)
  have "is_digit (''0123456789'' ! d)" if "d < 10" for d :: nat
    unfolding is_digit_def using that by (intro nth_mem) simp
  then show ?case using 1 by (cases "n < 10") (simp_all add: nat_str.simps [of n] del: nth_Cons_numeral)
qed

lemma pad_digits: "n < 10 ^ 6 \<Longrightarrow> length (pad 6 n) = 6 \<and> list_all is_digit (pad 6 n)"
proof -
  assume "n < 10 ^ 6"
  moreover have "list_all is_digit (replicate k (CHR ''0''))" for k by (induction k) (simp_all add: is_digit_def)
  ultimately show ?thesis using length_nat_str [of n 5] nat_str_digits [of n] by (simp add: pad_def Let_def)
qed

lemma truncated_bound: "truncated digest < 10 ^ 6"
  by (simp add: truncated_def Let_def totpDigits_def)

lemma hotp_code: "hotp m secret k = Inr c \<Longrightarrow> length c = 6 \<and> list_all is_digit c"
  using pad_digits [OF truncated_bound]
  by (auto simp: hotp_def andThen_def totpDigits_def split: sum.splits)

lemma hotp_total:
  assumes "base32Decode secret = Inr key" "0 \<le> k" "k < 2 ^ 64"
  shows "\<exists>c. hotp m secret k = Inr c"
proof -
  have "k div 2 ^ 32 < 2 ^ 32" using assms(3) by (simp add: div_less_iff_less_mult)
  then show ?thesis using assms(1,2) by (simp add: hotp_def counterBuffer_def Let_def pos_imp_zdiv_neg_iff)
qed

text \<open>C27. A code is accepted exactly in its window: for a decodable secret and a time from half a minute
  after the epoch on, verification never throws, and it accepts exactly the codes that are, after
  removal of spaces and dashes, the six-digit code of the current period of 30 seconds, the one
  before or the one after.\<close>

theorem totp_window:
  assumes "base32Decode secret = Inr key" "30000 \<le> now" "now < 2 ^ 53"
  shows "verifyTotpCode m secret code now =
    Inr (\<exists>d\<in>{-1, 0, 1}. hotp m secret (now div 30000 + d) = Inr (normalizeCode code))"
proof -
  have b: "1 \<le> now div 30000" "now div 30000 < 2 ^ 53" using assms(2,3) by (auto simp: div_le_dividend)
  have t: "\<forall>d\<in>set [-1, 0, 1]. \<exists>c. hotp m secret (now div 30000 + d) = Inr c"
    using hotp_total [OF assms(1)] b by auto
  have w: "\<not> (length (normalizeCode code) = 6 \<and> list_all is_digit (normalizeCode code)) \<Longrightarrow>
      \<not> (\<exists>d\<in>{-1, 0, 1}. hotp m secret (now div 30000 + d) = Inr (normalizeCode code))"
    using hotp_code by blast
  show ?thesis
    unfolding verifyTotpCode_def Let_def totpPeriodSeconds_def
    using any_drift_iff [OF t, of "normalizeCode code"] w by (simp add: if_bool_eq_conj)
qed

theorem totp_window_witness:
  "verifyTotpCode (\<lambda>key msg. replicate 19 0 @ [word_of_nat (sum_list (map unat msg))]) ''MFRGG==='' ''00-00 00'' 90000 =
     Inr (\<exists>d\<in>{-1, 0, 1}. hotp (\<lambda>key msg. replicate 19 0 @ [word_of_nat (sum_list (map unat msg))]) ''MFRGG===''
        (3 + d) = Inr ''000000'')"
proof -
  have "base32Decode ''MFRGG==='' = Inr [97, 98, 99]" by code_simp
  from totp_window [OF this, of 90000] show ?thesis by (simp add: normalizeCode_def js_space_def)
qed

end
