(* ===== verification/Auth_Rate_Limit.thy ===== *)
theory Auth_Rate_Limit
  imports Js_Text
begin

text \<open>
  The rate limiter of the authentication routes
  (\<open>apps/api/src/modules/auth/auth-rate-limit.service.ts\<close>): one fixed window per key, with expired
  buckets removed at most once a minute. Its properties: the removal of buckets is never visible, and
  no span shorter than the window lets through more than twice the limit.
\<close>

section \<open>The service\<close>

record bucket =
  bk_count :: int
  bk_resetAt :: int

record rate_options =
  ro_key :: string
  ro_limit :: int
  ro_windowMs :: int
  ro_message :: string

record rate_state =
  rs_buckets :: "string \<rightharpoonup> bucket"
  rs_lastPruneAt :: int

text \<open>\<open>new AuthRateLimitService()\<close>.\<close>

definition initial_rate_state :: rate_state where
  "initial_rate_state = \<lparr>rs_buckets = Map.empty, rs_lastPruneAt = 0\<rparr>"

text \<open>The exception: the message and \<open>retryAfterSeconds\<close>.\<close>

datatype too_many_requests = Too_many_requests string int

definition prune :: "int \<Rightarrow> rate_state \<Rightarrow> rate_state" where
  "prune now s =
     (if now - rs_lastPruneAt s < 60000 then s
      else \<lparr>rs_buckets = (\<lambda>k. case rs_buckets s k of
               Some b \<Rightarrow> if bk_resetAt b \<le> now then None else Some b
             | None \<Rightarrow> None),
            rs_lastPruneAt = now\<rparr>)"

definition current_bucket :: "rate_options \<Rightarrow> int \<Rightarrow> rate_state \<Rightarrow> bucket" where
  "current_bucket opts now s =
     (case rs_buckets s (ro_key opts) of
        Some existing \<Rightarrow> if bk_resetAt existing > now then existing
                         else \<lparr>bk_count = 0, bk_resetAt = now + ro_windowMs opts\<rparr>
      | None \<Rightarrow> \<lparr>bk_count = 0, bk_resetAt = now + ro_windowMs opts\<rparr>)"

definition rate_assert ::
    "bool \<Rightarrow> rate_options \<Rightarrow> int \<Rightarrow> rate_state \<Rightarrow> rate_state \<times> (too_many_requests + unit)" where
  "rate_assert disabled opts now s0 =
     (if disabled then (s0, Inr ())
      else
        let s = prune now s0;
            old = current_bucket opts now s;
            bucket = old\<lparr>bk_count := bk_count old + 1\<rparr>
        in (s\<lparr>rs_buckets := (rs_buckets s)(ro_key opts \<mapsto> bucket)\<rparr>,
            if bk_count bucket > ro_limit opts
            then Inl (Too_many_requests (ro_message opts) (max 1 (ceil_seconds (bk_resetAt bucket - now))))
            else Inr ()))"

text \<open>A sequence of calls, each with its reading of the clock; the outcomes in order.\<close>

fun rate_run :: "(rate_options \<times> int) list \<Rightarrow> rate_state \<Rightarrow> (too_many_requests + unit) list" where
  "rate_run [] s = []"
| "rate_run ((opts, now) # calls) s =
     (case rate_assert False opts now s of (s', r) \<Rightarrow> r # rate_run calls s')"

section \<open>Pruning is invisible\<close>

text \<open>The reference limiter never removes a bucket: its state is the last bucket of every key.\<close>

definition ref_assert ::
    "rate_options \<Rightarrow> int \<Rightarrow> (string \<rightharpoonup> bucket) \<Rightarrow> (string \<rightharpoonup> bucket) \<times> (too_many_requests + unit)" where
  "ref_assert opts now m =
     (let old = current_bucket opts now \<lparr>rs_buckets = m, rs_lastPruneAt = 0\<rparr>;
          bucket = old\<lparr>bk_count := bk_count old + 1\<rparr>
      in (m(ro_key opts \<mapsto> bucket),
          if bk_count bucket > ro_limit opts
          then Inl (Too_many_requests (ro_message opts) (max 1 (ceil_seconds (bk_resetAt bucket - now))))
          else Inr ()))"

fun ref_run :: "(rate_options \<times> int) list \<Rightarrow> (string \<rightharpoonup> bucket) \<Rightarrow> (too_many_requests + unit) list" where
  "ref_run [] m = []"
| "ref_run ((opts, now) # calls) m = (case ref_assert opts now m of (m', r) \<Rightarrow> r # ref_run calls m')"

text \<open>The buckets that are still open at a time.\<close>

definition live_bucket :: "int \<Rightarrow> (string \<rightharpoonup> bucket) \<Rightarrow> string \<Rightarrow> bucket option" where
  "live_bucket now m k = (case m k of Some b \<Rightarrow> if bk_resetAt b > now then Some b else None | None \<Rightarrow> None)"

lemma current_bucket_live:
  "current_bucket opts now s =
     (case live_bucket now (rs_buckets s) (ro_key opts) of
        Some b \<Rightarrow> b | None \<Rightarrow> \<lparr>bk_count = 0, bk_resetAt = now + ro_windowMs opts\<rparr>)"
  by (simp add: current_bucket_def live_bucket_def split: option.splits)

lemma live_prune [simp]: "live_bucket now (rs_buckets (prune now s)) = live_bucket now (rs_buckets s)"
  by (rule ext) (simp add: prune_def live_bucket_def split: option.splits)

lemma live_bucket_later:
  "now \<le> now' \<Longrightarrow> live_bucket now' m k =
     (case live_bucket now m k of Some b \<Rightarrow> if bk_resetAt b > now' then Some b else None | None \<Rightarrow> None)"
  by (cases "m k") (auto simp: live_bucket_def)

lemma live_later: "live_bucket now m = live_bucket now m' \<Longrightarrow> now \<le> now' \<Longrightarrow> live_bucket now' m = live_bucket now' m'"
  by (rule ext) (simp add: live_bucket_later)

lemma live_upd:
  "live_bucket now m = live_bucket now m' \<Longrightarrow> live_bucket now (m(k \<mapsto> b)) = live_bucket now (m'(k \<mapsto> b))"
  by (rule ext) (auto simp: live_bucket_def fun_eq_iff split: option.splits if_splits)

lemma buckets_update: "rs_buckets (s\<lparr>rs_buckets := m\<rparr>) = m"
  by simp

lemma assert_ref:
  assumes "live_bucket now (rs_buckets s) = live_bucket now m"
    and "rate_assert False opts now s = (s', r)" "ref_assert opts now m = (m', r')"
  shows "r = r' \<and> live_bucket now (rs_buckets s') = live_bucket now m'"
proof -
  have c: "current_bucket opts now (prune now s) = current_bucket opts now \<lparr>rs_buckets = m, rs_lastPruneAt = 0\<rparr>"
    using assms(1) by (simp add: current_bucket_live)
  have l: "live_bucket now (rs_buckets (prune now s)) = live_bucket now m" using assms(1) by (simp only: live_prune)
  let ?b = "current_bucket opts now \<lparr>rs_buckets = m, rs_lastPruneAt = 0\<rparr>"
  let ?n = "?b\<lparr>bk_count := bk_count ?b + 1\<rparr>"
  let ?r = "if bk_count ?n > ro_limit opts
            then Inl (Too_many_requests (ro_message opts) (max 1 (ceil_seconds (bk_resetAt ?n - now)))) else Inr ()"
  have "rate_assert False opts now s =
      ((prune now s)\<lparr>rs_buckets := (rs_buckets (prune now s))(ro_key opts \<mapsto> ?n)\<rparr>, ?r)"
    by (simp only: rate_assert_def Let_def c if_False)
  then have s': "s' = (prune now s)\<lparr>rs_buckets := (rs_buckets (prune now s))(ro_key opts \<mapsto> ?n)\<rparr>" and r: "r = ?r"
    unfolding assms(2) prod.inject by blast+
  have "ref_assert opts now m = (m(ro_key opts \<mapsto> ?n), ?r)" by (simp only: ref_assert_def Let_def)
  then have m': "m' = m(ro_key opts \<mapsto> ?n)" and r': "r' = ?r" unfolding assms(3) prod.inject by blast+
  have "live_bucket now (rs_buckets s') = live_bucket now m'"
    unfolding s' m' buckets_update by (rule live_upd [OF l])
  then show ?thesis unfolding r r' by (intro conjI refl)
qed

lemma rate_run_ref:
  "sorted (map snd calls) \<Longrightarrow> \<forall>c\<in>set calls. t \<le> snd c \<Longrightarrow> live_bucket t (rs_buckets s) = live_bucket t m \<Longrightarrow>
   rate_run calls s = ref_run calls m"
proof (induction calls arbitrary: t s m)
  case (Cons c calls)
  obtain opts now where c: "c = (opts, now)" by force
  obtain s' r where r: "rate_assert False opts now s = (s', r)" by force
  obtain m' r' where r': "ref_assert opts now m = (m', r')" by force
  have "t \<le> now" using Cons.prems(2) c by simp
  then have "live_bucket now (rs_buckets s) = live_bucket now m" by (rule live_later [OF Cons.prems(3)])
  note a = assert_ref [OF this r r']
  have "rate_run calls s' = ref_run calls m'"
    by (rule Cons.IH [OF _ _ conjunct2 [OF a]]) (use Cons.prems(1) c in auto)
  moreover have "r = r'" using a by simp
  ultimately show ?case unfolding c by (simp add: r r')
qed simp

lemma rate_limit_ref:
  assumes "sorted (map snd calls)"
  shows "rate_run calls initial_rate_state = ref_run calls Map.empty"
proof -
  have "\<forall>c\<in>set calls. (if calls = [] then 0 else snd (hd calls)) \<le> snd c"
    using assms by (cases calls) auto
  then show ?thesis
    by (rule rate_run_ref [OF assms]) (simp add: initial_rate_state_def)
qed

text \<open>C24. Removing expired buckets is invisible: while the clock does not run backwards, the limiter
  answers every sequence of calls, over any keys, limits and windows, exactly like the limiter that
  never forgets a bucket.\<close>

theorem rate_limit_equiv:
  "sorted (map snd calls) \<Longrightarrow> rate_run calls initial_rate_state = ref_run calls Map.empty"
  by (rule rate_limit_ref)

theorem rate_limit_equiv_witness:
  "rate_run [(\<lparr>ro_key = ''ip'', ro_limit = 1, ro_windowMs = 1000, ro_message = ''m''\<rparr>, 60000),
             (\<lparr>ro_key = ''ip'', ro_limit = 1, ro_windowMs = 1000, ro_message = ''m''\<rparr>, 60500)] initial_rate_state =
   ref_run [(\<lparr>ro_key = ''ip'', ro_limit = 1, ro_windowMs = 1000, ro_message = ''m''\<rparr>, 60000),
            (\<lparr>ro_key = ''ip'', ro_limit = 1, ro_windowMs = 1000, ro_message = ''m''\<rparr>, 60500)] Map.empty"
  by (rule rate_limit_equiv) simp

section \<open>How much passes\<close>

definition in_span :: "string \<Rightarrow> int \<Rightarrow> int \<Rightarrow> rate_options \<times> int \<Rightarrow> bool" where
  "in_span k t0 w c = (ro_key (fst c) = k \<and> t0 \<le> snd c \<and> snd c < t0 + w)"

text \<open>The calls of a key that pass in the span of \<open>w\<close> milliseconds from \<open>t0\<close>.\<close>

definition passed ::
    "string \<Rightarrow> int \<Rightarrow> int \<Rightarrow> (rate_options \<times> int) list \<Rightarrow> (too_many_requests + unit) list \<Rightarrow> nat" where
  "passed k t0 w calls outcomes = length (filter (\<lambda>(c, r). in_span k t0 w c \<and> r = Inr ()) (zip calls outcomes))"

lemma passed_Nil [simp]: "passed k t0 w [] rs = 0"
  by (simp add: passed_def)

lemma passed_Cons [simp]:
  "passed k t0 w (c # cs) (r # rs) = (if in_span k t0 w c \<and> r = Inr () then 1 else 0) + passed k t0 w cs rs"
  by (simp add: passed_def)

lemma passed_after:
  "\<forall>c\<in>set calls. t0 + w \<le> snd c \<Longrightarrow> passed k t0 w calls rs = 0"
proof (induction calls arbitrary: rs)
  case (Cons c cs)
  then have IH: "passed k t0 w cs rs' = 0" for rs' by simp
  show ?case
  proof (cases rs)
    case Nil
    then show ?thesis by (simp add: passed_def)
  next
    case (Cons r rs')
    then show ?thesis using IH \<open>\<forall>c\<in>set (c # cs). t0 + w \<le> snd c\<close> by (simp add: in_span_def)
  qed
qed simp

definition same_options :: "string \<Rightarrow> int \<Rightarrow> int \<Rightarrow> (rate_options \<times> int) list \<Rightarrow> bool" where
  "same_options k l w calls = (\<forall>c\<in>set calls. ro_key (fst c) = k \<longrightarrow> ro_limit (fst c) = l \<and> ro_windowMs (fst c) = w)"

definition counted :: "string \<Rightarrow> (string \<rightharpoonup> bucket) \<Rightarrow> int" where
  "counted k m = (case m k of Some b \<Rightarrow> bk_count b | None \<Rightarrow> 0)"

text \<open>One call of the reference limiter: another key leaves the bucket, a call in an open bucket counts,
  and a call without one opens a bucket of full length.\<close>

lemma ref_assert_cases:
  assumes "ref_assert opts now m = (m', r)"
  obtains (other) "ro_key opts \<noteq> k" "m' k = m k"
  | (counts) b where "ro_key opts = k" "m k = Some b" "now < bk_resetAt b"
      "m' k = Some (b\<lparr>bk_count := bk_count b + 1\<rparr>)" "r = Inr () \<longleftrightarrow> bk_count b + 1 \<le> ro_limit opts"
  | (opens) "ro_key opts = k" "\<forall>b. m k = Some b \<longrightarrow> bk_resetAt b \<le> now" "m' k = Some \<lparr>bk_count = 1, bk_resetAt = now + ro_windowMs opts\<rparr>"
      "r = Inr () \<longleftrightarrow> 1 \<le> ro_limit opts"
proof (cases "ro_key opts = k")
  case False
  then show thesis using assms by (intro other) (auto simp: ref_assert_def Let_def)
next
  case True
  show thesis
  proof (cases "\<exists>b. m k = Some b \<and> now < bk_resetAt b")
    case live: True
    then obtain b where b: "m k = Some b" "now < bk_resetAt b" by blast
    then have "current_bucket opts now \<lparr>rs_buckets = m, rs_lastPruneAt = 0\<rparr> = b" using True by (simp add: current_bucket_def)
    then show thesis
      using assms True b by (intro counts [of b]) (auto simp: ref_assert_def Let_def split: if_splits)
  next
    case False
    then have "current_bucket opts now \<lparr>rs_buckets = m, rs_lastPruneAt = 0\<rparr> = \<lparr>bk_count = 0, bk_resetAt = now + ro_windowMs opts\<rparr>"
      using True by (auto simp: current_bucket_def split: option.splits)
    then show thesis
      using assms True False by (intro opens) (auto simp: ref_assert_def Let_def not_less split: if_splits)
  qed
qed

text \<open>A bucket that lasts beyond the span lets through what is left of its count.\<close>

lemma passed_in_bucket:
  assumes "sorted (map snd calls)" "same_options k l w calls" "m k = Some b" "t0 + w \<le> bk_resetAt b"
  shows "passed k t0 w calls (ref_run calls m) \<le> nat (l - bk_count b)"
  using assms
proof (induction calls arbitrary: m b)
  case (Cons c calls)
  obtain opts now where c: "c = (opts, now)" by force
  obtain m' r where r: "ref_assert opts now m = (m', r)" by force
  have so: "sorted (map snd calls)" "same_options k l w calls" "ro_key opts = k \<Longrightarrow> ro_limit opts = l \<and> ro_windowMs opts = w"
    using Cons.prems(1,2) c by (auto simp: same_options_def)
  from r show ?case
  proof (cases rule: ref_assert_cases [where k = k])
    case other
    then show ?thesis using Cons.IH [OF so(1,2), of m' b] Cons.prems c r by (simp add: in_span_def)
  next
    case (counts b')
    then show ?thesis
      using Cons.IH [of m' "b'\<lparr>bk_count := bk_count b' + 1\<rparr>"] counts(4) so(1,2) Cons.prems so(3) c r by (auto simp: in_span_def)
  next
    case opens
    then have "t0 + w \<le> now" using Cons.prems(3,4) by force
    then have "passed k t0 w (c # calls) (ref_run (c # calls) m) = 0"
      using Cons.prems(1) c by (intro passed_after) auto
    then show ?thesis by simp
  qed
qed simp

text \<open>In the span, a bucket that was open before lets through what is left of it, and one bucket more
  can be opened.\<close>

lemma passed_in_span:
  assumes "sorted (map snd calls)" "same_options k l w calls" "\<forall>c\<in>set calls. t0 \<le> snd c" "0 \<le> counted k m" "0 \<le> l"
  shows "passed k t0 w calls (ref_run calls m) \<le> nat l + nat (l - counted k m)"
  using assms
proof (induction calls arbitrary: m)
  case (Cons c calls)
  obtain opts now where c: "c = (opts, now)" by force
  obtain m' r where r: "ref_assert opts now m = (m', r)" by force
  have so: "sorted (map snd calls)" "same_options k l w calls" "\<forall>c\<in>set calls. t0 \<le> snd c"
    "ro_key opts = k \<Longrightarrow> ro_limit opts = l \<and> ro_windowMs opts = w"
    using Cons.prems(1-3) c by (auto simp: same_options_def)
  note IH = Cons.IH [OF so(1-3)]
  from r show ?case
  proof (cases rule: ref_assert_cases [where k = k])
    case other
    then show ?thesis using IH [of m'] Cons.prems(4,5) c r by (simp add: in_span_def counted_def)
  next
    case (counts b)
    then show ?thesis using IH [of m'] Cons.prems(4,5) so(4) c r by (auto simp: in_span_def counted_def)
  next
    case opens
    have "passed k t0 w calls (ref_run calls m') \<le> nat (l - 1)"
      using passed_in_bucket [of calls k l w m' "\<lparr>bk_count = 1, bk_resetAt = now + ro_windowMs opts\<rparr>" t0]
        so opens(1,3) Cons.prems(3) c by simp
    then show ?thesis using opens so(4) Cons.prems(5) c r by (auto simp: in_span_def)
  qed
qed simp

lemma counted_assert:
  "ref_assert opts now m = (m', r) \<Longrightarrow> 0 \<le> counted k m \<Longrightarrow> 0 \<le> counted k m'"
  by (erule ref_assert_cases [where k = k]) (auto simp: counted_def)

lemma passed_twice:
  assumes "sorted (map snd calls)" "same_options k l w calls" "0 \<le> counted k m" "0 \<le> l"
  shows "passed k t0 w calls (ref_run calls m) \<le> 2 * nat l"
  using assms
proof (induction calls arbitrary: m)
  case (Cons c calls)
  obtain opts now where c: "c = (opts, now)" by force
  show ?case
  proof (cases "t0 \<le> now")
    case True
    then have "passed k t0 w (c # calls) (ref_run (c # calls) m) \<le> nat l + nat (l - counted k m)"
      using Cons.prems c by (intro passed_in_span) auto
    then show ?thesis using Cons.prems(3,4) by linarith
  next
    case False
    obtain m' r where r: "ref_assert opts now m = (m', r)" by force
    have "passed k t0 w calls (ref_run calls m') \<le> 2 * nat l"
      using Cons.prems counted_assert [OF r] by (intro Cons.IH) (auto simp: same_options_def)
    then show ?thesis using False c r by (simp add: in_span_def)
  qed
qed simp

text \<open>C25. The limiter bounds every span of time: while the clock does not run backwards, whatever calls
  of whatever keys arrive in whatever order, of the calls of one key with a limit and a window at most
  twice the limit pass in any span of the length of the window, not only in the windows the service
  happens to open.\<close>

theorem rate_limit_bound:
  assumes "sorted (map snd calls)" "same_options k l w calls" "0 \<le> l"
  shows "passed k t0 w calls (rate_run calls initial_rate_state) \<le> 2 * nat l"
  unfolding rate_limit_ref [OF assms(1)] by (rule passed_twice [OF assms(1,2) _ assms(3)]) (simp add: counted_def)

definition login_calls :: "(rate_options \<times> int) list" where
  "login_calls = (let o1 = \<lparr>ro_key = ''ip'', ro_limit = 1, ro_windowMs = 1000, ro_message = ''m''\<rparr>
                  in [(o1, 60000), (o1, 60500), (o1, 61000), (o1, 61400)])"

theorem rate_limit_bound_witness:
  "passed ''ip'' 60000 1000 login_calls (rate_run login_calls initial_rate_state) \<le> 2"
proof -
  have "sorted (map snd login_calls)" "same_options ''ip'' 1 1000 login_calls"
    by (simp_all add: login_calls_def same_options_def Let_def)
  from rate_limit_bound [OF this, of 60000] show ?thesis by simp
qed

end
