(* ===== verification/Email_Otp.thy ===== *)
theory Email_Otp
  imports Js_Time Js_Text Database
begin

text \<open>
  Sign-in codes sent by email
  (\<open>apps/api/src/modules/auth/email-otp-challenge.service.ts\<close>): requesting a code, verifying a
  guess and consuming the verified challenge, on the table of challenges. What other processes do
  between the statements of a request are arguments; HMAC-SHA256 and the delivery are too.
\<close>

section \<open>Challenges\<close>

record otp_challenge =
  oc_id :: string
  oc_email :: string
  oc_codeHash :: string
  oc_deliveryMode :: string
  oc_locale :: string
  oc_attempts :: int
  oc_providerMessageId :: "string option"
  oc_expiresAt :: int
  oc_consumedAt :: "int option"
  oc_createdAt :: int

definition ttlMs :: int where
  "ttlMs = 10 * 60 * 1000"

definition resendMs :: int where
  "resendMs = 60 * 1000"

definition maxAttempts :: int where
  "maxAttempts = 5"

definition codeLength :: nat where
  "codeLength = 6"

definition emailOtpLocales :: "string list" where
  "emailOtpLocales = [''en'', ''es'', ''fr'', ''de'', ''pt'', ''ru'']"

datatype otp_error =
    ServiceUnavailable string
  | TooManyRequests string int
  | Unauthorized string
  | DeliveryError string
  | DatabaseError string

definition otp_invalid :: otp_error where
  "otp_invalid = Unauthorized ''Email code is invalid or expired.''"

definition normalizeEmail :: "string \<Rightarrow> string" where
  "normalizeEmail email = toLowerCase (js_trim email)"

definition normalizeLocale :: "string option \<Rightarrow> string" where
  "normalizeLocale v = (case v of Some l \<Rightarrow> if l \<in> set emailOtpLocales then l else ''en'' | None \<Rightarrow> ''en'')"

text \<open>The configuration: \<open>AUTH_EMAIL_OTP_PEPPER\<close>, whether \<open>NODE_ENV\<close> is
  \<open>production\<close>, and the delivery service; \<open>hmacSha256\<close> is the hexadecimal HMAC of a
  key and a message.\<close>

record otp_config =
  cf_pepper :: "string option"
  cf_production :: bool
  cf_deliveryEnabled :: bool
  cf_deliveryMode :: string
  cf_canExposeCode :: bool
  cf_hmacSha256 :: "string \<Rightarrow> string \<Rightarrow> string"

definition configured_pepper :: "otp_config \<Rightarrow> string" where
  "configured_pepper cf = (case cf_pepper cf of Some p \<Rightarrow> js_trim p | None \<Rightarrow> [])"

definition pepper :: "otp_config \<Rightarrow> otp_error + string" where
  "pepper cf =
     (if configured_pepper cf \<noteq> [] then Inr (configured_pepper cf)
      else if cf_production cf then Inl (ServiceUnavailable ''Email sign-in is not configured.'')
      else Inr ''leadvirt-local-email-otp-pepper'')"

definition pepperReady :: "otp_config \<Rightarrow> bool" where
  "pepperReady cf = (\<not> cf_production cf \<or> length (configured_pepper cf) \<ge> 32)"

definition otp_enabled :: "otp_config \<Rightarrow> bool" where
  "otp_enabled cf = (cf_deliveryEnabled cf \<and> pepperReady cf)"

definition codeHash :: "otp_config \<Rightarrow> string \<Rightarrow> string \<Rightarrow> string \<Rightarrow> otp_error + string" where
  "codeHash cf challengeId email code =
     andThen (pepper cf) (\<lambda>key. Inr (cf_hmacSha256 cf key (challengeId @ '':'' @ email @ '':'' @ code)))"

text \<open>\<open>Buffer.from(s, "hex")\<close> stops at the first pair that is not hexadecimal.\<close>

definition hex_val :: "char \<Rightarrow> nat option" where
  "hex_val c =
     (let n = of_char c :: nat in
      if 48 \<le> n \<and> n \<le> 57 then Some (n - 48)
      else if 97 \<le> n \<and> n \<le> 102 then Some (n - 87)
      else if 65 \<le> n \<and> n \<le> 70 then Some (n - 55) else None)"

fun from_hex :: "string \<Rightarrow> nat list" where
  "from_hex (a # b # s) =
     (case (hex_val a, hex_val b) of (Some x, Some y) \<Rightarrow> (16 * x + y) # from_hex s | _ \<Rightarrow> [])"
| "from_hex s = []"

definition equalHex :: "string \<Rightarrow> string \<Rightarrow> bool" where
  "equalHex left right = (from_hex left = from_hex right)"

section \<open>Requesting a code\<close>

record otp_request =
  oq_email :: string
  oq_locale :: "string option"

text \<open>What a request draws and reads: its time, the random challenge id and code, the creation time
  the database stamps, the outcome of the delivery, and the other processes between its statements.\<close>

record otp_env =
  oe_now :: int
  oe_challengeId :: string
  oe_code :: nat
  oe_createdAt :: int
  oe_failedAt :: int
  oe_supersededAt :: int
  oe_delivery :: "otp_error + string"
  oe_other1 :: "otp_challenge list \<Rightarrow> otp_challenge list"
  oe_other2 :: "otp_challenge list \<Rightarrow> otp_challenge list"

definition otp_cleanup :: "int \<Rightarrow> otp_challenge list \<Rightarrow> otp_challenge list" where
  "otp_cleanup now t = filter (\<lambda>c. \<not> oc_expiresAt c < now - 24 * 60 * 60 * 1000) t"

text \<open>The creation time of the latest challenge of the email that is open or was delivered.\<close>

definition latest_created :: "string \<Rightarrow> otp_challenge list \<Rightarrow> int option" where
  "latest_created email t =
     (case map oc_createdAt (filter (\<lambda>c. oc_email c = email \<and>
             (oc_consumedAt c = None \<or> oc_providerMessageId c \<noteq> None)) t) of
        [] \<Rightarrow> None
      | x # xs \<Rightarrow> Some (foldl max x xs))"

definition new_challenge :: "otp_config \<Rightarrow> otp_env \<Rightarrow> string \<Rightarrow> string \<Rightarrow> string \<Rightarrow> otp_challenge" where
  "new_challenge cf env email locale hash =
     \<lparr>oc_id = oe_challengeId env, oc_email = email, oc_codeHash = hash,
      oc_deliveryMode = cf_deliveryMode cf, oc_locale = locale, oc_attempts = 0,
      oc_providerMessageId = None, oc_expiresAt = oe_now env + ttlMs, oc_consumedAt = None,
      oc_createdAt = oe_createdAt env\<rparr>"

definition otp_create ::
    "otp_config \<Rightarrow> otp_env \<Rightarrow> string \<Rightarrow> string \<Rightarrow> otp_challenge list \<Rightarrow> otp_error + otp_challenge list" where
  "otp_create cf env email locale t =
     (let retryAfterMs = (case latest_created email t of
                            Some createdAt \<Rightarrow> resendMs - (oe_now env - createdAt) | None \<Rightarrow> 0)
      in if retryAfterMs > 0
         then Inl (TooManyRequests ''Please wait before requesting another code.'' (ceil_seconds retryAfterMs))
         else andThen (codeHash cf (oe_challengeId env) email (pad codeLength (oe_code env))) (\<lambda>hash.
           if list_ex (\<lambda>c. oc_id c = oe_challengeId env) t then Inl (DatabaseError ''P2002'')
           else Inr (t @ [new_challenge cf env email locale hash])))"

definition otp_consumed :: "int \<Rightarrow> otp_challenge \<Rightarrow> otp_challenge" where
  "otp_consumed at c = c\<lparr>oc_consumedAt := Some at\<rparr>"

definition otp_withdraw :: "string \<Rightarrow> int \<Rightarrow> otp_challenge list \<Rightarrow> otp_challenge list" where
  "otp_withdraw challengeId at t =
     update_many (\<lambda>c. oc_id c = challengeId \<and> oc_consumedAt c = None) (otp_consumed at) t"

text \<open>The closing transaction: the other open challenges of the email are consumed, the new one gets
  the id of its message; both or none.\<close>

definition otp_supersede ::
    "string \<Rightarrow> string \<Rightarrow> int \<Rightarrow> string \<Rightarrow> otp_challenge list \<Rightarrow> otp_error + otp_challenge list" where
  "otp_supersede email challengeId at messageId t =
     (let t1 = update_many (\<lambda>c. oc_email c = email \<and> oc_id c \<noteq> challengeId \<and> oc_consumedAt c = None)
                 (otp_consumed at) t
      in if \<not> list_ex (\<lambda>c. oc_id c = challengeId) t then Inl (DatabaseError ''P2025'')
         else Inr (update_many (\<lambda>c. oc_id c = challengeId) (\<lambda>c. c\<lparr>oc_providerMessageId := Some messageId\<rparr>) t1))"

record otp_sent =
  os_challengeId :: string
  os_expiresAt :: string
  os_resendAfterSeconds :: int
  os_debugCode :: "string option"

definition requestEmailOtp ::
    "otp_config \<Rightarrow> otp_env \<Rightarrow> otp_request \<Rightarrow> otp_challenge list \<Rightarrow> otp_challenge list \<times> (otp_error + otp_sent)" where
  "requestEmailOtp cf env dto t =
     (if \<not> otp_enabled cf then (t, Inl (ServiceUnavailable ''Email sign-in is not configured.''))
      else
        let email = normalizeEmail (oq_email dto);
            locale = normalizeLocale (oq_locale dto);
            t1 = oe_other1 env (otp_cleanup (oe_now env) t)
        in case otp_create cf env email locale t1 of
             Inl e \<Rightarrow> (t1, Inl e)
           | Inr t2 \<Rightarrow>
               (let t3 = oe_other2 env t2 in
                case oe_delivery env of
                  Inl e \<Rightarrow> (otp_withdraw (oe_challengeId env) (oe_failedAt env) t3, Inl e)
                | Inr messageId \<Rightarrow>
                    (case otp_supersede email (oe_challengeId env) (oe_supersededAt env) messageId t3 of
                       Inl e \<Rightarrow> (t3, Inl e)
                     | Inr t4 \<Rightarrow>
                         (t4, Inr \<lparr>os_challengeId = oe_challengeId env,
                                   os_expiresAt = toISOString (oe_now env + ttlMs),
                                   os_resendAfterSeconds = resendMs div 1000,
                                   os_debugCode = (if cf_canExposeCode cf then Some (pad codeLength (oe_code env))
                                                   else None)\<rparr>))))"

section \<open>Verifying and consuming\<close>

record verified_challenge =
  vc_id :: string
  vc_email :: string
  vc_deliveryMode :: string
  vc_locale :: string
  vc_verifiedAt :: int

definition otp_open :: "int \<Rightarrow> otp_challenge \<Rightarrow> bool" where
  "otp_open verifiedAt c =
     (oc_consumedAt c = None \<and> \<not> oc_expiresAt c \<le> verifiedAt \<and> \<not> oc_attempts c \<ge> maxAttempts)"

text \<open>The statement of a wrong guess, with the attempts the guess had read.\<close>

definition otp_wrong_guess :: "string \<Rightarrow> int \<Rightarrow> int \<Rightarrow> otp_challenge list \<Rightarrow> otp_challenge list" where
  "otp_wrong_guess challengeId attemptsRead verifiedAt t =
     (let nextAttempts = attemptsRead + 1 in
      update_many (\<lambda>c. oc_id c = challengeId \<and> oc_consumedAt c = None)
        (\<lambda>c. c\<lparr>oc_attempts := oc_attempts c + 1,
               oc_consumedAt := (if nextAttempts \<ge> maxAttempts then Some verifiedAt else oc_consumedAt c)\<rparr>) t)"

definition verifyEmailOtp ::
    "otp_config \<Rightarrow> (otp_challenge list \<Rightarrow> otp_challenge list) \<Rightarrow> string \<Rightarrow> string \<Rightarrow> int \<Rightarrow> otp_challenge list
     \<Rightarrow> otp_challenge list \<times> (otp_error + verified_challenge)" where
  "verifyEmailOtp cf other challengeId code verifiedAt t =
     (if \<not> otp_enabled cf then (t, Inl (ServiceUnavailable ''Email sign-in is not configured.''))
      else case List.find (\<lambda>c. oc_id c = challengeId) t of
        None \<Rightarrow> (t, Inl otp_invalid)
      | Some challenge \<Rightarrow>
          if \<not> otp_open verifiedAt challenge then (t, Inl otp_invalid)
          else (case codeHash cf (oc_id challenge) (oc_email challenge) code of
                  Inl e \<Rightarrow> (t, Inl e)
                | Inr hash \<Rightarrow>
                    if \<not> equalHex hash (oc_codeHash challenge)
                    then (otp_wrong_guess (oc_id challenge) (oc_attempts challenge) verifiedAt (other t), Inl otp_invalid)
                    else (t, Inr \<lparr>vc_id = oc_id challenge, vc_email = oc_email challenge,
                                  vc_deliveryMode = oc_deliveryMode challenge,
                                  vc_locale = normalizeLocale (Some (oc_locale challenge)),
                                  vc_verifiedAt = verifiedAt\<rparr>)))"

text \<open>Consuming is part of the caller's transaction, which an error rolls back.\<close>

definition consumeEmailOtp ::
    "verified_challenge \<Rightarrow> otp_challenge list \<Rightarrow> otp_challenge list \<times> (otp_error + unit)" where
  "consumeEmailOtp ch t =
     (let P = (\<lambda>c. oc_id c = vc_id ch \<and> otp_open (vc_verifiedAt ch) c) in
      if count_where P t \<noteq> 1 then (t, Inl otp_invalid)
      else (update_many P (\<lambda>c. c\<lparr>oc_attempts := oc_attempts c + 1, oc_consumedAt := Some (vc_verifiedAt ch)\<rparr>) t, Inr ()))"

end
