(* ===== verification/Email_Otp_Properties.thy ===== *)
theory Email_Otp_Properties
  imports Email_Otp
begin

text \<open>
  Properties of the sign-in codes: a challenge is used once, a new code invalidates the earlier ones,
  and five wrong guesses close a challenge.
\<close>

section \<open>Histories\<close>

text \<open>The statements that the requests, guesses and sign-ins of the API interleave, in histories whose
  new challenges have other ids than \<open>i\<close>.\<close>

inductive otp_op :: "string \<Rightarrow> otp_challenge list \<Rightarrow> otp_challenge list \<Rightarrow> bool" for i where
  cleanup: "otp_op i t (otp_cleanup now t)"
| create: "otp_create cf env email locale t = Inr t' \<Longrightarrow> oe_challengeId env \<noteq> i \<Longrightarrow> otp_op i t t'"
| withdraw: "otp_op i t (otp_withdraw ch at t)"
| supersede: "otp_supersede email ch at msg t = Inr t' \<Longrightarrow> otp_op i t t'"
| wrong_guess: "otp_op i t (otp_wrong_guess ch attemptsRead at t)"
| consume: "otp_op i t (fst (consumeEmailOtp v t))"

definition spent :: "string \<Rightarrow> otp_challenge list \<Rightarrow> bool" where
  "spent i t = (\<forall>c\<in>set t. oc_id c = i \<longrightarrow> oc_consumedAt c \<noteq> None)"

lemma spent_update:
  assumes "spent i t" "\<And>c. oc_id (f c) = oc_id c" "\<And>c. oc_consumedAt c \<noteq> None \<Longrightarrow> oc_consumedAt (f c) \<noteq> None"
  shows "spent i (update_many P f t)"
  using assms by (auto simp: spent_def elim!: in_update_manyE)

lemma otp_op_spent:
  assumes "otp_op i t t'" "spent i t"
  shows "spent i t'"
  using assms(1)
proof cases
  case (cleanup now)
  then show ?thesis using assms(2) by (simp add: spent_def otp_cleanup_def)
next
  case (create cf env email loc)
  then show ?thesis
    using assms(2)
    by (auto simp: otp_create_def Let_def andThen_def spent_def new_challenge_def split: if_splits sum.splits)
next
  case (withdraw ch at)
  then show ?thesis
    unfolding withdraw otp_withdraw_def by (intro spent_update assms(2)) (auto simp: otp_consumed_def)
next
  case (supersede email ch at msg)
  then show ?thesis
    by (auto simp: otp_supersede_def Let_def otp_consumed_def split: if_splits intro!: spent_update assms(2))
next
  case (wrong_guess ch attemptsRead at)
  then show ?thesis
    unfolding wrong_guess otp_wrong_guess_def Let_def by (intro spent_update assms(2)) auto
next
  case (consume v)
  then show ?thesis by (auto simp: consumeEmailOtp_def Let_def intro!: spent_update assms(2))
qed

lemma otp_ops_spent: "(otp_op i)\<^sup>*\<^sup>* t t' \<Longrightarrow> spent i t \<Longrightarrow> spent i t'"
  by (induction rule: rtranclp_induct) (auto intro: otp_op_spent)

lemma spent_closed:
  assumes "spent i t"
  shows "vc_id v = i \<Longrightarrow> consumeEmailOtp v t = (t, Inl otp_invalid)"
    and "otp_enabled cf \<Longrightarrow> verifyEmailOtp cf other i code at t = (t, Inl otp_invalid)"
proof -
  have closed: "\<not> otp_open at' c" if "c \<in> set t" "oc_id c = i" for c at'
    using assms that by (simp add: spent_def otp_open_def)
  show "consumeEmailOtp v t = (t, Inl otp_invalid)" if "vc_id v = i"
  proof -
    have "count_where (\<lambda>c. oc_id c = vc_id v \<and> otp_open (vc_verifiedAt v) c) t = 0"
      unfolding count_where_0_iff using closed that by blast
    then show ?thesis by (simp add: consumeEmailOtp_def Let_def)
  qed
  show "verifyEmailOtp cf other i code at t = (t, Inl otp_invalid)" if "otp_enabled cf"
  proof (cases "List.find (\<lambda>c. oc_id c = i) t")
    case None
    then show ?thesis using that by (simp add: verifyEmailOtp_def)
  next
    case (Some c)
    then have "\<not> otp_open at c" using closed [of c at] find_SomeD [OF Some] by simp
    then show ?thesis using that Some by (simp add: verifyEmailOtp_def)
  qed
qed

section \<open>Single use\<close>

text \<open>C19. A sign-in code is used at most once: after a challenge was consumed, whatever requests,
  guesses and sign-ins are interleaved afterwards, consuming it again fails, verifying any guess for
  it fails, and neither changes the table, as long as no request draws the same random id.\<close>

theorem otp_single_use:
  assumes "consumeEmailOtp v t = (t1, Inr ())" "(otp_op (vc_id v))\<^sup>*\<^sup>* t1 t2"
    and "unique_on oc_id t" "vc_id w = vc_id v" "otp_enabled cf"
  shows "consumeEmailOtp w t2 = (t2, Inl otp_invalid) \<and>
    verifyEmailOtp cf other (vc_id v) code at t2 = (t2, Inl otp_invalid)"
proof -
  let ?P = "\<lambda>c. oc_id c = vc_id v \<and> otp_open (vc_verifiedAt v) c"
  have one: "count_where ?P t = 1"
    and t1: "t1 = update_many ?P (\<lambda>c. c\<lparr>oc_attempts := oc_attempts c + 1, oc_consumedAt := Some (vc_verifiedAt v)\<rparr>) t"
    using assms(1) by (auto simp: consumeEmailOtp_def Let_def split: if_splits)
  from one have "0 < count_where ?P t" by simp
  then obtain c where c: "c \<in> set t" "?P c" unfolding count_where_pos_iff by blast
  have "x = c" if "x \<in> set t" "oc_id x = vc_id v" for x
    using unique_onD [OF assms(3) that(1) c(1)] that(2) c(2) by simp
  then have "spent (vc_id v) t1" unfolding t1 spent_def using c(2) by (auto elim!: in_update_manyE)
  then have "spent (vc_id v) t2" by (rule otp_ops_spent [OF assms(2)])
  then show ?thesis using spent_closed assms(4,5) by blast
qed

definition sample_otp_config :: otp_config where
  "sample_otp_config = \<lparr>cf_pepper = None, cf_production = False, cf_deliveryEnabled = True,
     cf_deliveryMode = ''mock'', cf_canExposeCode = True, cf_hmacSha256 = (\<lambda>key msg. drop (length msg - 6) msg)\<rparr>"

definition sample_challenge :: otp_challenge where
  "sample_challenge = \<lparr>oc_id = ''c1'', oc_email = ''a@b.c'', oc_codeHash = ''123456'', oc_deliveryMode = ''mock'',
     oc_locale = ''en'', oc_attempts = 0, oc_providerMessageId = Some ''m'', oc_expiresAt = 600000,
     oc_consumedAt = None, oc_createdAt = 0\<rparr>"

definition sample_verified :: verified_challenge where
  "sample_verified = \<lparr>vc_id = ''c1'', vc_email = ''a@b.c'', vc_deliveryMode = ''mock'', vc_locale = ''en'', vc_verifiedAt = 5000\<rparr>"

lemma sample_otp_enabled: "otp_enabled sample_otp_config"
  by (simp add: otp_enabled_def pepperReady_def sample_otp_config_def)

lemma sample_verify:
  "verifyEmailOtp sample_otp_config (\<lambda>u. u) ''c1'' ''123456'' 5000 [sample_challenge] = ([sample_challenge], Inr sample_verified)"
  by code_simp

theorem otp_single_use_witness:
  "\<exists>t1. consumeEmailOtp sample_verified [sample_challenge] = (t1, Inr ()) \<and>
     verifyEmailOtp sample_otp_config (\<lambda>u. u) ''c1'' ''123456'' 6000 t1 = (t1, Inl otp_invalid)"
proof -
  obtain t1 where c: "consumeEmailOtp sample_verified [sample_challenge] = (t1, Inr ())"
    by (simp add: consumeEmailOtp_def count_where_def otp_open_def maxAttempts_def sample_verified_def sample_challenge_def)
  have "verifyEmailOtp sample_otp_config (\<lambda>u. u) (vc_id sample_verified) ''123456'' 6000 t1 = (t1, Inl otp_invalid)"
    using otp_single_use [OF c rtranclp.rtrancl_refl _ refl sample_otp_enabled] by (simp add: unique_on_def)
  with c show ?thesis by (auto simp: sample_verified_def)
qed

section \<open>Superseding\<close>

text \<open>Only the latest code of an address works: when a request has answered, whatever happened in
  between, every other challenge of that address is consumed, and the challenge it announced is in the
  table with the id of its message.\<close>

theorem otp_request_supersedes:
  assumes "requestEmailOtp cf env dto t = (t', Inr sent)"
  shows "(\<forall>c\<in>set t'. oc_email c = normalizeEmail (oq_email dto) \<and> oc_id c \<noteq> os_challengeId sent \<longrightarrow> oc_consumedAt c \<noteq> None) \<and>
    (\<exists>c\<in>set t'. oc_id c = os_challengeId sent \<and> oc_providerMessageId c \<noteq> None)"
proof -
  obtain t3 msg where s: "otp_supersede (normalizeEmail (oq_email dto)) (oe_challengeId env) (oe_supersededAt env) msg t3 = Inr t'"
    and i: "os_challengeId sent = oe_challengeId env"
    using assms by (auto simp: requestEmailOtp_def Let_def split: if_splits sum.splits)
  let ?i = "oe_challengeId env" and ?m = "normalizeEmail (oq_email dto)"
  let ?P = "\<lambda>c. oc_email c = ?m \<and> oc_id c \<noteq> ?i \<and> oc_consumedAt c = None"
  let ?set = "\<lambda>c. c\<lparr>oc_providerMessageId := Some msg\<rparr>"
  have ex: "\<exists>c\<in>set t3. oc_id c = ?i"
    and t': "t' = update_many (\<lambda>c. oc_id c = ?i) ?set (update_many ?P (otp_consumed (oe_supersededAt env)) t3)"
    using s by (auto simp: otp_supersede_def Let_def list_ex_iff split: if_splits)
  from ex obtain c where c: "c \<in> set t3" "oc_id c = ?i" by blast
  then have "c \<in> set (update_many ?P (otp_consumed (oe_supersededAt env)) t3)" by (intro in_update_many_kept) auto
  then have "?set c \<in> set t'" unfolding t' using c(2) by (rule in_update_many_changed)
  moreover have "\<forall>c\<in>set t'. oc_email c = ?m \<and> oc_id c \<noteq> ?i \<longrightarrow> oc_consumedAt c \<noteq> None"
    unfolding t' by (auto simp: otp_consumed_def elim!: in_update_manyE)
  ultimately show ?thesis unfolding i using c(2) by (intro conjI bexI [of _ "?set c"]) auto
qed

definition sample_otp_env :: otp_env where
  "sample_otp_env = \<lparr>oe_now = 70000, oe_challengeId = ''c2'', oe_code = 42, oe_createdAt = 70000,
     oe_failedAt = 71000, oe_supersededAt = 71000, oe_delivery = Inr ''mail-2'', oe_other1 = (\<lambda>u. u),
     oe_other2 = (\<lambda>u. u)\<rparr>"

theorem otp_request_supersedes_witness:
  "\<exists>t' sent. requestEmailOtp sample_otp_config sample_otp_env \<lparr>oq_email = ''A@b.c'', oq_locale = None\<rparr> [sample_challenge] =
      (t', Inr sent) \<and> os_debugCode sent = Some ''000042'' \<and>
    (\<forall>c\<in>set t'. oc_email c = ''a@b.c'' \<and> oc_id c \<noteq> ''c2'' \<longrightarrow> oc_consumedAt c \<noteq> None)"
proof -
  let ?dto = "\<lparr>oq_email = ''A@b.c'', oq_locale = None\<rparr>"
  have "case snd (requestEmailOtp sample_otp_config sample_otp_env ?dto [sample_challenge]) of
      Inr sent \<Rightarrow> os_debugCode sent = Some ''000042'' \<and> os_challengeId sent = ''c2'' | Inl e \<Rightarrow> False" by code_simp
  then obtain t' sent where r: "requestEmailOtp sample_otp_config sample_otp_env ?dto [sample_challenge] = (t', Inr sent)"
    and s: "os_debugCode sent = Some ''000042''" "os_challengeId sent = ''c2''"
    by (cases "requestEmailOtp sample_otp_config sample_otp_env ?dto [sample_challenge]") (auto split: sum.splits)
  have "normalizeEmail (oq_email ?dto) = ''a@b.c''" by code_simp
  then show ?thesis using otp_request_supersedes [OF r] r s by metis
qed

section \<open>Five guesses\<close>

fun guesses :: "otp_config \<Rightarrow> string \<Rightarrow> (string \<times> int) list \<Rightarrow> otp_challenge list \<Rightarrow> otp_challenge list" where
  "guesses cf i [] t = t"
| "guesses cf i ((code, at) # gs) t = guesses cf i gs (fst (verifyEmailOtp cf (\<lambda>u. u) i code at t))"

definition wrong_code :: "otp_config \<Rightarrow> otp_challenge \<Rightarrow> string \<Rightarrow> bool" where
  "wrong_code cf c code =
     (\<forall>hash. codeHash cf (oc_id c) (oc_email c) code = Inr hash \<longrightarrow> \<not> equalHex hash (oc_codeHash c))"

lemma enabled_pepper: "otp_enabled cf \<Longrightarrow> \<exists>hash. codeHash cf i email code = Inr hash"
  by (auto simp: otp_enabled_def pepperReady_def codeHash_def pepper_def)

text \<open>What the guesses leave of the challenge: its identity, and a count of at least \<open>n\<close> unless it
  is consumed.\<close>

definition guessed :: "otp_challenge \<Rightarrow> int \<Rightarrow> otp_challenge list \<Rightarrow> bool" where
  "guessed c n t =
     (unique_on oc_id t \<and>
      (\<exists>x\<in>set t. oc_id x = oc_id c \<and> oc_email x = oc_email c \<and> oc_codeHash x = oc_codeHash c \<and>
         oc_expiresAt x = oc_expiresAt c \<and> (oc_consumedAt x = None \<longrightarrow> n \<le> oc_attempts x)))"

lemma guess_counts:
  assumes "guessed c n t" "otp_enabled cf" "at < oc_expiresAt c" "wrong_code cf c code"
  shows "guessed c (min maxAttempts (n + 1)) (fst (verifyEmailOtp cf (\<lambda>u. u) (oc_id c) code at t))"
proof -
  obtain x where x: "x \<in> set t" "oc_id x = oc_id c" "oc_email x = oc_email c" "oc_codeHash x = oc_codeHash c"
      "oc_expiresAt x = oc_expiresAt c" "oc_consumedAt x = None \<longrightarrow> n \<le> oc_attempts x" and u: "unique_on oc_id t"
    using assms(1) by (auto simp: guessed_def)
  have f: "List.find (\<lambda>c'. oc_id c' = oc_id c) t = Some x"
    using find_Some_unique_iff [OF u, of "\<lambda>c'. oc_id c' = oc_id c" "oc_id c" x] x(1,2) by simp
  show ?thesis
  proof (cases "otp_open at x")
    case False
    then have "oc_consumedAt x = None \<longrightarrow> min maxAttempts (n + 1) \<le> oc_attempts x"
      using assms(3) x(5) by (auto simp: otp_open_def)
    then show ?thesis using False f x u assms(2) by (auto simp: verifyEmailOtp_def guessed_def)
  next
    case True
    obtain hash where h: "codeHash cf (oc_id c) (oc_email c) code = Inr hash" using enabled_pepper [OF assms(2)] by blast
    have w: "\<not> equalHex hash (oc_codeHash c)" using assms(4) h by (simp add: wrong_code_def)
    let ?P = "\<lambda>c'. oc_id c' = oc_id x \<and> oc_consumedAt c' = None"
    let ?g = "\<lambda>c'. c'\<lparr>oc_attempts := oc_attempts c' + 1,
        oc_consumedAt := (if oc_attempts x + 1 \<ge> maxAttempts then Some at else oc_consumedAt c')\<rparr>"
    have v: "fst (verifyEmailOtp cf (\<lambda>u. u) (oc_id c) code at t) = update_many ?P ?g t"
      using assms(2) f True h w x by (simp add: verifyEmailOtp_def otp_wrong_guess_def Let_def)
    have "?g x \<in> set (update_many ?P ?g t)" using x(1) True by (intro in_update_many_changed) (auto simp: otp_open_def)
    moreover have "unique_on oc_id (update_many ?P ?g t)" using u by (simp add: unique_on_update_many)
    ultimately show ?thesis
      unfolding v guessed_def using x True by (intro conjI bexI [of _ "?g x"]) (auto simp: otp_open_def)
  qed
qed

lemma guesses_count:
  assumes "otp_enabled cf" "\<forall>(code, at)\<in>set gs. at < oc_expiresAt c \<and> wrong_code cf c code"
  shows "guessed c n t \<Longrightarrow> guessed c (min maxAttempts (n + int (length gs))) (guesses cf (oc_id c) gs t)"
  using assms(2)
proof (induction gs arbitrary: n t)
  case Nil
  then show ?case by (auto simp: guessed_def)
next
  case (Cons g gs)
  obtain code at where g: "g = (code, at)" by force
  have "guessed c (min maxAttempts (n + 1)) (fst (verifyEmailOtp cf (\<lambda>u. u) (oc_id c) code at t))"
    using guess_counts [OF Cons.prems(1) assms(1)] Cons.prems(2) g by simp
  then have "guessed c (min maxAttempts (min maxAttempts (n + 1) + int (length gs))) (guesses cf (oc_id c) (g # gs) t)"
    using Cons.IH Cons.prems(2) g by simp
  moreover have "min maxAttempts (min maxAttempts (n + 1) + int (length gs)) = min maxAttempts (n + int (length (g # gs)))"
    by simp
  ultimately show ?case by (simp only:)
qed

text \<open>C20. Five guesses close a challenge: after five wrong guesses at any times before the challenge
  expires, every further guess is refused, the right code included, and leaves the table as it is.\<close>

theorem otp_five_guesses:
  assumes "unique_on oc_id t" "c \<in> set t" "0 \<le> oc_attempts c" "otp_enabled cf" "5 \<le> length gs"
    and "\<forall>(code, at)\<in>set gs. at < oc_expiresAt c \<and> wrong_code cf c code"
  shows "verifyEmailOtp cf other (oc_id c) code at (guesses cf (oc_id c) gs t) =
    (guesses cf (oc_id c) gs t, Inl otp_invalid)"
proof -
  let ?t = "guesses cf (oc_id c) gs t"
  have "guessed c 0 t" using assms(1-3) by (auto simp: guessed_def)
  from guesses_count [OF assms(4,6) this]
  obtain x where x: "x \<in> set ?t" "oc_id x = oc_id c" "oc_consumedAt x = None \<longrightarrow> 5 \<le> oc_attempts x" and u: "unique_on oc_id ?t"
    using assms(5) by (auto simp: guessed_def maxAttempts_def)
  have f: "List.find (\<lambda>c'. oc_id c' = oc_id c) ?t = Some x"
    using find_Some_unique_iff [OF u, of "\<lambda>c'. oc_id c' = oc_id c" "oc_id c" x] x(1,2) by simp
  have "\<not> otp_open at x" using x(3) by (auto simp: otp_open_def maxAttempts_def)
  then show ?thesis using assms(4) f by (simp add: verifyEmailOtp_def)
qed

theorem otp_five_guesses_witness:
  "snd (verifyEmailOtp sample_otp_config (\<lambda>u. u) ''c1'' ''123456'' 6000
     (guesses sample_otp_config ''c1'' (replicate 5 (''000000'', 5000)) [sample_challenge])) = Inl otp_invalid"
proof -
  have "codeHash sample_otp_config ''c1'' ''a@b.c'' ''000000'' = Inr ''000000''" by code_simp
  moreover have "\<not> equalHex ''000000'' ''123456''" by code_simp
  ultimately have w: "wrong_code sample_otp_config sample_challenge ''000000''"
    by (simp add: wrong_code_def sample_challenge_def)
  have i: "oc_id sample_challenge = ''c1''" by (simp add: sample_challenge_def)
  have "verifyEmailOtp sample_otp_config (\<lambda>u. u) (oc_id sample_challenge) ''123456'' 6000
     (guesses sample_otp_config (oc_id sample_challenge) (replicate 5 (''000000'', 5000)) [sample_challenge]) =
     (guesses sample_otp_config (oc_id sample_challenge) (replicate 5 (''000000'', 5000)) [sample_challenge], Inl otp_invalid)"
    by (rule otp_five_guesses) (use w sample_otp_enabled in \<open>auto simp: unique_on_def sample_challenge_def\<close>)
  then show ?thesis unfolding i by simp
qed

end
