(* ===== verification/Service_Row.thy ===== *)
theory Service_Row
  imports Js_Time Js_Text
begin

text \<open>
  Rows of an imported service list (\<open>packages/business-import/src/service-csv.ts\<close>): the columns of
  the template and their aliases, exact decimals, and the validation of one row with its diagnostics;
  then the reading of a whole file, over the CSV parser and the text decoder of the host.
\<close>

section \<open>Columns\<close>

text \<open>The code units of a string; keys with letters beyond the model's characters are written as
  code units.\<close>

definition units :: "string \<Rightarrow> nat list" where
  "units s = map of_char s"

datatype csv_header =
    H_external_id | H_category | H_name | H_description | H_price_type
  | H_price_amount | H_price_from | H_price_to | H_currency | H_price_unit
  | H_tax_note | H_duration_minutes | H_duration_max_minutes | H_location_external_id | H_booking_notes
  | H_active | H_valid_from | H_valid_until | H_language

fun header_text :: "csv_header \<Rightarrow> string" where
  "header_text H_external_id = ''external_id''"
| "header_text H_category = ''category''"
| "header_text H_name = ''name''"
| "header_text H_description = ''description''"
| "header_text H_price_type = ''price_type''"
| "header_text H_price_amount = ''price_amount''"
| "header_text H_price_from = ''price_from''"
| "header_text H_price_to = ''price_to''"
| "header_text H_currency = ''currency''"
| "header_text H_price_unit = ''price_unit''"
| "header_text H_tax_note = ''tax_note''"
| "header_text H_duration_minutes = ''duration_minutes''"
| "header_text H_duration_max_minutes = ''duration_max_minutes''"
| "header_text H_location_external_id = ''location_external_id''"
| "header_text H_booking_notes = ''booking_notes''"
| "header_text H_active = ''active''"
| "header_text H_valid_from = ''valid_from''"
| "header_text H_valid_until = ''valid_until''"
| "header_text H_language = ''language''"

definition BUSINESS_SERVICES_CSV_HEADERS :: "csv_header list" where
  "BUSINESS_SERVICES_CSV_HEADERS =
     [H_external_id, H_category, H_name, H_description, H_price_type,
      H_price_amount, H_price_from, H_price_to, H_currency, H_price_unit,
      H_tax_note, H_duration_minutes, H_duration_max_minutes, H_location_external_id, H_booking_notes,
      H_active, H_valid_from, H_valid_until, H_language]"

definition BUSINESS_IMPORT_CURRENCY_CODES :: "string list" where
  "BUSINESS_IMPORT_CURRENCY_CODES = js_split (CHR '' '')
     (''AED AFN ALL AMD AOA ARS AUD AWG AZN BAM BBD BDT BHD BIF BMD BND BOB BOV'' @ '' '' @
      ''BRL BSD BTN BWP BYN BZD CAD CDF CHE CHF CHW CLF CLP CNY COP COU CRC CUP'' @ '' '' @
      ''CVE CZK DJF DKK DOP DZD EGP ERN ETB EUR FJD FKP GBP GEL GHS GIP GMD GNF'' @ '' '' @
      ''GTQ GYD HKD HNL HTG HUF IDR ILS INR IQD IRR ISK JMD JOD JPY KES KGS KHR'' @ '' '' @
      ''KMF KPW KRW KWD KYD KZT LAK LBP LKR LRD LSL LYD MAD MDL MGA MKD MMK MNT'' @ '' '' @
      ''MOP MRU MUR MVR MWK MXN MXV MYR MZN NAD NGN NIO NOK NPR NZD OMR PAB PEN'' @ '' '' @
      ''PGK PHP PKR PLN PYG QAR RON RSD RUB RWF SAR SBD SCR SDG SEK SGD SHP SLE'' @ '' '' @
      ''SOS SRD SSP STN SVC SYP SZL THB TJS TMT TND TOP TRY TTD TWD TZS UAH UGX'' @ '' '' @
      ''USD USN UYI UYU UYW UZS VED VES VND VUV WST XAD XAF XAG XAU XBA XBB XBC'' @ '' '' @
      ''XBD XCD XCG XDR XOF XPD XPF XPT XSU XUA YER ZAR ZMW ZWG'')"

definition HEADER_ALIASES :: "(nat list \<times> csv_header) list" where
  "HEADER_ALIASES =
     [(units ''external_id'', H_external_id),
      (units ''id'', H_external_id),
      (units ''id_'' @ [1091, 1089, 1083, 1091, 1075, 1080], H_external_id),
      ([1080, 1076] @ units ''_'' @ [1091, 1089, 1083, 1091, 1075, 1080], H_external_id),
      ([1080, 1076, 1077, 1085, 1090, 1080, 1092, 1080, 1082, 1072, 1090, 1086, 1088] @ units ''_'' @ [1091, 1089, 1083, 1091, 1075, 1080], H_external_id),
      ([1082, 1086, 1076] @ units ''_'' @ [1091, 1089, 1083, 1091, 1075, 1080], H_external_id),
      (units ''category'', H_category),
      (units ''category_name'', H_category),
      (units ''name'', H_name),
      (units ''service'', H_name),
      (units ''service_name'', H_name),
      ([1085, 1072, 1079, 1074, 1072, 1085, 1080, 1077], H_name),
      ([1091, 1089, 1083, 1091, 1075, 1072], H_name),
      ([1086, 1087, 1080, 1089, 1072, 1085, 1080, 1077], H_description),
      (units ''description'', H_description),
      (units ''price_type'', H_price_type),
      ([1090, 1080, 1087] @ units ''_'' @ [1094, 1077, 1085, 1099], H_price_type),
      (units ''price'', H_price_amount),
      (units ''price_amount'', H_price_amount),
      ([1094, 1077, 1085, 1072], H_price_amount),
      (units ''price_from'', H_price_from),
      ([1094, 1077, 1085, 1072] @ units ''_'' @ [1086, 1090], H_price_from),
      (units ''price_to'', H_price_to),
      ([1094, 1077, 1085, 1072] @ units ''_'' @ [1076, 1086], H_price_to),
      (units ''currency'', H_currency),
      ([1074, 1072, 1083, 1102, 1090, 1072], H_currency),
      (units ''price_unit'', H_price_unit),
      ([1077, 1076, 1080, 1085, 1080, 1094, 1072] @ units ''_'' @ [1094, 1077, 1085, 1099], H_price_unit),
      ([1077, 1076, 1080, 1085, 1080, 1094, 1072] @ units ''_'' @ [1089, 1090, 1086, 1080, 1084, 1086, 1089, 1090, 1080], H_price_unit),
      (units ''tax_note'', H_tax_note),
      (units ''duration'', H_duration_minutes),
      (units ''duration_minutes'', H_duration_minutes),
      ([1076, 1083, 1080, 1090, 1077, 1083, 1100, 1085, 1086, 1089, 1090, 1100], H_duration_minutes),
      (units ''duration_max_minutes'', H_duration_max_minutes),
      (units ''location_external_id'', H_location_external_id),
      (units ''booking_notes'', H_booking_notes),
      (units ''active'', H_active),
      ([1072, 1082, 1090, 1080, 1074, 1085, 1072], H_active),
      (units ''valid_from'', H_valid_from),
      (units ''valid_until'', H_valid_until),
      (units ''language'', H_language),
      ([1103, 1079, 1099, 1082], H_language)]"

definition BUSINESS_IMPORT_SERVICE_LIMIT :: nat where
  "BUSINESS_IMPORT_SERVICE_LIMIT = 400"

definition isBusinessImportCurrencyCode :: "string \<Rightarrow> bool" where
  "isBusinessImportCurrencyCode v = (v \<in> set BUSINESS_IMPORT_CURRENCY_CODES)"

section \<open>Decimals\<close>

definition nonzero_digit :: "char \<Rightarrow> bool" where
  "nonzero_digit c = (digit c \<and> c \<noteq> CHR ''0'')"

definition whole_ok :: "string \<Rightarrow> bool" where
  "whole_ok w = (w = ''0'' \<or> (w \<noteq> [] \<and> nonzero_digit (hd w) \<and> list_all digit w \<and> length w \<le> 12))"

text \<open>The pattern \<open>^(?:0|[1-9]\d{0,11})(?:\.\d{1,4})?$\<close>.\<close>

definition is_decimal :: "string \<Rightarrow> bool" where
  "is_decimal v =
     (case js_split (CHR ''.'') v of
        [w] \<Rightarrow> whole_ok w
      | [w, f] \<Rightarrow> whole_ok w \<and> list_all digit f \<and> 1 \<le> length f \<and> length f \<le> 4
      | _ \<Rightarrow> False)"

definition dec_val :: "string \<Rightarrow> nat" where
  "dec_val s = foldl (\<lambda>n c. 10 * n + (of_char c - 48)) 0 s"

definition padEnd :: "nat \<Rightarrow> string \<Rightarrow> string" where
  "padEnd n s = s @ replicate (n - length s) (CHR ''0'')"

definition scaled :: "string \<Rightarrow> string + nat" where
  "scaled v =
     (if \<not> is_decimal v then Inl ''Invalid business import decimal''
      else case js_split (CHR ''.'') v of
             [] \<Rightarrow> Inl ''Invalid business import decimal''
           | integer # rest \<Rightarrow>
               (let fraction = (case rest of f # _ \<Rightarrow> f | [] \<Rightarrow> [])
                in Inr (dec_val integer * 10000 + dec_val (padEnd 4 fraction))))"

definition compareBusinessImportDecimals :: "string \<Rightarrow> string \<Rightarrow> string + int" where
  "compareBusinessImportDecimals left right =
     andThen (scaled left) (\<lambda>l.
     andThen (scaled right) (\<lambda>r.
       let difference = int l - int r in Inr (if difference < 0 then -1 else if difference > 0 then 1 else 0)))"

definition trim_zeros :: "string \<Rightarrow> string" where
  "trim_zeros f = rev (dropWhile (\<lambda>c. c = CHR ''0'') (rev f))"

definition canonicalBusinessImportDecimal :: "string option \<Rightarrow> string option" where
  "canonicalBusinessImportDecimal v =
     (case v of
        None \<Rightarrow> None
      | Some s \<Rightarrow>
          if \<not> is_decimal s then Some s
          else (case js_split (CHR ''.'') s of
                  [] \<Rightarrow> Some s
                | whole # rest \<Rightarrow>
                    (let trimmed = (case rest of f # _ \<Rightarrow> trim_zeros f | [] \<Rightarrow> [])
                     in Some (if trimmed \<noteq> [] then whole @ ''.'' @ trimmed else whole))))"

section \<open>Rows\<close>

datatype priceType = FIXED | FROM | RANGE | FREE | ON_REQUEST

fun priceType_text :: "priceType \<Rightarrow> string" where
  "priceType_text FIXED = ''FIXED''"
| "priceType_text FROM = ''FROM''"
| "priceType_text RANGE = ''RANGE''"
| "priceType_text FREE = ''FREE''"
| "priceType_text ON_REQUEST = ''ON_REQUEST''"

definition priceType_of :: "string \<Rightarrow> priceType option" where
  "priceType_of s = List.find (\<lambda>p. priceType_text p = s) [FIXED, FROM, RANGE, FREE, ON_REQUEST]"

datatype severity = ERROR | WARNING

text \<open>A diagnostic of a row or a column. The sheet, cell and range that the reader of workbooks adds are
  not part of the rows this theory reads.\<close>

record diagnostic =
  dg_severity :: severity
  dg_code :: string
  dg_message :: string
  dg_row :: "int option"
  dg_column :: "nat option"
  dg_field :: "csv_header option"

text \<open>The evidence of a cell: of a CSV file, or of a sheet with its name, cell, range and cell type.\<close>

datatype cell_evidence =
    Csv_cell int nat csv_header string
  | Xlsx_cell string string string int nat csv_header string string bool

record price =
  pr_type :: priceType
  pr_amount :: "string option"
  pr_from :: "string option"
  pr_to :: "string option"
  pr_currency :: "string option"
  pr_unit :: "string option"
  pr_taxNote :: "string option"

record duration =
  du_minimumMinutes :: nat
  du_maximumMinutes :: "nat option"

record service_row =
  sr_sourceRow :: int
  sr_externalId :: "string option"
  sr_category :: "string option"
  sr_name :: string
  sr_description :: "string option"
  sr_price :: "price option"
  sr_duration :: "duration option"
  sr_locationExternalId :: "string option"
  sr_bookingNotes :: "string option"
  sr_active :: bool
  sr_validFrom :: "string option"
  sr_validUntil :: "string option"
  sr_language :: "string option"
  sr_evidence :: "csv_header \<rightharpoonup> cell_evidence"
  sr_diagnostics :: "diagnostic list"
  sr_valid :: bool

text \<open>The conversions that depend on the locale of the host or on Unicode tables.\<close>

record text_host =
  th_lower :: "string \<Rightarrow> string"
  th_upper :: "string \<Rightarrow> string"
  th_nfkc :: "string \<Rightarrow> string"

definition nullable :: "string option \<Rightarrow> string option" where
  "nullable v = (let normalized = (case v of Some s \<Rightarrow> js_trim s | None \<Rightarrow> [])
                 in if normalized \<noteq> [] then Some normalized else None)"

definition diag :: "string \<Rightarrow> string \<Rightarrow> int \<Rightarrow> csv_header \<Rightarrow> diagnostic" where
  "diag code message row field =
     \<lparr>dg_severity = ERROR, dg_code = code, dg_message = message, dg_row = Some row, dg_column = None,
      dg_field = Some field\<rparr>"

text \<open>A check appends its diagnostic to the list when its condition holds.\<close>

definition check :: "bool \<Rightarrow> diagnostic \<Rightarrow> diagnostic list \<Rightarrow> diagnostic list" where
  "check c d ds = (if c then ds @ [d] else ds)"

definition exactDecimal ::
    "string option \<Rightarrow> csv_header \<Rightarrow> int \<Rightarrow> diagnostic list \<Rightarrow> string option \<times> diagnostic list" where
  "exactDecimal v field row ds =
     (case v of
        None \<Rightarrow> (None, ds)
      | Some s \<Rightarrow>
          if \<not> is_decimal s
          then (None, ds @ [diag ''BUSINESS_IMPORT_PRICE_INVALID''
                 ''Use a non-negative decimal with a dot and at most four decimal places.'' row field])
          else (Some s, ds))"

definition positive_integer ::
    "string option \<Rightarrow> csv_header \<Rightarrow> int \<Rightarrow> diagnostic list \<Rightarrow> nat option \<times> diagnostic list" where
  "positive_integer v field row ds =
     (case v of
        None \<Rightarrow> (None, ds)
      | Some s \<Rightarrow>
          if \<not> (s \<noteq> [] \<and> nonzero_digit (hd s) \<and> list_all digit s \<and> length s \<le> 6)
          then (None, ds @ [diag ''BUSINESS_IMPORT_DURATION_INVALID''
                 ''Duration must be a positive whole number of minutes.'' row field])
          else (Some (dec_val s), ds))"

definition iso_date_ok :: "string \<Rightarrow> bool" where
  "iso_date_ok s =
     (length s = 10 \<and> list_all digit (take 4 s) \<and> s ! 4 = CHR ''-'' \<and> list_all digit (take 2 (drop 5 s)) \<and>
      s ! 7 = CHR ''-'' \<and> list_all digit (drop 8 s) \<and> is_iso_timestamp (s @ ''T00:00:00.000Z''))"

definition isoDate ::
    "string option \<Rightarrow> csv_header \<Rightarrow> int \<Rightarrow> diagnostic list \<Rightarrow> string option \<times> diagnostic list" where
  "isoDate v field row ds =
     (case v of
        None \<Rightarrow> (None, ds)
      | Some s \<Rightarrow>
          if \<not> iso_date_ok s
          then (None, ds @ [diag ''BUSINESS_IMPORT_DATE_INVALID'' ''Use an ISO date in YYYY-MM-DD format.'' row field])
          else (Some s, ds))"

definition true_words :: "nat list list" where
  "true_words = [units ''true'', units ''1'', units ''yes'', [1076, 1072], units ''ja'', units ''oui'',
     units ''si'', [115, 237], units ''sim'']"

definition false_words :: "nat list list" where
  "false_words = [units ''false'', units ''0'', units ''no'', [1085, 1077, 1090], units ''nein'', units ''non'',
     units ''nao'', [110, 227, 111]]"

definition activeValue :: "text_host \<Rightarrow> string option \<Rightarrow> int \<Rightarrow> diagnostic list \<Rightarrow> bool \<times> diagnostic list" where
  "activeValue th v row ds =
     (case v of
        None \<Rightarrow> (True, ds)
      | Some s \<Rightarrow>
          (let normalized = units (th_lower th s) in
           if normalized \<in> set true_words then (True, ds)
           else if normalized \<in> set false_words then (False, ds)
           else (True, ds @ [diag ''BUSINESS_IMPORT_ACTIVE_INVALID'' ''Active must be true or false.'' row H_active])))"

type_synonym cell_values = "csv_header \<rightharpoonup> string"

definition decimals_reversed :: "string option \<Rightarrow> string option \<Rightarrow> bool" where
  "decimals_reversed from to =
     (case (from, to) of
        (Some f, Some t) \<Rightarrow> (case compareBusinessImportDecimals f t of Inr c \<Rightarrow> c > 0 | Inl e \<Rightarrow> False)
      | _ \<Rightarrow> False)"

text \<open>The checks of a price whose type is known, in the order of the code.\<close>

definition price_checks ::
    "priceType \<Rightarrow> string option \<Rightarrow> string option \<Rightarrow> string option \<Rightarrow> string option \<Rightarrow> int \<Rightarrow> diagnostic list
     \<Rightarrow> diagnostic list" where
  "price_checks type amount from to currency row ds =
     (let ds1 = check (truthy currency \<and> \<not> isBusinessImportCurrencyCode (the currency))
            (diag ''BUSINESS_IMPORT_CURRENCY_INVALID'' ''Currency must be a current three-letter ISO 4217 code.'' row H_currency) ds;
          ds2 = check (type = FIXED \<and> amount = None)
            (diag ''BUSINESS_IMPORT_PRICE_AMOUNT_REQUIRED'' ''FIXED prices require price_amount.'' row H_price_amount) ds1;
          ds3 = check (type = FROM \<and> from = None \<and> amount = None)
            (diag ''BUSINESS_IMPORT_PRICE_FROM_REQUIRED'' ''FROM prices require price_from or price_amount.'' row H_price_from) ds2;
          ds4 = check (type = RANGE \<and> (from = None \<or> to = None))
            (diag ''BUSINESS_IMPORT_PRICE_RANGE_REQUIRED'' ''RANGE prices require price_from and price_to.'' row H_price_from) ds3;
          ds5 = check (decimals_reversed from to)
            (diag ''BUSINESS_IMPORT_PRICE_RANGE_REVERSED'' ''price_from cannot exceed price_to.'' row H_price_to) ds4;
          ds6 = check (type \<in> {FREE, ON_REQUEST} \<and> (truthy amount \<or> truthy from \<or> truthy to))
            (diag ''BUSINESS_IMPORT_PRICE_VALUE_NOT_ALLOWED''
              (priceType_text type @ '' must not contain a numeric price.'') row H_price_amount) ds5
      in check (type \<notin> {FREE, ON_REQUEST} \<and> \<not> truthy currency)
           (diag ''BUSINESS_IMPORT_CURRENCY_REQUIRED'' ''A currency is required for numeric prices.'' row H_currency) ds6)"

definition price_of_type ::
    "priceType \<Rightarrow> string option \<Rightarrow> string option \<Rightarrow> string option \<Rightarrow> string option \<Rightarrow> string option
     \<Rightarrow> string option \<Rightarrow> price" where
  "price_of_type type amount from to currency unit taxNote =
     \<lparr>pr_type = type, pr_amount = (if type = FIXED then amount else None),
      pr_from = (if type = FROM then (case from of Some f \<Rightarrow> Some f | None \<Rightarrow> amount)
                 else if type = RANGE then from else None),
      pr_to = (if type = RANGE then to else None), pr_currency = currency, pr_unit = unit,
      pr_taxNote = taxNote\<rparr>"

definition validatePrice ::
    "text_host \<Rightarrow> cell_values \<Rightarrow> int \<Rightarrow> diagnostic list \<Rightarrow> price option \<times> diagnostic list" where
  "validatePrice th vs row ds =
     (let rawType = map_option (th_upper th) (nullable (vs H_price_type));
          (amount, ds1) = exactDecimal (nullable (vs H_price_amount)) H_price_amount row ds;
          (from, ds2) = exactDecimal (nullable (vs H_price_from)) H_price_from row ds1;
          (to, ds3) = exactDecimal (nullable (vs H_price_to)) H_price_to row ds2;
          currency = map_option (th_upper th) (nullable (vs H_currency));
          unit = nullable (vs H_price_unit);
          taxNote = nullable (vs H_tax_note)
      in if list_all (\<lambda>v. v = None) [rawType, amount, from, to, currency, unit, taxNote] then (None, ds3)
         else case Option.bind rawType priceType_of of
           None \<Rightarrow> (None, ds3 @ [diag ''BUSINESS_IMPORT_PRICE_TYPE_INVALID''
                     ''Price type must be FIXED, FROM, RANGE, FREE, or ON_REQUEST.'' row H_price_type])
         | Some type \<Rightarrow> (Some (price_of_type type amount from to currency unit taxNote),
                       price_checks type amount from to currency row ds3))"

text \<open>The pattern \<open>^[a-z]{2,3}(?:-[a-z0-9]{2,8})*$\<close>.\<close>

definition language_ok :: "string \<Rightarrow> bool" where
  "language_ok s =
     (case js_split (CHR ''-'') s of
        [] \<Rightarrow> False
      | first # rest \<Rightarrow>
          2 \<le> length first \<and> length first \<le> 3 \<and> list_all (\<lambda>c. c \<in> set ''abcdefghijklmnopqrstuvwxyz'') first \<and>
          list_all (\<lambda>p. 2 \<le> length p \<and> length p \<le> 8 \<and> list_all lower_alnum p) rest)"

text \<open>A column of the file: a field of the template, or, for a header that names a member of
  \<open>Object.prototype\<close>, what the alias table inherits under that name.\<close>

datatype column_field = Field csv_header | Inherited string

type_synonym column = "column_field \<times> nat"

definition cell_at :: "string list \<Rightarrow> nat \<Rightarrow> string" where
  "cell_at record column = (if 1 \<le> column \<and> column \<le> length record then record ! (column - 1) else [])"

definition row_values :: "string list \<Rightarrow> column list \<Rightarrow> cell_values" where
  "row_values record columns =
     foldl (\<lambda>vs (f, column). case f of Field h \<Rightarrow> vs(h \<mapsto> cell_at record column) | Inherited s \<Rightarrow> vs) Map.empty columns"

type_synonym evidence_factory = "int \<Rightarrow> nat \<Rightarrow> csv_header \<Rightarrow> string \<Rightarrow> cell_evidence option"

definition csv_evidence :: evidence_factory where
  "csv_evidence row column field sourceValue = Some (Csv_cell row column field sourceValue)"

definition row_evidence ::
    "evidence_factory \<Rightarrow> string list \<Rightarrow> int \<Rightarrow> column list \<Rightarrow> csv_header \<rightharpoonup> cell_evidence" where
  "row_evidence factory record sourceRow columns =
     foldl (\<lambda>ev (f, column). case f of
              Field h \<Rightarrow> (case factory sourceRow column h (cell_at record column) of Some e \<Rightarrow> ev(h \<mapsto> e) | None \<Rightarrow> ev)
            | Inherited s \<Rightarrow> ev) Map.empty columns"

definition name_checks :: "string \<Rightarrow> string option \<Rightarrow> int \<Rightarrow> diagnostic list \<Rightarrow> diagnostic list" where
  "name_checks name description row ds =
     (let ds1 = check (name = []) (diag ''BUSINESS_IMPORT_SERVICE_NAME_REQUIRED'' ''Service name is required.'' row H_name) ds;
          ds2 = check (name \<noteq> [] \<and> length name > 160)
            (diag ''BUSINESS_IMPORT_SERVICE_NAME_TOO_LONG'' ''Service name must not exceed 160 characters.'' row H_name) ds1
      in check (truthy description \<and> length (the description) > 2000)
           (diag ''BUSINESS_IMPORT_SERVICE_DESCRIPTION_TOO_LONG'' ''Service description must not exceed 2,000 characters.''
             row H_description) ds2)"

definition duration_checks :: "nat option \<Rightarrow> nat option \<Rightarrow> int \<Rightarrow> diagnostic list \<Rightarrow> diagnostic list" where
  "duration_checks minimum maximum row ds =
     (let ds1 = check (minimum = None \<and> maximum \<noteq> None)
            (diag ''BUSINESS_IMPORT_DURATION_MINIMUM_REQUIRED'' ''duration_max_minutes requires duration_minutes.''
              row H_duration_minutes) ds
      in check (case (minimum, maximum) of (Some a, Some b) \<Rightarrow> a > b | _ \<Rightarrow> False)
           (diag ''BUSINESS_IMPORT_DURATION_RANGE_REVERSED'' ''duration_minutes cannot exceed duration_max_minutes.''
             row H_duration_max_minutes) ds1)"

definition validity_check :: "string option \<Rightarrow> string option \<Rightarrow> int \<Rightarrow> diagnostic list \<Rightarrow> diagnostic list" where
  "validity_check validFrom validUntil row ds =
     check (case (validFrom, validUntil) of (Some f, Some u) \<Rightarrow> str_less u f | _ \<Rightarrow> False)
       (diag ''BUSINESS_IMPORT_VALIDITY_REVERSED'' ''valid_from cannot be after valid_until.'' row H_valid_until) ds"

definition language_check :: "string option \<Rightarrow> int \<Rightarrow> diagnostic list \<Rightarrow> diagnostic list" where
  "language_check language row ds =
     check (truthy language \<and> \<not> language_ok (the language))
       (diag ''BUSINESS_IMPORT_LANGUAGE_INVALID'' ''Language must be a valid BCP 47-style tag such as en or ru-RU.''
         row H_language) ds"

definition price_dates_check ::
    "string option \<Rightarrow> string option \<Rightarrow> price option \<Rightarrow> int \<Rightarrow> diagnostic list \<Rightarrow> diagnostic list" where
  "price_dates_check validFrom validUntil price row ds =
     check ((truthy validFrom \<or> truthy validUntil) \<and> price = None)
       (diag ''BUSINESS_IMPORT_PRICE_DATES_REQUIRE_PRICE'' ''valid_from and valid_until require a typed price.'' row
         (if truthy validFrom then H_valid_from else H_valid_until)) ds"

definition parseBusinessServiceRow ::
    "text_host \<Rightarrow> evidence_factory \<Rightarrow> string list \<Rightarrow> int \<Rightarrow> column list \<Rightarrow> service_row" where
  "parseBusinessServiceRow th factory record sourceRow columns =
     (let vs = row_values record columns;
          name = (case nullable (vs H_name) of Some n \<Rightarrow> n | None \<Rightarrow> []);
          description = nullable (vs H_description);
          ds1 = name_checks name description sourceRow [];
          (minimum, ds2) = positive_integer (nullable (vs H_duration_minutes)) H_duration_minutes sourceRow ds1;
          (maximum, ds3) = positive_integer (nullable (vs H_duration_max_minutes)) H_duration_max_minutes sourceRow ds2;
          ds4 = duration_checks minimum maximum sourceRow ds3;
          (validFrom, ds5) = isoDate (nullable (vs H_valid_from)) H_valid_from sourceRow ds4;
          (validUntil, ds6) = isoDate (nullable (vs H_valid_until)) H_valid_until sourceRow ds5;
          ds7 = validity_check validFrom validUntil sourceRow ds6;
          language = map_option (th_lower th) (nullable (vs H_language));
          ds8 = language_check language sourceRow ds7;
          (price, ds9) = validatePrice th vs sourceRow ds8;
          ds10 = price_dates_check validFrom validUntil price sourceRow ds9;
          (active, ds11) = activeValue th (nullable (vs H_active)) sourceRow ds10
      in \<lparr>sr_sourceRow = sourceRow, sr_externalId = nullable (vs H_external_id),
          sr_category = nullable (vs H_category), sr_name = name, sr_description = description,
          sr_price = price,
          sr_duration = (case minimum of
             None \<Rightarrow> None
           | Some m \<Rightarrow> Some \<lparr>du_minimumMinutes = m, du_maximumMinutes = maximum\<rparr>),
          sr_locationExternalId = nullable (vs H_location_external_id),
          sr_bookingNotes = nullable (vs H_booking_notes), sr_active = active, sr_validFrom = validFrom,
          sr_validUntil = validUntil, sr_language = language,
          sr_evidence = row_evidence factory record sourceRow columns, sr_diagnostics = ds11,
          sr_valid = list_all (\<lambda>d. dg_severity d \<noteq> ERROR) ds11\<rparr>)"

section \<open>Files\<close>

record csv_limits =
  cl_maxBytes :: nat
  cl_maxRows :: nat
  cl_maxColumns :: nat
  cl_maxCellCharacters :: nat
  cl_maxServices :: nat
  cl_maxTotalCharacters :: nat

definition DEFAULT_LIMITS :: csv_limits where
  "DEFAULT_LIMITS = \<lparr>cl_maxBytes = 10 * 1024 * 1024, cl_maxRows = 10000, cl_maxColumns = 100,
     cl_maxCellCharacters = 8 * 1024, cl_maxServices = BUSINESS_IMPORT_SERVICE_LIMIT,
     cl_maxTotalCharacters = 1000000\<rparr>"

datatype csv_error = CsvError string string | CsvParserError

text \<open>The host: the strict UTF-8 decoder (without a leading byte order mark), the Windows-1251 decoder,
  and the records the CSV parser emits for a delimiter and a maximal record size, with a flag that
  says whether it reached the end without an error.\<close>

record csv_host = text_host +
  ch_utf8 :: "nat list \<Rightarrow> string option"
  ch_windows1251 :: "nat list \<Rightarrow> string"
  ch_parse :: "char \<Rightarrow> nat \<Rightarrow> string \<Rightarrow> string list list \<times> bool"

datatype encoding = UTF_8 | WINDOWS_1251

definition decodeCsv :: "'a csv_host_scheme \<Rightarrow> nat list \<Rightarrow> string \<times> encoding" where
  "decodeCsv ch bytes =
     (case ch_utf8 ch bytes of Some text \<Rightarrow> (text, UTF_8) | None \<Rightarrow> (ch_windows1251 ch bytes, WINDOWS_1251))"

definition normalizeHeader :: "'a text_host_scheme \<Rightarrow> string \<Rightarrow> string" where
  "normalizeHeader th v =
     collapse_runs (\<lambda>c. js_space c \<or> c = CHR ''-'') (CHR ''_'') False (th_lower th (js_trim (th_nfkc th v)))"

definition object_members :: "string list" where
  "object_members = [''constructor'', ''__defineGetter__'', ''__defineSetter__'', ''hasOwnProperty'',
     ''__lookupGetter__'', ''__lookupSetter__'', ''isPrototypeOf'', ''propertyIsEnumerable'', ''toString'',
     ''valueOf'', ''__proto__'', ''toLocaleString'']"

definition resolveBusinessServiceHeader :: "'a text_host_scheme \<Rightarrow> string \<Rightarrow> column_field option" where
  "resolveBusinessServiceHeader th v =
     (let key = normalizeHeader th v in
      case map_of HEADER_ALIASES (units key) of
        Some h \<Rightarrow> Some (Field h)
      | None \<Rightarrow> if key \<in> set object_members then Some (Inherited key) else None)"

definition row_limit_error :: "csv_limits \<Rightarrow> csv_error" where
  "row_limit_error limits = CsvError ''BUSINESS_IMPORT_CSV_ROW_LIMIT''
     (''The CSV file contains more than '' @ nat_str (cl_maxRows limits) @ '' data rows.'')"

definition parseMatrix ::
    "'a csv_host_scheme \<Rightarrow> string \<Rightarrow> char \<Rightarrow> csv_limits \<Rightarrow> csv_error + string list list" where
  "parseMatrix ch text delimiter limits =
     (case ch_parse ch delimiter (cl_maxCellCharacters limits * cl_maxColumns limits) text of
        (records, ok) \<Rightarrow>
          if length records > Suc (cl_maxRows limits) then Inl (row_limit_error limits)
          else if \<not> ok then Inl CsvParserError
          else case records of
            [] \<Rightarrow> Inl (CsvError ''BUSINESS_IMPORT_CSV_EMPTY'' ''The CSV file is empty.'')
          | first # _ \<Rightarrow>
              (let width = length first in
               if width = 0 \<or> width > cl_maxColumns limits
               then Inl (CsvError ''BUSINESS_IMPORT_CSV_COLUMN_LIMIT''
                      (''The CSV file must contain between 1 and '' @ nat_str (cl_maxColumns limits) @ '' columns.''))
               else (case List.find (\<lambda>r. length r \<noteq> width \<or>
                              list_ex (\<lambda>cell. length cell > cl_maxCellCharacters limits) r) records of
                       Some r \<Rightarrow>
                         if length r \<noteq> width
                         then Inl (CsvError ''BUSINESS_IMPORT_CSV_INCONSISTENT_COLUMNS''
                                ''CSV rows contain inconsistent column counts.'')
                         else Inl (CsvError ''BUSINESS_IMPORT_CSV_CELL_LIMIT''
                                (''A CSV value exceeds '' @ nat_str (cl_maxCellCharacters limits) @ '' characters.''))
                     | None \<Rightarrow> Inr records)))"

record attempt =
  ap_delimiter :: char
  ap_records :: "string list list"
  ap_knownHeaders :: nat
  ap_width :: nat

definition delimiter_attempt :: "'a csv_host_scheme \<Rightarrow> string \<Rightarrow> csv_limits \<Rightarrow> char \<Rightarrow> attempt option" where
  "delimiter_attempt ch text limits delimiter =
     (case parseMatrix ch text delimiter limits of
        Inl e \<Rightarrow> None
      | Inr records \<Rightarrow>
          (let rawHeaders = (case records of r # _ \<Rightarrow> r | [] \<Rightarrow> [])
           in Some \<lparr>ap_delimiter = delimiter, ap_records = records,
                    ap_knownHeaders = length (filter (\<lambda>h. resolveBusinessServiceHeader ch h \<noteq> None) rawHeaders),
                    ap_width = length rawHeaders\<rparr>))"

definition attempt_cmp :: "attempt \<Rightarrow> attempt \<Rightarrow> int" where
  "attempt_cmp l r =
     (let known = int (ap_knownHeaders r) - int (ap_knownHeaders l)
      in if known \<noteq> 0 then known else int (ap_width r) - int (ap_width l))"

definition detectDelimiter :: "'a csv_host_scheme \<Rightarrow> string \<Rightarrow> csv_limits \<Rightarrow> csv_error + attempt" where
  "detectDelimiter ch text limits =
     (let attempts = List.map_filter (delimiter_attempt ch text limits) [CHR '','', CHR '';'', CHR 0x09];
          viable = js_sort attempt_cmp (filter (\<lambda>a. ap_knownHeaders a > 0 \<and> ap_width a > 1) attempts);
          singleColumn = List.find (\<lambda>a. ap_delimiter a = CHR '','' \<and> ap_knownHeaders a > 0 \<and> ap_width a = 1) attempts
      in case viable of
           [] \<Rightarrow> (case singleColumn of
                    Some a \<Rightarrow> Inr a
                  | None \<Rightarrow> Inl (CsvError ''BUSINESS_IMPORT_CSV_DELIMITER_UNKNOWN''
                      ''LeadVirt could not identify a comma, semicolon, or tab-delimited services table.''))
         | [a] \<Rightarrow> Inr a
         | a # b # _ \<Rightarrow>
             if ap_knownHeaders b = ap_knownHeaders a \<and> ap_width b = ap_width a \<and> ap_delimiter b \<noteq> ap_delimiter a
             then Inl (CsvError ''BUSINESS_IMPORT_CSV_DELIMITER_AMBIGUOUS''
                    ''The CSV delimiter is ambiguous. Export the file with a consistent comma or semicolon delimiter.'')
             else Inr a)"

definition unused_column :: "string \<Rightarrow> nat \<Rightarrow> diagnostic" where
  "unused_column rawHeader column =
     \<lparr>dg_severity = WARNING, dg_code = ''BUSINESS_IMPORT_COLUMN_UNUSED'',
      dg_message = ''Column '' @ [CHR 0x27] @
        (if js_trim rawHeader \<noteq> [] then js_trim rawHeader else nat_str column) @ [CHR 0x27] @ '' is not used.'',
      dg_row = None, dg_column = Some column, dg_field = None\<rparr>"

text \<open>The text of a field in a message: an inherited member is an object or a function.\<close>

fun field_name :: "column_field \<Rightarrow> string" where
  "field_name (Field h) = header_text h"
| "field_name (Inherited s) =
     (if s = ''__proto__'' then ''[object Object]''
      else ''function '' @ (if s = ''constructor'' then ''Object'' else s) @ ''() { [native code] }'')"

fun read_headers ::
    "'a text_host_scheme \<Rightarrow> string list \<Rightarrow> nat \<Rightarrow> column list \<times> diagnostic list \<Rightarrow> csv_error + (column list \<times> diagnostic list)" where
  "read_headers th [] column acc = Inr acc"
| "read_headers th (rawHeader # hs) column (columns, ds) =
     (case resolveBusinessServiceHeader th rawHeader of
        None \<Rightarrow> read_headers th hs (Suc column) (columns, ds @ [unused_column rawHeader column])
      | Some f \<Rightarrow>
          if f \<in> fst ` set columns
          then Inl (CsvError ''BUSINESS_IMPORT_CSV_DUPLICATE_COLUMN''
                 (''More than one CSV column maps to '' @ [CHR 0x27] @ field_name f @ [CHR 0x27] @ ''.''))
          else read_headers th hs (Suc column) (columns @ [(f, column)], ds))"

record parsed_services =
  ps_encoding :: encoding
  ps_delimiter :: char
  ps_headers :: "column_field list"
  ps_rows :: "service_row list"
  ps_diagnostics :: "diagnostic list"
  ps_totalRows :: nat
  ps_validRows :: nat
  ps_invalidRows :: nat

definition encoding_inferred :: diagnostic where
  "encoding_inferred = \<lparr>dg_severity = WARNING, dg_code = ''BUSINESS_IMPORT_ENCODING_INFERRED'',
     dg_message = ''The file was read as Windows-1251. Confirm text before applying changes.'',
     dg_row = None, dg_column = None, dg_field = None\<rparr>"

definition number_rows :: "int \<Rightarrow> 'r list \<Rightarrow> (int \<times> 'r) list" where
  "number_rows n rs = zip (map (\<lambda>i. n + int i) [0..<length rs]) rs"

definition parseBusinessServicesCsv ::
    "csv_host \<Rightarrow> csv_limits \<Rightarrow> nat list \<Rightarrow> csv_error + parsed_services" where
  "parseBusinessServicesCsv ch limits bytes =
     (if length bytes > cl_maxBytes limits
      then Inl (CsvError ''BUSINESS_IMPORT_CSV_BYTE_LIMIT''
             (''The CSV file exceeds '' @ nat_str (cl_maxBytes limits) @ '' bytes.''))
      else case decodeCsv ch bytes of (text, enc) \<Rightarrow>
        if length text > cl_maxTotalCharacters limits
        then Inl (CsvError ''BUSINESS_IMPORT_CSV_CHARACTER_LIMIT''
               (''The CSV file exceeds '' @ nat_str (cl_maxTotalCharacters limits) @ '' decoded characters.''))
        else andThen (detectDelimiter ch text limits) (\<lambda>selected.
             andThen (read_headers ch (case ap_records selected of r # _ \<Rightarrow> r | [] \<Rightarrow> []) 1 ([], [])) (\<lambda>(columns, ds).
               if Field H_name \<notin> fst ` set columns
               then Inl (CsvError ''BUSINESS_IMPORT_CSV_NAME_COLUMN_REQUIRED'' ''The CSV file requires a service name column.'')
               else
                 let records = drop 1 (ap_records selected) in
                 if length records > cl_maxServices limits
                 then Inl (CsvError ''BUSINESS_IMPORT_SERVICE_LIMIT''
                        (''The file contains more than '' @ nat_str (cl_maxServices limits) @ '' services.''))
                 else
                   let rows = map (\<lambda>(n, r). parseBusinessServiceRow (text_host.truncate ch) csv_evidence r n columns)
                                (number_rows 2 records);
                       validRows = length (filter sr_valid rows)
                   in Inr \<lparr>ps_encoding = enc, ps_delimiter = ap_delimiter selected, ps_headers = map fst columns,
                           ps_rows = rows,
                           ps_diagnostics = ds @ (if enc = WINDOWS_1251 then [encoding_inferred] else []),
                           ps_totalRows = length rows, ps_validRows = validRows,
                           ps_invalidRows = length rows - validRows\<rparr>)))"

end
