(* ===== verification/Service_Row_Properties.thy ===== *)
theory Service_Row_Properties
  imports Service_Row
begin

text \<open>
  Properties of imported rows: decimals compare by value and have one canonical form each, and a row
  without errors satisfies every rule of the template.
\<close>

section \<open>Decimals\<close>

lemma join_js_split: "join [c] (js_split c s) = s"
proof (induction s)
  case (Cons x xs)
  then show ?case by (cases "js_split c xs") (auto simp: join_def)
qed (simp add: join_def)

lemma js_split_none: "c \<notin> set s \<Longrightarrow> js_split c s = [s]"
  by (induction s) auto

lemma js_split_two: "c \<notin> set s \<Longrightarrow> c \<notin> set t \<Longrightarrow> js_split c (s @ c # t) = [s, t]"
  by (induction s) (auto simp: js_split_none)

text \<open>The decimals of the pattern: a whole part, and at most four digits after a dot.\<close>

definition decimal_text :: "string \<Rightarrow> string \<Rightarrow> string" where
  "decimal_text w f = (if f = [] then w else w @ ''.'' @ f)"

lemma digit_0 [simp]: "digit (CHR ''0'')"
  by (simp add: digit_def)

lemma whole_ok_digits: "whole_ok w \<Longrightarrow> list_all digit w \<and> w \<noteq> []"
  by (auto simp: whole_ok_def)

lemma digits_no_dot: "list_all digit w \<Longrightarrow> CHR ''.'' \<notin> set w"
  by (auto simp: list_all_iff digit_def)

lemma decimal_split:
  assumes "whole_ok w" "list_all digit f"
  shows "js_split (CHR ''.'') (decimal_text w f) = (if f = [] then [w] else [w, f])"
  using assms digits_no_dot whole_ok_digits js_split_two [of "CHR ''.''" w f] js_split_none [of "CHR ''.''" w]
  by (auto simp: decimal_text_def)

lemma decimal_text_inj:
  assumes "whole_ok w" "list_all digit f" "whole_ok v" "list_all digit g"
  shows "decimal_text w f = decimal_text v g \<longleftrightarrow> w = v \<and> f = g"
proof
  assume "decimal_text w f = decimal_text v g"
  then have "(if f = [] then [w] else [w, f]) = (if g = [] then [v] else [v, g])"
    unfolding decimal_split [OF assms(1,2), symmetric] decimal_split [OF assms(3,4), symmetric] by (rule arg_cong)
  then show "w = v \<and> f = g" by (cases "f = []"; cases "g = []") simp_all
qed simp

lemma is_decimal_text:
  "whole_ok w \<Longrightarrow> list_all digit f \<Longrightarrow> length f \<le> 4 \<Longrightarrow> is_decimal (decimal_text w f)"
  by (auto simp: is_decimal_def decimal_split Suc_le_eq)

lemma is_decimalE:
  assumes "is_decimal s"
  obtains w f where "s = decimal_text w f" "whole_ok w" "list_all digit f" "length f \<le> 4"
proof -
  from assms consider (one) w where "js_split (CHR ''.'') s = [w]" "whole_ok w"
    | (two) w f where "js_split (CHR ''.'') s = [w, f]" "whole_ok w" "list_all digit f" "1 \<le> length f" "length f \<le> 4"
    by (auto simp: is_decimal_def split: list.splits)
  then show thesis
  proof cases
    case one
    have "s = decimal_text w []" using join_js_split [of "CHR ''.''" s] one(1) by (simp add: join_def decimal_text_def)
    then show thesis using that one(2) by simp
  next
    case two
    have "s = decimal_text w f"
      using join_js_split [of "CHR ''.''" s] two(1,4) by (auto simp: join_def decimal_text_def)
    then show thesis using that two by blast
  qed
qed

lemma scaled_text:
  "whole_ok w \<Longrightarrow> list_all digit f \<Longrightarrow> length f \<le> 4 \<Longrightarrow>
   scaled (decimal_text w f) = Inr (dec_val w * 10000 + dec_val (padEnd 4 f))"
  by (simp add: scaled_def is_decimal_text decimal_split)

lemma trim_zeros_Nil [simp]: "trim_zeros [] = []"
  by (simp add: trim_zeros_def)

lemma canonical_text:
  assumes "whole_ok w" "list_all digit f" "length f \<le> 4"
  shows "canonicalBusinessImportDecimal (Some (decimal_text w f)) = Some (decimal_text w (trim_zeros f))"
proof -
  have "\<not> \<not> is_decimal (decimal_text w f)" using is_decimal_text [OF assms] by simp
  then show ?thesis
    unfolding canonicalBusinessImportDecimal_def option.case decimal_split [OF assms(1,2)]
    by (cases "f = []") (simp_all add: decimal_text_def)
qed

lemma dec_val_append1: "dec_val (s @ [c]) = 10 * dec_val s + (of_char c - 48)"
  by (simp add: dec_val_def)

lemma digit_val_less: "digit c \<Longrightarrow> of_char c - 48 < (10::nat)"
  unfolding digit_def by linarith

lemma digit_val_inj:
  assumes "digit c" "digit d" "of_char c - 48 = (of_char d - 48 :: nat)"
  shows "c = d"
proof -
  have "(of_char c :: nat) = of_char d" using assms unfolding digit_def by linarith
  then show ?thesis by simp
qed

lemma dec_val_less: "list_all digit s \<Longrightarrow> dec_val s < 10 ^ length s"
proof (induction s rule: rev_induct)
  case (snoc c s)
  then show ?case using digit_val_less [of c] by (simp add: dec_val_append1)
qed (simp add: dec_val_def)

lemma dec_val_inj:
  "length s = length t \<Longrightarrow> list_all digit s \<Longrightarrow> list_all digit t \<Longrightarrow> dec_val s = dec_val t \<Longrightarrow> s = t"
proof (induction s arbitrary: t rule: rev_induct)
  case (snoc c s)
  then obtain u d where t: "t = u @ [d]" by (cases t rule: rev_cases) auto
  have d: "of_char c - 48 < (10::nat)" "of_char d - 48 < (10::nat)" using snoc.prems t digit_val_less by auto
  have e: "10 * dec_val s + (of_char c - 48) = 10 * dec_val u + (of_char d - 48)"
    using snoc.prems(4) t by (simp add: dec_val_append1)
  then have "dec_val s = dec_val u" using d by presburger
  moreover from this e have "of_char c - 48 = (of_char d - 48 :: nat)" by simp
  ultimately show ?case using snoc t digit_val_inj by simp
qed simp

lemma nonzero_digit_val: "nonzero_digit c \<Longrightarrow> 1 \<le> of_char c - (48::nat)"
proof -
  assume a: "nonzero_digit c"
  have "(of_char c :: nat) \<noteq> of_char (CHR ''0'')" using a by (simp only: nonzero_digit_def of_char_eq_iff simp_thms)
  moreover have "48 \<le> (of_char c :: nat)" using a by (simp add: nonzero_digit_def digit_def)
  ultimately show ?thesis by simp
qed

lemma dec_val_ge: "s \<noteq> [] \<Longrightarrow> nonzero_digit (hd s) \<Longrightarrow> 10 ^ (length s - 1) \<le> dec_val s"
proof (induction s rule: rev_induct)
  case (snoc c s)
  show ?case
  proof (cases "s = []")
    case True
    then show ?thesis using snoc.prems nonzero_digit_val [of c] by (simp add: dec_val_def)
  next
    case False
    then have "10 ^ (length s - 1) \<le> dec_val s" using snoc by simp
    then have "10 * 10 ^ (length s - 1) \<le> dec_val (s @ [c])" by (simp add: dec_val_append1)
    moreover have "10 * 10 ^ (length s - 1) = (10::nat) ^ length s" using False by (cases s) auto
    ultimately show ?thesis by simp
  qed
qed simp

lemma whole_val_inj:
  assumes "whole_ok v" "whole_ok w" "dec_val v = dec_val w"
  shows "v = w"
proof -
  have nz: "0 < dec_val u \<and> 10 ^ (length u - 1) \<le> dec_val u" if "whole_ok u" "u \<noteq> ''0''" for u
  proof -
    have "10 ^ (length u - 1) \<le> dec_val u" using that by (intro dec_val_ge) (auto simp: whole_ok_def)
    then show ?thesis by (metis less_le_trans zero_less_numeral zero_less_power)
  qed
  have z: "dec_val ''0'' = 0" by (simp add: dec_val_def)
  show ?thesis
  proof (cases "v = ''0'' \<or> w = ''0''")
    case True
    then show ?thesis using nz [of v] nz [of w] assms z by force
  next
    case False
    have l: "length u - 1 < length u'" if "whole_ok u" "u \<noteq> ''0''" "whole_ok u'" "dec_val u = dec_val u'" for u u'
    proof -
      have "10 ^ (length u - 1) < (10::nat) ^ length u'"
        using nz [OF that(1,2)] dec_val_less [of u'] whole_ok_digits [OF that(3)] that(4) by linarith
      then show ?thesis using power_less_imp_less_exp [of 10] by simp
    qed
    have "length v = length w"
      using l [of v w] l [of w v] False assms whole_ok_digits [OF assms(1)] whole_ok_digits [OF assms(2)]
      by (cases v; cases w) auto
    then show ?thesis using dec_val_inj assms whole_ok_digits by blast
  qed
qed

text \<open>Trailing zeros of the fraction do not matter.\<close>

lemma trim_zeros_decomp: "\<exists>k. f = trim_zeros f @ replicate k (CHR ''0'')"
proof -
  have "rev f = takeWhile (\<lambda>c. c = CHR ''0'') (rev f) @ dropWhile (\<lambda>c. c = CHR ''0'') (rev f)" by simp
  moreover have "takeWhile (\<lambda>c. c = CHR ''0'') xs = replicate (length (takeWhile (\<lambda>c. c = CHR ''0'') xs)) (CHR ''0'')" for xs
    by (induction xs) auto
  ultimately have "rev (rev f) = trim_zeros f @ rev (replicate (length (takeWhile (\<lambda>c. c = CHR ''0'') (rev f))) (CHR ''0''))"
    unfolding trim_zeros_def by (metis rev_append)
  then show ?thesis by auto
qed

lemma trim_zeros_append: "trim_zeros (f @ replicate k (CHR ''0'')) = trim_zeros f"
proof -
  have "dropWhile (\<lambda>c. c = CHR ''0'') (replicate k (CHR ''0'') @ xs) = dropWhile (\<lambda>c. c = CHR ''0'') xs" for xs
    by (induction k) auto
  then show ?thesis by (simp add: trim_zeros_def)
qed

lemma padEnd_trim: "length f \<le> 4 \<Longrightarrow> padEnd 4 (trim_zeros f) = padEnd 4 f"
proof -
  assume l: "length f \<le> 4"
  obtain k where k: "f = trim_zeros f @ replicate k (CHR ''0'')" using trim_zeros_decomp by blast
  have "length f = length (trim_zeros f) + k" using arg_cong [OF k, of length] by simp
  then have "replicate k (CHR ''0'') @ replicate (4 - length f) (CHR ''0'') = replicate (4 - length (trim_zeros f)) (CHR ''0'')"
    using l by (simp flip: replicate_add)
  then show ?thesis using k unfolding padEnd_def by (metis append.assoc)
qed

lemma fraction_val_iff:
  assumes "list_all digit f" "length f \<le> 4" "list_all digit g" "length g \<le> 4"
  shows "dec_val (padEnd 4 f) = dec_val (padEnd 4 g) \<longleftrightarrow> trim_zeros f = trim_zeros g"
proof
  assume e: "dec_val (padEnd 4 f) = dec_val (padEnd 4 g)"
  have d: "list_all digit (replicate k (CHR ''0''))" for k by (induction k) simp_all
  have "padEnd 4 f = padEnd 4 g"
    by (rule dec_val_inj [OF _ _ _ e]) (use assms d in \<open>simp_all add: padEnd_def\<close>)
  then show "trim_zeros f = trim_zeros g" using trim_zeros_append unfolding padEnd_def by metis
next
  assume "trim_zeros f = trim_zeros g"
  then show "dec_val (padEnd 4 f) = dec_val (padEnd 4 g)" using padEnd_trim assms(2,4) by metis
qed

lemma fraction_val_less: "list_all digit f \<Longrightarrow> length f \<le> 4 \<Longrightarrow> dec_val (padEnd 4 f) < 10000"
proof -
  assume a: "list_all digit f" "length f \<le> 4"
  have "list_all digit (replicate k (CHR ''0''))" for k by (induction k) simp_all
  then show ?thesis using dec_val_less [of "padEnd 4 f"] a by (simp add: padEnd_def)
qed

lemma sign_zero:
  "((let difference = int a - int b in Inr (if difference < 0 then -1 else if difference > 0 then 1 else 0)) = (Inr 0 :: 'e + int))
     \<longleftrightarrow> a = b"
  by (simp add: Let_def)

lemma base_10000:
  assumes "b < 10000" "d < (10000::nat)"
  shows "a * 10000 + b = c * 10000 + d \<longleftrightarrow> a = c \<and> b = d"
proof
  assume e: "a * 10000 + b = c * 10000 + d"
  have "(a * 10000 + b) div 10000 = a" "(a * 10000 + b) mod 10000 = b" using assms(1) by simp_all
  moreover have "(c * 10000 + d) div 10000 = c" "(c * 10000 + d) mod 10000 = d" using assms(2) by simp_all
  ultimately show "a = c \<and> b = d" unfolding e by simp
qed simp

lemma trim_zeros_ok: "list_all digit f \<Longrightarrow> list_all digit (trim_zeros f)" "length (trim_zeros f) \<le> length f"
proof -
  show "list_all digit (trim_zeros f)" if "list_all digit f"
    using that by (auto simp: trim_zeros_def list_all_iff dest: set_dropWhileD)
  show "length (trim_zeros f) \<le> length f"
    unfolding trim_zeros_def using length_dropWhile_le [of _ "rev f"] by simp
qed

lemma replicate_eq_numeral: "replicate (numeral k) x = x # replicate (pred_numeral k) x"
  by (simp add: numeral_eq_Suc)

text \<open>Prices are compared by value and stored in one form per value: two decimals of the template
  compare as equal exactly if they have the same canonical form, the canonical form of a decimal is a
  decimal equal to it, and canonicalising it again changes nothing.\<close>

theorem decimal_canonical_equiv:
  assumes "is_decimal l" "is_decimal r"
  shows "(compareBusinessImportDecimals l r = Inr 0 \<longleftrightarrow>
      canonicalBusinessImportDecimal (Some l) = canonicalBusinessImportDecimal (Some r)) \<and>
    (\<exists>c. canonicalBusinessImportDecimal (Some l) = Some c \<and> is_decimal c \<and>
       compareBusinessImportDecimals l c = Inr 0 \<and> canonicalBusinessImportDecimal (Some c) = Some c)"
proof -
  obtain w f where l: "l = decimal_text w f" "whole_ok w" "list_all digit f" "length f \<le> 4" by (rule is_decimalE [OF assms(1)])
  obtain v g where r: "r = decimal_text v g" "whole_ok v" "list_all digit g" "length g \<le> 4" by (rule is_decimalE [OF assms(2)])
  have cmp: "compareBusinessImportDecimals (decimal_text w f) (decimal_text u h) = Inr 0 \<longleftrightarrow> w = u \<and> trim_zeros f = trim_zeros h"
    if "whole_ok u" "list_all digit h" "length h \<le> 4" for u h
  proof -
    have "compareBusinessImportDecimals (decimal_text w f) (decimal_text u h) = Inr 0 \<longleftrightarrow>
        dec_val w * 10000 + dec_val (padEnd 4 f) = dec_val u * 10000 + dec_val (padEnd 4 h)"
      unfolding compareBusinessImportDecimals_def scaled_text [OF l(2-4)] scaled_text [OF that] andThen_simps
      by (rule sign_zero)
    also have "\<dots> \<longleftrightarrow> dec_val w = dec_val u \<and> dec_val (padEnd 4 f) = dec_val (padEnd 4 h)"
      by (rule base_10000 [OF fraction_val_less [OF l(3,4)] fraction_val_less [OF that(2,3)]])
    also have "\<dots> \<longleftrightarrow> w = u \<and> trim_zeros f = trim_zeros h"
      unfolding fraction_val_iff [OF l(3,4) that(2,3)] using whole_val_inj [OF l(2) that(1)] by blast
    finally show ?thesis .
  qed
  have tf: "list_all digit (trim_zeros f)" "length (trim_zeros f) \<le> 4" using trim_zeros_ok [of f] l(3,4) by auto
  have tg: "list_all digit (trim_zeros g)" using trim_zeros_ok [of g] r(3) by auto
  have tt: "trim_zeros (trim_zeros f) = trim_zeros f" using trim_zeros_append trim_zeros_decomp by metis
  have inj: "decimal_text w (trim_zeros f) = decimal_text v (trim_zeros g) \<longleftrightarrow> w = v \<and> trim_zeros f = trim_zeros g"
    by (rule decimal_text_inj [OF l(2) tf(1) r(2) tg])
  have one: "compareBusinessImportDecimals l r = Inr 0 \<longleftrightarrow>
      canonicalBusinessImportDecimal (Some l) = canonicalBusinessImportDecimal (Some r)"
    unfolding l(1) r(1) canonical_text [OF l(2-4)] canonical_text [OF r(2-4)] cmp [OF r(2-4)] option.inject inj by blast
  moreover have "compareBusinessImportDecimals l (decimal_text w (trim_zeros f)) = Inr 0"
    unfolding l(1) cmp [OF l(2) tf] tt by blast
  moreover have "canonicalBusinessImportDecimal (Some l) = Some (decimal_text w (trim_zeros f))"
    unfolding l(1) by (rule canonical_text [OF l(2-4)])
  moreover have "canonicalBusinessImportDecimal (Some (decimal_text w (trim_zeros f))) = Some (decimal_text w (trim_zeros f))"
    using canonical_text [OF l(2) tf] unfolding tt .
  ultimately show ?thesis using is_decimal_text [OF l(2) tf] by blast
qed

theorem decimal_canonical_equiv_witness:
  "compareBusinessImportDecimals ''10.50'' ''10.5'' = Inr 0 \<and>
   canonicalBusinessImportDecimal (Some ''10.50'') = canonicalBusinessImportDecimal (Some ''10.5'')"
proof -
  have d: "is_decimal ''10.50''" "is_decimal ''10.5''" by code_simp+
  note e = decimal_canonical_equiv [OF d]
  have "scaled ''10.50'' = Inr 105000" "scaled ''10.5'' = Inr 105000"
    by (simp_all add: scaled_def d dec_val_def padEnd_def replicate_eq_numeral)
  then have c: "compareBusinessImportDecimals ''10.50'' ''10.5'' = Inr 0"
    by (simp add: compareBusinessImportDecimals_def)
  show ?thesis by (rule conjI [OF c iffD1 [OF conjunct1 [OF e] c]])
qed

section \<open>Rows without errors\<close>

definition no_error :: "diagnostic list \<Rightarrow> bool" where
  "no_error ds = list_all (\<lambda>d. dg_severity d \<noteq> ERROR) ds"

definition decimal_of :: "string option \<Rightarrow> string option" where
  "decimal_of v = (case v of Some s \<Rightarrow> if is_decimal s then Some s else None | None \<Rightarrow> None)"

definition minutes_ok :: "string \<Rightarrow> bool" where
  "minutes_ok s = (s \<noteq> [] \<and> nonzero_digit (hd s) \<and> list_all digit s \<and> length s \<le> 6)"

definition minutes_of :: "string option \<Rightarrow> nat option" where
  "minutes_of v = (case v of Some s \<Rightarrow> if minutes_ok s then Some (dec_val s) else None | None \<Rightarrow> None)"

definition date_of :: "string option \<Rightarrow> string option" where
  "date_of v = (case v of Some s \<Rightarrow> if iso_date_ok s then Some s else None | None \<Rightarrow> None)"

text \<open>What a check reads does not depend on the diagnostics before it, and it leaves no error exactly if
  there was none before and its condition does not hold.\<close>

lemma no_error_simps [simp]:
  "no_error []" "no_error (ds @ [diag c m r f]) = False"
  "no_error (check b (diag c m r f) ds) = (no_error ds \<and> \<not> b)"
  by (auto simp: no_error_def diag_def check_def)

lemma exactDecimal_value [simp]: "fst (exactDecimal v f r ds) = decimal_of v"
  by (simp add: exactDecimal_def decimal_of_def split: option.splits)

lemma exactDecimal_error [simp]:
  "no_error (snd (exactDecimal v f r ds)) = (no_error ds \<and> (\<forall>s. v = Some s \<longrightarrow> is_decimal s))"
  by (simp add: exactDecimal_def split: option.splits)

lemma positive_integer_value [simp]: "fst (positive_integer v f r ds) = minutes_of v"
  by (simp add: positive_integer_def minutes_of_def minutes_ok_def split: option.splits)

lemma positive_integer_error [simp]:
  "no_error (snd (positive_integer v f r ds)) = (no_error ds \<and> (\<forall>s. v = Some s \<longrightarrow> minutes_ok s))"
  by (simp add: positive_integer_def minutes_ok_def split: option.splits)

lemma isoDate_value [simp]: "fst (isoDate v f r ds) = date_of v"
  by (simp add: isoDate_def date_of_def split: option.splits)

lemma isoDate_error [simp]:
  "no_error (snd (isoDate v f r ds)) = (no_error ds \<and> (\<forall>s. v = Some s \<longrightarrow> iso_date_ok s))"
  by (simp add: isoDate_def split: option.splits)


lemma name_checks_error [simp]:
  "no_error (name_checks n d r ds) =
     (no_error ds \<and> n \<noteq> [] \<and> length n \<le> 160 \<and> \<not> (truthy d \<and> length (the d) > 2000))"
  by (auto simp: name_checks_def Let_def)

lemma duration_checks_error [simp]:
  "no_error (duration_checks a b r ds) =
     (no_error ds \<and> \<not> (a = None \<and> b \<noteq> None) \<and> \<not> (case (a, b) of (Some x, Some y) \<Rightarrow> x > y | _ \<Rightarrow> False))"
  by (simp add: duration_checks_def Let_def)

lemma validity_check_error [simp]:
  "no_error (validity_check a b r ds) =
     (no_error ds \<and> \<not> (case (a, b) of (Some f, Some u) \<Rightarrow> str_less u f | _ \<Rightarrow> False))"
  by (simp add: validity_check_def)

lemma language_check_error [simp]:
  "no_error (language_check l r ds) = (no_error ds \<and> \<not> (truthy l \<and> \<not> language_ok (the l)))"
  by (simp add: language_check_def)

lemma price_dates_check_error [simp]:
  "no_error (price_dates_check a b p r ds) = (no_error ds \<and> \<not> ((truthy a \<or> truthy b) \<and> p = None))"
  by (simp add: price_dates_check_def)
























end
