(* ===== verification/Service_Diff.thy ===== *)
theory Service_Diff
  imports Service_Row
begin

text \<open>
  The comparison of an imported service list with the catalogue
  (\<open>packages/business-import/src/identity.ts\<close>, \<open>service-diff.ts\<close>) and the grouping of its
  candidates (\<open>coalesceDiffCandidates\<close> of
  \<open>apps/worker/src/business-import/business-import-processor.ts\<close>).
\<close>

section \<open>Identities and values\<close>

definition normalizedText :: "'a text_host_scheme \<Rightarrow> string option \<Rightarrow> string" where
  "normalizedText th v =
     th_lower th (collapse_runs js_space (CHR '' '') False
       (js_trim (th_nfkc th (case v of Some s \<Rightarrow> s | None \<Rightarrow> []))))"

definition normalizeBusinessExternalId :: "'a text_host_scheme \<Rightarrow> string option \<Rightarrow> string" where
  "normalizeBusinessExternalId th v = normalizedText th v"

definition businessOfferingIdentityKey :: "'a text_host_scheme \<Rightarrow> service_row \<Rightarrow> string" where
  "businessOfferingIdentityKey th v =
     join [CHR 0x1F]
       [normalizedText th (sr_category v), normalizedText th (Some (sr_name v)),
        normalizedText th (sr_locationExternalId v), normalizedText th (sr_language v)]"

text \<open>The host of the comparison: text conversions, \<open>createHash("sha256")\<close> and the collation.\<close>

record diff_host = text_host +
  dh_host :: host

definition businessOfferingCandidateKey :: "diff_host \<Rightarrow> string \<Rightarrow> service_row \<Rightarrow> string" where
  "businessOfferingCandidateKey dh sourceLineageId v =
     (let external = normalizeBusinessExternalId dh (sr_externalId v);
          identity = (if external \<noteq> [] then ''external:'' @ external
                      else ''identity:'' @ businessOfferingIdentityKey dh v)
      in sha256 (dh_host dh)
           (''leadvirt.business-offering.v1'' @ [CHR 0x00] @ sourceLineageId @ [CHR 0x00] @ identity))"

definition json_opt :: "string option \<Rightarrow> json" where
  "json_opt v = (case v of Some s \<Rightarrow> JStr s | None \<Rightarrow> JNull)"

definition json_nat_opt :: "nat option \<Rightarrow> json" where
  "json_nat_opt v = (case v of Some n \<Rightarrow> JInt (int n) | None \<Rightarrow> JNull)"

definition canonical_duration :: "duration option \<Rightarrow> json" where
  "canonical_duration v =
     (case v of
        Some d \<Rightarrow> JObj [(''maximumMinutes'', json_nat_opt (du_maximumMinutes d)),
                       (''minimumMinutes'', JInt (int (du_minimumMinutes d)))]
      | None \<Rightarrow> JNull)"

definition canonical_price :: "price option \<Rightarrow> json" where
  "canonical_price v =
     (case v of
        Some p \<Rightarrow> JObj [(''amount'', json_opt (canonicalBusinessImportDecimal (pr_amount p))),
                       (''currency'', json_opt (pr_currency p)),
                       (''from'', json_opt (canonicalBusinessImportDecimal (pr_from p))),
                       (''taxNote'', json_opt (pr_taxNote p)),
                       (''to'', json_opt (canonicalBusinessImportDecimal (pr_to p))),
                       (''type'', JStr (priceType_text (pr_type p))),
                       (''unit'', json_opt (pr_unit p))]
      | None \<Rightarrow> JNull)"

definition canonicalOfferingValue :: "service_row \<Rightarrow> bool \<Rightarrow> json" where
  "canonicalOfferingValue v includeExternalId =
     JObj ([(''active'', JBool (sr_active v)),
            (''bookingNotes'', json_opt (sr_bookingNotes v)),
            (''category'', json_opt (sr_category v)),
            (''description'', json_opt (sr_description v)),
            (''duration'', canonical_duration (sr_duration v))] @
           (if includeExternalId then [(''externalId'', json_opt (sr_externalId v))] else []) @
           [(''language'', json_opt (sr_language v)),
            (''locationExternalId'', json_opt (sr_locationExternalId v)),
            (''name'', JStr (sr_name v)),
            (''price'', canonical_price (sr_price v)),
            (''validFrom'', json_opt (sr_validFrom v)),
            (''validUntil'', json_opt (sr_validUntil v))])"

definition businessOfferingValueHash :: "diff_host \<Rightarrow> service_row \<Rightarrow> string" where
  "businessOfferingValueHash dh v = sha256 (dh_host dh) (json_stringify (canonicalOfferingValue v True))"

definition businessOfferingCanonicalValueHash :: "diff_host \<Rightarrow> service_row \<Rightarrow> string" where
  "businessOfferingCanonicalValueHash dh v =
     sha256 (dh_host dh) (json_stringify (canonicalOfferingValue v False))"

section \<open>Candidates\<close>

datatype risk_level = LOW_RISK | MEDIUM_RISK | HIGH_RISK | PROHIBITED_RISK

datatype confidence = CONFIRMED_FORMAT | HIGH_CONFIDENCE | MEDIUM_CONFIDENCE | LOW_CONFIDENCE

datatype diff_action = ADD | UPDATE | LINK | UNCHANGED | CONFLICT | INVALID | MISSING | ARCHIVE

definition BUSINESS_IMPORT_CATALOG_MUTATION_ACTIONS :: "diff_action set" where
  "BUSINESS_IMPORT_CATALOG_MUTATION_ACTIONS = {ADD, UPDATE, LINK, ARCHIVE}"

definition isBusinessImportCatalogMutationAction :: "diff_action \<Rightarrow> bool" where
  "isBusinessImportCatalogMutationAction a = (a \<in> BUSINESS_IMPORT_CATALOG_MUTATION_ACTIONS)"

record offering =
  of_id :: string
  of_value :: service_row
  of_valueHash :: string

record source_binding =
  sb_offeringId :: string
  sb_externalKey :: string
  sb_identityKey :: string
  sb_sourceValueHash :: string

record candidate =
  cd_candidateKey :: string
  cd_action :: diff_action
  cd_riskLevel :: risk_level
  cd_confidence :: confidence
  cd_proposed :: "service_row option"
  cd_current :: "offering option"
  cd_targetOfferingId :: "string option"
  cd_sourceExternalKey :: "string option"
  cd_identityKey :: string
  cd_proposedValueHash :: "string option"
  cd_diagnostics :: "diagnostic list"

definition countBusinessImportCatalogMutations :: "candidate list \<Rightarrow> nat" where
  "countBusinessImportCatalogMutations cs =
     length (filter (\<lambda>c. isBusinessImportCatalogMutationAction (cd_action c)) cs)"

definition businessImportCandidateRequiresApproval :: "risk_level \<Rightarrow> diff_action \<Rightarrow> bool" where
  "businessImportCandidateRequiresApproval r a = (r = HIGH_RISK \<and> isBusinessImportCatalogMutationAction a)"

datatype catalog_mode = ADD_MODE | REPLACE_MODE

definition archive_diagnostic :: diagnostic where
  "archive_diagnostic =
     \<lparr>dg_severity = WARNING, dg_code = ''BUSINESS_IMPORT_ARCHIVE_MISSING_SERVICE'',
      dg_message = ''This service is absent from the replacement file and will be removed from this catalog.'',
      dg_row = None, dg_column = None, dg_field = None\<rparr>"

definition applyBusinessServiceCatalogMode :: "candidate list \<Rightarrow> catalog_mode \<Rightarrow> candidate list" where
  "applyBusinessServiceCatalogMode candidates mode =
     (if mode = ADD_MODE then candidates
      else map (\<lambda>c. if cd_action c = MISSING
                     then c\<lparr>cd_action := ARCHIVE, cd_diagnostics := [archive_diagnostic]\<rparr> else c) candidates)"

section \<open>Fields edited by hand\<close>

datatype manual_resource = BUSINESS_IDENTITY | OFFERING | OFFERING_PRICE | OFFERING_DURATION

record attribution =
  at_offeringId :: string
  at_resourceType :: manual_resource
  at_fieldPath :: string

fun MANUAL_FIELD_HEADERS :: "manual_resource \<Rightarrow> (string \<times> csv_header list) list" where
  "MANUAL_FIELD_HEADERS OFFERING =
     [(''/category'', [H_category]), (''/name'', [H_name]), (''/description'', [H_description]),
      (''/locale'', [H_language]), (''/bookingNotes'', [H_booking_notes]), (''/active'', [H_active])]"
| "MANUAL_FIELD_HEADERS OFFERING_PRICE =
     [(''/type'', [H_price_type]), (''/amount'', [H_price_amount]),
      (''/amountFrom'', [H_price_from, H_price_amount]), (''/amountTo'', [H_price_to]),
      (''/currency'', [H_currency]), (''/unit'', [H_price_unit]), (''/taxNote'', [H_tax_note]),
      (''/effectiveFrom'', [H_valid_from]), (''/effectiveUntil'', [H_valid_until])]"
| "MANUAL_FIELD_HEADERS OFFERING_DURATION =
     [(''/minimumMinutes'', [H_duration_minutes]), (''/maximumMinutes'', [H_duration_max_minutes])]"
| "MANUAL_FIELD_HEADERS BUSINESS_IDENTITY = []"

type_synonym manual_fields = "string \<rightharpoonup> csv_header set"

definition add_attribution :: "manual_fields \<Rightarrow> attribution \<Rightarrow> manual_fields" where
  "add_attribution result a =
     (case map_of (MANUAL_FIELD_HEADERS (at_resourceType a)) (at_fieldPath a) of
        None \<Rightarrow> result
      | Some headers \<Rightarrow>
          result(at_offeringId a \<mapsto>
            (case result (at_offeringId a) of Some s \<Rightarrow> s | None \<Rightarrow> {}) \<union> set headers))"

definition businessImportManualFieldsByOffering :: "attribution list \<Rightarrow> manual_fields" where
  "businessImportManualFieldsByOffering attributions = foldl add_attribution Map.empty attributions"

section \<open>Helpers of the comparison\<close>

definition risk :: "service_row \<Rightarrow> risk_level" where
  "risk v = (if sr_price v \<noteq> None then HIGH_RISK
             else if sr_duration v \<noteq> None \<or> truthy (sr_bookingNotes v) then MEDIUM_RISK else LOW_RISK)"

definition row_warning :: "string \<Rightarrow> string \<Rightarrow> int \<Rightarrow> diagnostic" where
  "row_warning code message row =
     \<lparr>dg_severity = WARNING, dg_code = code, dg_message = message, dg_row = Some row, dg_column = None,
      dg_field = None\<rparr>"

definition conflictDiagnostic :: "int \<Rightarrow> diagnostic" where
  "conflictDiagnostic = row_warning ''BUSINESS_IMPORT_POSSIBLE_DUPLICATE''
     ''This row has no stable external ID and may duplicate an existing service.''"

definition ambiguousBindingDiagnostic :: "int \<Rightarrow> diagnostic" where
  "ambiguousBindingDiagnostic = row_warning ''BUSINESS_IMPORT_AMBIGUOUS_SOURCE_BINDING''
     ''This row matches more than one source binding and requires manual resolution.''"

definition ambiguousIdentityDiagnostic :: "int \<Rightarrow> diagnostic" where
  "ambiguousIdentityDiagnostic = row_warning ''BUSINESS_IMPORT_AMBIGUOUS_CANONICAL_IDENTITY''
     ''This row matches more than one existing service and requires manual resolution.''"

type_synonym 'v multi_index = "string \<rightharpoonup> 'v list"

definition index_get :: "'v multi_index \<Rightarrow> string \<Rightarrow> 'v list" where
  "index_get m k = (case m k of Some xs \<Rightarrow> xs | None \<Rightarrow> [])"

definition addBinding :: "source_binding multi_index \<Rightarrow> string \<Rightarrow> source_binding \<Rightarrow> source_binding multi_index" where
  "addBinding index key b = (if key = [] then index else index(key \<mapsto> index_get index key @ [b]))"

definition binding_cmp :: "diff_host \<Rightarrow> source_binding \<Rightarrow> source_binding \<Rightarrow> int" where
  "binding_cmp dh left right =
     (let offering = localeCompare (dh_host dh) (sb_offeringId left) (sb_offeringId right)
      in if offering \<noteq> 0 then offering
         else localeCompare (dh_host dh) (sb_externalKey left) (sb_externalKey right))"

fun first_per_offering :: "string list \<Rightarrow> source_binding list \<Rightarrow> source_binding list" where
  "first_per_offering seen [] = []"
| "first_per_offering seen (b # bs) =
     (if sb_offeringId b \<in> set seen then first_per_offering seen bs
      else b # first_per_offering (sb_offeringId b # seen) bs)"

definition uniqueOfferingBindings :: "diff_host \<Rightarrow> source_binding list \<Rightarrow> source_binding list" where
  "uniqueOfferingBindings dh bs = first_per_offering [] (js_sort (binding_cmp dh) bs)"

definition replacementOmissionCandidateKey :: "diff_host \<Rightarrow> string \<Rightarrow> string \<Rightarrow> string" where
  "replacementOmissionCandidateKey dh sourceLineageId offeringId =
     sha256 (dh_host dh)
       (''leadvirt.business-offering-removal.v1'' @ [CHR 0x00] @ sourceLineageId @ [CHR 0x00] @ offeringId)"

fun csvFieldValue :: "'a text_host_scheme \<Rightarrow> service_row \<Rightarrow> csv_header \<Rightarrow> json" where
  "csvFieldValue th row H_external_id = JStr (normalizeBusinessExternalId th (sr_externalId row))"
| "csvFieldValue th row H_category = json_opt (sr_category row)"
| "csvFieldValue th row H_name = JStr (sr_name row)"
| "csvFieldValue th row H_description = json_opt (sr_description row)"
| "csvFieldValue th row H_price_type = json_opt (map_option (priceType_text \<circ> pr_type) (sr_price row))"
| "csvFieldValue th row H_price_amount =
     json_opt (canonicalBusinessImportDecimal (Option.bind (sr_price row) pr_amount))"
| "csvFieldValue th row H_price_from =
     json_opt (canonicalBusinessImportDecimal (Option.bind (sr_price row) pr_from))"
| "csvFieldValue th row H_price_to =
     json_opt (canonicalBusinessImportDecimal (Option.bind (sr_price row) pr_to))"
| "csvFieldValue th row H_currency = json_opt (Option.bind (sr_price row) pr_currency)"
| "csvFieldValue th row H_price_unit = json_opt (Option.bind (sr_price row) pr_unit)"
| "csvFieldValue th row H_tax_note = json_opt (Option.bind (sr_price row) pr_taxNote)"
| "csvFieldValue th row H_duration_minutes = json_nat_opt (map_option du_minimumMinutes (sr_duration row))"
| "csvFieldValue th row H_duration_max_minutes = json_nat_opt (Option.bind (sr_duration row) du_maximumMinutes)"
| "csvFieldValue th row H_location_external_id = json_opt (sr_locationExternalId row)"
| "csvFieldValue th row H_booking_notes = json_opt (sr_bookingNotes row)"
| "csvFieldValue th row H_active = JBool (sr_active row)"
| "csvFieldValue th row H_valid_from = json_opt (sr_validFrom row)"
| "csvFieldValue th row H_valid_until = json_opt (sr_validUntil row)"
| "csvFieldValue th row H_language = json_opt (sr_language row)"

definition priceFields :: "csv_header list" where
  "priceFields = [H_price_type, H_price_amount, H_price_from, H_price_to, H_currency, H_price_unit,
     H_tax_note, H_valid_from, H_valid_until]"

definition durationFields :: "csv_header list" where
  "durationFields = [H_duration_minutes, H_duration_max_minutes]"

text \<open>A group of fields the file does not mention at all is kept as a whole when one of them was
  edited by hand.\<close>

definition preserve_group :: "service_row \<Rightarrow> csv_header set \<Rightarrow> csv_header list \<Rightarrow> csv_header set \<Rightarrow> csv_header set" where
  "preserve_group row manual hs preserved =
     (if \<not> list_ex (\<lambda>f. sr_evidence row f \<noteq> None) hs \<and> list_ex (\<lambda>f. f \<in> manual) hs
      then preserved \<union> set hs else preserved)"

definition preserved_fields :: "service_row \<Rightarrow> csv_header set \<Rightarrow> csv_header set" where
  "preserved_fields row manual =
     preserve_group row manual durationFields (preserve_group row manual priceFields manual)"

definition missing_fields ::
    "'a text_host_scheme \<Rightarrow> service_row \<Rightarrow> service_row option \<Rightarrow> csv_header set \<Rightarrow> csv_header list" where
  "missing_fields th row current manual =
     filter (\<lambda>f. sr_evidence row f = None \<and> f \<notin> preserved_fields row manual \<and>
         (case current of None \<Rightarrow> True | Some c \<Rightarrow> csvFieldValue th row f \<noteq> csvFieldValue th c f))
       BUSINESS_SERVICES_CSV_HEADERS"

definition incompleteReplacementDiagnostic ::
    "'a text_host_scheme \<Rightarrow> service_row \<Rightarrow> service_row option \<Rightarrow> csv_header set \<Rightarrow> diagnostic option" where
  "incompleteReplacementDiagnostic th row current manual =
     (let missing = missing_fields th row current manual in
      if missing = [] then None
      else Some \<lparr>dg_severity = ERROR, dg_code = ''BUSINESS_IMPORT_PARTIAL_UPDATE_UNSUPPORTED'',
             dg_message = ''Updating an existing service requires the complete template. Missing columns: '' @
               join '', '' (map header_text missing) @ ''.'',
             dg_row = Some (sr_sourceRow row), dg_column = None, dg_field = None\<rparr>)"

section \<open>The comparison\<close>

record diff_input =
  di_sourceLineageId :: string
  di_rows :: "service_row list"
  di_existing :: "offering list"
  di_sourceBindings :: "source_binding list"
  di_replacementScopeBindings :: "source_binding list option"
  di_manualFieldsByOfferingId :: "manual_fields option"

definition scope_bindings :: "diff_input \<Rightarrow> source_binding list" where
  "scope_bindings i = (case di_replacementScopeBindings i of Some bs \<Rightarrow> bs | None \<Rightarrow> [])"

definition existingById :: "diff_input \<Rightarrow> string \<rightharpoonup> offering" where
  "existingById i = foldl (\<lambda>m e. m(of_id e \<mapsto> e)) Map.empty (di_existing i)"

definition existingByIdentity :: "diff_host \<Rightarrow> diff_input \<Rightarrow> offering multi_index" where
  "existingByIdentity dh i =
     foldl (\<lambda>m e. let key = businessOfferingIdentityKey dh (of_value e) in m(key \<mapsto> index_get m key @ [e]))
       Map.empty (di_existing i)"

definition bindingsByExternal :: "diff_host \<Rightarrow> source_binding list \<Rightarrow> source_binding multi_index" where
  "bindingsByExternal dh bs =
     foldl (\<lambda>m b. addBinding m (normalizeBusinessExternalId dh (Some (sb_externalKey b))) b) Map.empty bs"

definition bindingsByIdentity :: "source_binding list \<Rightarrow> source_binding multi_index" where
  "bindingsByIdentity bs = foldl (\<lambda>m b. addBinding m (sb_identityKey b) b) Map.empty bs"

definition manual_fields_of :: "diff_input \<Rightarrow> string \<Rightarrow> csv_header set" where
  "manual_fields_of i k =
     (case Option.bind (di_manualFieldsByOfferingId i) (\<lambda>m. m k) of Some s \<Rightarrow> s | None \<Rightarrow> {})"

text \<open>The candidate of a row: what every branch sets, and what the branches differ in.\<close>

definition row_candidate ::
    "diff_host \<Rightarrow> diff_input \<Rightarrow> service_row \<Rightarrow> diff_action \<Rightarrow> confidence \<Rightarrow> offering option
     \<Rightarrow> diagnostic list \<Rightarrow> candidate" where
  "row_candidate dh i row action conf current ds =
     \<lparr>cd_candidateKey = businessOfferingCandidateKey dh (di_sourceLineageId i) row, cd_action = action,
      cd_riskLevel = risk row, cd_confidence = conf, cd_proposed = Some row, cd_current = current,
      cd_targetOfferingId = map_option of_id current, cd_sourceExternalKey = sr_externalId row,
      cd_identityKey = businessOfferingIdentityKey dh row,
      cd_proposedValueHash = Some (businessOfferingValueHash dh row), cd_diagnostics = ds\<rparr>"

text \<open>The candidate of a row that matched an offering: incomplete, changed, or as it was.\<close>

definition matched_candidate ::
    "diff_host \<Rightarrow> diff_input \<Rightarrow> service_row \<Rightarrow> confidence \<Rightarrow> offering \<Rightarrow> service_row option \<Rightarrow> bool
     \<Rightarrow> diff_action \<Rightarrow> candidate" where
  "matched_candidate dh i row conf target compared changed same =
     (let incomplete = (if changed
            then incompleteReplacementDiagnostic dh row compared (manual_fields_of i (of_id target)) else None)
      in row_candidate dh i row
           (if incomplete \<noteq> None then INVALID else if changed then UPDATE else same) conf (Some target)
           (case incomplete of Some d \<Rightarrow> sr_diagnostics row @ [d] | None \<Rightarrow> sr_diagnostics row))"

definition canonical_changed :: "diff_host \<Rightarrow> offering \<Rightarrow> service_row \<Rightarrow> bool" where
  "canonical_changed dh e row =
     (businessOfferingCanonicalValueHash dh (of_value e) \<noteq> businessOfferingCanonicalValueHash dh row)"

text \<open>The bindings a row matches: those of its source, or else those of the scope a replacement
  covers; with a flag that says which.\<close>

definition matching_bindings ::
    "diff_host \<Rightarrow> diff_input \<Rightarrow> service_row \<Rightarrow> bool \<times> source_binding list" where
  "matching_bindings dh i row =
     (let identityKey = businessOfferingIdentityKey dh row;
          externalKey = normalizeBusinessExternalId dh (sr_externalId row);
          sourceMatching =
            (if externalKey \<noteq> [] then index_get (bindingsByExternal dh (di_sourceBindings i)) externalKey
             else index_get (bindingsByIdentity (di_sourceBindings i)) identityKey);
          withMatchingKey =
            (if di_replacementScopeBindings i \<noteq> None \<and> sourceMatching = [] then
               (if externalKey \<noteq> [] then index_get (bindingsByExternal dh (scope_bindings i)) externalKey
                else index_get (bindingsByIdentity (scope_bindings i)) identityKey)
             else []);
          replacementMatching =
            (if externalKey \<noteq> [] then
               filter (\<lambda>b. case existingById i (sb_offeringId b) of
                   Some e \<Rightarrow> businessOfferingIdentityKey dh (of_value e) = identityKey
                 | None \<Rightarrow> False) withMatchingKey
             else withMatchingKey);
          fromScope = (sourceMatching = [] \<and> replacementMatching \<noteq> [])
      in (fromScope, if fromScope then uniqueOfferingBindings dh replacementMatching else sourceMatching))"

text \<open>The branches for a row whose bindings led to no offering, by the offerings with its identity.\<close>

definition diff_ambiguous_identity ::
    "diff_host \<Rightarrow> diff_input \<Rightarrow> service_row \<Rightarrow> offering list \<Rightarrow> string list \<Rightarrow> candidate \<times> string list" where
  "diff_ambiguous_identity dh i row exact matched =
     (let deterministicReplacement =
        (if di_replacementScopeBindings i \<noteq> None then
           (case js_sort (\<lambda>l r. localeCompare (dh_host dh) (of_id l) (of_id r))
                   (filter (\<lambda>e. of_id e \<in> sb_offeringId ` set (scope_bindings i)) exact) of
              e # _ \<Rightarrow> Some e
            | [] \<Rightarrow> None)
         else None)
      in case deterministicReplacement of
           Some e \<Rightarrow>
             (matched_candidate dh i row HIGH_CONFIDENCE e (Some (of_value e)) (canonical_changed dh e row) LINK,
              of_id e # matched)
         | None \<Rightarrow>
             (row_candidate dh i row CONFLICT LOW_CONFIDENCE None
                (sr_diagnostics row @ [ambiguousIdentityDiagnostic (sr_sourceRow row)]), matched))"

definition source_bindings_of :: "diff_input \<Rightarrow> string \<Rightarrow> source_binding list" where
  "source_bindings_of i k = filter (\<lambda>b. sb_offeringId b = k) (di_sourceBindings i)"

definition diff_exact ::
    "diff_host \<Rightarrow> diff_input \<Rightarrow> service_row \<Rightarrow> offering \<Rightarrow> source_binding list \<Rightarrow> string list
     \<Rightarrow> candidate \<times> string list" where
  "diff_exact dh i row e matching matched =
     (let exactSource = source_bindings_of i (of_id e) in
      if normalizeBusinessExternalId dh (sr_externalId row) \<noteq> [] \<and> matching = [] \<and> length exactSource = 1 \<and>
         sb_identityKey (hd exactSource) = businessOfferingIdentityKey dh row \<and> of_id e \<notin> set matched
      then (matched_candidate dh i row HIGH_CONFIDENCE e (Some (of_value e))
              (of_valueHash e \<noteq> businessOfferingValueHash dh row) UNCHANGED, of_id e # matched)
      else if exactSource = [] \<and> \<not> canonical_changed dh e row
      then (row_candidate dh i row LINK HIGH_CONFIDENCE (Some e) (sr_diagnostics row), of_id e # matched)
      else if di_replacementScopeBindings i \<noteq> None \<and> of_id e \<in> sb_offeringId ` set (scope_bindings i) \<and>
         exactSource = []
      then (matched_candidate dh i row HIGH_CONFIDENCE e (Some (of_value e)) True UPDATE, of_id e # matched)
      else (row_candidate dh i row CONFLICT MEDIUM_CONFIDENCE (Some e)
              (sr_diagnostics row @ [conflictDiagnostic (sr_sourceRow row)]), matched))"

definition diff_new :: "diff_host \<Rightarrow> diff_input \<Rightarrow> service_row \<Rightarrow> candidate" where
  "diff_new dh i row =
     (if normalizeBusinessExternalId dh (sr_externalId row) = [] \<and> di_sourceBindings i \<noteq> []
      then (row_candidate dh i row CONFLICT LOW_CONFIDENCE None
              (sr_diagnostics row @ [conflictDiagnostic (sr_sourceRow row)]))\<lparr>cd_sourceExternalKey := None\<rparr>
      else row_candidate dh i row ADD CONFIRMED_FORMAT None (sr_diagnostics row))"

definition diff_unbound ::
    "diff_host \<Rightarrow> diff_input \<Rightarrow> service_row \<Rightarrow> source_binding list \<Rightarrow> string list \<Rightarrow> candidate \<times> string list" where
  "diff_unbound dh i row matching matched =
     (case index_get (existingByIdentity dh i) (businessOfferingIdentityKey dh row) of
        [] \<Rightarrow> (diff_new dh i row, matched)
      | [e] \<Rightarrow> diff_exact dh i row e matching matched
      | exact \<Rightarrow> diff_ambiguous_identity dh i row exact matched)"

definition diff_row :: "diff_host \<Rightarrow> diff_input \<Rightarrow> service_row \<Rightarrow> string list \<Rightarrow> candidate \<times> string list" where
  "diff_row dh i row matched =
     (if \<not> sr_valid row
      then (row_candidate dh i row INVALID CONFIRMED_FORMAT None (sr_diagnostics row), matched)
      else case matching_bindings dh i row of (fromScope, matching) \<Rightarrow>
        if length matching > 1 \<and> \<not> fromScope
        then (row_candidate dh i row CONFLICT LOW_CONFIDENCE None
                (sr_diagnostics row @ [ambiguousBindingDiagnostic (sr_sourceRow row)]), matched)
        else case (case matching of b # _ \<Rightarrow> existingById i (sb_offeringId b) | [] \<Rightarrow> None) of
          Some bound \<Rightarrow>
            (matched_candidate dh i row CONFIRMED_FORMAT bound
               (if fromScope then Some (of_value bound) else None)
               (if fromScope then canonical_changed dh bound row
                else of_valueHash bound \<noteq> businessOfferingValueHash dh row)
               (if fromScope then LINK else UNCHANGED), of_id bound # matched)
        | None \<Rightarrow> diff_unbound dh i row matching matched)"

fun diff_rows :: "diff_host \<Rightarrow> diff_input \<Rightarrow> service_row list \<Rightarrow> string list \<Rightarrow> candidate list \<times> string list" where
  "diff_rows dh i [] matched = ([], matched)"
| "diff_rows dh i (row # rows) matched =
     (case diff_row dh i row matched of (c, matched1) \<Rightarrow>
      case diff_rows dh i rows matched1 of (cs, matched2) \<Rightarrow> (c # cs, matched2))"

definition missing_candidate :: "diff_host \<Rightarrow> diff_input \<Rightarrow> source_binding \<Rightarrow> offering \<Rightarrow> candidate" where
  "missing_candidate dh i b existing =
     \<lparr>cd_candidateKey =
        (if di_replacementScopeBindings i \<noteq> None
         then replacementOmissionCandidateKey dh (di_sourceLineageId i) (of_id existing)
         else businessOfferingCandidateKey dh (di_sourceLineageId i) (of_value existing)),
      cd_action = MISSING, cd_riskLevel = HIGH_RISK, cd_confidence = CONFIRMED_FORMAT, cd_proposed = None,
      cd_current = Some existing, cd_targetOfferingId = Some (of_id existing),
      cd_sourceExternalKey = (if sb_externalKey b \<noteq> [] then Some (sb_externalKey b) else None),
      cd_identityKey = sb_identityKey b, cd_proposedValueHash = None,
      cd_diagnostics =
        [\<lparr>dg_severity = WARNING, dg_code = ''BUSINESS_IMPORT_MISSING_FROM_REVISION'',
          dg_message = ''This existing service is absent from the new file and will remain unchanged.'',
          dg_row = None, dg_column = None, dg_field = None\<rparr>]\<rparr>"

fun missing_candidates ::
    "diff_host \<Rightarrow> diff_input \<Rightarrow> string list \<Rightarrow> string list \<Rightarrow> source_binding list \<Rightarrow> candidate list" where
  "missing_candidates dh i matched seen [] = []"
| "missing_candidates dh i matched seen (b # bs) =
     (if sb_offeringId b \<in> set seen then missing_candidates dh i matched seen bs
      else
        (let rest = missing_candidates dh i matched (sb_offeringId b # seen) bs in
         if sb_offeringId b \<in> set matched then rest
         else case existingById i (sb_offeringId b) of
                None \<Rightarrow> rest
              | Some existing \<Rightarrow> missing_candidate dh i b existing # rest))"

definition diffBusinessServiceRows :: "diff_host \<Rightarrow> diff_input \<Rightarrow> candidate list" where
  "diffBusinessServiceRows dh i =
     (case diff_rows dh i (di_rows i) [] of (candidates, matched) \<Rightarrow>
        candidates @ missing_candidates dh i matched []
          (js_sort (binding_cmp dh)
            (case di_replacementScopeBindings i of Some bs \<Rightarrow> bs | None \<Rightarrow> di_sourceBindings i)))"

section \<open>One candidate per key\<close>

definition duplicate_identity :: diagnostic where
  "duplicate_identity =
     \<lparr>dg_severity = ERROR, dg_code = ''BUSINESS_IMPORT_DUPLICATE_IDENTITY'',
      dg_message = ''More than one row resolves to the same service identity.'',
      dg_row = None, dg_column = None, dg_field = None\<rparr>"

text \<open>The entries of the map of groups, in the order of their keys' first occurrence.\<close>

definition group_candidates :: "candidate list \<Rightarrow> (string \<times> candidate list) list" where
  "group_candidates cs =
     foldl (\<lambda>g c. obj_set (cd_candidateKey c)
              ((case map_of g (cd_candidateKey c) of Some xs \<Rightarrow> xs | None \<Rightarrow> []) @ [c]) g) [] cs"

definition coalesce_group :: "candidate list \<Rightarrow> (candidate \<times> service_row list) option" where
  "coalesce_group items =
     (case items of
        [] \<Rightarrow> None
      | [first] \<Rightarrow> Some (first, (case cd_proposed first of Some r \<Rightarrow> [r] | None \<Rightarrow> []))
      | first # _ \<Rightarrow>
          Some (first\<lparr>cd_action := CONFLICT, cd_confidence := LOW_CONFIDENCE,
                      cd_diagnostics := cd_diagnostics first @ [duplicate_identity]\<rparr>,
                List.map_filter cd_proposed items))"

definition coalesceDiffCandidates :: "candidate list \<Rightarrow> (candidate \<times> service_row list) list" where
  "coalesceDiffCandidates cs = List.map_filter (\<lambda>(k, items). coalesce_group items) (group_candidates cs)"

end
