(* ===== verification/Sha256.thy ===== *)
theory Sha256
  imports Prelude "HOL-Library.Word"
begin

text \<open>
  The hash of texts that \<open>packages/ai/src/grounded-answer-gate.ts\<close> computes itself
  (\<open>hashGroundedAnswerText\<close>): the UTF-8 bytes, their padding to blocks of 64, and the
  compression function on 32-bit words. The bitwise operators of the source yield signed 32-bit
  integers and its sums are reduced by \<open>>>> 0\<close>, so both are the operations of 32-bit words.
  The hexadecimal literals of the source are written in decimal.
\<close>

unbundle bit_operations_syntax

type_synonym word32 = "32 word"

definition SHA256_CONSTANTS :: "word32 list" where
  "SHA256_CONSTANTS =
    [1116352408, 1899447441, 3049323471, 3921009573, 961987163, 1508970993, 2453635748, 2870763221,
     3624381080, 310598401, 607225278, 1426881987, 1925078388, 2162078206, 2614888103, 3248222580,
     3835390401, 4022224774, 264347078, 604807628, 770255983, 1249150122, 1555081692, 1996064986,
     2554220882, 2821834349, 2952996808, 3210313671, 3336571891, 3584528711, 113926993, 338241895,
     666307205, 773529912, 1294757372, 1396182291, 1695183700, 1986661051, 2177026350, 2456956037,
     2730485921, 2820302411, 3259730800, 3345764771, 3516065817, 3600352804, 4094571909, 275423344,
     430227734, 506948616, 659060556, 883997877, 958139571, 1322822218, 1537002063, 1747873779,
     1955562222, 2024104815, 2227730452, 2361852424, 2428436474, 2756734187, 3204031479, 3329325298]"

definition initial_state :: "word32 list" where
  "initial_state = [1779033703, 3144134277, 1013904242, 2773480762, 1359893119, 2600822924, 528734635, 1541459225]"

definition rotateRight :: "word32 \<Rightarrow> nat \<Rightarrow> word32" where
  "rotateRight v count = drop_bit count v OR push_bit (32 - count) v"

text \<open>\<open>new TextEncoder().encode\<close> on the code units below 256: one or two bytes each.\<close>

definition utf8_char :: "char \<Rightarrow> nat list" where
  "utf8_char c = (let n = of_char c in if n < 128 then [n] else [192 + n div 64, 128 + n mod 64])"

definition utf8 :: "string \<Rightarrow> nat list" where
  "utf8 s = concat (map utf8_char s)"

definition be32 :: "nat \<Rightarrow> nat list" where
  "be32 n = map (\<lambda>k. n div 256 ^ k mod 256) [3, 2, 1, 0]"

definition padded_length :: "nat \<Rightarrow> nat" where
  "padded_length n = (n + 9 + 63) div 64 * 64"

definition padded :: "nat list \<Rightarrow> nat list" where
  "padded bytes =
     (let n = length bytes; bitLength = n * 8
      in bytes @ [128] @ replicate (padded_length n - n - 9) 0 @
         be32 (bitLength div 2 ^ 32) @ be32 (bitLength mod 2 ^ 32))"

text \<open>\<open>getUint32\<close>, big endian.\<close>

fun word_at :: "nat list \<Rightarrow> word32" where
  "word_at bytes = foldl (\<lambda>w b. push_bit 8 w OR of_nat b) 0 (take 4 bytes)"

definition block_words :: "nat list \<Rightarrow> word32 list" where
  "block_words block = map (\<lambda>i. word_at (drop (i * 4) block)) [0..<16]"

definition next_word :: "word32 list \<Rightarrow> word32" where
  "next_word ws =
     (let i = length ws; word15 = ws ! (i - 15); word2 = ws ! (i - 2);
          sigma0 = rotateRight word15 7 XOR rotateRight word15 18 XOR drop_bit 3 word15;
          sigma1 = rotateRight word2 17 XOR rotateRight word2 19 XOR drop_bit 10 word2
      in ws ! (i - 16) + sigma0 + ws ! (i - 7) + sigma1)"

fun extend_words :: "nat \<Rightarrow> word32 list \<Rightarrow> word32 list" where
  "extend_words 0 ws = ws"
| "extend_words (Suc n) ws = extend_words n (ws @ [next_word ws])"

type_synonym registers =
  "word32 \<times> word32 \<times> word32 \<times> word32 \<times> word32 \<times> word32 \<times> word32 \<times> word32"

definition round_step :: "registers \<Rightarrow> word32 \<times> word32 \<Rightarrow> registers" where
  "round_step regs kw =
     (case regs of (a, b, c, d, e, f, g, h) \<Rightarrow> case kw of (k, w) \<Rightarrow>
        let sum1 = rotateRight e 6 XOR rotateRight e 11 XOR rotateRight e 25;
            choice = (e AND f) XOR (NOT e AND g);
            temporary1 = h + sum1 + choice + k + w;
            sum0 = rotateRight a 2 XOR rotateRight a 13 XOR rotateRight a 22;
            majority = (a AND b) XOR (a AND c) XOR (b AND c);
            temporary2 = sum0 + majority
        in (temporary1 + temporary2, a, b, c, d + temporary1, e, f, g))"

definition compress :: "word32 list \<Rightarrow> nat list \<Rightarrow> word32 list" where
  "compress state block =
     (let words = extend_words 48 (block_words block);
          regs0 = (state ! 0, state ! 1, state ! 2, state ! 3, state ! 4, state ! 5, state ! 6, state ! 7)
      in case foldl round_step regs0 (zip SHA256_CONSTANTS words) of
           (a, b, c, d, e, f, g, h) \<Rightarrow> map2 (+) state [a, b, c, d, e, f, g, h])"

fun hash_blocks :: "nat \<Rightarrow> word32 list \<Rightarrow> nat list \<Rightarrow> word32 list" where
  "hash_blocks 0 state bytes = state"
| "hash_blocks (Suc n) state bytes = hash_blocks n (compress state (take 64 bytes)) (drop 64 bytes)"

text \<open>\<open>word.toString(16).padStart(8, "0")\<close>.\<close>

definition hex8 :: "word32 \<Rightarrow> string" where
  "hex8 w = map (\<lambda>k. ''0123456789abcdef'' ! (unat w div 16 ^ k mod 16)) [7, 6, 5, 4, 3, 2, 1, 0]"

definition hashGroundedAnswerText :: "string \<Rightarrow> string" where
  "hashGroundedAnswerText v =
     (let bytes = padded (utf8 v)
      in concat (map hex8 (hash_blocks (length bytes div 64) initial_state bytes)))"

section \<open>Shape\<close>

text \<open>The padded text is a whole number of blocks, so the loop over blocks reads all of it.\<close>

lemma length_be32 [simp]: "length (be32 n) = 4"
  by (simp add: be32_def)

lemma padded_length_ge: "n + 9 \<le> padded_length n"
  unfolding padded_length_def by simp

lemma length_padded [simp]: "length (padded bytes) = padded_length (length bytes)"
  using padded_length_ge [of "length bytes"] by (simp add: padded_def Let_def)

lemma length_compress [simp]: "length state = 8 \<Longrightarrow> length (compress state block) = 8"
  by (simp add: compress_def Let_def split: prod.splits)

lemma length_hash_blocks [simp]: "length state = 8 \<Longrightarrow> length (hash_blocks n state bytes) = 8"
  by (induction n arbitrary: state bytes) auto

lemma hex_digit: "n < 16 \<Longrightarrow> hex_lower (''0123456789abcdef'' ! n)"
proof -
  assume "n < 16"
  then have "n \<in> {0..<16}" by simp
  then show ?thesis by (simp add: atLeastLessThan_nat_numeral hex_lower_def) auto
qed

lemma hex8_hex: "length (hex8 w) = 8" "list_all hex_lower (hex8 w)"
  by (simp_all add: hex8_def hex_digit)

lemma concat_hex8: "length (concat (map hex8 ws)) = 8 * length ws \<and> list_all hex_lower (concat (map hex8 ws))"
  by (induction ws) (auto simp: hex8_hex)

lemma hashGroundedAnswerText_hex: "is_sha256_hex (hashGroundedAnswerText v)"
  using concat_hex8 [of "hash_blocks (length (padded (utf8 v)) div 64) initial_state (padded (utf8 v))"]
  by (simp add: is_sha256_hex_def hashGroundedAnswerText_def Let_def initial_state_def)

end
