(* ===== verification/Answer_Gate.thy ===== *)
theory Answer_Gate
  imports Sha256 Js_Text "HOL-Library.Sublist"
begin

text \<open>
  The gate of grounded answers (\<open>packages/ai/src/grounded-answer-gate.ts\<close>): which drafts of a
  language model may be sent. A draft is a text with its claims, the evidence they name, proposed
  citations and conflicts of evidence; the gate reads it from a JSON value, collects issues and decides.
\<close>

section \<open>Values\<close>

text \<open>The host: \<open>normalize("NFKC")\<close>, the collation, and \<open>Date.parse\<close> (None for NaN), which
  on days beyond the end of a month and on large offsets is implementation-defined.\<close>

record gate_host =
  gh_nfkc :: "string \<Rightarrow> string"
  gh_localeCompare :: "string \<Rightarrow> string \<Rightarrow> int"
  gh_dateParse :: "string \<Rightarrow> int option"

datatype answer_risk = RISK_LOW | RISK_MEDIUM | RISK_HIGH | RISK_CRITICAL

datatype evidence_kind = FACT | GUIDANCE | DOCUMENT | LIVE_TOOL

datatype gate_decision = ALLOW | REPAIR_ONCE | HANDOFF

datatype issue_code =
    INPUT_INVALID | INPUT_LIMIT_EXCEEDED | CLAIM_ID_DUPLICATE | CLAIM_TEXT_HASH_MISMATCH
  | CLAIM_TEXT_NOT_IN_DRAFT | CLAIM_EXACT_SUPPORT_REQUIRED | CLAIM_EVIDENCE_REQUIRED
  | REQUIRED_EVIDENCE_KIND_MISSING | UNKNOWN_CLAIM_EVIDENCE | EVIDENCE_KEY_DUPLICATE
  | EVIDENCE_CONTENT_HASH_MISMATCH | EVIDENCE_UNAUTHORIZED | EVIDENCE_TARGET_MISMATCH | EVIDENCE_STALE
  | LIVE_EVIDENCE_FAILED | LIVE_EVIDENCE_INVALID | LIVE_EVIDENCE_EXPIRED
  | HIGH_RISK_EXACT_VALUE_REQUIRED | HIGH_RISK_EXACT_VALUE_HASH_MISMATCH
  | HIGH_RISK_EXACT_SUPPORT_REQUIRED | HIGH_RISK_CITATION_NOT_EXACT | ACTIVE_EVIDENCE_CONFLICT
  | UNKNOWN_CITATION_CLAIM | UNKNOWN_CITATION_EVIDENCE | CITATION_NOT_DECLARED
  | CITATION_CLAIM_HASH_MISMATCH | DUPLICATE_CITATION | MISSING_CITATION

record exact_value =
  xv_text :: string
  xv_textHash :: string

record grounded_claim =
  gc_claimId :: string
  gc_text :: string
  gc_textHash :: string
  gc_riskLevel :: answer_risk
  gc_evidenceKeys :: "string list"
  gc_exactValue :: "exact_value option"

text \<open>What depends on the kind of evidence: a verified flag and the hash of an exact value of a fact;
  success, times and the hash of an exact value of a live tool.\<close>

datatype evidence_details =
    Fact_details bool "string option"
  | Guidance_details
  | Document_details
  | Live_details bool string string "string option"

record grounded_evidence =
  ge_evidenceKey :: string
  ge_content :: string
  ge_contentHash :: string
  ge_authorized :: bool
  ge_inCapturedTarget :: bool
  ge_stale :: bool
  ge_details :: evidence_details

fun kind_of_details :: "evidence_details \<Rightarrow> evidence_kind" where
  "kind_of_details (Fact_details v h) = FACT"
| "kind_of_details Guidance_details = GUIDANCE"
| "kind_of_details Document_details = DOCUMENT"
| "kind_of_details (Live_details s a b h) = LIVE_TOOL"

definition ge_kind :: "grounded_evidence \<Rightarrow> evidence_kind" where
  "ge_kind e = kind_of_details (ge_details e)"

record citation_proposal =
  cp_claimId :: string
  cp_claimHash :: string
  cp_evidenceKey :: string

record evidence_conflict =
  ec_conflictId :: string
  ec_active :: bool
  ec_evidenceKeys :: "string list"

record gate_input =
  gi_finalText :: string
  gi_claims :: "grounded_claim list"
  gi_evidence :: "grounded_evidence list"
  gi_proposedCitations :: "citation_proposal list"
  gi_conflicts :: "evidence_conflict list"
  gi_nowMs :: int
  gi_repairAttempt :: int
  gi_requiredEvidenceKind :: "evidence_kind option"

record gate_issue =
  is_code :: issue_code
  is_repairable :: bool
  is_claimId :: "string option"
  is_evidenceKey :: "string option"

record validated_citation =
  vc_ordinal :: nat
  vc_claimId :: string
  vc_claimHash :: string
  vc_evidenceKey :: string
  vc_evidenceKind :: evidence_kind

record gate_result =
  gr_decision :: gate_decision
  gr_safeToSend :: bool
  gr_repairAttemptsRemaining :: nat
  gr_issues :: "gate_issue list"
  gr_citations :: "validated_citation list"

section \<open>Parsing\<close>

definition MAX_DRAFT_CHARACTERS :: nat where "MAX_DRAFT_CHARACTERS = 100000"
definition MAX_CLAIMS :: nat where "MAX_CLAIMS = 1000"
definition MAX_EVIDENCE :: nat where "MAX_EVIDENCE = 10000"
definition MAX_CITATIONS :: nat where "MAX_CITATIONS = 10000"
definition MAX_CONFLICTS :: nat where "MAX_CONFLICTS = 1000"

definition gate_record :: "json \<Rightarrow> json_object option" where
  "gate_record v = (case v of JObj kvs \<Rightarrow> Some kvs | _ \<Rightarrow> None)"

definition js_string_item :: "json \<Rightarrow> string option" where
  "js_string_item v = (case v of JStr s \<Rightarrow> Some s | _ \<Rightarrow> None)"

definition js_bool :: "json option \<Rightarrow> bool option" where
  "js_bool v = (case v of Some (JBool b) \<Rightarrow> Some b | _ \<Rightarrow> None)"

definition js_array :: "json option \<Rightarrow> json list option" where
  "js_array v = (case v of Some (JArr xs) \<Rightarrow> Some xs | _ \<Rightarrow> None)"

definition stringArray :: "json option \<Rightarrow> string list option" where
  "stringArray v = Option.bind (js_array v) (\<lambda>xs. those (map js_string_item xs))"

definition hasOnlyKeys :: "json_object \<Rightarrow> string list \<Rightarrow> bool" where
  "hasOnlyKeys source keys = list_all (\<lambda>(k, v). k \<in> set keys) source"

text \<open>A value that is absent or \<open>null\<close>.\<close>

definition nullish :: "json option \<Rightarrow> bool" where
  "nullish v = (v = None \<or> v = Some JNull)"

definition risk_of :: "json option \<Rightarrow> answer_risk option" where
  "risk_of v =
     (case js_str v of
        Some s \<Rightarrow> map_of [(''LOW'', RISK_LOW), (''MEDIUM'', RISK_MEDIUM), (''HIGH'', RISK_HIGH),
                         (''CRITICAL'', RISK_CRITICAL)] s
      | None \<Rightarrow> None)"

definition kind_of :: "json option \<Rightarrow> evidence_kind option" where
  "kind_of v =
     (case js_str v of
        Some s \<Rightarrow> map_of [(''FACT'', FACT), (''GUIDANCE'', GUIDANCE), (''DOCUMENT'', DOCUMENT),
                         (''LIVE_TOOL'', LIVE_TOOL)] s
      | None \<Rightarrow> None)"

definition validKey :: "string \<Rightarrow> bool" where
  "validKey v = (v \<noteq> [] \<and> length v \<le> 240 \<and> js_trim v = v)"

text \<open>A text of a shape, in which the letter d stands for a digit.\<close>

definition of_shape :: "string \<Rightarrow> string \<Rightarrow> bool" where
  "of_shape shape s = list_all2 (\<lambda>p c. if p = CHR ''d'' then digit c else c = p) shape s"

definition zone_ok :: "string \<Rightarrow> bool" where
  "zone_ok z = (z = ''Z'' \<or> of_shape ''+dd:dd'' z \<or> of_shape ''-dd:dd'' z)"

text \<open>The pattern of \<open>validIsoInstant\<close>.\<close>

definition iso_instant_shape :: "string \<Rightarrow> bool" where
  "iso_instant_shape s =
     (of_shape ''dddd-dd-ddTdd:dd:dd'' (take 19 s) \<and>
      (case drop 19 s of
         [] \<Rightarrow> False
       | c # cs \<Rightarrow>
           if c = CHR ''.'' then
             (let n = length (takeWhile digit cs) in 1 \<le> n \<and> n \<le> 3 \<and> zone_ok (drop n cs))
           else zone_ok (c # cs)))"

definition validIsoInstant :: "gate_host \<Rightarrow> string \<Rightarrow> bool" where
  "validIsoInstant gh v = (iso_instant_shape v \<and> gh_dateParse gh v \<noteq> None)"

definition sha_of :: "json option \<Rightarrow> string option" where
  "sha_of v = (case js_str v of Some s \<Rightarrow> if is_sha256_hex s then Some s else None | None \<Rightarrow> None)"

definition key_of :: "json option \<Rightarrow> string option" where
  "key_of v = (case js_str v of Some s \<Rightarrow> if validKey s then Some s else None | None \<Rightarrow> None)"

text \<open>The exact value of a claim: absent, or not an object (which counts as absent), or well formed.\<close>

definition parse_exact :: "json option \<Rightarrow> exact_value option option" where
  "parse_exact v =
     (case Option.bind v gate_record of
        None \<Rightarrow> Some None
      | Some source \<Rightarrow>
          (case (js_str (map_of source ''text''), sha_of (map_of source ''textHash'')) of
             (Some t, Some h) \<Rightarrow>
               if t \<noteq> [] \<and> length t \<le> 8000 then Some (Some \<lparr>xv_text = t, xv_textHash = h\<rparr>) else None
           | _ \<Rightarrow> None))"

definition parseClaim :: "json \<Rightarrow> grounded_claim option" where
  "parseClaim v =
     Option.bind (gate_record v) (\<lambda>source.
     Option.bind (key_of (map_of source ''claimId'')) (\<lambda>claimId.
     Option.bind (js_str (map_of source ''text'')) (\<lambda>text.
     Option.bind (sha_of (map_of source ''textHash'')) (\<lambda>textHash.
     Option.bind (risk_of (map_of source ''riskLevel'')) (\<lambda>riskLevel.
     Option.bind (stringArray (map_of source ''evidenceKeys'')) (\<lambda>evidenceKeys.
     Option.bind (parse_exact (map_of source ''exactValue'')) (\<lambda>exactValue.
       if js_trim text = [] \<or> length text > 8000 \<or> length evidenceKeys > 256 \<or>
          list_ex (\<lambda>k. \<not> validKey k) evidenceKeys
       then None
       else Some \<lparr>gc_claimId = claimId, gc_text = text, gc_textHash = textHash, gc_riskLevel = riskLevel,
                  gc_evidenceKeys = evidenceKeys, gc_exactValue = exactValue\<rparr>)))))))"

text \<open>The hash of an exact value: absent, or a digest.\<close>

definition parse_value_hash :: "json option \<Rightarrow> string option option" where
  "parse_value_hash v = (if nullish v then Some None else map_option Some (sha_of v))"

definition parse_details :: "json_object \<Rightarrow> evidence_details option" where
  "parse_details source =
     (case kind_of (map_of source ''kind'') of
        None \<Rightarrow> None
      | Some DOCUMENT \<Rightarrow> Some Document_details
      | Some GUIDANCE \<Rightarrow> Some Guidance_details
      | Some FACT \<Rightarrow>
          Option.bind (js_str (map_of source ''verificationStatus'')) (\<lambda>status.
          Option.bind (parse_value_hash (map_of source ''exactValueHash'')) (\<lambda>h.
            if status \<in> {''VERIFIED'', ''UNVERIFIED''} then Some (Fact_details (status = ''VERIFIED'') h) else None))
      | Some LIVE_TOOL \<Rightarrow>
          Option.bind (js_str (map_of source ''status'')) (\<lambda>status.
          Option.bind (js_str (map_of source ''observedAt'')) (\<lambda>observedAt.
          Option.bind (js_str (map_of source ''expiresAt'')) (\<lambda>expiresAt.
          Option.bind (parse_value_hash (map_of source ''exactValueHash'')) (\<lambda>h.
            if status \<in> {''SUCCEEDED'', ''FAILED''}
            then Some (Live_details (status = ''SUCCEEDED'') observedAt expiresAt h) else None)))))"

definition parseEvidence :: "json \<Rightarrow> grounded_evidence option" where
  "parseEvidence v =
     Option.bind (gate_record v) (\<lambda>source.
     Option.bind (key_of (map_of source ''evidenceKey'')) (\<lambda>evidenceKey.
     Option.bind (js_str (map_of source ''content'')) (\<lambda>content.
     Option.bind (sha_of (map_of source ''contentHash'')) (\<lambda>contentHash.
     Option.bind (js_bool (map_of source ''authorized'')) (\<lambda>authorized.
     Option.bind (js_bool (map_of source ''inCapturedTarget'')) (\<lambda>inCapturedTarget.
     Option.bind (js_bool (map_of source ''stale'')) (\<lambda>stale.
     Option.bind (parse_details source) (\<lambda>details.
       if length content > 100000 then None
       else Some \<lparr>ge_evidenceKey = evidenceKey, ge_content = content, ge_contentHash = contentHash,
                  ge_authorized = authorized, ge_inCapturedTarget = inCapturedTarget, ge_stale = stale,
                  ge_details = details\<rparr>))))))))"

definition parseCitation :: "json \<Rightarrow> citation_proposal option" where
  "parseCitation v =
     Option.bind (gate_record v) (\<lambda>source.
     Option.bind (key_of (map_of source ''claimId'')) (\<lambda>claimId.
     Option.bind (sha_of (map_of source ''claimHash'')) (\<lambda>claimHash.
     Option.bind (key_of (map_of source ''evidenceKey'')) (\<lambda>evidenceKey.
       if hasOnlyKeys source [''claimId'', ''claimHash'', ''evidenceKey'']
       then Some \<lparr>cp_claimId = claimId, cp_claimHash = claimHash, cp_evidenceKey = evidenceKey\<rparr> else None))))"

definition parseConflict :: "json \<Rightarrow> evidence_conflict option" where
  "parseConflict v =
     Option.bind (gate_record v) (\<lambda>source.
     Option.bind (stringArray (map_of source ''evidenceKeys'')) (\<lambda>evidenceKeys.
     Option.bind (key_of (map_of source ''conflictId'')) (\<lambda>conflictId.
     Option.bind (js_bool (map_of source ''active'')) (\<lambda>active.
       if length evidenceKeys > MAX_EVIDENCE \<or> list_ex (\<lambda>k. \<not> validKey k) evidenceKeys then None
       else Some \<lparr>ec_conflictId = conflictId, ec_active = active, ec_evidenceKeys = evidenceKeys\<rparr>))))"

definition parse_items :: "(json \<Rightarrow> 'b option) \<Rightarrow> nat \<Rightarrow> json option \<Rightarrow> 'b list option" where
  "parse_items f limit v =
     Option.bind (js_array v) (\<lambda>xs. if length xs > limit then None else those (map f xs))"

definition parse_required :: "json option \<Rightarrow> evidence_kind option option" where
  "parse_required v = (if nullish v then Some None else map_option Some (kind_of v))"

definition parseInput :: "gate_host \<Rightarrow> json \<Rightarrow> gate_input option" where
  "parseInput gh v =
     Option.bind (gate_record v) (\<lambda>source.
     Option.bind (js_str (map_of source ''finalText'')) (\<lambda>finalText.
     Option.bind (js_str (map_of source ''now'')) (\<lambda>now.
     Option.bind (js_int (map_of source ''repairAttempt'')) (\<lambda>repairAttempt.
     Option.bind (parse_required (map_of source ''requiredEvidenceKind'')) (\<lambda>required.
     Option.bind (parse_items parseClaim MAX_CLAIMS (map_of source ''claims'')) (\<lambda>claims.
     Option.bind (parse_items parseEvidence MAX_EVIDENCE (map_of source ''evidence'')) (\<lambda>evidence.
     Option.bind (parse_items parseCitation MAX_CITATIONS (map_of source ''proposedCitations'')) (\<lambda>citations.
     Option.bind (parse_items parseConflict MAX_CONFLICTS (map_of source ''conflicts'')) (\<lambda>conflicts.
       if length finalText > MAX_DRAFT_CHARACTERS \<or> \<not> validIsoInstant gh now \<or> repairAttempt < 0 then None
       else map_option (\<lambda>nowMs. \<lparr>gi_finalText = finalText, gi_claims = claims, gi_evidence = evidence,
              gi_proposedCitations = citations, gi_conflicts = conflicts, gi_nowMs = nowMs,
              gi_repairAttempt = repairAttempt, gi_requiredEvidenceKind = required\<rparr>)
              (gh_dateParse gh now))))))))))"

definition over_limit :: "nat \<Rightarrow> json option \<Rightarrow> bool" where
  "over_limit limit v = (case js_array v of Some xs \<Rightarrow> length xs > limit | None \<Rightarrow> False)"

definition exceeds_limits :: "json_object \<Rightarrow> bool" where
  "exceeds_limits source =
     (over_limit MAX_CLAIMS (map_of source ''claims'') \<or> over_limit MAX_EVIDENCE (map_of source ''evidence'') \<or>
      over_limit MAX_CITATIONS (map_of source ''proposedCitations'') \<or>
      over_limit MAX_CONFLICTS (map_of source ''conflicts'') \<or>
      (case js_str (map_of source ''finalText'') of Some s \<Rightarrow> length s > MAX_DRAFT_CHARACTERS | None \<Rightarrow> False))"

section \<open>Issues\<close>

text \<open>The key of an issue: its code, and the claim and the evidence joined by a colon.\<close>

definition issue_key :: "gate_issue \<Rightarrow> issue_code \<times> string" where
  "issue_key i =
     (is_code i, (case is_claimId i of Some s \<Rightarrow> s | None \<Rightarrow> []) @ '':'' @
        (case is_evidenceKey i of Some s \<Rightarrow> s | None \<Rightarrow> []))"

definition addIssue ::
    "issue_code \<Rightarrow> bool \<Rightarrow> string option \<Rightarrow> string option \<Rightarrow> gate_issue list \<Rightarrow> gate_issue list" where
  "addIssue code repairable claimId evidenceKey issues =
     (let i = \<lparr>is_code = code, is_repairable = repairable, is_claimId = claimId, is_evidenceKey = evidenceKey\<rparr>
      in if issue_key i \<in> issue_key ` set issues then issues else issues @ [i])"

definition flag ::
    "bool \<Rightarrow> issue_code \<Rightarrow> bool \<Rightarrow> string option \<Rightarrow> string option \<Rightarrow> gate_issue list \<Rightarrow> gate_issue list" where
  "flag c code repairable claimId evidenceKey issues =
     (if c then addIssue code repairable claimId evidenceKey issues else issues)"

section \<open>Evidence\<close>

type_synonym evidence_index = "(string \<rightharpoonup> grounded_evidence) \<times> string list"

fun index_evidence ::
    "grounded_evidence list \<Rightarrow> evidence_index \<Rightarrow> gate_issue list \<Rightarrow> evidence_index \<times> gate_issue list" where
  "index_evidence [] ix issues = (ix, issues)"
| "index_evidence (e # es) (byKey, dups) issues =
     (let k = ge_evidenceKey e in
      if byKey k \<noteq> None
      then index_evidence es (byKey, k # dups) (addIssue EVIDENCE_KEY_DUPLICATE False None (Some k) issues)
      else index_evidence es (byKey(k \<mapsto> e), dups) issues)"

datatype live_freshness = Live_fresh | Live_failed | Live_invalid | Live_expired

definition live_verdict :: "gate_host \<Rightarrow> int \<Rightarrow> evidence_details \<Rightarrow> live_freshness" where
  "live_verdict gh nowMs d =
     (case d of
        Live_details succeeded observed expires h \<Rightarrow>
          if \<not> succeeded then Live_failed
          else if \<not> validIsoInstant gh observed \<or> \<not> validIsoInstant gh expires \<or>
                  the (gh_dateParse gh observed) > nowMs \<or>
                  the (gh_dateParse gh expires) \<le> the (gh_dateParse gh observed) then Live_invalid
          else if the (gh_dateParse gh expires) \<le> nowMs then Live_expired
          else Live_fresh
      | _ \<Rightarrow> Live_fresh)"

definition evidence_usable :: "gate_host \<Rightarrow> int \<Rightarrow> string list \<Rightarrow> grounded_evidence \<Rightarrow> bool" where
  "evidence_usable gh nowMs dups e =
     (ge_evidenceKey e \<notin> set dups \<and> hashGroundedAnswerText (ge_content e) = ge_contentHash e \<and>
      ge_authorized e \<and> ge_inCapturedTarget e \<and> \<not> ge_stale e \<and>
      live_verdict gh nowMs (ge_details e) = Live_fresh)"

definition evidence_issues ::
    "gate_host \<Rightarrow> int \<Rightarrow> string \<Rightarrow> grounded_evidence \<Rightarrow> gate_issue list \<Rightarrow> gate_issue list" where
  "evidence_issues gh nowMs claimId e issues =
     (let c = Some claimId; k = Some (ge_evidenceKey e);
          i1 = flag (hashGroundedAnswerText (ge_content e) \<noteq> ge_contentHash e) EVIDENCE_CONTENT_HASH_MISMATCH False c k issues;
          i2 = flag (\<not> ge_authorized e) EVIDENCE_UNAUTHORIZED False c k i1;
          i3 = flag (\<not> ge_inCapturedTarget e) EVIDENCE_TARGET_MISMATCH False c k i2;
          i4 = flag (ge_stale e) EVIDENCE_STALE False c k i3;
          verdict = live_verdict gh nowMs (ge_details e);
          i5 = flag (verdict = Live_failed) LIVE_EVIDENCE_FAILED False c k i4;
          i6 = flag (verdict = Live_invalid) LIVE_EVIDENCE_INVALID False c k i5
      in flag (verdict = Live_expired) LIVE_EVIDENCE_EXPIRED False c k i6)"

definition normalizedExactText :: "gate_host \<Rightarrow> string \<Rightarrow> string" where
  "normalizedExactText gh v = js_trim (collapse_runs js_space (CHR '' '') False (gh_nfkc gh v))"

definition extractive_support :: "gate_host \<Rightarrow> grounded_claim \<Rightarrow> grounded_evidence \<Rightarrow> bool" where
  "extractive_support gh c e =
     (let nc = normalizedExactText gh (gc_text c); ne = normalizedExactText gh (ge_content e)
      in nc \<noteq> [] \<and> (if ge_kind e = DOCUMENT then sublist nc ne else ne = nc))"

definition high_risk :: "grounded_claim \<Rightarrow> bool" where
  "high_risk c = (gc_riskLevel c \<in> {RISK_HIGH, RISK_CRITICAL})"

text \<open>A fact supports an exact value if it is verified and has its hash; a live tool if it has its hash.\<close>

definition exact_value_support :: "exact_value \<Rightarrow> grounded_evidence \<Rightarrow> bool" where
  "exact_value_support x e =
     ((case ge_details e of
         Fact_details verified h \<Rightarrow> verified \<and> h = Some (xv_textHash x)
       | Live_details succeeded a b h \<Rightarrow> h = Some (xv_textHash x)
       | _ \<Rightarrow> False) \<and>
      sublist (xv_text x) (ge_content e))"

definition supports :: "gate_host \<Rightarrow> grounded_claim \<Rightarrow> grounded_evidence \<Rightarrow> bool" where
  "supports gh c e =
     (if high_risk c then (case gc_exactValue c of Some x \<Rightarrow> exact_value_support x e | None \<Rightarrow> False)
      else extractive_support gh c e)"

section \<open>Claims\<close>

record claim_state =
  cs_claim :: grounded_claim
  cs_usable :: "string list"
  cs_exact :: "string list"

fun claim_evidence ::
    "gate_host \<Rightarrow> gate_input \<Rightarrow> evidence_index \<Rightarrow> string list \<Rightarrow> claim_state \<times> gate_issue list
     \<Rightarrow> claim_state \<times> gate_issue list" where
  "claim_evidence gh input ix [] st = st"
| "claim_evidence gh input ix (k # ks) (s, issues) =
     (let c = cs_claim s in
      case fst ix k of
        None \<Rightarrow> claim_evidence gh input ix ks
                 (s, addIssue UNKNOWN_CLAIM_EVIDENCE False (Some (gc_claimId c)) (Some k) issues)
      | Some e \<Rightarrow>
          (let usable = evidence_usable gh (gi_nowMs input) (snd ix) e
           in claim_evidence gh input ix ks
                (s\<lparr>cs_usable := (if usable then k # cs_usable s else cs_usable s),
                   cs_exact := (if usable \<and> supports gh c e then k # cs_exact s else cs_exact s)\<rparr>,
                 evidence_issues gh (gi_nowMs input) (gc_claimId c) e issues)))"

definition has_kind :: "evidence_index \<Rightarrow> evidence_kind \<Rightarrow> string list \<Rightarrow> bool" where
  "has_kind ix kind ks = list_ex (\<lambda>k. case fst ix k of Some e \<Rightarrow> ge_kind e = kind | None \<Rightarrow> False) ks"

definition lacks_required :: "evidence_index \<Rightarrow> gate_input \<Rightarrow> string list \<Rightarrow> bool" where
  "lacks_required ix input ks =
     (case gi_requiredEvidenceKind input of Some kind \<Rightarrow> \<not> has_kind ix kind ks | None \<Rightarrow> False)"

text \<open>The checks of a claim before its evidence is read.\<close>

definition claim_issues ::
    "gate_input \<Rightarrow> evidence_index \<Rightarrow> grounded_claim \<Rightarrow> string list \<Rightarrow> gate_issue list \<Rightarrow> gate_issue list" where
  "claim_issues input ix c ks issues =
     (let k = Some (gc_claimId c);
          i1 = flag (hashGroundedAnswerText (gc_text c) \<noteq> gc_textHash c) CLAIM_TEXT_HASH_MISMATCH False k None issues;
          i2 = flag (\<not> sublist (gc_text c) (gi_finalText input)) CLAIM_TEXT_NOT_IN_DRAFT False k None i1;
          i3 = flag (ks = []) CLAIM_EVIDENCE_REQUIRED False k None i2;
          i4 = flag (lacks_required ix input ks) REQUIRED_EVIDENCE_KIND_MISSING False k None i3;
          i5 = flag (high_risk c \<and> gc_exactValue c = None) HIGH_RISK_EXACT_VALUE_REQUIRED False k None i4
      in flag (high_risk c \<and> (case gc_exactValue c of
                 Some x \<Rightarrow> hashGroundedAnswerText (xv_text x) \<noteq> xv_textHash x \<or> \<not> sublist (xv_text x) (gc_text c)
               | None \<Rightarrow> False))
           HIGH_RISK_EXACT_VALUE_HASH_MISMATCH False k None i5)"

definition claim_step ::
    "gate_host \<Rightarrow> gate_input \<Rightarrow> evidence_index \<Rightarrow> grounded_claim \<Rightarrow> gate_issue list
     \<Rightarrow> claim_state \<times> gate_issue list" where
  "claim_step gh input ix c issues =
     (let ks = js_unique (gc_evidenceKeys c); k = Some (gc_claimId c);
          (s, i1) = claim_evidence gh input ix ks
             (\<lparr>cs_claim = c, cs_usable = [], cs_exact = []\<rparr>, claim_issues input ix c ks issues);
          i2 = flag (cs_exact s = []) CLAIM_EXACT_SUPPORT_REQUIRED False k None i1;
          i3 = flag (high_risk c \<and> cs_exact s = []) HIGH_RISK_EXACT_SUPPORT_REQUIRED False k None i2
      in (s, flag (lacks_required ix input (cs_exact s)) REQUIRED_EVIDENCE_KIND_MISSING False k None i3))"

fun claim_loop ::
    "gate_host \<Rightarrow> gate_input \<Rightarrow> evidence_index \<Rightarrow> grounded_claim list \<Rightarrow> claim_state list \<Rightarrow> gate_issue list
     \<Rightarrow> claim_state list \<times> gate_issue list" where
  "claim_loop gh input ix [] states issues = (states, issues)"
| "claim_loop gh input ix (c # cs) states issues =
     (if gc_claimId c \<in> (gc_claimId \<circ> cs_claim) ` set states
      then claim_loop gh input ix cs states (addIssue CLAIM_ID_DUPLICATE False (Some (gc_claimId c)) None issues)
      else case claim_step gh input ix c issues of (s, i1) \<Rightarrow>
             claim_loop gh input ix cs (states @ [s]) i1)"

section \<open>Conflicts\<close>

fun conflict_states :: "string \<Rightarrow> claim_state list \<Rightarrow> gate_issue list \<Rightarrow> claim_state list \<times> gate_issue list" where
  "conflict_states k [] issues = ([], issues)"
| "conflict_states k (s # ss) issues =
     (if k \<in> set (gc_evidenceKeys (cs_claim s)) then
        (case conflict_states k ss
            (addIssue ACTIVE_EVIDENCE_CONFLICT False (Some (gc_claimId (cs_claim s))) (Some k) issues) of
           (ss', i1) \<Rightarrow>
             (s\<lparr>cs_usable := removeAll k (cs_usable s), cs_exact := removeAll k (cs_exact s)\<rparr> # ss', i1))
      else (case conflict_states k ss issues of (ss', i1) \<Rightarrow> (s # ss', i1)))"

fun conflict_keys ::
    "string list \<Rightarrow> string list \<Rightarrow> claim_state list \<times> gate_issue list \<Rightarrow> claim_state list \<times> gate_issue list" where
  "conflict_keys used [] st = st"
| "conflict_keys used (k # ks) (states, issues) =
     conflict_keys used ks (if k \<in> set used then conflict_states k states issues else (states, issues))"

fun conflict_loop ::
    "string list \<Rightarrow> evidence_conflict list \<Rightarrow> claim_state list \<times> gate_issue list
     \<Rightarrow> claim_state list \<times> gate_issue list" where
  "conflict_loop used [] st = st"
| "conflict_loop used (c # cs) st =
     conflict_loop used cs (if ec_active c then conflict_keys used (ec_evidenceKeys c) st else st)"

section \<open>Citations\<close>

record citation_state =
  ct_citations :: "validated_citation list"
  ct_keys :: "string list"
  ct_claims :: "string list"
  ct_requiredClaims :: "string list"
  ct_issues :: "gate_issue list"

definition cite_issue :: "issue_code \<Rightarrow> bool \<Rightarrow> citation_proposal \<Rightarrow> citation_state \<Rightarrow> citation_state" where
  "cite_issue code repairable p t =
     t\<lparr>ct_issues := addIssue code repairable (Some (cp_claimId p)) (Some (cp_evidenceKey p)) (ct_issues t)\<rparr>"

definition citation_step ::
    "gate_input \<Rightarrow> evidence_index \<Rightarrow> claim_state list \<Rightarrow> citation_state \<Rightarrow> citation_proposal \<Rightarrow> citation_state" where
  "citation_step input ix states t p =
     (case List.find (\<lambda>s. gc_claimId (cs_claim s) = cp_claimId p) states of
        None \<Rightarrow> cite_issue UNKNOWN_CITATION_CLAIM False p t
      | Some s \<Rightarrow>
          (case fst ix (cp_evidenceKey p) of
             None \<Rightarrow> cite_issue UNKNOWN_CITATION_EVIDENCE False p t
           | Some e \<Rightarrow>
               if cp_evidenceKey p \<notin> set (gc_evidenceKeys (cs_claim s)) then cite_issue CITATION_NOT_DECLARED False p t
               else if cp_claimHash p \<noteq> gc_textHash (cs_claim s) then cite_issue CITATION_CLAIM_HASH_MISMATCH False p t
               else if cp_evidenceKey p \<notin> set (cs_usable s) then t
               else if cp_evidenceKey p \<notin> set (cs_exact s) then cite_issue HIGH_RISK_CITATION_NOT_EXACT False p t
               else if cp_claimId p @ '':'' @ cp_evidenceKey p \<in> set (ct_keys t)
               then cite_issue DUPLICATE_CITATION True p t
               else t\<lparr>ct_keys := (cp_claimId p @ '':'' @ cp_evidenceKey p) # ct_keys t,
                      ct_claims := cp_claimId p # ct_claims t,
                      ct_requiredClaims :=
                        (if Some (ge_kind e) = gi_requiredEvidenceKind input
                         then cp_claimId p # ct_requiredClaims t else ct_requiredClaims t),
                      ct_citations := ct_citations t @
                        [\<lparr>vc_ordinal = 0, vc_claimId = cp_claimId p, vc_claimHash = gc_textHash (cs_claim s),
                          vc_evidenceKey = cp_evidenceKey p, vc_evidenceKind = ge_kind e\<rparr>]\<rparr>))"

fun missing_citations :: "gate_input \<Rightarrow> citation_state \<Rightarrow> string list \<Rightarrow> gate_issue list \<Rightarrow> gate_issue list" where
  "missing_citations input t [] issues = issues"
| "missing_citations input t (c # cs) issues =
     missing_citations input t cs
       (flag (gi_requiredEvidenceKind input \<noteq> None \<and> c \<notin> set (ct_requiredClaims t))
          REQUIRED_EVIDENCE_KIND_MISSING False (Some c) None
          (flag (c \<notin> set (ct_claims t)) MISSING_CITATION True (Some c) None issues))"

section \<open>Decision\<close>

fun claim_order :: "string \<Rightarrow> grounded_claim list \<Rightarrow> int" where
  "claim_order k [] = 0"
| "claim_order k (c # cs) = (if gc_claimId c = k then 0 else 1 + claim_order k cs)"

definition citation_cmp :: "gate_host \<Rightarrow> gate_input \<Rightarrow> validated_citation \<Rightarrow> validated_citation \<Rightarrow> int" where
  "citation_cmp gh input l r =
     (let d = claim_order (vc_claimId l) (gi_claims input) - claim_order (vc_claimId r) (gi_claims input)
      in if d \<noteq> 0 then d else gh_localeCompare gh (vc_evidenceKey l) (vc_evidenceKey r))"

definition number_citations :: "validated_citation list \<Rightarrow> validated_citation list" where
  "number_citations cs = map2 (\<lambda>n c. c\<lparr>vc_ordinal := n\<rparr>) [0..<length cs] cs"

definition decide_gate :: "gate_issue list \<Rightarrow> int \<Rightarrow> gate_decision" where
  "decide_gate issues repairAttempt =
     (if list_ex (\<lambda>i. \<not> is_repairable i) issues then HANDOFF
      else if list_ex is_repairable issues \<and> repairAttempt = 0 then REPAIR_ONCE
      else if list_ex is_repairable issues then HANDOFF
      else ALLOW)"

definition gate_states :: "gate_host \<Rightarrow> gate_input \<Rightarrow> evidence_index \<times> claim_state list \<times> gate_issue list" where
  "gate_states gh input =
     (let (ix, i0) = index_evidence (gi_evidence input) (Map.empty, []) [];
          (states, i1) = claim_loop gh input ix (gi_claims input) [] i0;
          used = concat (map (\<lambda>s. gc_evidenceKeys (cs_claim s)) states)
      in (ix, conflict_loop used (gi_conflicts input) (states, i1)))"

definition gate_citations :: "gate_host \<Rightarrow> gate_input \<Rightarrow> citation_state" where
  "gate_citations gh input =
     (case gate_states gh input of (ix, states, issues) \<Rightarrow>
        foldl (citation_step input ix states)
          \<lparr>ct_citations = [], ct_keys = [], ct_claims = [], ct_requiredClaims = [], ct_issues = issues\<rparr>
          (gi_proposedCitations input))"

definition gate_issues :: "gate_host \<Rightarrow> gate_input \<Rightarrow> gate_issue list" where
  "gate_issues gh input =
     (case gate_states gh input of (ix, states, issues) \<Rightarrow>
        missing_citations input (gate_citations gh input)
          (map (\<lambda>s. gc_claimId (cs_claim s)) states) (ct_issues (gate_citations gh input)))"

definition gate_check :: "gate_host \<Rightarrow> gate_input \<Rightarrow> gate_result" where
  "gate_check gh input =
     (let issues = gate_issues gh input;
          decision = decide_gate issues (gi_repairAttempt input)
      in \<lparr>gr_decision = decision, gr_safeToSend = (decision = ALLOW),
          gr_repairAttemptsRemaining = (if decision = REPAIR_ONCE then 1 else 0), gr_issues = issues,
          gr_citations = number_citations
            (js_sort (citation_cmp gh input) (ct_citations (gate_citations gh input)))\<rparr>)"

definition invalidResult :: "issue_code \<Rightarrow> gate_result" where
  "invalidResult code =
     \<lparr>gr_decision = HANDOFF, gr_safeToSend = False, gr_repairAttemptsRemaining = 0,
      gr_issues = [\<lparr>is_code = code, is_repairable = False, is_claimId = None, is_evidenceKey = None\<rparr>],
      gr_citations = []\<rparr>"

definition validateGroundedAnswer :: "gate_host \<Rightarrow> json \<Rightarrow> gate_result" where
  "validateGroundedAnswer gh v =
     (if (case gate_record v of Some source \<Rightarrow> exceeds_limits source | None \<Rightarrow> False)
      then invalidResult INPUT_LIMIT_EXCEEDED
      else case parseInput gh v of
        None \<Rightarrow> invalidResult INPUT_INVALID
      | Some input \<Rightarrow> gate_check gh input)"

end
