(* ===== verification/Answer_Orchestrator.thy ===== *)
theory Answer_Orchestrator
  imports Answer_Gate
begin

text \<open>
  The orchestrator of grounded answers (\<open>packages/ai/src/grounded-answer-orchestrator.ts\<close>): it has a
  language model, admitted by an authorizer, generate claims with citations, puts them through the gate
  and has them repaired at most once. The model, the authorizer and the policies of the output are
  arguments; a promise of theirs that is rejected is \<open>None\<close>.
\<close>

section \<open>Values\<close>

datatype purpose = GENERATE | REPAIR

record provider_identity =
  id_provider :: string
  id_model :: string
  id_version :: string
  id_region :: string

record processor_admission =
  pa_identity :: provider_identity
  pa_policyVersion :: string
  pa_policyHash :: string
  pa_promptPolicyVersion :: string

text \<open>The evidence and the conflicts themselves are values that the gate parses.\<close>

record orchestration_evidence =
  oe_evidence :: json
  oe_riskLevel :: answer_risk
  oe_classification :: string
  oe_safeLabel :: string

record orchestration_input =
  oi_tenantId :: string
  oi_locale :: string
  oi_question :: string
  oi_promptPolicyVersion :: string
  oi_queryClassification :: string
  oi_evidenceAllowed :: bool
  oi_evidence :: "orchestration_evidence list"
  oi_conflicts :: "json list"
  oi_now :: string
  oi_requiredEvidenceKind :: "evidence_kind option"

record provider_input =
  pi_purpose :: purpose
  pi_tenantId :: string
  pi_locale :: string
  pi_question :: string
  pi_promptPolicyVersion :: string
  pi_evidence :: "orchestration_evidence list"
  pi_requiredEvidenceKind :: "evidence_kind option"
  pi_previousOutput :: "json option"
  pi_repairIssues :: "string list option"

datatype plain_issue =
    OUTPUT_FORMAT_INVALID | PROCESSOR_DENIED | PROVIDER_UNAVAILABLE | INPUT_POLICY_DENIED | OUTPUT_POLICY_DENIED

datatype orchestration_issue = Gate_issue gate_issue | Plain_issue plain_issue

datatype disposition = AUTO_SEND | TO_HANDOFF

record orchestration_result =
  or_disposition :: disposition
  or_finalText :: "string option"
  or_citations :: "validated_citation list"
  or_issues :: "orchestration_issue list"
  or_identity :: "provider_identity option"
  or_processorPolicyVersion :: "string option"
  or_processorPolicyHash :: "string option"
  or_promptPolicyVersion :: string
  or_providerOutputHash :: "string option"
  or_gateInputHash :: "string option"
  or_gateResultHash :: string
  or_providerCallCount :: nat
  or_repairCount :: nat

record orchestrator =
  oc_identity :: provider_identity
  oc_authorize :: "purpose \<Rightarrow> string list \<Rightarrow> processor_admission option option"
  oc_generate :: "provider_input \<Rightarrow> json option"
  oc_validateInput :: "orchestration_input \<Rightarrow> bool option"
  oc_validateOutput :: "orchestration_input \<Rightarrow> string \<Rightarrow> validated_citation list \<Rightarrow> bool option"

section \<open>Output of the provider\<close>

record provider_claim =
  pc_claimId :: string
  pc_text :: string
  pc_evidenceKeys :: "string list"
  pc_exactValueText :: "string option"

record provider_output =
  po_claims :: "provider_claim list"
  po_citations :: "(string \<times> string) list"

definition MAX_FINAL_TEXT :: nat where "MAX_FINAL_TEXT = 100000"

definition letter_digit :: "char \<Rightarrow> bool" where
  "letter_digit c =
     (let n = of_char c :: nat in digit c \<or> 65 \<le> n \<and> n \<le> 90 \<or> 97 \<le> n \<and> n \<le> 122)"

text \<open>The pattern \<open>^[A-Za-z0-9][A-Za-z0-9._:/-]{0,239}$\<close>.\<close>

definition SAFE_KEY :: "string \<Rightarrow> bool" where
  "SAFE_KEY s =
     (case s of
        [] \<Rightarrow> False
      | c # cs \<Rightarrow> letter_digit c \<and> length cs \<le> 239 \<and> list_all (\<lambda>x. letter_digit x \<or> x \<in> set ''._:/-'') cs)"

definition safe_key_of :: "json option \<Rightarrow> string option" where
  "safe_key_of v = (case js_str v of Some s \<Rightarrow> if SAFE_KEY s then Some s else None | None \<Rightarrow> None)"

text \<open>The text of an exact value: \<open>null\<close>, or a text that is not empty; it may not be absent.\<close>

definition parse_exact_text :: "json option \<Rightarrow> string option option" where
  "parse_exact_text v =
     (if v = Some JNull then Some None
      else case js_str v of Some s \<Rightarrow> if s = [] \<or> length s > 8000 then None else Some (Some s) | None \<Rightarrow> None)"

definition parse_provider_claim :: "json \<Rightarrow> provider_claim option" where
  "parse_provider_claim v =
     Option.bind (gate_record v) (\<lambda>claim.
     Option.bind (safe_key_of (map_of claim ''claimId'')) (\<lambda>claimId.
     Option.bind (js_str (map_of claim ''text'')) (\<lambda>text.
     Option.bind (stringArray (map_of claim ''evidenceKeys'')) (\<lambda>evidenceKeys.
     Option.bind (parse_exact_text (map_of claim ''exactValueText'')) (\<lambda>exactValueText.
       if \<not> hasOnlyKeys claim [''claimId'', ''text'', ''evidenceKeys'', ''exactValueText''] \<or>
          js_trim text = [] \<or> length text > 8000 \<or> evidenceKeys = [] \<or> length evidenceKeys > 256 \<or>
          list_ex (\<lambda>k. \<not> SAFE_KEY k) evidenceKeys
       then None
       else Some \<lparr>pc_claimId = claimId, pc_text = text, pc_evidenceKeys = evidenceKeys,
                  pc_exactValueText = exactValueText\<rparr>)))))"

definition parse_provider_citation :: "json \<Rightarrow> (string \<times> string) option" where
  "parse_provider_citation v =
     Option.bind (gate_record v) (\<lambda>citation.
     Option.bind (safe_key_of (map_of citation ''claimId'')) (\<lambda>claimId.
     Option.bind (safe_key_of (map_of citation ''evidenceKey'')) (\<lambda>evidenceKey.
       if hasOnlyKeys citation [''claimId'', ''evidenceKey''] then Some (claimId, evidenceKey) else None)))"

definition parseProviderOutput :: "json \<Rightarrow> provider_output option" where
  "parseProviderOutput v =
     Option.bind (gate_record v) (\<lambda>source.
     Option.bind (parse_items parse_provider_claim MAX_CLAIMS (map_of source ''claims'')) (\<lambda>claims.
     Option.bind (parse_items parse_provider_citation MAX_CITATIONS (map_of source ''citations'')) (\<lambda>citations.
       if \<not> hasOnlyKeys source [''schemaVersion'', ''claims'', ''citations''] \<or>
          map_of source ''schemaVersion'' \<noteq> Some (JInt 1) \<or> claims = []
       then None
       else Some \<lparr>po_claims = claims, po_citations = citations\<rparr>)))"

section \<open>Hashes\<close>

text \<open>JSON text with the keys of objects in the order of their code units.\<close>

fun stable_json :: "json \<Rightarrow> string" where
  "stable_json (JArr xs) = ''['' @ join '','' (map stable_json xs) @ '']''"
| "stable_json (JObj kvs) =
     ''{'' @ join '','' (map (\<lambda>(k, t). json_quote k @ '':'' @ t)
        (js_sort (by_key str_cmp) (map (\<lambda>(k, v). (k, stable_json v)) kvs))) @ ''}''"
| "stable_json v = json_stringify v"

definition hashValue :: "json \<Rightarrow> string" where
  "hashValue v = hashGroundedAnswerText (stable_json v)"

definition json_text_opt :: "string option \<Rightarrow> json" where
  "json_text_opt v = opt_json JStr v"

definition output_json :: "provider_output \<Rightarrow> json" where
  "output_json p = JObj [(''schemaVersion'', JInt 1),
     (''claims'', JArr (map (\<lambda>c. JObj [(''claimId'', JStr (pc_claimId c)), (''text'', JStr (pc_text c)),
        (''evidenceKeys'', JArr (map JStr (pc_evidenceKeys c))),
        (''exactValueText'', json_text_opt (pc_exactValueText c))]) (po_claims p))),
     (''citations'', JArr (map (\<lambda>(c, e). JObj [(''claimId'', JStr c), (''evidenceKey'', JStr e)]) (po_citations p)))]"

fun risk_text :: "answer_risk \<Rightarrow> string" where
  "risk_text RISK_LOW = ''LOW''"
| "risk_text RISK_MEDIUM = ''MEDIUM''"
| "risk_text RISK_HIGH = ''HIGH''"
| "risk_text RISK_CRITICAL = ''CRITICAL''"

fun kind_text :: "evidence_kind \<Rightarrow> string" where
  "kind_text FACT = ''FACT''"
| "kind_text GUIDANCE = ''GUIDANCE''"
| "kind_text DOCUMENT = ''DOCUMENT''"
| "kind_text LIVE_TOOL = ''LIVE_TOOL''"

fun decision_text :: "gate_decision \<Rightarrow> string" where
  "decision_text ALLOW = ''ALLOW''"
| "decision_text REPAIR_ONCE = ''REPAIR_ONCE''"
| "decision_text HANDOFF = ''HANDOFF''"

fun issue_code_text :: "issue_code \<Rightarrow> string" where
  "issue_code_text INPUT_INVALID = ''INPUT_INVALID''"
| "issue_code_text INPUT_LIMIT_EXCEEDED = ''INPUT_LIMIT_EXCEEDED''"
| "issue_code_text CLAIM_ID_DUPLICATE = ''CLAIM_ID_DUPLICATE''"
| "issue_code_text CLAIM_TEXT_HASH_MISMATCH = ''CLAIM_TEXT_HASH_MISMATCH''"
| "issue_code_text CLAIM_TEXT_NOT_IN_DRAFT = ''CLAIM_TEXT_NOT_IN_DRAFT''"
| "issue_code_text CLAIM_EXACT_SUPPORT_REQUIRED = ''CLAIM_EXACT_SUPPORT_REQUIRED''"
| "issue_code_text CLAIM_EVIDENCE_REQUIRED = ''CLAIM_EVIDENCE_REQUIRED''"
| "issue_code_text REQUIRED_EVIDENCE_KIND_MISSING = ''REQUIRED_EVIDENCE_KIND_MISSING''"
| "issue_code_text UNKNOWN_CLAIM_EVIDENCE = ''UNKNOWN_CLAIM_EVIDENCE''"
| "issue_code_text EVIDENCE_KEY_DUPLICATE = ''EVIDENCE_KEY_DUPLICATE''"
| "issue_code_text EVIDENCE_CONTENT_HASH_MISMATCH = ''EVIDENCE_CONTENT_HASH_MISMATCH''"
| "issue_code_text EVIDENCE_UNAUTHORIZED = ''EVIDENCE_UNAUTHORIZED''"
| "issue_code_text EVIDENCE_TARGET_MISMATCH = ''EVIDENCE_TARGET_MISMATCH''"
| "issue_code_text EVIDENCE_STALE = ''EVIDENCE_STALE''"
| "issue_code_text LIVE_EVIDENCE_FAILED = ''LIVE_EVIDENCE_FAILED''"
| "issue_code_text LIVE_EVIDENCE_INVALID = ''LIVE_EVIDENCE_INVALID''"
| "issue_code_text LIVE_EVIDENCE_EXPIRED = ''LIVE_EVIDENCE_EXPIRED''"
| "issue_code_text HIGH_RISK_EXACT_VALUE_REQUIRED = ''HIGH_RISK_EXACT_VALUE_REQUIRED''"
| "issue_code_text HIGH_RISK_EXACT_VALUE_HASH_MISMATCH = ''HIGH_RISK_EXACT_VALUE_HASH_MISMATCH''"
| "issue_code_text HIGH_RISK_EXACT_SUPPORT_REQUIRED = ''HIGH_RISK_EXACT_SUPPORT_REQUIRED''"
| "issue_code_text HIGH_RISK_CITATION_NOT_EXACT = ''HIGH_RISK_CITATION_NOT_EXACT''"
| "issue_code_text ACTIVE_EVIDENCE_CONFLICT = ''ACTIVE_EVIDENCE_CONFLICT''"
| "issue_code_text UNKNOWN_CITATION_CLAIM = ''UNKNOWN_CITATION_CLAIM''"
| "issue_code_text UNKNOWN_CITATION_EVIDENCE = ''UNKNOWN_CITATION_EVIDENCE''"
| "issue_code_text CITATION_NOT_DECLARED = ''CITATION_NOT_DECLARED''"
| "issue_code_text CITATION_CLAIM_HASH_MISMATCH = ''CITATION_CLAIM_HASH_MISMATCH''"
| "issue_code_text DUPLICATE_CITATION = ''DUPLICATE_CITATION''"
| "issue_code_text MISSING_CITATION = ''MISSING_CITATION''"

fun plain_issue_text :: "plain_issue \<Rightarrow> string" where
  "plain_issue_text OUTPUT_FORMAT_INVALID = ''OUTPUT_FORMAT_INVALID''"
| "plain_issue_text PROCESSOR_DENIED = ''PROCESSOR_DENIED''"
| "plain_issue_text PROVIDER_UNAVAILABLE = ''PROVIDER_UNAVAILABLE''"
| "plain_issue_text INPUT_POLICY_DENIED = ''INPUT_POLICY_DENIED''"
| "plain_issue_text OUTPUT_POLICY_DENIED = ''OUTPUT_POLICY_DENIED''"

definition gate_issue_json :: "gate_issue \<Rightarrow> json" where
  "gate_issue_json i = JObj [(''code'', JStr (issue_code_text (is_code i))), (''repairable'', JBool (is_repairable i)),
     (''claimId'', json_text_opt (is_claimId i)), (''evidenceKey'', json_text_opt (is_evidenceKey i))]"

fun issue_json :: "orchestration_issue \<Rightarrow> json" where
  "issue_json (Gate_issue i) = gate_issue_json i"
| "issue_json (Plain_issue p) = JObj [(''code'', JStr (plain_issue_text p))]"

definition gate_json :: "gate_result \<Rightarrow> json" where
  "gate_json g = JObj [(''decision'', JStr (decision_text (gr_decision g))), (''safeToSend'', JBool (gr_safeToSend g)),
     (''repairAttemptsRemaining'', JInt (int (gr_repairAttemptsRemaining g))),
     (''issues'', JArr (map gate_issue_json (gr_issues g))),
     (''citations'', JArr (map (\<lambda>v. JObj [(''claimId'', JStr (vc_claimId v)), (''claimHash'', JStr (vc_claimHash v)),
        (''evidenceKey'', JStr (vc_evidenceKey v)), (''evidenceKind'', JStr (kind_text (vc_evidenceKind v))),
        (''ordinal'', JInt (int (vc_ordinal v)))]) (gr_citations g)))]"

section \<open>Claims for the gate\<close>

fun risk_rank :: "answer_risk \<Rightarrow> nat" where
  "risk_rank RISK_LOW = 0"
| "risk_rank RISK_MEDIUM = 1"
| "risk_rank RISK_HIGH = 2"
| "risk_rank RISK_CRITICAL = 3"

definition highestRisk :: "answer_risk list \<Rightarrow> answer_risk" where
  "highestRisk vs = foldl (\<lambda>highest v. if risk_rank v > risk_rank highest then v else highest) RISK_LOW vs"

definition evidence_key_of :: "orchestration_evidence \<Rightarrow> string option" where
  "evidence_key_of e = js_str (map_of (json_entries (oe_evidence e)) ''evidenceKey'')"

text \<open>The map of the evidence by key: of several with one key the last.\<close>

definition evidence_for :: "orchestration_input \<Rightarrow> string \<Rightarrow> orchestration_evidence option" where
  "evidence_for input k = List.find (\<lambda>e. evidence_key_of e = Some k) (rev (oi_evidence input))"

definition claim_risk :: "orchestration_input \<Rightarrow> provider_claim \<Rightarrow> answer_risk" where
  "claim_risk input c =
     highestRisk (List.map_filter (\<lambda>k. map_option oe_riskLevel (evidence_for input k)) (pc_evidenceKeys c) @
       (if oi_requiredEvidenceKind input = Some LIVE_TOOL then [RISK_HIGH] else []))"

definition claim_json :: "orchestration_input \<Rightarrow> provider_claim \<Rightarrow> json" where
  "claim_json input c =
     JObj [(''claimId'', JStr (pc_claimId c)), (''text'', JStr (pc_text c)),
       (''textHash'', JStr (hashGroundedAnswerText (pc_text c))),
       (''riskLevel'', JStr (risk_text (claim_risk input c))),
       (''evidenceKeys'', JArr (map JStr (pc_evidenceKeys c))),
       (''exactValue'',
         (case pc_exactValueText c of
            Some t \<Rightarrow> JObj [(''text'', JStr t), (''textHash'', JStr (hashGroundedAnswerText t))]
          | None \<Rightarrow> JNull))]"

definition final_text :: "provider_output \<Rightarrow> string" where
  "final_text p = join [CHR 0x0A, CHR 0x0A] (map (js_trim \<circ> pc_text) (po_claims p))"

definition claim_hash :: "provider_output \<Rightarrow> string \<Rightarrow> string" where
  "claim_hash p k =
     (case List.find (\<lambda>c. pc_claimId c = k) (rev (po_claims p)) of
        Some c \<Rightarrow> hashGroundedAnswerText (pc_text c)
      | None \<Rightarrow> replicate 64 (CHR ''0''))"

definition gate_input_json :: "orchestration_input \<Rightarrow> purpose \<Rightarrow> provider_output \<Rightarrow> json" where
  "gate_input_json input purpose p =
     JObj [(''finalText'', JStr (final_text p)),
       (''claims'', JArr (map (claim_json input) (po_claims p))),
       (''evidence'', JArr (map oe_evidence (oi_evidence input))),
       (''proposedCitations'', JArr (map (\<lambda>(c, e). JObj [(''claimId'', JStr c), (''evidenceKey'', JStr e),
          (''claimHash'', JStr (claim_hash p c))]) (po_citations p))),
       (''conflicts'', JArr (oi_conflicts input)), (''now'', JStr (oi_now input)),
       (''repairAttempt'', JInt (if purpose = REPAIR then 1 else 0)),
       (''requiredEvidenceKind'', opt_json (JStr \<circ> kind_text) (oi_requiredEvidenceKind input))]"

section \<open>The orchestration\<close>

definition js_truthy :: "json option \<Rightarrow> bool" where
  "js_truthy v =
     (case v of
        None \<Rightarrow> False | Some JNull \<Rightarrow> False | Some (JBool b) \<Rightarrow> b | Some (JInt n) \<Rightarrow> n \<noteq> 0
      | Some (JStr s) \<Rightarrow> s \<noteq> [] | Some x \<Rightarrow> True)"

definition conflict_active :: "json \<Rightarrow> bool" where
  "conflict_active c = js_truthy (map_of (json_entries c) ''active'')"

text \<open>A hand-over; the fields that a caller sets beyond these are set on the result.\<close>

definition handoff :: "string \<Rightarrow> orchestration_issue list \<Rightarrow> nat \<Rightarrow> nat \<Rightarrow> orchestration_result" where
  "handoff promptPolicyVersion issues calls repairCount =
     \<lparr>or_disposition = TO_HANDOFF, or_finalText = None, or_citations = [], or_issues = issues, or_identity = None,
      or_processorPolicyVersion = None, or_processorPolicyHash = None,
      or_promptPolicyVersion = promptPolicyVersion, or_providerOutputHash = None, or_gateInputHash = None,
      or_gateResultHash = hashValue (JObj [(''disposition'', JStr ''HANDOFF''), (''issues'', JArr (map issue_json issues))]),
      or_providerCallCount = calls, or_repairCount = repairCount\<rparr>"

definition admitted :: "processor_admission \<Rightarrow> orchestration_result \<Rightarrow> orchestration_result" where
  "admitted a r =
     r\<lparr>or_identity := Some (pa_identity a), or_processorPolicyVersion := Some (pa_policyVersion a),
       or_processorPolicyHash := Some (pa_policyHash a)\<rparr>"

definition gated ::
    "orchestration_input \<Rightarrow> purpose \<Rightarrow> provider_output \<Rightarrow> gate_result \<Rightarrow> orchestration_result \<Rightarrow> orchestration_result" where
  "gated input purpose p g r =
     r\<lparr>or_providerOutputHash := Some (hashValue (output_json p)),
       or_gateInputHash := Some (hashValue (gate_input_json input purpose p)),
       or_gateResultHash := hashValue (gate_json g)\<rparr>"

datatype round_outcome = Done orchestration_result | Again json "string list" | Rejected

definition classifications :: "orchestration_input \<Rightarrow> string list" where
  "classifications input =
     js_sort str_cmp (js_unique (oi_queryClassification input # map oe_classification (oi_evidence input)))"

definition provider_request ::
    "orchestration_input \<Rightarrow> purpose \<Rightarrow> json option \<Rightarrow> string list option \<Rightarrow> provider_input" where
  "provider_request input purpose previousOutput repairIssues =
     \<lparr>pi_purpose = purpose, pi_tenantId = oi_tenantId input, pi_locale = oi_locale input,
      pi_question = oi_question input, pi_promptPolicyVersion = oi_promptPolicyVersion input,
      pi_evidence = oi_evidence input, pi_requiredEvidenceKind = oi_requiredEvidenceKind input,
      pi_previousOutput = (if purpose = REPAIR then previousOutput else None),
      pi_repairIssues = (if purpose = REPAIR then repairIssues else None)\<rparr>"

text \<open>What happens to an output that was parsed.\<close>

definition judge_output ::
    "gate_host \<Rightarrow> orchestrator \<Rightarrow> orchestration_input \<Rightarrow> purpose \<Rightarrow> nat \<Rightarrow> nat \<Rightarrow> processor_admission
     \<Rightarrow> provider_output \<Rightarrow> round_outcome" where
  "judge_output gh oc input purpose calls repairCount admission p =
     (let finalText = final_text p; version = oi_promptPolicyVersion input in
      if finalText = [] \<or> length finalText > MAX_FINAL_TEXT then
        (if purpose = GENERATE then Again (output_json p) [''OUTPUT_FORMAT_INVALID'']
         else Done ((admitted admission (handoff version [Plain_issue OUTPUT_FORMAT_INVALID] calls repairCount))
                      \<lparr>or_providerOutputHash := Some (hashValue (output_json p))\<rparr>))
      else
        (let gate = validateGroundedAnswer gh (gate_input_json input purpose p);
             metadata = gated input purpose p gate \<circ> admitted admission
         in if gr_safeToSend gate then
              (case oc_validateOutput oc input finalText (gr_citations gate) of
                 None \<Rightarrow> Rejected
               | Some False \<Rightarrow> Done (metadata (handoff version [Plain_issue OUTPUT_POLICY_DENIED] calls repairCount))
               | Some True \<Rightarrow>
                   Done (metadata ((handoff version (map Gate_issue (gr_issues gate)) calls repairCount)
                     \<lparr>or_disposition := AUTO_SEND, or_finalText := Some finalText, or_citations := gr_citations gate\<rparr>)))
            else if gr_decision gate = REPAIR_ONCE \<and> purpose = GENERATE
            then Again (output_json p) (map (issue_code_text \<circ> is_code) (gr_issues gate))
            else Done (metadata (handoff version (map Gate_issue (gr_issues gate)) calls repairCount))))"

definition orchestration_round ::
    "gate_host \<Rightarrow> orchestrator \<Rightarrow> orchestration_input \<Rightarrow> purpose \<Rightarrow> nat \<Rightarrow> nat \<Rightarrow> json option
     \<Rightarrow> string list option \<Rightarrow> round_outcome" where
  "orchestration_round gh oc input purpose calls repairCount previousOutput repairIssues =
     (let version = oi_promptPolicyVersion input in
      case oc_authorize oc purpose (classifications input) of
        None \<Rightarrow> Rejected
      | Some None \<Rightarrow> Done (handoff version [Plain_issue PROCESSOR_DENIED] calls repairCount)
      | Some (Some admission) \<Rightarrow>
          if pa_identity admission \<noteq> oc_identity oc
          then Done (handoff version [Plain_issue PROCESSOR_DENIED] calls repairCount)
          else
            (case oc_generate oc (provider_request input purpose previousOutput repairIssues) of
               None \<Rightarrow>
                 Done (admitted admission (handoff version [Plain_issue PROVIDER_UNAVAILABLE] (Suc calls) repairCount))
             | Some raw \<Rightarrow>
                 (case parseProviderOutput raw of
                    Some p \<Rightarrow> judge_output gh oc input purpose (Suc calls) repairCount admission p
                  | None \<Rightarrow>
                      if purpose = GENERATE then Again raw [''OUTPUT_FORMAT_INVALID'']
                      else Done (admitted admission
                             (handoff version [Plain_issue OUTPUT_FORMAT_INVALID] (Suc calls) repairCount)))))"

definition answer :: "gate_host \<Rightarrow> orchestrator \<Rightarrow> orchestration_input \<Rightarrow> orchestration_result option" where
  "answer gh oc input =
     (let version = oi_promptPolicyVersion input in
      if \<not> oi_evidenceAllowed input \<or> oi_evidence input = [] \<or> list_ex conflict_active (oi_conflicts input)
      then Some (handoff version [] 0 0)
      else case oc_validateInput oc input of
        None \<Rightarrow> None
      | Some False \<Rightarrow> Some (handoff version [Plain_issue INPUT_POLICY_DENIED] 0 0)
      | Some True \<Rightarrow>
          (case orchestration_round gh oc input GENERATE 0 0 None None of
             Rejected \<Rightarrow> None
           | Done r \<Rightarrow> Some r
           | Again previous issues \<Rightarrow>
               (case orchestration_round gh oc input REPAIR 1 1 (Some previous) (Some issues) of
                  Rejected \<Rightarrow> None
                | Done r \<Rightarrow> Some r
                | Again previous2 issues2 \<Rightarrow>
                    Some (handoff version [Plain_issue OUTPUT_FORMAT_INVALID] 2 1))))"

end
