(* ===== verification/Answer_Gate_Properties.thy ===== *)
theory Answer_Gate_Properties
  imports Answer_Gate Js_Time
begin

text \<open>
  What the gate of grounded answers guarantees. Issues are only ever added, so an answer that is
  allowed passed every check; the lemmas read off each loop what an empty list of issues means.
\<close>

section \<open>Issues\<close>

lemma addIssue_ne [simp]: "addIssue code r c k ds \<noteq> []"
  by (auto simp: addIssue_def Let_def)

lemma flag_Nil [simp]: "flag b code r c k ds = [] \<longleftrightarrow> ds = [] \<and> \<not> b"
  by (simp add: flag_def)

lemma gate_decision_ALLOW: "decide_gate ds r = ALLOW \<longleftrightarrow> ds = []"
  by (cases ds) (auto simp: decide_gate_def)

section \<open>Evidence\<close>

text \<open>An index holds the evidence of a list.\<close>

definition indexes :: "grounded_evidence list \<Rightarrow> (string \<rightharpoonup> grounded_evidence) \<Rightarrow> bool" where
  "indexes es byKey = (\<forall>k e. byKey k = Some e \<longrightarrow> e \<in> set es \<and> ge_evidenceKey e = k)"

lemma index_evidence_indexes:
  "index_evidence es (byKey, dups) ds = ((byKey', dups'), ds') \<Longrightarrow> indexes all byKey \<Longrightarrow> set es \<subseteq> set all \<Longrightarrow>
   indexes all byKey'"
proof (induction es arbitrary: byKey dups ds)
  case (Cons e es)
  let ?k = "ge_evidenceKey e"
  have i: "indexes all (byKey(?k \<mapsto> e))" using Cons.prems(2,3) by (simp add: indexes_def)
  show ?case
  proof (cases "byKey ?k")
    case None
    then show ?thesis using Cons.prems(1,3) Cons.IH [OF _ i] by (simp add: Let_def del: fun_upd_apply)
  next
    case (Some x)
    then show ?thesis using Cons.prems Cons.IH [OF _ Cons.prems(2)] by (simp add: Let_def)
  qed
qed simp

lemma index_evidence_clean:
  "index_evidence es (byKey, dups) ds = ((byKey', dups'), []) \<Longrightarrow> ds = [] \<and> dups' = dups"
proof (induction es arbitrary: byKey dups ds)
  case (Cons e es)
  show ?case
  proof (cases "byKey (ge_evidenceKey e)")
    case None
    then show ?thesis using Cons.prems Cons.IH by (simp add: Let_def del: fun_upd_apply)
  next
    case (Some x)
    then show ?thesis using Cons.prems by (auto simp: Let_def dest: Cons.IH)
  qed
qed simp

lemma evidence_issues_Nil:
  "evidence_issues gh now c e ds = [] \<longleftrightarrow> ds = [] \<and> evidence_usable gh now [] e"
  by (cases "live_verdict gh now (ge_details e)") (auto simp: evidence_issues_def Let_def evidence_usable_def)

section \<open>Claims\<close>

definition key_supports :: "gate_host \<Rightarrow> gate_input \<Rightarrow> evidence_index \<Rightarrow> grounded_claim \<Rightarrow> string \<Rightarrow> bool" where
  "key_supports gh input ix c k =
     (k \<in> set (gc_evidenceKeys c) \<and>
      (\<exists>e. fst ix k = Some e \<and> evidence_usable gh (gi_nowMs input) (snd ix) e \<and> supports gh c e))"

definition state_sound :: "gate_host \<Rightarrow> gate_input \<Rightarrow> evidence_index \<Rightarrow> claim_state \<Rightarrow> bool" where
  "state_sound gh input ix s = list_all (key_supports gh input ix (cs_claim s)) (cs_exact s)"

lemma claim_evidence_sound:
  "set ks \<subseteq> set (gc_evidenceKeys (cs_claim s)) \<Longrightarrow> state_sound gh input ix s \<Longrightarrow>
   claim_evidence gh input ix ks (s, ds) = (s', ds') \<Longrightarrow>
   cs_claim s' = cs_claim s \<and> state_sound gh input ix s'"
proof (induction ks arbitrary: s ds)
  case (Cons k ks)
  show ?case
  proof (cases "fst ix k")
    case None
    then show ?thesis
      using Cons.IH [of s "addIssue UNKNOWN_CLAIM_EVIDENCE False (Some (gc_claimId (cs_claim s))) (Some k) ds"]
        Cons.prems by simp
  next
    case (Some e)
    let ?usable = "evidence_usable gh (gi_nowMs input) (snd ix) e"
    let ?s = "s\<lparr>cs_usable := (if ?usable then k # cs_usable s else cs_usable s),
                cs_exact := (if ?usable \<and> supports gh (cs_claim s) e then k # cs_exact s else cs_exact s)\<rparr>"
    have "state_sound gh input ix ?s"
      using Cons.prems(1,2) Some by (auto simp: state_sound_def key_supports_def list_all_iff)
    then show ?thesis
      using Cons.IH [of ?s "evidence_issues gh (gi_nowMs input) (gc_claimId (cs_claim s)) e ds"] Cons.prems Some
      by (simp add: Let_def)
  qed
qed simp

lemma claim_evidence_clean: "claim_evidence gh input ix ks (s, ds) = (s', []) \<Longrightarrow> ds = []"
  by (induction ks arbitrary: s ds) (fastforce simp: Let_def evidence_issues_Nil split: option.splits)+

definition claim_ok :: "gate_input \<Rightarrow> grounded_claim \<Rightarrow> bool" where
  "claim_ok input c =
     (hashGroundedAnswerText (gc_text c) = gc_textHash c \<and> sublist (gc_text c) (gi_finalText input))"

lemma claim_step_sound:
  "claim_step gh input ix c ds = (s, ds') \<Longrightarrow> cs_claim s = c \<and> state_sound gh input ix s"
  using claim_evidence_sound [of "js_unique (gc_evidenceKeys c)" "\<lparr>cs_claim = c, cs_usable = [], cs_exact = []\<rparr>"
      gh input ix "claim_issues input ix c (js_unique (gc_evidenceKeys c)) ds"]
  by (auto simp: claim_step_def Let_def state_sound_def split: prod.splits)

lemma claim_step_clean: "claim_step gh input ix c ds = (s, []) \<Longrightarrow> ds = [] \<and> claim_ok input c"
  by (auto simp: claim_step_def Let_def claim_issues_def claim_ok_def split: prod.splits
      dest!: claim_evidence_clean)

lemma claim_loop_sound:
  "claim_loop gh input ix cs states ds = (states', ds') \<Longrightarrow> list_all (state_sound gh input ix) states \<Longrightarrow>
   list_all (state_sound gh input ix) states'"
proof (induction cs arbitrary: states ds)
  case (Cons c cs)
  obtain s d where s: "claim_step gh input ix c ds = (s, d)" by fastforce
  show ?case using Cons s claim_step_sound [OF s] by (auto split: if_splits)
qed simp

lemma claim_loop_clean:
  "claim_loop gh input ix cs states ds = (states', []) \<Longrightarrow>
   ds = [] \<and> list_all (claim_ok input) cs \<and> map cs_claim states' = map cs_claim states @ cs \<and>
   (distinct (map (gc_claimId \<circ> cs_claim) states) \<longrightarrow> distinct (map (gc_claimId \<circ> cs_claim) states'))"
proof (induction cs arbitrary: states ds)
  case (Cons c cs)
  obtain s d where s: "claim_step gh input ix c ds = (s, d)" by fastforce
  show ?case
  proof (cases "gc_claimId c \<in> (gc_claimId \<circ> cs_claim) ` set states")
    case True
    then have "claim_loop gh input ix cs states (addIssue CLAIM_ID_DUPLICATE False (Some (gc_claimId c)) None ds)
        = (states', [])" using Cons.prems by simp
    from Cons.IH [OF this] show ?thesis by simp
  next
    case False
    then have "claim_loop gh input ix cs (states @ [s]) d = (states', [])" using Cons.prems s by simp
    note ih = Cons.IH [OF this]
    have "d = []" using ih by simp
    then show ?thesis
      using ih False s claim_step_sound [OF s] claim_step_clean [of gh input ix c ds s] by auto
  qed
qed simp

section \<open>Conflicts\<close>

lemma conflict_states_clean:
  "conflict_states k ss ds = (ss', []) \<Longrightarrow> ds = [] \<and> ss' = ss \<and> list_all (\<lambda>s. k \<notin> set (gc_evidenceKeys (cs_claim s))) ss"
  by (induction ss arbitrary: ds ss') (fastforce split: if_splits prod.splits)+

lemma conflict_keys_clean:
  "conflict_keys used ks (ss, ds) = (ss', []) \<Longrightarrow>
   ds = [] \<and> ss' = ss \<and>
   list_all (\<lambda>k. k \<in> set used \<longrightarrow> list_all (\<lambda>s. k \<notin> set (gc_evidenceKeys (cs_claim s))) ss) ks"
proof (induction ks arbitrary: ss ds)
  case (Cons k ks)
  obtain ss1 d1 where c: "conflict_states k ss ds = (ss1, d1)" by fastforce
  show ?case
    using Cons.IH [of ss1 d1] Cons.IH [of ss ds] Cons.prems c conflict_states_clean [of k ss ds ss1]
    by (auto split: if_splits)
qed simp

lemma conflict_loop_clean:
  "conflict_loop used cs (ss, ds) = (ss', []) \<Longrightarrow>
   ds = [] \<and> ss' = ss \<and>
   list_all (\<lambda>c. ec_active c \<longrightarrow> list_all (\<lambda>k. k \<in> set used \<longrightarrow>
     list_all (\<lambda>s. k \<notin> set (gc_evidenceKeys (cs_claim s))) ss) (ec_evidenceKeys c)) cs"
proof (induction cs arbitrary: ss ds)
  case (Cons c cs)
  obtain ss1 d1 where k: "conflict_keys used (ec_evidenceKeys c) (ss, ds) = (ss1, d1)" by fastforce
  show ?case
    using Cons.IH [of ss1 d1] Cons.IH [of ss ds] Cons.prems k conflict_keys_clean [of used "ec_evidenceKeys c" ss ds ss1]
    by (auto split: if_splits)
qed simp

text \<open>Conflicts only take keys away.\<close>

lemma state_sound_removed:
  "state_sound gh input ix s \<Longrightarrow>
   state_sound gh input ix (s\<lparr>cs_usable := removeAll k (cs_usable s), cs_exact := removeAll k (cs_exact s)\<rparr>)"
  by (auto simp: state_sound_def list_all_iff)

lemma conflict_states_sound:
  "conflict_states k ss ds = (ss', ds') \<Longrightarrow> list_all (state_sound gh input ix) ss \<Longrightarrow>
   list_all (state_sound gh input ix) ss'"
  by (induction ss arbitrary: ds ss') (auto simp: state_sound_removed split: if_splits prod.splits)

lemma conflict_keys_sound:
  "conflict_keys used ks (ss, ds) = (ss', ds') \<Longrightarrow> list_all (state_sound gh input ix) ss \<Longrightarrow>
   list_all (state_sound gh input ix) ss'"
proof (induction ks arbitrary: ss ds)
  case (Cons k ks)
  obtain ss1 d1 where c: "conflict_states k ss ds = (ss1, d1)" by fastforce
  show ?case using Cons c conflict_states_sound [OF c] by (auto split: if_splits)
qed simp

lemma conflict_loop_sound:
  "conflict_loop used cs (ss, ds) = (ss', ds') \<Longrightarrow> list_all (state_sound gh input ix) ss \<Longrightarrow>
   list_all (state_sound gh input ix) ss'"
proof (induction cs arbitrary: ss ds)
  case (Cons c cs)
  obtain ss1 d1 where k: "conflict_keys used (ec_evidenceKeys c) (ss, ds) = (ss1, d1)" by fastforce
  show ?case using Cons k conflict_keys_sound [OF k] by (auto split: if_splits)
qed simp

section \<open>Citations\<close>

definition citation_sound :: "evidence_index \<Rightarrow> claim_state list \<Rightarrow> validated_citation \<Rightarrow> bool" where
  "citation_sound ix states v =
     (\<exists>s\<in>set states. gc_claimId (cs_claim s) = vc_claimId v \<and> vc_claimHash v = gc_textHash (cs_claim s) \<and>
        vc_evidenceKey v \<in> set (cs_exact s) \<and>
        (\<exists>e. fst ix (vc_evidenceKey v) = Some e \<and> ge_kind e = vc_evidenceKind v))"

definition citations_ok :: "gate_input \<Rightarrow> evidence_index \<Rightarrow> claim_state list \<Rightarrow> citation_state \<Rightarrow> bool" where
  "citations_ok input ix states t =
     (list_all (citation_sound ix states) (ct_citations t) \<and>
      (\<forall>c\<in>set (ct_claims t). \<exists>v\<in>set (ct_citations t). vc_claimId v = c) \<and>
      (\<forall>c\<in>set (ct_requiredClaims t). \<exists>v\<in>set (ct_citations t).
         vc_claimId v = c \<and> Some (vc_evidenceKind v) = gi_requiredEvidenceKind input))"

lemma cite_issue_simps [simp]:
  "ct_citations (cite_issue code r p t) = ct_citations t" "ct_claims (cite_issue code r p t) = ct_claims t"
  "ct_requiredClaims (cite_issue code r p t) = ct_requiredClaims t" "ct_issues (cite_issue code r p t) \<noteq> []"
  by (simp_all add: cite_issue_def)

lemma citation_step_ok:
  assumes "citations_ok input ix states t"
  shows "citations_ok input ix states (citation_step input ix states t p)"
proof -
  have i: "citations_ok input ix states (cite_issue code r p t)" for code r
    using assms by (simp add: citations_ok_def)
  show ?thesis
  proof (cases "List.find (\<lambda>s. gc_claimId (cs_claim s) = cp_claimId p) states")
    case None
    then show ?thesis using i by (simp add: citation_step_def)
  next
    case (Some s)
    then have s: "s \<in> set states" "gc_claimId (cs_claim s) = cp_claimId p"
      by (auto simp: find_Some_iff)
    show ?thesis
    proof (cases "fst ix (cp_evidenceKey p)")
      case None
      then show ?thesis using i Some by (simp add: citation_step_def)
    next
      case (Some e)
      have "citation_sound ix states \<lparr>vc_ordinal = 0, vc_claimId = cp_claimId p,
          vc_claimHash = gc_textHash (cs_claim s), vc_evidenceKey = cp_evidenceKey p, vc_evidenceKind = ge_kind e\<rparr>"
        if "cp_evidenceKey p \<in> set (cs_exact s)"
        using s Some that by (auto simp: citation_sound_def)
      then show ?thesis
        using i assms Some \<open>List.find _ states = Some s\<close>
        by (auto simp: citation_step_def citations_ok_def)
    qed
  qed
qed

lemma citation_step_clean: "ct_issues (citation_step input ix states t p) = [] \<Longrightarrow> ct_issues t = []"
  by (auto simp: citation_step_def split: option.splits if_splits)

lemma citation_loop_ok:
  "citations_ok input ix states t \<Longrightarrow> citations_ok input ix states (foldl (citation_step input ix states) t ps)"
  by (induction ps arbitrary: t) (auto intro: citation_step_ok)

lemma citation_loop_clean: "ct_issues (foldl (citation_step input ix states) t ps) = [] \<Longrightarrow> ct_issues t = []"
proof (induction ps arbitrary: t)
  case (Cons p ps)
  have "ct_issues (citation_step input ix states t p) = []" by (rule Cons.IH) (use Cons.prems in simp)
  then show ?case by (rule citation_step_clean)
qed simp

lemma missing_citations_clean:
  "missing_citations input t cs ds = [] \<Longrightarrow>
   ds = [] \<and> set cs \<subseteq> set (ct_claims t) \<and> (gi_requiredEvidenceKind input \<noteq> None \<longrightarrow> set cs \<subseteq> set (ct_requiredClaims t))"
proof (induction cs arbitrary: ds)
  case (Cons c cs)
  from Cons.IH [OF Cons.prems [unfolded missing_citations.simps]] show ?case by auto
qed simp

section \<open>Allowed answers\<close>

text \<open>The states of the claims hold only keys of evidence that supports the claim.\<close>

lemma gate_states_sound:
  assumes "gate_states gh input = (ix, states, ds)"
  shows "indexes (gi_evidence input) (fst ix)" "list_all (state_sound gh input ix) states"
proof -
  obtain byKey dups d0 where x: "index_evidence (gi_evidence input) (Map.empty, []) [] = ((byKey, dups), d0)"
    by (metis surj_pair)
  obtain ss d1 where c: "claim_loop gh input (byKey, dups) (gi_claims input) [] d0 = (ss, d1)" by fastforce
  have ix: "ix = (byKey, dups)"
    and l: "conflict_loop (concat (map (\<lambda>s. gc_evidenceKeys (cs_claim s)) ss)) (gi_conflicts input) (ss, d1) = (states, ds)"
    using assms x c by (simp_all add: gate_states_def)
  show "indexes (gi_evidence input) (fst ix)"
    using index_evidence_indexes [OF x, of "gi_evidence input"] ix by (simp add: indexes_def)
  show "list_all (state_sound gh input ix) states"
    using conflict_loop_sound [OF l] claim_loop_sound [OF c] ix by simp
qed

definition unconflicted :: "gate_input \<Rightarrow> string \<Rightarrow> bool" where
  "unconflicted input k = list_all (\<lambda>c. ec_active c \<longrightarrow> k \<notin> set (ec_evidenceKeys c)) (gi_conflicts input)"

lemma gate_states_clean:
  assumes "gate_states gh input = (ix, states, [])"
  shows "map cs_claim states = gi_claims input" "list_all (claim_ok input) (gi_claims input)"
    "distinct (map gc_claimId (gi_claims input))" "snd ix = []"
    "list_all (\<lambda>c. list_all (unconflicted input) (gc_evidenceKeys c)) (gi_claims input)"
proof -
  obtain byKey dups d0 where x: "index_evidence (gi_evidence input) (Map.empty, []) [] = ((byKey, dups), d0)"
    by (metis surj_pair)
  obtain ss d1 where c: "claim_loop gh input (byKey, dups) (gi_claims input) [] d0 = (ss, d1)" by fastforce
  let ?used = "concat (map (\<lambda>s. gc_evidenceKeys (cs_claim s)) ss)"
  have ix: "ix = (byKey, dups)" and l: "conflict_loop ?used (gi_conflicts input) (ss, d1) = (states, [])"
    using assms x c by (simp_all add: gate_states_def)
  have s: "d1 = []" "states = ss" using conflict_loop_clean [OF l] by simp_all
  note cl = claim_loop_clean [OF c [unfolded s]]
  have d0: "d0 = []" using cl by simp
  show m: "map cs_claim states = gi_claims input" "list_all (claim_ok input) (gi_claims input)"
    using cl s by simp_all
  show "distinct (map gc_claimId (gi_claims input))"
    using cl s m(1) by (metis distinct.simps(1) list.simps(8) map_map)
  show "snd ix = []" using index_evidence_clean [OF x [unfolded d0]] ix by simp
  have "list_all (\<lambda>s. list_all (unconflicted input) (gc_evidenceKeys (cs_claim s))) ss"
    using conflict_loop_clean [OF l] by (auto simp: list_all_iff unconflicted_def)
  then show "list_all (\<lambda>c. list_all (unconflicted input) (gc_evidenceKeys c)) (gi_claims input)"
    unfolding m(1) [symmetric] s(2) by (simp add: list_all_iff)
qed

text \<open>A citation that shows where a claim comes from: it carries the hash of the claim and names evidence
  the claim declared, which is intact, authorised, in the captured target, current, and says what the
  claim says.\<close>

definition shows_source :: "gate_host \<Rightarrow> gate_input \<Rightarrow> grounded_claim \<Rightarrow> validated_citation \<Rightarrow> bool" where
  "shows_source gh input c v =
     (vc_claimId v = gc_claimId c \<and> vc_claimHash v = gc_textHash c \<and> vc_evidenceKey v \<in> set (gc_evidenceKeys c) \<and>
      list_ex (\<lambda>e. ge_evidenceKey e = vc_evidenceKey v \<and> ge_kind e = vc_evidenceKind v \<and>
        evidence_usable gh (gi_nowMs input) [] e \<and> supports gh c e) (gi_evidence input))"

lemma set_number_citations:
  "v \<in> set (number_citations cs) \<Longrightarrow> \<exists>w\<in>set cs. \<exists>n. v = w\<lparr>vc_ordinal := n\<rparr>"
  by (auto simp: number_citations_def dest!: set_zip_rightD)

lemma number_citations_in:
  assumes "w \<in> set cs"
  obtains n where "w\<lparr>vc_ordinal := n\<rparr> \<in> set (number_citations cs)"
proof -
  obtain n where n: "n < length cs" "cs ! n = w" using assms by (metis in_set_conv_nth)
  then have "number_citations cs ! n = w\<lparr>vc_ordinal := n\<rparr>" by (simp add: number_citations_def)
  moreover have "n < length (number_citations cs)" using n by (simp add: number_citations_def)
  ultimately show thesis using that [of n] by (metis nth_mem)
qed

lemma usable_any: "evidence_usable gh now dups e \<Longrightarrow> evidence_usable gh now [] e"
  by (simp add: evidence_usable_def)

lemma citation_shows_source:
  assumes "gate_states gh input = (ix, states, ds)" "citation_sound ix states v"
  shows "\<exists>s\<in>set states. shows_source gh input (cs_claim s) v"
proof -
  obtain s e where s: "s \<in> set states" "gc_claimId (cs_claim s) = vc_claimId v"
      "vc_claimHash v = gc_textHash (cs_claim s)" "vc_evidenceKey v \<in> set (cs_exact s)"
      "fst ix (vc_evidenceKey v) = Some e" "ge_kind e = vc_evidenceKind v"
    using assms(2) by (auto simp: citation_sound_def)
  have k: "key_supports gh input ix (cs_claim s) (vc_evidenceKey v)"
    using gate_states_sound(2) [OF assms(1)] s(1,4) by (auto simp: list_all_iff state_sound_def)
  have e: "e \<in> set (gi_evidence input)" "ge_evidenceKey e = vc_evidenceKey v"
    using gate_states_sound(1) [OF assms(1)] s(5) by (auto simp: indexes_def)
  have "shows_source gh input (cs_claim s) v"
    using s k e by (auto simp: shows_source_def key_supports_def list_ex_iff intro: usable_any)
  then show ?thesis using s(1) by blast
qed

definition answer_grounded :: "gate_host \<Rightarrow> gate_input \<Rightarrow> validated_citation list \<Rightarrow> bool" where
  "answer_grounded gh input citations =
     list_all (\<lambda>c. claim_ok input c \<and> list_all (unconflicted input) (gc_evidenceKeys c) \<and>
       list_ex (\<lambda>v. shows_source gh input c v \<and>
         (case gi_requiredEvidenceKind input of Some kind \<Rightarrow> vc_evidenceKind v = kind | None \<Rightarrow> True)) citations)
       (gi_claims input)"

lemma shows_source_ordinal [simp]: "shows_source gh input c (v\<lparr>vc_ordinal := n\<rparr>) = shows_source gh input c v"
  by (simp add: shows_source_def)

lemma gate_citations_ok:
  assumes "gate_states gh input = (ix, states, ds)"
  shows "citations_ok input ix states (gate_citations gh input)"
  unfolding gate_citations_def assms prod.case
  by (rule citation_loop_ok) (simp add: citations_ok_def)

lemma gate_issues_clean:
  assumes "gate_issues gh input = []"
  obtains ix states where "gate_states gh input = (ix, states, [])"
    "\<forall>s\<in>set states. \<exists>v\<in>set (ct_citations (gate_citations gh input)).
       vc_claimId v = gc_claimId (cs_claim s) \<and>
       (case gi_requiredEvidenceKind input of Some kind \<Rightarrow> vc_evidenceKind v = kind | None \<Rightarrow> True)"
proof -
  obtain ix states ds where g: "gate_states gh input = (ix, states, ds)" by (metis surj_pair)
  have m: "missing_citations input (gate_citations gh input) (map (\<lambda>s. gc_claimId (cs_claim s)) states)
      (ct_issues (gate_citations gh input)) = []"
    using assms g by (simp add: gate_issues_def)
  note m = missing_citations_clean [OF m]
  have "ct_issues (gate_citations gh input) = []" using m by simp
  then have "ds = []"
    unfolding gate_citations_def g prod.case by (drule_tac citation_loop_clean) simp
  moreover have "\<exists>v\<in>set (ct_citations (gate_citations gh input)). vc_claimId v = gc_claimId (cs_claim s) \<and>
       (case gi_requiredEvidenceKind input of Some kind \<Rightarrow> vc_evidenceKind v = kind | None \<Rightarrow> True)"
    if "s \<in> set states" for s
  proof (cases "gi_requiredEvidenceKind input")
    case None
    then show ?thesis using m that gate_citations_ok [OF g] by (auto simp: citations_ok_def)
  next
    case (Some kind)
    then have "gc_claimId (cs_claim s) \<in> set (ct_requiredClaims (gate_citations gh input))" using m that by auto
    then show ?thesis using gate_citations_ok [OF g] Some by (fastforce simp: citations_ok_def)
  qed
  ultimately show thesis using that g by blast
qed

lemma allowed_grounded:
  assumes "gr_decision (gate_check gh input) = ALLOW"
  shows "answer_grounded gh input (gr_citations (gate_check gh input))"
proof -
  have "gate_issues gh input = []"
    using assms by (simp add: gate_check_def Let_def gate_decision_ALLOW)
  then obtain ix states where g: "gate_states gh input = (ix, states, [])" and
    v: "\<forall>s\<in>set states. \<exists>v\<in>set (ct_citations (gate_citations gh input)).
       vc_claimId v = gc_claimId (cs_claim s) \<and>
       (case gi_requiredEvidenceKind input of Some kind \<Rightarrow> vc_evidenceKind v = kind | None \<Rightarrow> True)"
    by (rule gate_issues_clean)
  note c = gate_states_clean [OF g]
  have "\<exists>w\<in>set (gr_citations (gate_check gh input)). shows_source gh input k w \<and>
      (case gi_requiredEvidenceKind input of Some kind \<Rightarrow> vc_evidenceKind w = kind | None \<Rightarrow> True)"
    if k: "k \<in> set (gi_claims input)" for k
  proof -
    obtain s where s: "s \<in> set states" "cs_claim s = k" using k c(1) by (metis image_iff list.set_map)
    then obtain w where w: "w \<in> set (ct_citations (gate_citations gh input))" "vc_claimId w = gc_claimId k"
        "case gi_requiredEvidenceKind input of Some kind \<Rightarrow> vc_evidenceKind w = kind | None \<Rightarrow> True"
      using v by blast
    have "citation_sound ix states w"
      using gate_citations_ok [OF g] w(1) by (simp add: citations_ok_def list_all_iff)
    then obtain s' where s': "s' \<in> set states" "shows_source gh input (cs_claim s') w"
      using citation_shows_source [OF g] by blast
    have "cs_claim s' \<in> set (gi_claims input)" using s'(1) c(1) by (metis image_iff list.set_map)
    moreover have "gc_claimId (cs_claim s') = gc_claimId k" using s'(2) w(2) by (simp add: shows_source_def)
    ultimately have "cs_claim s' = k" using c(3) k by (simp add: distinct_map inj_on_def)
    moreover obtain n where "w\<lparr>vc_ordinal := n\<rparr> \<in> set (gr_citations (gate_check gh input))"
      using number_citations_in [of w "js_sort (citation_cmp gh input) (ct_citations (gate_citations gh input))"] w(1)
      by (auto simp: gate_check_def Let_def)
    ultimately show ?thesis using s'(2) w(3) by (intro bexI [of _ "w\<lparr>vc_ordinal := n\<rparr>"]) (simp_all split: option.splits)
  qed
  then show ?thesis using c(2,5) by (simp add: answer_grounded_def list_all_iff list_ex_iff)
qed

text \<open>C33. An answer the gate allows is grounded: every claim is in the text it was checked for, has the
  hash it states, uses no evidence in an active conflict, and has a citation to evidence that it
  declared, that is intact, authorised, in the captured target and current, and that says what the claim
  says: for a claim of high risk a verified fact or a fresh live result with its exact value. When a
  kind of evidence is required, the citation is of that kind.\<close>

theorem allowed_answer_grounded:
  assumes "gr_safeToSend (validateGroundedAnswer gh v)"
  shows "\<exists>input. parseInput gh v = Some input \<and>
    answer_grounded gh input (gr_citations (validateGroundedAnswer gh v))"
proof -
  obtain input where i: "parseInput gh v = Some input" "validateGroundedAnswer gh v = gate_check gh input"
    using assms by (auto simp: validateGroundedAnswer_def invalidResult_def split: if_splits option.splits)
  then have "gr_decision (gate_check gh input) = ALLOW" using assms by (simp add: gate_check_def Let_def)
  then show ?thesis using allowed_grounded i by auto
qed

text \<open>An answer with one claim, supported by a document.\<close>

definition example_host :: gate_host where
  "example_host = \<lparr>gh_nfkc = id, gh_localeCompare = str_cmp, gh_dateParse = iso_parse\<rparr>"

definition example_claim :: json where
  "example_claim = JObj [(''claimId'', JStr ''c1''), (''text'', JStr ''Open''),
     (''textHash'', JStr (hashGroundedAnswerText ''Open'')), (''riskLevel'', JStr ''LOW''),
     (''evidenceKeys'', JArr [JStr ''e1'']), (''exactValue'', JNull)]"

definition example_evidence :: json where
  "example_evidence = JObj [(''evidenceKey'', JStr ''e1''), (''kind'', JStr ''DOCUMENT''),
     (''content'', JStr ''Open now''), (''contentHash'', JStr (hashGroundedAnswerText ''Open now'')),
     (''authorized'', JBool True), (''inCapturedTarget'', JBool True), (''stale'', JBool False)]"

definition example_citation :: json where
  "example_citation = JObj [(''claimId'', JStr ''c1''), (''evidenceKey'', JStr ''e1''),
     (''claimHash'', JStr (hashGroundedAnswerText ''Open''))]"

definition example_draft :: json where
  "example_draft = JObj [(''finalText'', JStr ''Open''), (''claims'', JArr [example_claim]),
     (''evidence'', JArr [example_evidence]), (''proposedCitations'', JArr [example_citation]),
     (''conflicts'', JArr []), (''now'', JStr ''2026-01-01T00:00:00.000Z''), (''repairAttempt'', JInt 0),
     (''requiredEvidenceKind'', JNull)]"

lemma example_keys: "validKey ''c1''" "validKey ''e1''" by code_simp+

lemma example_now: "validIsoInstant example_host ''2026-01-01T00:00:00.000Z''"
  "iso_parse ''2026-01-01T00:00:00.000Z'' = Some 1767225600000"
  by code_simp+

lemma parse_example_claim: "parseClaim example_claim = Some
  \<lparr>gc_claimId = ''c1'', gc_text = ''Open'', gc_textHash = hashGroundedAnswerText ''Open'', gc_riskLevel = RISK_LOW,
   gc_evidenceKeys = [''e1''], gc_exactValue = None\<rparr>"
proof -
  have "js_trim ''Open'' = ''Open''" by code_simp
  then show ?thesis
    by (simp add: parseClaim_def example_claim_def gate_record_def key_of_def sha_of_def risk_of_def stringArray_def
        js_array_def js_string_item_def parse_exact_def example_keys hashGroundedAnswerText_hex)
qed

lemma parse_example_evidence: "parseEvidence example_evidence = Some
  \<lparr>ge_evidenceKey = ''e1'', ge_content = ''Open now'', ge_contentHash = hashGroundedAnswerText ''Open now'',
   ge_authorized = True, ge_inCapturedTarget = True, ge_stale = False, ge_details = Document_details\<rparr>"
  by (simp add: parseEvidence_def example_evidence_def gate_record_def key_of_def sha_of_def js_bool_def
      parse_details_def kind_of_def example_keys hashGroundedAnswerText_hex)

lemma parse_example_citation: "parseCitation example_citation = Some
  \<lparr>cp_claimId = ''c1'', cp_claimHash = hashGroundedAnswerText ''Open'', cp_evidenceKey = ''e1''\<rparr>"
  by (simp add: parseCitation_def example_citation_def gate_record_def key_of_def sha_of_def hasOnlyKeys_def
      example_keys hashGroundedAnswerText_hex)

lemma parse_example_draft: "parseInput example_host example_draft = Some
  \<lparr>gi_finalText = ''Open'', gi_claims = [the (parseClaim example_claim)],
   gi_evidence = [the (parseEvidence example_evidence)],
   gi_proposedCitations = [the (parseCitation example_citation)], gi_conflicts = [], gi_nowMs = 1767225600000,
   gi_repairAttempt = 0, gi_requiredEvidenceKind = None\<rparr>"
  by (simp add: parseInput_def example_draft_def gate_record_def parse_items_def js_array_def parse_required_def
      nullish_def parse_example_claim parse_example_evidence parse_example_citation example_now(1)
      MAX_CLAIMS_def MAX_EVIDENCE_def MAX_CITATIONS_def MAX_CONFLICTS_def MAX_DRAFT_CHARACTERS_def)
    (simp add: example_host_def example_now(2))

lemma example_support:
  "extractive_support example_host
     \<lparr>gc_claimId = ''c1'', gc_text = ''Open'', gc_textHash = h, gc_riskLevel = RISK_LOW,
      gc_evidenceKeys = [''e1''], gc_exactValue = None\<rparr>
     \<lparr>ge_evidenceKey = ''e1'', ge_content = ''Open now'', ge_contentHash = h', ge_authorized = True,
      ge_inCapturedTarget = True, ge_stale = False, ge_details = Document_details\<rparr>"
proof -
  have "normalizedExactText example_host ''Open'' = ''Open''"
    "normalizedExactText example_host ''Open now'' = ''Open now''" by code_simp+
  moreover have "sublist ''Open'' ''Open now''" by code_simp
  ultimately show ?thesis by (simp add: extractive_support_def ge_kind_def)
qed

lemma example_draft_safe: "gr_safeToSend (validateGroundedAnswer example_host example_draft)"
proof -
  have u: "js_unique [''e1''] = [''e1'']" by code_simp
  have l: "\<not> exceeds_limits (json_entries example_draft)"
    by (simp add: exceeds_limits_def example_draft_def over_limit_def js_array_def MAX_CLAIMS_def MAX_EVIDENCE_def
        MAX_CITATIONS_def MAX_CONFLICTS_def MAX_DRAFT_CHARACTERS_def)
  let ?i = "the (parseInput example_host example_draft)"
  have "gate_issues example_host ?i = []"
    by (simp add: gate_issues_def gate_citations_def gate_states_def parse_example_draft parse_example_claim
        parse_example_evidence parse_example_citation claim_step_def u claim_issues_def flag_def lacks_required_def
        high_risk_def evidence_usable_def live_verdict_def evidence_issues_def supports_def example_support
        citation_step_def)
  then have "gr_safeToSend (gate_check example_host ?i)"
    by (simp add: gate_check_def Let_def decide_gate_def)
  then show ?thesis
    using l by (simp add: validateGroundedAnswer_def parse_example_draft gate_record_def)
      (simp add: example_draft_def)
qed

theorem allowed_answer_grounded_witness:
  "\<exists>input. parseInput example_host example_draft = Some input \<and>
    answer_grounded example_host input (gr_citations (validateGroundedAnswer example_host example_draft))"
  by (rule allowed_answer_grounded [OF example_draft_safe])

text \<open>Whatever the gate decides, every citation it returns names a claim of the input and evidence
  that supports it, and the issues of a draft that may be repaired are all repairable and the first
  attempt.\<close>

theorem gate_citations_sound:
  "list_all (\<lambda>w. list_ex (\<lambda>s. shows_source gh input (cs_claim s) w) (fst (snd (gate_states gh input))))
     (gr_citations (gate_check gh input)) \<and>
   (gr_decision (gate_check gh input) = REPAIR_ONCE) =
     (gr_issues (gate_check gh input) \<noteq> [] \<and> list_all is_repairable (gr_issues (gate_check gh input)) \<and>
      gi_repairAttempt input = 0)"
proof -
  obtain ix states ds where g: "gate_states gh input = (ix, states, ds)" by (metis surj_pair)
  have "\<exists>s\<in>set states. shows_source gh input (cs_claim s) w" if w: "w \<in> set (gr_citations (gate_check gh input))" for w
  proof -
    obtain u n where u: "u \<in> set (ct_citations (gate_citations gh input))" "w = u\<lparr>vc_ordinal := n\<rparr>"
      using set_number_citations [of w "js_sort (citation_cmp gh input) (ct_citations (gate_citations gh input))"] w
      by (auto simp: gate_check_def Let_def)
    have "citation_sound ix states u"
      using gate_citations_ok [OF g] u(1) by (simp add: citations_ok_def list_all_iff)
    then show ?thesis using citation_shows_source [OF g] u(2) by auto
  qed
  then have a: "list_all (\<lambda>w. list_ex (\<lambda>s. shows_source gh input (cs_claim s) w) (fst (snd (gate_states gh input))))
      (gr_citations (gate_check gh input))"
    by (simp add: g list_all_iff list_ex_iff)
  have "(gr_decision (gate_check gh input) = REPAIR_ONCE) =
     (gr_issues (gate_check gh input) \<noteq> [] \<and> list_all is_repairable (gr_issues (gate_check gh input)) \<and>
      gi_repairAttempt input = 0)"
    by (cases "gate_issues gh input") (auto simp: gate_check_def Let_def decide_gate_def list_all_iff list_ex_iff)
  then show ?thesis using a by blast
qed

end
