(* ===== verification/Answer_Properties.thy ===== *)
theory Answer_Properties
  imports Answer_Orchestrator Answer_Gate_Properties
begin

text \<open>
  What the orchestrator guarantees of an answer that is sent without a person, and its bounds.
\<close>

section \<open>The input of the gate\<close>

lemma those_map_Some: "those (map f xs) = Some ys \<Longrightarrow> list_all2 (\<lambda>x y. f x = Some y) xs ys"
  by (induction xs arbitrary: ys) (auto split: option.splits)

lemma parse_items_JArr:
  "parse_items f limit (Some (JArr xs)) = Some ys \<Longrightarrow> list_all2 (\<lambda>x y. f x = Some y) xs ys"
  by (auto simp: parse_items_def js_array_def intro: those_map_Some split: if_splits)

lemma parseClaim_claim_json: "parseClaim (claim_json input c) = Some g \<Longrightarrow> gc_text g = pc_text c"
  by (auto simp: parseClaim_def claim_json_def gate_record_def bind_eq_Some_conv split: if_splits)

lemma kind_of_text: "kind_of (Some (JStr (kind_text k))) = Some k"
  by (cases k) (simp_all add: kind_of_def)

lemma parse_required_kind: "parse_required (Some (opt_json (JStr \<circ> kind_text) k)) = Some k"
  by (cases k) (simp_all add: parse_required_def nullish_def kind_of_text)

lemma parseInput_gate_input:
  assumes "parseInput gh (gate_input_json input purpose p) = Some gi"
  shows "gi_finalText gi = final_text p" "gi_requiredEvidenceKind gi = oi_requiredEvidenceKind input"
    "map gc_text (gi_claims gi) = map pc_text (po_claims p)"
    "list_all2 (\<lambda>e x. parseEvidence (oe_evidence e) = Some x) (oi_evidence input) (gi_evidence gi)"
proof -
  have c: "list_all2 (\<lambda>x y. parseClaim x = Some y) (map (claim_json input) (po_claims p)) (gi_claims gi)"
    and e: "list_all2 (\<lambda>x y. parseEvidence x = Some y) (map oe_evidence (oi_evidence input)) (gi_evidence gi)"
    and r: "gi_finalText gi = final_text p" "gi_requiredEvidenceKind gi = oi_requiredEvidenceKind input"
    using assms
    by (auto simp: parseInput_def gate_input_json_def gate_record_def bind_eq_Some_conv parse_required_kind
        intro: parse_items_JArr split: if_splits)
  show "gi_finalText gi = final_text p" "gi_requiredEvidenceKind gi = oi_requiredEvidenceKind input"
    by (fact r)+
  show "list_all2 (\<lambda>e x. parseEvidence (oe_evidence e) = Some x) (oi_evidence input) (gi_evidence gi)"
    using e by (simp add: list_all2_map1)
  have "list_all2 (\<lambda>x y. gc_text y = pc_text x) (po_claims p) (gi_claims gi)"
    using c unfolding list_all2_map1 by (rule list_all2_mono) (rule parseClaim_claim_json)
  then show "map gc_text (gi_claims gi) = map pc_text (po_claims p)"
    by (induction rule: list_all2_induct) auto
qed

section \<open>Answers that are sent\<close>

lemma handoff_simps [simp]:
  "or_disposition (handoff v is c n) = TO_HANDOFF" "or_finalText (handoff v is c n) = None"
  "or_citations (handoff v is c n) = []" "or_providerCallCount (handoff v is c n) = c"
  "or_repairCount (handoff v is c n) = n"
  by (simp_all add: handoff_def)

text \<open>A round that sends: the processor was admitted, the output policy agreed, and the text is made of
  the claims of a gate input that is grounded in the evidence of the request.\<close>

definition sent_ok ::
    "gate_host \<Rightarrow> orchestrator \<Rightarrow> orchestration_input \<Rightarrow> orchestration_result \<Rightarrow> gate_input \<Rightarrow> bool" where
  "sent_ok gh oc input r gi =
     (or_identity r = Some (oc_identity oc) \<and>
      or_finalText r = Some (gi_finalText gi) \<and>
      gi_finalText gi = join [CHR 0x0A, CHR 0x0A] (map (js_trim \<circ> gc_text) (gi_claims gi)) \<and>
      gi_requiredEvidenceKind gi = oi_requiredEvidenceKind input \<and>
      list_all2 (\<lambda>e x. parseEvidence (oe_evidence e) = Some x) (oi_evidence input) (gi_evidence gi) \<and>
      answer_grounded gh gi (or_citations r) \<and>
      oc_validateOutput oc input (gi_finalText gi) (or_citations r) = Some True)"

lemma judge_output_sends:
  assumes "judge_output gh oc input purpose calls n admission p = Done r" "or_disposition r = AUTO_SEND"
    and "pa_identity admission = oc_identity oc"
  shows "\<exists>gi. sent_ok gh oc input r gi"
proof -
  let ?g = "validateGroundedAnswer gh (gate_input_json input purpose p)"
  have s: "gr_safeToSend ?g" "oc_validateOutput oc input (final_text p) (gr_citations ?g) = Some True"
      "or_finalText r = Some (final_text p)" "or_citations r = gr_citations ?g"
      "or_identity r = Some (oc_identity oc)"
    using assms by (auto simp: judge_output_def Let_def gated_def admitted_def split: if_splits option.splits bool.splits)
  obtain gi where gi: "parseInput gh (gate_input_json input purpose p) = Some gi" "?g = gate_check gh gi"
    using s(1) by (auto simp: validateGroundedAnswer_def invalidResult_def split: if_splits option.splits)
  have "answer_grounded gh gi (gr_citations ?g)"
    using allowed_grounded [of gh gi] s(1) unfolding gi(2) by (simp add: gate_check_def Let_def)
  moreover have "gi_finalText gi = join [CHR 0x0A, CHR 0x0A] (map (js_trim \<circ> gc_text) (gi_claims gi))"
    using parseInput_gate_input(1,3) [OF gi(1)] by (metis final_text_def map_map)
  ultimately have "sent_ok gh oc input r gi"
    unfolding sent_ok_def s(3,4,5) using s(2) parseInput_gate_input(1,2,4) [OF gi(1)] by metis
  then show ?thesis by blast
qed

lemma round_sends:
  assumes "orchestration_round gh oc input purpose calls n prev issues = Done r" "or_disposition r = AUTO_SEND"
  shows "\<exists>admission gi. oc_authorize oc purpose (classifications input) = Some (Some admission) \<and>
    pa_identity admission = oc_identity oc \<and> sent_ok gh oc input r gi"
  using assms
  by (auto simp: orchestration_round_def Let_def admitted_def dest!: judge_output_sends
      split: option.splits if_splits)

text \<open>C32. An answer is sent without a person only if the input policy agreed, the authorizer admitted
  exactly the configured processor, and the output policy agreed to this text and these citations; the
  text is nothing but the claims, joined by empty lines, and every claim has a citation to evidence of
  the request that is authorised, in the captured target, current and free of conflicts and that
  supports it.\<close>

theorem auto_send_grounded:
  assumes "answer gh oc input = Some r" and "or_disposition r = AUTO_SEND"
  shows "oc_validateInput oc input = Some True \<and>
    (\<exists>purpose admission gi. oc_authorize oc purpose (classifications input) = Some (Some admission) \<and>
       pa_identity admission = oc_identity oc \<and> sent_ok gh oc input r gi)"
proof -
  have v: "oc_validateInput oc input = Some True"
    using assms by (auto simp: answer_def Let_def split: if_splits option.splits bool.splits)
  obtain purpose calls n prev issues where
    "orchestration_round gh oc input purpose calls n prev issues = Done r"
    using assms by (auto simp: answer_def Let_def split: if_splits option.splits bool.splits round_outcome.splits)
  then show ?thesis using round_sends assms(2) v by blast
qed

text \<open>A request for opening hours that the provider answers at once.\<close>

definition example_identity :: provider_identity where
  "example_identity = \<lparr>id_provider = ''p'', id_model = ''m'', id_version = ''1'', id_region = ''eu''\<rparr>"

definition example_output :: provider_output where
  "example_output = \<lparr>po_claims = [\<lparr>pc_claimId = ''c1'', pc_text = ''Open'', pc_evidenceKeys = [''e1''],
     pc_exactValueText = None\<rparr>], po_citations = [(''c1'', ''e1'')]\<rparr>"

definition example_orchestrator :: orchestrator where
  "example_orchestrator = \<lparr>oc_identity = example_identity,
     oc_authorize = (\<lambda>purpose cs. Some (Some \<lparr>pa_identity = example_identity, pa_policyVersion = ''1'',
        pa_policyHash = ''h'', pa_promptPolicyVersion = ''1''\<rparr>)),
     oc_generate = (\<lambda>request. Some (output_json example_output)),
     oc_validateInput = (\<lambda>input. Some True), oc_validateOutput = (\<lambda>input text cs. Some True)\<rparr>"

definition example_request :: orchestration_input where
  "example_request = \<lparr>oi_tenantId = ''t'', oi_locale = ''en'', oi_question = ''Open?'',
     oi_promptPolicyVersion = ''1'', oi_queryClassification = ''public'', oi_evidenceAllowed = True,
     oi_evidence = [\<lparr>oe_evidence = example_evidence, oe_riskLevel = RISK_LOW, oe_classification = ''public'',
       oe_safeLabel = ''Hours''\<rparr>],
     oi_conflicts = [], oi_now = ''2026-01-01T00:00:00.000Z'', oi_requiredEvidenceKind = None\<rparr>"

lemma example_parsed: "parseProviderOutput (output_json example_output) = Some example_output"
proof -
  have k: "SAFE_KEY ''c1''" "SAFE_KEY ''e1''" "js_trim ''Open'' = ''Open''" by code_simp+
  show ?thesis
    by (simp add: parseProviderOutput_def output_json_def example_output_def gate_record_def parse_items_def
        js_array_def parse_provider_claim_def parse_provider_citation_def safe_key_of_def k stringArray_def
        js_string_item_def parse_exact_text_def json_text_opt_def hasOnlyKeys_def MAX_CLAIMS_def MAX_CITATIONS_def)
qed

lemma example_gate_input: "gate_input_json example_request GENERATE example_output = example_draft"
proof -
  have f: "final_text example_output = ''Open''" by code_simp
  have r: "claim_risk example_request \<lparr>pc_claimId = ''c1'', pc_text = ''Open'', pc_evidenceKeys = [''e1''],
      pc_exactValueText = None\<rparr> = RISK_LOW"
    by (simp add: claim_risk_def evidence_for_def example_request_def evidence_key_of_def example_evidence_def
        List.map_filter_simps highestRisk_def)
  show ?thesis
    unfolding gate_input_json_def f
    by (simp add: example_output_def claim_json_def r claim_hash_def)
      (simp add: example_request_def example_draft_def example_claim_def example_citation_def)
qed

lemma example_answer:
  "\<exists>r. answer example_host example_orchestrator example_request = Some r \<and> or_disposition r = AUTO_SEND"
proof -
  have f: "final_text example_output = ''Open''" by code_simp
  have "\<exists>r. orchestration_round example_host example_orchestrator example_request GENERATE 0 0 None None = Done r \<and>
      or_disposition r = AUTO_SEND"
    using example_draft_safe
    by (simp add: orchestration_round_def Let_def example_orchestrator_def example_parsed judge_output_def f
        example_gate_input gated_def admitted_def MAX_FINAL_TEXT_def)
  then show ?thesis
    by (auto simp: answer_def Let_def example_request_def [THEN arg_cong, of oi_evidence]
        example_request_def [THEN arg_cong, of oi_conflicts] example_request_def [THEN arg_cong, of oi_evidenceAllowed]
        example_orchestrator_def [THEN arg_cong, of oc_validateInput])
qed

theorem auto_send_grounded_witness:
  "oc_validateInput example_orchestrator example_request = Some True \<and>
   (\<exists>r purpose admission gi.
      oc_authorize example_orchestrator purpose (classifications example_request) = Some (Some admission) \<and>
      sent_ok example_host example_orchestrator example_request r gi)"
  using example_answer auto_send_grounded [of example_host example_orchestrator example_request] by blast

section \<open>Bounds\<close>

definition result_ok :: "nat \<Rightarrow> nat \<Rightarrow> orchestration_result \<Rightarrow> bool" where
  "result_ok calls n r =
     (or_providerCallCount r \<le> calls \<and> or_repairCount r = n \<and>
      (or_disposition r = AUTO_SEND \<or> or_finalText r = None \<and> or_citations r = []))"

lemma judge_output_ok: "judge_output gh oc input purpose calls n admission p = Done r \<Longrightarrow> result_ok calls n r"
  by (auto simp: judge_output_def Let_def result_ok_def gated_def admitted_def
      split: if_splits option.splits bool.splits)

lemma round_ok:
  "orchestration_round gh oc input purpose calls n prev issues = Done r \<Longrightarrow> result_ok (Suc calls) n r"
  by (auto simp: orchestration_round_def Let_def admitted_def result_ok_def [of _ _ "handoff _ _ _ _"]
      dest: judge_output_ok split: option.splits if_splits) (auto simp: result_ok_def)

text \<open>The orchestration ends after at most two calls of the provider, the second only as the one
  repair, and an answer that is handed over carries no text and no citations.\<close>

theorem orchestration_bounded:
  "case answer gh oc input of
     None \<Rightarrow> True
   | Some r \<Rightarrow> or_providerCallCount r \<le> Suc (or_repairCount r) \<and> or_repairCount r \<le> 1 \<and>
       (or_disposition r = AUTO_SEND \<or> or_finalText r = None \<and> or_citations r = [])"
proof -
  note a = round_ok [of gh oc input GENERATE 0 0 None None]
  note b = round_ok [of gh oc input REPAIR "Suc 0" "Suc 0"]
  show ?thesis
    by (auto simp: answer_def Let_def result_ok_def split: option.split bool.split round_outcome.split
        dest!: a b)
qed

end
