(* ===== verification/Webhook_Client.thy ===== *)
theory Webhook_Client
  imports Database
begin

text \<open>
  The errors of deliveries by webhook (\<open>packages/integrations/src/webhook-delivery.ts\<close>): their
  codes with the messages, and the three outcomes the worker acts on.
\<close>

section \<open>Errors\<close>

datatype WebhookDeliveryErrorCode =
    WEBHOOK_TARGET_MISSING | WEBHOOK_TARGET_INVALID | WEBHOOK_HTTPS_REQUIRED
  | WEBHOOK_TARGET_NOT_PUBLIC | WEBHOOK_DNS_LOOKUP_FAILED | WEBHOOK_AUTH_INVALID
  | WEBHOOK_PAYLOAD_TOO_LARGE | WEBHOOK_CONNECTION_FAILED | WEBHOOK_TIMEOUT | WEBHOOK_ABORTED
  | WEBHOOK_REMOTE_ADDRESS_MISMATCH | WEBHOOK_RESPONSE_HEADERS_TOO_LARGE | WEBHOOK_HTTP_RETRYABLE
  | WEBHOOK_HTTP_REJECTED

fun webhookCode_text :: "WebhookDeliveryErrorCode \<Rightarrow> string" where
  "webhookCode_text WEBHOOK_TARGET_MISSING = ''WEBHOOK_TARGET_MISSING''"
| "webhookCode_text WEBHOOK_TARGET_INVALID = ''WEBHOOK_TARGET_INVALID''"
| "webhookCode_text WEBHOOK_HTTPS_REQUIRED = ''WEBHOOK_HTTPS_REQUIRED''"
| "webhookCode_text WEBHOOK_TARGET_NOT_PUBLIC = ''WEBHOOK_TARGET_NOT_PUBLIC''"
| "webhookCode_text WEBHOOK_DNS_LOOKUP_FAILED = ''WEBHOOK_DNS_LOOKUP_FAILED''"
| "webhookCode_text WEBHOOK_AUTH_INVALID = ''WEBHOOK_AUTH_INVALID''"
| "webhookCode_text WEBHOOK_PAYLOAD_TOO_LARGE = ''WEBHOOK_PAYLOAD_TOO_LARGE''"
| "webhookCode_text WEBHOOK_CONNECTION_FAILED = ''WEBHOOK_CONNECTION_FAILED''"
| "webhookCode_text WEBHOOK_TIMEOUT = ''WEBHOOK_TIMEOUT''"
| "webhookCode_text WEBHOOK_ABORTED = ''WEBHOOK_ABORTED''"
| "webhookCode_text WEBHOOK_REMOTE_ADDRESS_MISMATCH = ''WEBHOOK_REMOTE_ADDRESS_MISMATCH''"
| "webhookCode_text WEBHOOK_RESPONSE_HEADERS_TOO_LARGE = ''WEBHOOK_RESPONSE_HEADERS_TOO_LARGE''"
| "webhookCode_text WEBHOOK_HTTP_RETRYABLE = ''WEBHOOK_HTTP_RETRYABLE''"
| "webhookCode_text WEBHOOK_HTTP_REJECTED = ''WEBHOOK_HTTP_REJECTED''"

fun webhookDeliveryErrorMessages :: "WebhookDeliveryErrorCode \<Rightarrow> string" where
  "webhookDeliveryErrorMessages WEBHOOK_TARGET_MISSING = ''The outbound webhook target is not configured.''"
| "webhookDeliveryErrorMessages WEBHOOK_TARGET_INVALID = ''The outbound webhook target is invalid.''"
| "webhookDeliveryErrorMessages WEBHOOK_HTTPS_REQUIRED = ''The outbound webhook target must use HTTPS.''"
| "webhookDeliveryErrorMessages WEBHOOK_TARGET_NOT_PUBLIC =
     ''The outbound webhook target is not publicly reachable.''"
| "webhookDeliveryErrorMessages WEBHOOK_DNS_LOOKUP_FAILED =
     ''The outbound webhook address could not be verified.''"
| "webhookDeliveryErrorMessages WEBHOOK_AUTH_INVALID =
     ''The outbound webhook authentication configuration is invalid.''"
| "webhookDeliveryErrorMessages WEBHOOK_PAYLOAD_TOO_LARGE = ''The outbound webhook payload is too large.''"
| "webhookDeliveryErrorMessages WEBHOOK_CONNECTION_FAILED =
     ''The outbound webhook could not be reached securely.''"
| "webhookDeliveryErrorMessages WEBHOOK_TIMEOUT = ''The outbound webhook did not respond in time.''"
| "webhookDeliveryErrorMessages WEBHOOK_ABORTED = ''The outbound webhook delivery was cancelled.''"
| "webhookDeliveryErrorMessages WEBHOOK_REMOTE_ADDRESS_MISMATCH =
     ''The outbound webhook connection could not be verified.''"
| "webhookDeliveryErrorMessages WEBHOOK_RESPONSE_HEADERS_TOO_LARGE =
     ''The outbound webhook returned too many headers.''"
| "webhookDeliveryErrorMessages WEBHOOK_HTTP_RETRYABLE =
     ''The outbound webhook temporarily rejected the delivery.''"
| "webhookDeliveryErrorMessages WEBHOOK_HTTP_REJECTED = ''The outbound webhook rejected the delivery.''"

datatype WebhookDeliveryOutcome = Wo_NOT_STARTED | Wo_FAILED | Wo_UNKNOWN

fun webhookOutcome_text :: "WebhookDeliveryOutcome \<Rightarrow> string" where
  "webhookOutcome_text Wo_NOT_STARTED = ''NOT_STARTED''"
| "webhookOutcome_text Wo_FAILED = ''FAILED''"
| "webhookOutcome_text Wo_UNKNOWN = ''UNKNOWN''"

record webhook_failure =
  wf_code :: WebhookDeliveryErrorCode
  wf_retryable :: bool
  wf_outcome :: WebhookDeliveryOutcome
  wf_statusCode :: "int option"

text \<open>What a delivery throws: a \<open>WebhookDeliveryError\<close> or any other error.\<close>

datatype delivery_error = WebhookDeliveryError webhook_failure | Other error

fun delivery_error_text :: "delivery_error \<Rightarrow> string" where
  "delivery_error_text (WebhookDeliveryError f) = webhookDeliveryErrorMessages (wf_code f)"
| "delivery_error_text (Other e) = error_text e"

end
