(* ===== verification/Channel_Delivery.thy ===== *)
theory Channel_Delivery
  imports Webhook_Client Reply_Admission Js_Text Js_Time
begin

text \<open>
  Delivery of a message to the provider of its channel
  (\<open>apps/worker/src/channels/channel-delivery.ts\<close>) with the binding of reply outcomes
  (\<open>apps/worker/src/ai/ai-reply-outcome.ts\<close>). A delivery is a sequence of database statements,
  so it is modelled as a step function on program points: every point ends with one statement (or
  the one transaction that sends), and the steps of other deliveries and of the rest of the system
  fall between them. What is only read before the operation is claimed may be read from any
  database: the definitions of that part take the databases their reads see.
\<close>

section \<open>Data\<close>

record send_job =
  sj_tenantId :: string
  sj_conversationId :: string
  sj_messageId :: string
  sj_source :: string
  sj_graphRunId :: "string option"
  sj_triggerMessageId :: "string option"
  sj_aiReplyRunId :: "string option"
  sj_aiReplyGeneration :: "int option"
  sj_aiReplySequence :: "int option"

datatype delivery_status = Ds_sent | Ds_failed | Ds_already_delivered | Ds_reconciliation_required | Ds_skipped

datatype send_status = Ss_queued | Ss_sent | Ss_failed

fun sendStatus_text :: "send_status \<Rightarrow> string" where
  "sendStatus_text Ss_queued = ''queued''"
| "sendStatus_text Ss_sent = ''sent''"
| "sendStatus_text Ss_failed = ''failed''"

record send_result =
  sr_externalMessageId :: string
  sr_sendStatus :: send_status

record delivery_result =
  dl_status :: delivery_status
  dl_messageId :: string
  dl_outboundStatus :: "send_status option"
  dl_providerExternalMessageId :: "string option"
  dl_reason :: "string option"
  dl_deliveryOperationId :: "string option"

record send_input =
  si_tenantId :: string
  si_channelAccountId :: string
  si_conversationId :: string
  si_externalConversationId :: string
  si_text :: string
  si_settings :: "json option"
  si_credentials :: "json_object option"
  si_metadata :: json_object

type_synonym channel_adapter = "send_input \<Rightarrow> delivery_error + send_result"

text \<open>The message as it was loaded, with its conversation, channel and inbound message.\<close>

record loaded_message =
  lm_message :: message
  lm_conversation :: conversation
  lm_channel :: "channel option"
  lm_inbound :: "message list"

record operation_descriptor =
  od_id :: string
  od_requestHash :: string
  od_channelKey :: string
  od_recipientKey :: string
  od_provider :: string
  od_deliveryVersion :: int

text \<open>What the retriever answers when it validates the evidence of a stored reply again.\<close>

datatype revalidation =
    Rv_valid "string option" "string list"
  | Rv_invalid string

record revalidation_query =
  rv_tenantId :: string
  rv_retrievalTraceId :: string
  rv_responseMessageId :: string
  rv_publicationId :: string
  rv_query :: string
  rv_executionContextId :: string

record processor_identity =
  pid_provider :: "string option"
  pid_model :: "string option"
  pid_providerVersion :: "string option"
  pid_region :: "string option"
  pid_processorPolicyVersion :: "string option"
  pid_processorPolicyHash :: "string option"
  pid_promptPolicyVersion :: string

text \<open>
  The services a delivery is given: the two knowledge services with the optional factory of
  adapters and number of attempts.
\<close>

record delivery_dependencies =
  dd_revalidatePersistedReply :: "revalidation_query \<Rightarrow> error + revalidation"
  dd_revalidateProcessorAdmission ::
    "string \<Rightarrow> string \<Rightarrow> string list \<Rightarrow> processor_identity \<Rightarrow> error + bool"
  dd_adapterFactory :: "(ChannelType \<Rightarrow> string \<Rightarrow> channel_adapter option) option"
  dd_maxDeliveryAttempts :: "int option"

text \<open>
  What can go wrong with a statement or transaction that writes: it is not executed, or it is
  executed and its acknowledgement is lost.
\<close>

datatype fault = No_fault | Not_executed error | Not_acknowledged error

text \<open>
  The surroundings of one step: the clock, the reason of an aborted signal at the n-th test of the
  step (the worker aborts with the error of its time limit, which is no \<open>WebhookDeliveryError\<close>), what
  the reads of the step after the first see, the decryption of credentials, the adapters, the
  services, the Russian text of a hand-over and the fault of the statement.
\<close>

record delivery_env =
  dn_host :: host
  dn_now :: int
  dn_abort :: "nat \<Rightarrow> error option"
  dn_reads :: "nat \<Rightarrow> db"
  dn_decrypt :: "string \<Rightarrow> error + json_object"
  dn_telegramAdapter :: channel_adapter
  dn_webhookAdapter :: channel_adapter
  dn_dependencies :: "delivery_dependencies option"
  dn_handoffRu :: string
  dn_fault :: fault

section \<open>Helper functions\<close>

definition DELIVERY_VERSION :: int where
  "DELIVERY_VERSION = 1"

definition DELIVERY_RETENTION_MS :: int where
  "DELIVERY_RETENTION_MS = 365 * 24 * 60 * 60 * 1000"

text \<open>\<open>isRecord\<close>: the entries of an object.\<close>

definition record_of :: "json option \<Rightarrow> json_object option" where
  "record_of v = (case v of Some (JObj kvs) \<Rightarrow> Some kvs | _ \<Rightarrow> None)"

definition metadata_record :: "message \<Rightarrow> json_object" where
  "metadata_record m = (case record_of (ms_metadata m) of None \<Rightarrow> [] | Some kvs \<Rightarrow> kvs)"

definition telegramBotToken :: "json_object option \<Rightarrow> string option" where
  "telegramBotToken credentials =
     (case credentials of
        None \<Rightarrow> None
      | Some kvs \<Rightarrow>
          (case filter (\<lambda>s. js_trim s \<noteq> [])
                  (List.map_filter (\<lambda>k. js_str (map_of kvs k)) [''botToken'', ''token'']) of
             [] \<Rightarrow> None
           | s # _ \<Rightarrow> Some (js_trim s)))"

definition stringValue :: "json_object \<Rightarrow> string \<Rightarrow> string option" where
  "stringValue src key = (case js_str (map_of src key) of Some s \<Rightarrow> (if s = [] then None else Some s) | None \<Rightarrow> None)"

definition metadataWith :: "message \<Rightarrow> json_object \<Rightarrow> json" where
  "metadataWith m patch = JObj (foldl (\<lambda>kvs (k, v). obj_set k v kvs) (metadata_record m) patch)"

definition triggerRaw :: "loaded_message \<Rightarrow> string option \<Rightarrow> json" where
  "triggerRaw l triggerMessageId =
     (let inbound = (if truthy triggerMessageId
                     then List.find (\<lambda>c. ms_id c = the triggerMessageId) (lm_inbound l)
                     else (case lm_inbound l of [] \<Rightarrow> None | m # _ \<Rightarrow> Some m));
          metadata = (case inbound of None \<Rightarrow> [] | Some m \<Rightarrow> metadata_record m)
      in case map_of metadata ''raw'' of
           Some (JObj kvs) \<Rightarrow> JObj kvs
         | Some (JArr xs) \<Rightarrow> JArr xs
         | _ \<Rightarrow> JNull)"

definition adapterFor :: "delivery_env \<Rightarrow> loaded_message \<Rightarrow> channel_adapter option" where
  "adapterFor env l =
     (case lm_channel l of
        None \<Rightarrow> None
      | Some ch \<Rightarrow>
          (let factory = (case dn_dependencies env of None \<Rightarrow> None | Some k \<Rightarrow> dd_adapterFactory k) in
           if ch_type ch \<in> {TELEGRAM, WEBHOOK} \<and> ch_id ch \<noteq> [] \<and> factory \<noteq> None
           then the factory (ch_type ch) (ch_id ch)
           else if ch_type ch = TELEGRAM then Some (dn_telegramAdapter env)
           else if ch_type ch = WEBHOOK then Some (dn_webhookAdapter env)
           else None))"

definition expectedChannelType :: "string \<Rightarrow> ChannelType" where
  "expectedChannelType src = (if src = ''telegram'' then TELEGRAM else WEBHOOK)"

definition successfulStatus :: "send_status \<Rightarrow> bool" where
  "successfulStatus s = (s = Ss_sent \<or> s = Ss_queued)"

text \<open>\<open>canonicalize\<close> of this file orders keys by code units, which is the one of the runtime queue
  with that comparison.\<close>

definition delivery_digest :: "host \<Rightarrow> json \<Rightarrow> string" where
  "delivery_digest h v = sha256 h (json_stringify (canonicalize (h\<lparr>localeCompare := str_cmp\<rparr>) v))"

text \<open>The properties that name the reply run in several objects.\<close>

definition run_entries :: "send_job \<Rightarrow> json_object" where
  "run_entries data =
     [(''aiReplyRunId'', opt_json JStr (sj_aiReplyRunId data)),
      (''aiReplyGeneration'', opt_json JInt (sj_aiReplyGeneration data)),
      (''aiReplySequence'', opt_json JInt (sj_aiReplySequence data))]"

definition operationDescriptor :: "host \<Rightarrow> send_job \<Rightarrow> loaded_message \<Rightarrow> channel \<Rightarrow> string \<Rightarrow> operation_descriptor" where
  "operationDescriptor h data l ch text =
     (let m = lm_message l;
          channelAccountId = (case ch_externalId ch of Some x \<Rightarrow> x | None \<Rightarrow> ch_id ch);
          trimmed = map_option js_trim (cv_externalConversationId (lm_conversation l));
          recipientKey = (if truthy trimmed then the trimmed else ms_conversationId m);
          channelKey = toLowerCase (channelType_text (ch_type ch)) @ '':'' @ channelAccountId;
          requestHash = ''sha256:'' @ delivery_digest h (JObj ([
            (''schemaVersion'', JInt 1), (''tenantId'', JStr (sj_tenantId data)),
            (''conversationId'', JStr (sj_conversationId data)), (''messageId'', JStr (sj_messageId data)),
            (''provider'', JStr (sj_source data)), (''channelId'', JStr (ch_id ch)),
            (''channelAccountId'', JStr channelAccountId), (''recipientKey'', JStr recipientKey),
            (''text'', JStr text), (''settings'', opt_json (\<lambda>v. v) (ch_settings ch))] @ run_entries data));
          operationHash = delivery_digest h (JObj ([
            (''tenantId'', JStr (sj_tenantId data)), (''originatingMessageId'', JStr (sj_messageId data)),
            (''actionKind'', JStr ''channels.sendMessage''), (''requestHash'', JStr requestHash)] @
            run_entries data @ [(''confirmationVersion'', JInt DELIVERY_VERSION)]))
      in \<lparr>od_id = ''channel_delivery_'' @ operationHash, od_requestHash = requestHash,
          od_channelKey = channelKey, od_recipientKey = recipientKey, od_provider = sj_source data,
          od_deliveryVersion = DELIVERY_VERSION\<rparr>)"

section \<open>Outcomes of replies\<close>

text \<open>
  The texts of a hand-over. The Russian text has no characters below 256, so it is an argument. A
  template that names an inherited property of the object of texts, such as \<open>constructor\<close>, yields
  no text; that it yields a function there makes no difference, since it is compared with a text.
\<close>

definition handoffMessages :: "string \<Rightarrow> (string \<times> string) list" where
  "handoffMessages ru = [
     (''en'', ''I need to confirm that with a manager. I will preserve the details of your request so they can respond accurately.''),
     (''ru'', ru),
     (''de'', ''Ich muss das mit einem Mitarbeiter kl'' @ [CHR 0xE4] @
              ''ren. Ich halte die Details Ihrer Anfrage f'' @ [CHR 0xFC] @ ''r eine genaue Antwort fest.''),
     (''fr'', ''Je dois v'' @ [CHR 0xE9] @ ''rifier cela avec un responsable. Je conserve les d'' @ [CHR 0xE9] @
              ''tails de votre demande afin qu'il puisse vous r'' @ [CHR 0xE9] @ ''pondre pr'' @ [CHR 0xE9] @
              ''cis'' @ [CHR 0xE9] @ ''ment.''),
     (''es'', ''Necesito confirmarlo con un responsable. Conservar'' @ [CHR 0xE9] @
              '' los detalles de su solicitud para que pueda responderle con precisi'' @ [CHR 0xF3] @ ''n.''),
     (''pt'', ''Preciso confirmar isso com um respons'' @ [CHR 0xE1] @
              ''vel. Vou preservar os detalhes do seu pedido para que ele responda com precis'' @ [CHR 0xE3] @ ''o.'')]"

definition knowledgeHandoffReplyForTemplateV1 :: "string \<Rightarrow> string \<Rightarrow> string option" where
  "knowledgeHandoffReplyForTemplateV1 ru templateVersion =
     (let pre = ''knowledge-handoff-v1:'' in
      if \<not> starts_with pre templateVersion then None
      else map_of (handoffMessages ru) (drop (length pre) templateVersion))"

definition aiReplyContentHashV1 :: "host \<Rightarrow> string \<Rightarrow> string" where
  "aiReplyContentHashV1 h text = sha256 h text"

section \<open>Fences\<close>

definition systemMessageFenceReason :: "send_job \<Rightarrow> message \<Rightarrow> string option" where
  "systemMessageFenceReason data m =
     (if ms_senderType m \<noteq> Sn_SYSTEM then None
      else (let metadata = metadata_record m in
        if sj_source data = ''telegram'' \<and>
           map_of metadata ''kind'' = Some (JStr ''TELEGRAM_ACTIVATION_WELCOME'') \<and>
           map_of metadata ''version'' = Some (JInt 1)
        then None else Some ''system_message_not_deliverable''))"

definition delivery_text :: "message \<Rightarrow> string" where
  "delivery_text m = (case ms_text m of None \<Rightarrow> [] | Some s \<Rightarrow> s)"

definition aiReplyOutcomeFenceReason :: "delivery_env \<Rightarrow> ai_reply_run \<Rightarrow> message \<Rightarrow> string option" where
  "aiReplyOutcomeFenceReason env run m =
     (if \<not> truthy (rn_publicationId run) then None
      else if rn_replyDisposition run = None \<or> \<not> truthy (rn_replyContentHash run)
      then Some ''ai_reply_outcome_binding_missing''
      else if Some (aiReplyContentHashV1 (dn_host env) (delivery_text m)) \<noteq> rn_replyContentHash run
      then Some ''ai_reply_content_binding_mismatch''
      else if rn_replyDisposition run = Some Rd_HANDOFF then
        (if \<not> truthy (rn_replyTemplateVersion run) then Some ''ai_reply_handoff_template_binding_missing''
         else (let expected = knowledgeHandoffReplyForTemplateV1 (dn_handoffRu env) (the (rn_replyTemplateVersion run)) in
           if \<not> truthy expected \<or> Some (delivery_text m) \<noteq> expected
           then Some ''ai_reply_handoff_template_binding_mismatch'' else None))
      else if rn_replyDisposition run = Some Rd_AUTO_SEND \<and> rn_replyTemplateVersion run = None then None
      else Some ''ai_reply_outcome_binding_invalid'')"

definition generation_set :: "int option \<Rightarrow> bool" where
  "generation_set g = (case g of None \<Rightarrow> False | Some n \<Rightarrow> n \<noteq> 0)"

definition capability_snapshot :: "db \<Rightarrow> ai_reply_run \<Rightarrow> publication_capability option" where
  "capability_snapshot d run =
     List.find (\<lambda>c. pc_tenantId c = rn_tenantId run \<and> Some (pc_publicationId c) = rn_publicationId run \<and>
          Some (pc_capabilityType c) = rn_capabilityType run \<and>
          Some (pc_allowedAutonomy c) = rn_allowedAutonomy run \<and>
          pc_operationalBindingHash c = rn_operationalBindingHash run \<and>
          pc_operationalPermissionGeneration c = rn_operationalPermissionGeneration run)
       (publicationCapabilities d)"

definition capabilityAutonomyFenceReason :: "db \<Rightarrow> ai_reply_run \<Rightarrow> string option" where
  "capabilityAutonomyFenceReason d run =
     (if \<not> truthy (rn_publicationId run) then None
      else if rn_capabilityDecision run = Some HANDOFF then
        (if truthy (rn_capabilitySetHash run) \<and> truthy (rn_operationalBindingHash run) \<and>
            generation_set (rn_operationalPermissionGeneration run) \<and>
            rn_replyDisposition run = Some Rd_HANDOFF \<and> rn_capabilityType run = None \<and>
            rn_allowedAutonomy run = None \<and> rn_requiredAutonomy run = Some ANSWER_ONLY
         then None else Some ''ai_reply_handoff_autonomy_binding_invalid'')
      else if rn_capabilityDecision run \<noteq> Some AUTHORIZED \<or> rn_capabilityType run = None \<or>
              rn_allowedAutonomy run = None \<or> rn_requiredAutonomy run = None \<or>
              \<not> truthy (rn_operationalBindingHash run) \<or>
              \<not> generation_set (rn_operationalPermissionGeneration run)
      then Some ''ai_reply_capability_autonomy_binding_missing''
      else if capability_snapshot d run = None
      then Some ''ai_reply_capability_autonomy_binding_revoked''
      else (let decision = authorizeKnowledgeCapabilityEffectV1 (rn_allowedAutonomy run) Eff_ANSWER False False in
        if au_allowed decision \<and> Some (au_requiredAutonomy decision) = rn_requiredAutonomy run
        then None else Some ''ai_reply_capability_autonomy_denied''))"

text \<open>The identity of the run a job names, where it names one.\<close>

definition job_names_other_run :: "send_job \<Rightarrow> ai_reply_run \<Rightarrow> bool" where
  "job_names_other_run data run =
     (truthy (sj_aiReplyRunId data) \<and> sj_aiReplyRunId data \<noteq> Some (rn_id run) \<or>
      sj_aiReplyGeneration data \<noteq> None \<and> sj_aiReplyGeneration data \<noteq> Some (rn_generation run) \<or>
      sj_aiReplySequence data \<noteq> None \<and> sj_aiReplySequence data \<noteq> Some (rn_sequence run))"

fun runStatus_lower :: "AiReplyRunStatus \<Rightarrow> string" where
  "runStatus_lower Rn_QUEUED = ''queued''"
| "runStatus_lower Rn_RUNNING = ''running''"
| "runStatus_lower Rn_RETRY_SCHEDULED = ''retry_scheduled''"
| "runStatus_lower Rn_SUCCEEDED = ''succeeded''"
| "runStatus_lower Rn_SKIPPED = ''skipped''"
| "runStatus_lower Rn_FAILED = ''failed''"
| "runStatus_lower Rn_CANCEL_REQUESTED = ''cancel_requested''"
| "runStatus_lower Rn_CANCELLED = ''cancelled''"
| "runStatus_lower Rn_TIMED_OUT = ''timed_out''"
| "runStatus_lower Rn_SUPERSEDED = ''superseded''"
| "runStatus_lower Rn_DEAD_LETTER = ''dead_letter''"

definition run_of_reply :: "string \<Rightarrow> string \<Rightarrow> db \<Rightarrow> ai_reply_run option" where
  "run_of_reply tenantId messageId d =
     List.find (\<lambda>r. rn_tenantId r = tenantId \<and> rn_replyMessageId r = Some messageId) (aiReplyRuns d)"

text \<open>The check before the operation is claimed: \<open>d\<close> and \<open>d'\<close> are what its two reads see.\<close>

definition aiReplyFenceReason :: "delivery_env \<Rightarrow> db \<Rightarrow> db \<Rightarrow> send_job \<Rightarrow> loaded_message \<Rightarrow> string option" where
  "aiReplyFenceReason env d d' data l =
     (let m = lm_message l in
      if ms_senderType m \<noteq> Sn_AI then None
      else (case run_of_reply (ms_tenantId m) (ms_id m) d of
              None \<Rightarrow>
                if truthy (sj_aiReplyRunId data) \<or> generation_set (sj_aiReplyGeneration data) \<or>
                   generation_set (sj_aiReplySequence data)
                then Some ''ai_reply_run_not_found'' else None
            | Some run \<Rightarrow>
                if job_names_other_run data run then Some ''ai_reply_delivery_identity_mismatch''
                else if rn_status run \<noteq> Rn_SUCCEEDED then Some (''ai_reply_run_'' @ runStatus_lower (rn_status run))
                else (case aiReplyOutcomeFenceReason env run m of
                        Some reason \<Rightarrow> Some reason
                      | None \<Rightarrow>
                          if rn_generation run \<noteq> cv_aiGeneration (lm_conversation l) \<or>
                             rn_sequence run \<noteq> cv_aiReplyFence (lm_conversation l)
                          then Some ''ai_reply_superseded''
                          else capabilityAutonomyFenceReason d' run)))"

text \<open>The check in the transaction that sends, with the rows of the conversation and run locked.\<close>

definition reply_admission_reason ::
    "delivery_env \<Rightarrow> db \<Rightarrow> ai_reply_run \<Rightarrow> message \<Rightarrow> error + string option" where
  "reply_admission_reason env d run m =
     andThen ((if rn_replyDisposition run = Some Rd_HANDOFF
               then completedAutomaticReplyHandoffAdmissionState else automaticReplyAdmissionState)
              (dn_host env) (dn_now env) d (ms_tenantId m) (ms_conversationId m))
       (\<lambda>admission. Inr (case admission of
          Inl _ \<Rightarrow> Some ''ai_reply_automatic_reply_admission_revoked''
        | Inr b \<Rightarrow>
            if rn_publicationId run \<noteq> Some (ad_publicationId b)
            then Some ''ai_reply_automatic_reply_publication_revoked''
            else if rn_capabilitySetHash run \<noteq> Some (ad_capabilitySetHash b)
            then Some ''ai_reply_automatic_reply_capability_revoked''
            else if rn_operationalBindingHash run \<noteq> Some (ad_operationalBindingHash b) \<or>
                    rn_operationalPermissionGeneration run \<noteq> Some (ad_operationalPermissionGeneration b)
            then Some ''ai_reply_automatic_reply_operational_binding_revoked''
            else None))"

definition lockedAiReplyFenceReason ::
    "delivery_env \<Rightarrow> db \<Rightarrow> send_job \<Rightarrow> message \<Rightarrow> error + string option" where
  "lockedAiReplyFenceReason env d data m =
     (if ms_senderType m \<noteq> Sn_AI then Inr None
      else
        (let lockedRun = List.find (\<lambda>r. rn_tenantId r = ms_tenantId m \<and>
                rn_conversationId r = ms_conversationId m \<and> rn_replyMessageId r = Some (ms_id m)) (aiReplyRuns d)
         in case List.find (\<lambda>c. cv_id c = ms_conversationId m) (conversations d) of
              None \<Rightarrow> Inr (Some ''ai_reply_conversation_not_found'')
            | Some c \<Rightarrow>
                if cv_tenantId c \<noteq> ms_tenantId m \<or> cv_deletedAt c \<noteq> None
                then Inr (Some ''ai_reply_conversation_not_found'')
                else (case lockedRun of
                        None \<Rightarrow> Inr (Some ''ai_reply_run_not_found'')
                      | Some run \<Rightarrow>
                          if job_names_other_run data run then Inr (Some ''ai_reply_delivery_identity_mismatch'')
                          else if rn_status run \<noteq> Rn_SUCCEEDED
                          then Inr (Some (''ai_reply_run_'' @ runStatus_lower (rn_status run)))
                          else (case aiReplyOutcomeFenceReason env run m of
                                  Some reason \<Rightarrow> Inr (Some reason)
                                | None \<Rightarrow> andThen (reply_admission_reason env d run m) (\<lambda>adm. Inr (
                                    case adm of
                                      Some reason \<Rightarrow> Some reason
                                    | None \<Rightarrow>
                                        (case capabilityAutonomyFenceReason d run of
                                           Some reason \<Rightarrow> Some reason
                                         | None \<Rightarrow>
                                             if rn_generation run \<noteq> cv_aiGeneration c \<or>
                                                rn_sequence run \<noteq> cv_aiReplyFence c
                                             then Some ''ai_reply_superseded'' else None)))))))"

section \<open>Structured replies\<close>

definition trace_matches :: "retrieval_trace \<Rightarrow> processor_identity \<Rightarrow> json_object \<Rightarrow> bool" where
  "trace_matches trace expected grounded =
     (truthy (pid_provider expected) \<and> truthy (pid_model expected) \<and>
      truthy (pid_providerVersion expected) \<and> truthy (pid_region expected) \<and>
      truthy (pid_processorPolicyVersion expected) \<and> truthy (pid_processorPolicyHash expected) \<and>
      pid_promptPolicyVersion expected \<noteq> [] \<and>
      rt_provider trace = pid_provider expected \<and> rt_generatorModel trace = pid_model expected \<and>
      rt_modelProcessorPolicyHash trace = pid_processorPolicyHash expected \<and>
      rt_promptPolicyVersion trace = pid_promptPolicyVersion expected \<and>
      rt_providerOutputHash trace = stringValue grounded ''providerOutputHash'' \<and>
      rt_gateInputHash trace = stringValue grounded ''gateInputHash'' \<and>
      rt_gateResultHash trace = stringValue grounded ''gateResultHash'' \<and>
      (map_of grounded ''requiresLiveEvidence'' = Some (JBool True) \<longrightarrow>
         ''TOOL_RESULT'' \<in> set (rt_citationTargets trace)))"

definition expected_processor :: "json_object \<Rightarrow> processor_identity" where
  "expected_processor grounded =
     \<lparr>pid_provider = stringValue grounded ''provider'', pid_model = stringValue grounded ''model'',
      pid_providerVersion = stringValue grounded ''providerVersion'',
      pid_region = stringValue grounded ''region'',
      pid_processorPolicyVersion = stringValue grounded ''processorPolicyVersion'',
      pid_processorPolicyHash = stringValue grounded ''processorPolicyHash'',
      pid_promptPolicyVersion =
        (case stringValue grounded ''promptPolicyVersion'' of Some s \<Rightarrow> s | None \<Rightarrow> [])\<rparr>"

text \<open>What remains once the reply is an automatic one with a grounded answer and its services.\<close>

definition grounded_fence_reason ::
    "(nat \<Rightarrow> db) \<Rightarrow> send_job \<Rightarrow> message \<Rightarrow> delivery_dependencies \<Rightarrow> json_object \<Rightarrow> string
     \<Rightarrow> string \<Rightarrow> string \<Rightarrow> error + string option" where
  "grounded_fence_reason rd data m deps grounded retrievalTraceId publicationId inboundMessageId =
     (case List.find (\<lambda>x. Some (ms_id x) = sj_triggerMessageId data \<and> ms_tenantId x = sj_tenantId data \<and>
             ms_conversationId x = sj_conversationId data \<and> ms_direction x = INBOUND \<and>
             ms_senderType x = Sn_CUSTOMER) (messages (rd 1)) of
        None \<Rightarrow> Inr (Some ''structured_delivery_trigger_mismatch'')
      | Some trigger \<Rightarrow>
          if ms_id trigger \<noteq> inboundMessageId then Inr (Some ''structured_delivery_trigger_mismatch'')
          else andThen (dd_revalidatePersistedReply deps
                 \<lparr>rv_tenantId = sj_tenantId data, rv_retrievalTraceId = retrievalTraceId,
                  rv_responseMessageId = ms_id m, rv_publicationId = publicationId,
                  rv_query = delivery_text trigger,
                  rv_executionContextId = (case sj_graphRunId data of Some g \<Rightarrow> g | None \<Rightarrow> [])\<rparr>)
               (\<lambda>revalidated. case revalidated of
                  Rv_invalid reason \<Rightarrow> Inr (Some (''structured_delivery_'' @ toLowerCase reason))
                | Rv_valid promptPolicyVersion classifications \<Rightarrow>
                    (let expected = expected_processor grounded in
                     case List.find (\<lambda>x. rt_id x = retrievalTraceId \<and> rt_tenantId x = sj_tenantId data \<and>
                             rt_responseMessageId x = Some (ms_id m) \<and>
                             rt_publicationId x = Some publicationId) (retrievalTraces (rd 2)) of
                       None \<Rightarrow> Inr (Some ''structured_delivery_audit_identity_changed'')
                     | Some trace \<Rightarrow>
                         if \<not> trace_matches trace expected grounded
                         then Inr (Some ''structured_delivery_audit_identity_changed'')
                         else andThen (dd_revalidateProcessorAdmission deps (sj_tenantId data)
                                (case promptPolicyVersion of Some s \<Rightarrow> s | None \<Rightarrow> []) classifications expected)
                              (\<lambda>processor. Inr (if processor then None
                                 else Some ''structured_delivery_model_policy_revoked'')))))"

text \<open>\<open>rd n\<close> is what the n-th read sees; in the transaction that sends all of them see its database.\<close>

definition structuredReplyFenceReason ::
    "delivery_env \<Rightarrow> (nat \<Rightarrow> db) \<Rightarrow> send_job \<Rightarrow> message \<Rightarrow> error + string option" where
  "structuredReplyFenceReason env rd data m =
     (if ms_senderType m \<noteq> Sn_AI then Inr None
      else
        (let metadata = metadata_record m;
             groundedOpt = record_of (map_of metadata ''groundedAnswer'');
             traceId = stringValue metadata ''retrievalTraceId''
         in case run_of_reply (sj_tenantId data) (ms_id m) (rd 0) of
              None \<Rightarrow> Inr None
            | Some run \<Rightarrow>
                (case List.find (\<lambda>p. Some (pb_id p) = rn_publicationId run \<and> pb_tenantId p = rn_tenantId run)
                        (publications (rd 0)) of
                   None \<Rightarrow> Inr None
                 | Some p \<Rightarrow>
                     if pb_corpusKind p \<noteq> STRUCTURED_V2 \<or> pb_targetKey p \<noteq> ''workspace-v2'' then Inr None
                     else if \<not> truthy (sj_aiReplyRunId data) \<or> sj_aiReplyGeneration data = None \<or>
                             sj_aiReplySequence data = None
                     then Inr (Some ''structured_delivery_run_identity_missing'')
                     else if Some (rn_id run) \<noteq> sj_aiReplyRunId data \<or>
                             Some (rn_generation run) \<noteq> sj_aiReplyGeneration data \<or>
                             Some (rn_sequence run) \<noteq> sj_aiReplySequence data
                     then Inr (Some ''structured_delivery_run_identity_mismatch'')
                     else if \<not> truthy (sj_triggerMessageId data)
                     then Inr (Some ''structured_delivery_trigger_missing'')
                     else if rn_status run \<noteq> Rn_SUCCEEDED \<or> rn_conversationId run \<noteq> sj_conversationId data \<or>
                             rn_conversationId run \<noteq> ms_conversationId m \<or>
                             rn_replyMessageId run \<noteq> Some (ms_id m) \<or>
                             Some (rn_inboundMessageId run) \<noteq> sj_triggerMessageId data
                     then Inr (Some ''structured_delivery_trigger_mismatch'')
                     else if rn_replyDisposition run = Some Rd_HANDOFF then Inr None
                     else if rn_replyDisposition run \<noteq> Some Rd_AUTO_SEND
                     then Inr (Some ''structured_delivery_reply_disposition_missing'')
                     else if rn_capabilityDecision run \<noteq> Some AUTHORIZED
                     then Inr (Some ''structured_delivery_capability_decision_invalid'')
                     else (case groundedOpt of
                             None \<Rightarrow> Inr (Some ''structured_delivery_grounded_audit_missing'')
                           | Some grounded \<Rightarrow>
                               if map_of grounded ''disposition'' \<noteq> Some (JStr ''AUTO_SEND'')
                               then Inr (Some ''structured_delivery_disposition_invalid'')
                               else (case dn_dependencies env of
                                       None \<Rightarrow> Inr (Some ''structured_delivery_revalidator_unavailable'')
                                     | Some deps \<Rightarrow>
                                         if traceId = None \<or> \<not> truthy (rn_publicationId run)
                                         then Inr (Some ''structured_delivery_trace_missing'')
                                         else grounded_fence_reason rd data m deps grounded (the traceId)
                                                (the (rn_publicationId run)) (rn_inboundMessageId run))))))"

section \<open>Operations\<close>

text \<open>A delivery once its message, channel, text and descriptor are known.\<close>

record delivery_context =
  dc_loaded :: loaded_message
  dc_channel :: channel
  dc_text :: string
  dc_descriptor :: operation_descriptor

abbreviation dc_message :: "delivery_context \<Rightarrow> message" where
  "dc_message ctx \<equiv> lm_message (dc_loaded ctx)"

definition operationMatches :: "channel_delivery_operation \<Rightarrow> delivery_context \<Rightarrow> bool" where
  "operationMatches op ctx =
     (let ds = dc_descriptor ctx; m = dc_message ctx in
      op_id op = od_id ds \<and> op_tenantId op = ms_tenantId m \<and> op_messageId op = ms_id m \<and>
      op_conversationId op = ms_conversationId m \<and> op_channelId op = ch_id (dc_channel ctx) \<and>
      op_provider op = od_provider ds \<and> op_channelKey op = od_channelKey ds \<and>
      op_recipientKey op = od_recipientKey ds \<and> op_deliveryVersion op = od_deliveryVersion ds \<and>
      op_requestHash op = od_requestHash ds)"

definition operation_conflict :: "message \<Rightarrow> delivery_error" where
  "operation_conflict m = Other (Error (''Channel delivery operation conflict for message '' @ ms_id m @ ''; refusing to send.''))"

definition findOperation :: "delivery_context \<Rightarrow> db \<Rightarrow> channel_delivery_operation option" where
  "findOperation ctx d =
     (let ds = dc_descriptor ctx; m = dc_message ctx in
      List.find (\<lambda>r. op_tenantId r = ms_tenantId m \<and> op_messageId r = ms_id m \<and>
          op_channelKey r = od_channelKey ds \<and> op_recipientKey r = od_recipientKey ds \<and>
          op_deliveryVersion r = od_deliveryVersion ds) (channelDeliveryOperations d))"

text \<open>The operation of a message that was created last.\<close>

definition latest_operation :: "send_job \<Rightarrow> message \<Rightarrow> db \<Rightarrow> channel_delivery_operation option" where
  "latest_operation data m d =
     (case js_sort (\<lambda>x y. op_createdAt y - op_createdAt x)
             (filter (\<lambda>r. op_tenantId r = sj_tenantId data \<and> op_messageId r = ms_id m \<and>
                op_conversationId r = sj_conversationId data \<and> op_deliveryVersion r = DELIVERY_VERSION)
                (channelDeliveryOperations d)) of
        [] \<Rightarrow> None
      | r # _ \<Rightarrow> Some r)"

definition new_operation :: "int \<Rightarrow> delivery_context \<Rightarrow> channel_delivery_operation" where
  "new_operation now ctx =
     (let ds = dc_descriptor ctx; m = dc_message ctx in
      \<lparr>op_id = od_id ds, op_tenantId = ms_tenantId m, op_messageId = ms_id m,
       op_conversationId = ms_conversationId m, op_channelId = ch_id (dc_channel ctx),
       op_provider = od_provider ds, op_channelKey = od_channelKey ds, op_recipientKey = od_recipientKey ds,
       op_deliveryVersion = od_deliveryVersion ds, op_requestHash = od_requestHash ds,
       op_status = Op_REQUESTED, op_providerMessageId = None, op_result = None, op_errorCode = None,
       op_errorMessage = None, op_attemptCount = 0, op_nextRetryAt = None,
       op_retentionExpiresAt = now + DELIVERY_RETENTION_MS, op_createdAt = now, op_startedAt = None,
       op_completedAt = None, op_reconciledAt = None\<rparr>)"

definition operation_key :: "channel_delivery_operation \<Rightarrow> string \<times> string \<times> string \<times> string \<times> int" where
  "operation_key r = (op_tenantId r, op_messageId r, op_channelKey r, op_recipientKey r, op_deliveryVersion r)"

text \<open>The foreign keys of an operation.\<close>

definition operation_references :: "channel_delivery_operation \<Rightarrow> db \<Rightarrow> bool" where
  "operation_references r d =
     (list_ex (\<lambda>m. ms_tenantId m = op_tenantId r \<and> ms_conversationId m = op_conversationId r \<and>
         ms_id m = op_messageId r) (messages d) \<and>
      list_ex (\<lambda>c. cv_tenantId c = op_tenantId r \<and> cv_id c = op_conversationId r \<and>
         cv_channelId c = Some (op_channelId r)) (conversations d) \<and>
      list_ex (\<lambda>c. ch_tenantId c = op_tenantId r \<and> ch_id c = op_channelId r) (channels d))"

definition createOperation :: "int \<Rightarrow> delivery_context \<Rightarrow> db \<Rightarrow> error + (channel_delivery_operation \<times> db)" where
  "createOperation now ctx d =
     (let r = new_operation now ctx in
      if list_ex (\<lambda>x. op_id x = op_id r \<or> operation_key x = operation_key r) (channelDeliveryOperations d)
      then Inl (PrismaError ''P2002'')
      else if \<not> operation_references r d then Inl (PrismaError ''P2003'')
      else Inr (r, d\<lparr>channelDeliveryOperations := channelDeliveryOperations d @ [r]\<rparr>))"

definition delivery_result0 :: "delivery_status \<Rightarrow> message \<Rightarrow> string \<Rightarrow> delivery_result" where
  "delivery_result0 st m reason =
     \<lparr>dl_status = st, dl_messageId = ms_id m, dl_outboundStatus = None, dl_providerExternalMessageId = None,
      dl_reason = Some reason, dl_deliveryOperationId = None\<rparr>"

definition operation_result :: "delivery_status \<Rightarrow> message \<Rightarrow> string \<Rightarrow> channel_delivery_operation \<Rightarrow> delivery_result" where
  "operation_result st m reason op = (delivery_result0 st m reason)\<lparr>dl_deliveryOperationId := Some (op_id op)\<rparr>"

definition settledOperationResult :: "channel_delivery_operation \<Rightarrow> message \<Rightarrow> delivery_result option" where
  "settledOperationResult op m =
     (case op_status op of
        Op_REQUESTED \<Rightarrow> None
      | Op_SUCCEEDED \<Rightarrow> Some ((operation_result Ds_already_delivered m ''delivery_operation_succeeded'' op)
          \<lparr>dl_providerExternalMessageId :=
             (if truthy (op_providerMessageId op) then op_providerMessageId op else None)\<rparr>)
      | Op_STARTED \<Rightarrow> Some (operation_result Ds_reconciliation_required m ''delivery_operation_started'' op)
      | Op_UNKNOWN \<Rightarrow> Some (operation_result Ds_reconciliation_required m ''delivery_operation_unknown'' op)
      | Op_FAILED \<Rightarrow> Some (operation_result Ds_failed m
          (case op_errorCode op of Some c \<Rightarrow> c | None \<Rightarrow> ''delivery_operation_failed'') op)
      | Op_RECONCILED \<Rightarrow> Some (operation_result
          (if ms_status m = Ms_SENT \<or> ms_status m = Ms_DELIVERED then Ds_already_delivered else Ds_skipped)
          m ''delivery_operation_reconciled'' op))"

section \<open>Statements and transactions that write\<close>

text \<open>An update of the operation of an id: how many rows had the status, and the table after it.\<close>

definition update_operation ::
    "string \<Rightarrow> ExternalOperationStatus \<Rightarrow> (channel_delivery_operation \<Rightarrow> channel_delivery_operation)
     \<Rightarrow> db \<Rightarrow> bool \<times> db" where
  "update_operation i st f d =
     (let sel = (\<lambda>r. op_id r = i \<and> op_status r = st) in
      (0 < count_where sel (channelDeliveryOperations d),
       d\<lparr>channelDeliveryOperations := update_many sel f (channelDeliveryOperations d)\<rparr>))"

definition claimOperation :: "int \<Rightarrow> string \<Rightarrow> string \<Rightarrow> db \<Rightarrow> bool \<times> db" where
  "claimOperation now i requestHash d =
     (let sel = (\<lambda>r. op_id r = i \<and> op_status r = Op_REQUESTED \<and> op_requestHash r = requestHash) in
      (0 < count_where sel (channelDeliveryOperations d),
       d\<lparr>channelDeliveryOperations := update_many sel
           (\<lambda>r. r\<lparr>op_status := Op_STARTED, op_attemptCount := op_attemptCount r + 1,
                  op_startedAt := Some now, op_errorCode := None, op_errorMessage := None,
                  op_nextRetryAt := None\<rparr>) (channelDeliveryOperations d)\<rparr>))"

definition errorMessage :: "delivery_error \<Rightarrow> string" where
  "errorMessage e = take 1000 (delivery_error_text e)"

definition job_entry :: "string option \<Rightarrow> string \<times> json" where
  "job_entry jobId = (''jobId'', opt_json JStr jobId)"

definition recordUnknownOperation ::
    "int \<Rightarrow> string \<Rightarrow> string \<Rightarrow> delivery_error \<Rightarrow> string option \<Rightarrow> db \<Rightarrow> bool \<times> db" where
  "recordUnknownOperation now i code e jobId =
     update_operation i Op_STARTED
       (\<lambda>r. r\<lparr>op_status := Op_UNKNOWN, op_errorCode := Some code, op_errorMessage := Some (errorMessage e),
              op_result := Some (JObj [(''status'', JStr ''unknown''), job_entry jobId,
                (''recordedAt'', JStr (toISOString now))])\<rparr>)"

definition releaseUnstartedOperation :: "int \<Rightarrow> string \<Rightarrow> delivery_error \<Rightarrow> db \<Rightarrow> bool \<times> db" where
  "releaseUnstartedOperation now i e =
     update_operation i Op_STARTED
       (\<lambda>r. r\<lparr>op_status := Op_REQUESTED, op_errorCode := Some ''DELIVERY_NOT_STARTED'',
              op_errorMessage := Some (errorMessage e), op_startedAt := None, op_nextRetryAt := Some now\<rparr>)"

definition http_status_json :: "webhook_failure \<Rightarrow> json" where
  "http_status_json f = opt_json JInt (wf_statusCode f)"

definition releaseRetryableWebhookOperation :: "int \<Rightarrow> string \<Rightarrow> webhook_failure \<Rightarrow> db \<Rightarrow> bool \<times> db" where
  "releaseRetryableWebhookOperation now i f =
     update_operation i Op_STARTED
       (\<lambda>r. r\<lparr>op_status := Op_REQUESTED, op_errorCode := Some (webhookCode_text (wf_code f)),
              op_errorMessage := None,
              op_result := Some (JObj [(''status'', JStr ''retry_scheduled''),
                (''code'', JStr (webhookCode_text (wf_code f))),
                (''providerOutcome'', JStr (webhookOutcome_text (wf_outcome f))),
                (''httpStatus'', http_status_json f)]),
              op_startedAt := None, op_nextRetryAt := Some (now + 1000)\<rparr>)"

text \<open>Messages. The predicate is the \<open>status: { in: ["QUEUED", "FAILED"] }\<close> of the updates.\<close>

definition undelivered :: "message \<Rightarrow> bool" where
  "undelivered m = (ms_status m = Ms_QUEUED \<or> ms_status m = Ms_FAILED)"

definition unfinished_patch :: "string \<Rightarrow> string \<Rightarrow> json_object \<Rightarrow> string option \<Rightarrow> string \<Rightarrow> int \<Rightarrow> json_object" where
  "unfinished_patch outcome reason extra jobId stamp now =
     [(''outboundStatus'', JStr outcome), (''deliveryJobId'', opt_json JStr jobId),
      (''delivery'', JObj ([(''status'', JStr outcome), (''reason'', JStr reason)] @ extra @
         [job_entry jobId, (stamp, JStr (toISOString now))]))]"

definition set_message :: "MessageStatus \<Rightarrow> json \<Rightarrow> message \<Rightarrow> message" where
  "set_message st metadata m = m\<lparr>ms_status := st, ms_metadata := Some metadata\<rparr>"

definition markFailed :: "int \<Rightarrow> message \<Rightarrow> string \<Rightarrow> string option \<Rightarrow> db \<Rightarrow> error + db" where
  "markFailed now m reason jobId d =
     (if \<not> list_ex (\<lambda>r. ms_id r = ms_id m) (messages d) then Inl (PrismaError ''P2025'')
      else Inr (d\<lparr>messages := update_many (\<lambda>r. ms_id r = ms_id m)
        (set_message Ms_FAILED (metadataWith m (unfinished_patch ''failed'' reason [] jobId ''failedAt'' now)))
        (messages d)\<rparr>))"

definition markSkipped :: "int \<Rightarrow> message \<Rightarrow> string \<Rightarrow> string option \<Rightarrow> db \<Rightarrow> db" where
  "markSkipped now m reason jobId d =
     d\<lparr>messages := update_many (\<lambda>r. ms_id r = ms_id m \<and> undelivered r)
        (set_message Ms_FAILED (metadataWith m (unfinished_patch ''skipped'' reason [] jobId ''skippedAt'' now)))
        (messages d)\<rparr>"

definition operation_entry :: "channel_delivery_operation \<Rightarrow> string \<times> json" where
  "operation_entry op = (''deliveryOperationId'', JStr (op_id op))"

definition lost_claim :: "channel_delivery_operation \<Rightarrow> error" where
  "lost_claim op = Error (''Channel delivery operation '' @ op_id op @ '' lost its claim.'')"

text \<open>An update of the operation that must change its row.\<close>

definition settle_operation ::
    "channel_delivery_operation \<Rightarrow> (channel_delivery_operation \<Rightarrow> channel_delivery_operation) \<Rightarrow> db \<Rightarrow> error + db" where
  "settle_operation op f d =
     (case update_operation (op_id op) Op_STARTED f d of
        (found, d') \<Rightarrow> if found then Inr d' else Inl (lost_claim op))"

definition reconcileSkippedOperation ::
    "int \<Rightarrow> channel_delivery_operation \<Rightarrow> message \<Rightarrow> string \<Rightarrow> string option \<Rightarrow> db \<Rightarrow> error + db" where
  "reconcileSkippedOperation now op m reason jobId d =
     (let d1 = d\<lparr>messages := update_many
            (\<lambda>r. ms_id r = ms_id m \<and> ms_tenantId r = ms_tenantId m \<and> undelivered r)
            (set_message Ms_FAILED (metadataWith m
               (unfinished_patch ''skipped'' reason [operation_entry op] jobId ''skippedAt'' now))) (messages d)\<rparr>
      in settle_operation op
           (\<lambda>r. r\<lparr>op_status := Op_RECONCILED,
                  op_result := Some (JObj [(''status'', JStr ''skipped''), (''reason'', JStr reason), job_entry jobId]),
                  op_errorCode := Some reason, op_completedAt := Some now, op_reconciledAt := Some now\<rparr>) d1)"

text \<open>The message of a delivery, which must still be undelivered.\<close>

definition update_delivered_message ::
    "message \<Rightarrow> string \<Rightarrow> string \<Rightarrow> MessageStatus \<Rightarrow> json_object \<Rightarrow> db \<Rightarrow> error + db" where
  "update_delivered_message m tenantId conversationId st patch d =
     (let sel = (\<lambda>r. ms_id r = ms_id m \<and> ms_tenantId r = tenantId \<and>
                     ms_conversationId r = conversationId \<and> undelivered r)
      in if count_where sel (messages d) \<noteq> 1
         then Inl (Error (''Message '' @ ms_id m @ '' changed during channel delivery.''))
         else Inr (d\<lparr>messages := update_many sel (set_message st (metadataWith m patch)) (messages d)\<rparr>))"

definition commitWebhookDeliveryFailure ::
    "int \<Rightarrow> channel_delivery_operation \<Rightarrow> message \<Rightarrow> webhook_failure \<Rightarrow> string option \<Rightarrow> db \<Rightarrow> error + db" where
  "commitWebhookDeliveryFailure now op m f jobId d =
     andThen (update_delivered_message m (ms_tenantId m) (ms_conversationId m) Ms_FAILED
         (unfinished_patch ''failed'' (toLowerCase (webhookCode_text (wf_code f))) [operation_entry op]
            jobId ''failedAt'' now) d)
       (settle_operation op
         (\<lambda>r. r\<lparr>op_status := Op_FAILED,
                op_result := Some (JObj [(''status'', JStr ''failed''),
                  (''code'', JStr (webhookCode_text (wf_code f))),
                  (''providerOutcome'', JStr (webhookOutcome_text (wf_outcome f))),
                  (''retryable'', JBool (wf_retryable f)), (''httpStatus'', http_status_json f),
                  job_entry jobId]),
                op_errorCode := Some (webhookCode_text (wf_code f)), op_errorMessage := None,
                op_completedAt := Some now, op_nextRetryAt := None\<rparr>))"

definition commitAdapterFailure ::
    "int \<Rightarrow> channel_delivery_operation \<Rightarrow> message \<Rightarrow> send_result \<Rightarrow> string option \<Rightarrow> db \<Rightarrow> error + db" where
  "commitAdapterFailure now op m out jobId d =
     (let reason = ''adapter_status_'' @ sendStatus_text (sr_sendStatus out) in
      andThen (update_delivered_message m (ms_tenantId m) (ms_conversationId m) Ms_FAILED
         (unfinished_patch ''failed'' reason [operation_entry op] jobId ''failedAt'' now) d)
       (settle_operation op
         (\<lambda>r. r\<lparr>op_status := Op_FAILED, op_providerMessageId := Some (sr_externalMessageId out),
                op_result := Some (JObj [(''status'', JStr ''failed''),
                  (''adapterStatus'', JStr (sendStatus_text (sr_sendStatus out))),
                  (''providerExternalMessageId'', JStr (sr_externalMessageId out)), job_entry jobId]),
                op_errorCode := Some reason, op_errorMessage := None, op_completedAt := Some now\<rparr>)))"

definition sent_patch ::
    "int \<Rightarrow> send_job \<Rightarrow> channel_delivery_operation \<Rightarrow> operation_descriptor \<Rightarrow> send_result \<Rightarrow> string option
     \<Rightarrow> json_object" where
  "sent_patch sentAt data op ds out jobId =
     [(''outboundStatus'', JStr (sendStatus_text (sr_sendStatus out))),
      (''deliveryJobId'', opt_json JStr jobId),
      (''delivery'', JObj ([(''status'', JStr ''sent''),
         (''adapterStatus'', JStr (sendStatus_text (sr_sendStatus out))),
         (''providerExternalMessageId'', JStr (sr_externalMessageId out)), operation_entry op,
         (''requestHash'', JStr (od_requestHash ds))] @ run_entries data @
         [job_entry jobId, (''sentAt'', JStr (toISOString sentAt))]))]"

definition sent_audit ::
    "send_job \<Rightarrow> channel_delivery_operation \<Rightarrow> delivery_context \<Rightarrow> send_result \<Rightarrow> string option \<Rightarrow> audit_log" where
  "sent_audit data op ctx out jobId =
     \<lparr>al_tenantId = sj_tenantId data, al_actorUserId = None, al_action = ''channel.message.sent'',
      al_entityType = ''message'', al_entityId = Some (ms_id (dc_message ctx)),
      al_payload = JObj ([(''source'', JStr (sj_source data)), (''conversationId'', JStr (sj_conversationId data)),
        (''channelId'', JStr (ch_id (dc_channel ctx))),
        (''channelType'', JStr (channelType_text (ch_type (dc_channel ctx)))),
        (''adapterStatus'', JStr (sendStatus_text (sr_sendStatus out))),
        (''providerExternalMessageId'', JStr (sr_externalMessageId out)), operation_entry op,
        (''requestHash'', JStr (od_requestHash (dc_descriptor ctx))),
        (''deliveryVersion'', JInt (od_deliveryVersion (dc_descriptor ctx)))] @ run_entries data @
        [(''graphRunId'', opt_json JStr (sj_graphRunId data)),
         (''triggerMessageId'', opt_json JStr (sj_triggerMessageId data)), job_entry jobId])\<rparr>"

definition commitSuccessfulDelivery ::
    "int \<Rightarrow> send_job \<Rightarrow> channel_delivery_operation \<Rightarrow> delivery_context \<Rightarrow> send_result \<Rightarrow> string option
     \<Rightarrow> db \<Rightarrow> error + db" where
  "commitSuccessfulDelivery sentAt data op ctx out jobId d =
     andThen (update_delivered_message (dc_message ctx) (sj_tenantId data) (sj_conversationId data) Ms_SENT
         (sent_patch sentAt data op (dc_descriptor ctx) out jobId) d)
       (\<lambda>d1. let d2 = d1\<lparr>auditLogs := auditLogs d1 @ [sent_audit data op ctx out jobId]\<rparr>;
                 sel = (\<lambda>r. op_id r = op_id op \<and> op_status r = Op_STARTED \<and>
                            op_requestHash r = od_requestHash (dc_descriptor ctx))
             in if count_where sel (channelDeliveryOperations d2) \<noteq> 1 then Inl (lost_claim op)
                else Inr (d2\<lparr>channelDeliveryOperations := update_many sel
                  (\<lambda>r. r\<lparr>op_status := Op_SUCCEEDED, op_providerMessageId := Some (sr_externalMessageId out),
                     op_result := Some (JObj ([(''status'', JStr ''sent''),
                       (''adapterStatus'', JStr (sendStatus_text (sr_sendStatus out))),
                       (''providerExternalMessageId'', JStr (sr_externalMessageId out)),
                       (''messageId'', JStr (ms_id (dc_message ctx)))] @ run_entries data @ [job_entry jobId])),
                     op_errorCode := None, op_errorMessage := None, op_completedAt := Some sentAt\<rparr>)
                  (channelDeliveryOperations d2)\<rparr>))"

section \<open>The transaction that sends\<close>

definition configuration_changed :: "host \<Rightarrow> channel \<Rightarrow> channel \<Rightarrow> bool" where
  "configuration_changed h current ch =
     (ch_externalId current \<noteq> ch_externalId ch \<or>
      ch_encryptedCredentials current \<noteq> ch_encryptedCredentials ch \<or>
      delivery_digest h (opt_json (\<lambda>v. v) (ch_settings current)) \<noteq>
        delivery_digest h (opt_json (\<lambda>v. v) (ch_settings ch)))"

definition decrypt_credentials :: "delivery_env \<Rightarrow> channel \<Rightarrow> error + json_object option" where
  "decrypt_credentials env ch =
     (if truthy (ch_encryptedCredentials ch)
      then andThen (dn_decrypt env (the (ch_encryptedCredentials ch))) (\<lambda>c. Inr (Some c))
      else Inr None)"

text \<open>The routing and the channel as they are now: why not to send, or the channel and its credentials.\<close>

definition channel_fence ::
    "delivery_env \<Rightarrow> db \<Rightarrow> send_job \<Rightarrow> delivery_context \<Rightarrow> string + channel \<times> json_object option" where
  "channel_fence env d data ctx =
     (let m = dc_message ctx; ch = dc_channel ctx in
      case List.find (\<lambda>c. cv_id c = ms_conversationId m \<and> cv_tenantId c = ms_tenantId m \<and> cv_deletedAt c = None)
             (conversations d) of
        None \<Rightarrow> Inl ''channel_conversation_not_found''
      | Some c \<Rightarrow>
          if cv_channelId c \<noteq> Some (ch_id ch) \<or>
             cv_externalConversationId c \<noteq> cv_externalConversationId (lm_conversation (dc_loaded ctx))
          then Inl ''channel_routing_changed''
          else (case List.find (\<lambda>x. ch_id x = ch_id ch \<and> ch_tenantId x = ms_tenantId m \<and> ch_deletedAt x = None)
                        (channels d) of
                  None \<Rightarrow> Inl ''channel_not_active''
                | Some current \<Rightarrow>
                    if ch_status current \<noteq> Ch_ACTIVE then Inl ''channel_not_active''
                    else if ch_type current \<noteq> expectedChannelType (sj_source data)
                    then Inl ''channel_type_changed''
                    else if configuration_changed (dn_host env) current ch
                    then Inl ''channel_configuration_changed''
                    else (case decrypt_credentials env current of
                            Inl _ \<Rightarrow> Inl ''channel_credentials_invalid''
                          | Inr credentials \<Rightarrow>
                              if ch_type current = TELEGRAM \<and> telegramBotToken credentials = None
                              then Inl ''telegram_credentials_missing''
                              else Inr (current, credentials))))"

definition send_input_of ::
    "send_job \<Rightarrow> string option \<Rightarrow> delivery_context \<Rightarrow> channel_delivery_operation \<Rightarrow> channel
     \<Rightarrow> json_object option \<Rightarrow> send_input" where
  "send_input_of data jobId ctx op current credentials =
     \<lparr>si_tenantId = sj_tenantId data,
      si_channelAccountId = (case ch_externalId current of Some x \<Rightarrow> x | None \<Rightarrow> ch_id current),
      si_conversationId = ms_conversationId (dc_message ctx),
      si_externalConversationId = od_recipientKey (dc_descriptor ctx), si_text = dc_text ctx,
      si_settings = ch_settings current, si_credentials = credentials,
      si_metadata =
        [(''messageId'', JStr (ms_id (dc_message ctx))), (''graphRunId'', opt_json JStr (sj_graphRunId data)),
         (''triggerMessageId'', opt_json JStr (sj_triggerMessageId data)),
         (''raw'', triggerRaw (dc_loaded ctx) (sj_triggerMessageId data)),
         (''deliveryJobId'', opt_json JStr jobId), operation_entry op,
         (''deliveryRequestHash'', JStr (od_requestHash (dc_descriptor ctx))),
         (''deliveryVersion'', JInt (od_deliveryVersion (dc_descriptor ctx)))] @ run_entries data\<rparr>"

text \<open>
  What the transaction decides before the provider is called: an error, a reason not to send, or the
  adapter with its input.
\<close>

definition authorize_send ::
    "delivery_env \<Rightarrow> db \<Rightarrow> send_job \<Rightarrow> string option \<Rightarrow> delivery_context \<Rightarrow> channel_delivery_operation
     \<Rightarrow> error + (string + channel_adapter \<times> send_input)" where
  "authorize_send env d data jobId ctx op =
     (case channel_fence env d data ctx of
        Inl reason \<Rightarrow> Inr (Inl reason)
      | Inr (current, credentials) \<Rightarrow>
          andThen (lockedAiReplyFenceReason env d data (dc_message ctx)) (\<lambda>replyReason.
            case replyReason of
              Some reason \<Rightarrow> Inr (Inl reason)
            | None \<Rightarrow>
                andThen (structuredReplyFenceReason env (\<lambda>_. d) data (dc_message ctx)) (\<lambda>structuredReason.
                  case structuredReason of
                    Some reason \<Rightarrow> Inr (Inl reason)
                  | None \<Rightarrow>
                      (case adapterFor env (dc_loaded ctx) of
                         None \<Rightarrow> Inr (Inl ''unsupported_channel_adapter'')
                       | Some adapter \<Rightarrow>
                           (case dn_abort env 0 of
                              Some e \<Rightarrow> Inl e
                            | None \<Rightarrow> Inr (Inr (adapter, send_input_of data jobId ctx op current credentials)))))))"

section \<open>Deliveries\<close>

text \<open>
  The program points of a delivery: each constructor holds what the code holds in its variables
  there. \<open>Finished\<close> is the end of the promise.
\<close>

datatype delivery_point =
    Load
  | Skip message string
  | Fail message string
  | Request delivery_context
  | Create delivery_context
  | Refind delivery_context error
  | Claim delivery_context channel_delivery_operation
  | Reread delivery_context string bool
  | Send delivery_context channel_delivery_operation
  | Reconcile delivery_context channel_delivery_operation string
  | Retry channel_delivery_operation webhook_failure
  | Reject delivery_context channel_delivery_operation webhook_failure
  | Release channel_delivery_operation delivery_error
  | Commit delivery_context channel_delivery_operation send_result
  | Undecided channel_delivery_operation string delivery_error
  | Finished "delivery_error + delivery_result"

abbreviation Throw :: "error \<Rightarrow> delivery_point" where
  "Throw e \<equiv> Finished (Inl (Other e))"

text \<open>The message of the job with what its query includes.\<close>

definition load_message :: "send_job \<Rightarrow> db \<Rightarrow> loaded_message option" where
  "load_message data d =
     (case List.find (\<lambda>m. ms_id m = sj_messageId data \<and> ms_tenantId m = sj_tenantId data \<and>
             ms_conversationId m = sj_conversationId data \<and> ms_direction m = OUTBOUND \<and>
             ms_senderType m \<in> {Sn_AI, Sn_USER, Sn_SYSTEM}) (messages d) of
        None \<Rightarrow> None
      | Some m \<Rightarrow>
          (case List.find (\<lambda>c. cv_id c = ms_conversationId m \<and> cv_tenantId c = ms_tenantId m) (conversations d) of
             None \<Rightarrow> None
           | Some c \<Rightarrow>
               (let inbound = filter (\<lambda>x. ms_conversationId x = cv_id c \<and> ms_tenantId x = cv_tenantId c \<and>
                        ms_direction x = INBOUND) (messages d)
                in Some \<lparr>lm_message = m, lm_conversation = c,
                     lm_channel = List.find (\<lambda>h. Some (ch_id h) = cv_channelId c \<and> ch_tenantId h = cv_tenantId c)
                       (channels d),
                     lm_inbound = take 1 (if truthy (sj_triggerMessageId data)
                       then filter (\<lambda>x. Some (ms_id x) = sj_triggerMessageId data \<and> ms_senderType x = Sn_CUSTOMER) inbound
                       else js_sort (\<lambda>x y. ms_createdAt y - ms_createdAt x) inbound)\<rparr>)))"

fun messageStatus_lower :: "MessageStatus \<Rightarrow> string" where
  "messageStatus_lower Ms_RECEIVED = ''received''"
| "messageStatus_lower Ms_QUEUED = ''queued''"
| "messageStatus_lower Ms_SENT = ''sent''"
| "messageStatus_lower Ms_DELIVERED = ''delivered''"
| "messageStatus_lower Ms_FAILED = ''failed''"

text \<open>The checks of the channel, text and credentials of a message that no fence holds back.\<close>

definition prepare_delivery :: "delivery_env \<Rightarrow> send_job \<Rightarrow> loaded_message \<Rightarrow> delivery_point" where
  "prepare_delivery env data l =
     (let m = lm_message l in
      case lm_channel l of
        None \<Rightarrow> Fail m ''channel_not_active''
      | Some ch \<Rightarrow>
          if ch_deletedAt ch \<noteq> None \<or> ch_status ch \<noteq> Ch_ACTIVE then Fail m ''channel_not_active''
          else if ch_type ch \<noteq> expectedChannelType (sj_source data)
          then Fail m (''channel_type_'' @ toLowerCase (channelType_text (ch_type ch)) @ ''_does_not_match_'' @ sj_source data)
          else if adapterFor env l = None then Fail m ''unsupported_channel_adapter''
          else (let text = map_option js_trim (ms_text m) in
            if \<not> truthy text then Fail m ''message_text_empty''
            else (case decrypt_credentials env ch of
                    Inl _ \<Rightarrow> Fail m ''channel_credentials_invalid''
                  | Inr credentials \<Rightarrow>
                      if ch_type ch = TELEGRAM \<and> telegramBotToken credentials = None
                      then Fail m ''telegram_credentials_missing''
                      else (case dn_abort env 3 of
                              Some e \<Rightarrow> Throw e
                            | None \<Rightarrow> Request \<lparr>dc_loaded = l, dc_channel = ch, dc_text = the text,
                                dc_descriptor = operationDescriptor (dn_host env) data l ch (the text)\<rparr>))))"

definition fence_delivery :: "delivery_env \<Rightarrow> send_job \<Rightarrow> loaded_message \<Rightarrow> delivery_point" where
  "fence_delivery env data l =
     (let m = lm_message l in
      case systemMessageFenceReason data m of
        Some reason \<Rightarrow> Skip m reason
      | None \<Rightarrow>
          (case aiReplyFenceReason env (dn_reads env 2) (dn_reads env 3) data l of
             Some reason \<Rightarrow> Skip m reason
           | None \<Rightarrow>
               (case structuredReplyFenceReason env (\<lambda>n. dn_reads env (4 + n)) data m of
                  Inl e \<Rightarrow> Throw e
                | Inr (Some reason) \<Rightarrow> Skip m reason
                | Inr None \<Rightarrow> prepare_delivery env data l)))"

definition load_delivery :: "delivery_env \<Rightarrow> send_job \<Rightarrow> db \<Rightarrow> delivery_point" where
  "load_delivery env data d =
     (case dn_abort env 0 of
        Some e \<Rightarrow> Throw e
      | None \<Rightarrow>
          (let loaded = load_message data d in
           case dn_abort env 1 of
             Some e \<Rightarrow> Throw e
           | None \<Rightarrow>
               (case loaded of
                  None \<Rightarrow> Throw (Error (''Message '' @ sj_messageId data @ '' was not found for channel delivery.''))
                | Some l \<Rightarrow>
                    (let m = lm_message l; existing = latest_operation data m (dn_reads env 1) in
                     case dn_abort env 2 of
                       Some e \<Rightarrow> Throw e
                     | None \<Rightarrow>
                         (case (case existing of None \<Rightarrow> None | Some op \<Rightarrow> settledOperationResult op m) of
                            Some r \<Rightarrow> Finished (Inr r)
                          | None \<Rightarrow>
                              if ms_status m = Ms_SENT \<or> ms_status m = Ms_DELIVERED
                              then Finished (Inr (delivery_result0 Ds_already_delivered m
                                     (if ms_status m = Ms_SENT then ''SENT'' else ''DELIVERED'')))
                              else if \<not> undelivered m
                              then Finished (Inr (delivery_result0 Ds_skipped m
                                     (''message_status_'' @ messageStatus_lower (ms_status m))))
                              else fence_delivery env data l)))))"

text \<open>
  The world of the deliveries: the database, and every call a provider received with its answer. A
  call names the operation it was made for and the attempt the worker had claimed.
\<close>

record provider_call =
  pv_operation :: string
  pv_attempt :: int
  pv_input :: send_input
  pv_answer :: "delivery_error + send_result"

record world =
  wd_db :: db
  wd_calls :: "provider_call list"

definition run_write :: "fault \<Rightarrow> (db \<Rightarrow> error + ('a \<times> db)) \<Rightarrow> world \<Rightarrow> world \<times> (error + 'a)" where
  "run_write f stmt w =
     (case f of
        Not_executed e \<Rightarrow> (w, Inl e)
      | _ \<Rightarrow>
          (case stmt (wd_db w) of
             Inl e \<Rightarrow> (w, Inl e)
           | Inr (x, d') \<Rightarrow>
               (w\<lparr>wd_db := d'\<rparr>, (case f of Not_acknowledged e \<Rightarrow> Inl e | _ \<Rightarrow> Inr x))))"

text \<open>A write that yields nothing, and one that cannot fail by itself.\<close>

definition unit_tx :: "(db \<Rightarrow> error + db) \<Rightarrow> db \<Rightarrow> error + (unit \<times> db)" where
  "unit_tx stmt d = andThen (stmt d) (\<lambda>d'. Inr ((), d'))"

definition safe_tx :: "(db \<Rightarrow> 'a \<times> db) \<Rightarrow> db \<Rightarrow> error + ('a \<times> db)" where
  "safe_tx stmt d = Inr (stmt d)"

definition max_attempts :: "delivery_env \<Rightarrow> int" where
  "max_attempts env =
     (case dn_dependencies env of
        None \<Rightarrow> 3
      | Some deps \<Rightarrow> (case dd_maxDeliveryAttempts deps of None \<Rightarrow> 3 | Some n \<Rightarrow> if n > 0 then n else 3))"

text \<open>The handler of an error of the transaction that sends.\<close>

definition recover ::
    "delivery_env \<Rightarrow> delivery_context \<Rightarrow> channel_delivery_operation \<Rightarrow> delivery_error \<Rightarrow> bool \<Rightarrow> delivery_point" where
  "recover env ctx op e providerStarted =
     (if \<not> providerStarted then Release op e
      else (case e of
              WebhookDeliveryError f \<Rightarrow>
                if wf_outcome f = Wo_UNKNOWN then Undecided op (webhookCode_text (wf_code f)) e
                else if wf_retryable f \<and> op_attemptCount op < max_attempts env then Retry op f
                else Reject ctx op f
            | Other _ \<Rightarrow> Undecided op ''ADAPTER_OUTCOME_UNKNOWN'' e))"

definition send_step ::
    "delivery_env \<Rightarrow> send_job \<Rightarrow> string option \<Rightarrow> delivery_context \<Rightarrow> channel_delivery_operation
     \<Rightarrow> world \<Rightarrow> world \<times> delivery_point" where
  "send_step env data jobId ctx op w =
     (case dn_fault env of
        Not_executed e \<Rightarrow> (w, recover env ctx op (Other e) False)
      | f \<Rightarrow>
          (case authorize_send env (wd_db w) data jobId ctx op of
             Inl e \<Rightarrow> (w, recover env ctx op (Other e) False)
           | Inr (Inl reason) \<Rightarrow>
               (w, case f of Not_acknowledged e \<Rightarrow> recover env ctx op (Other e) False
                           | _ \<Rightarrow> Reconcile ctx op reason)
           | Inr (Inr (adapter, input)) \<Rightarrow>
               (let answer = adapter input;
                    w' = w\<lparr>wd_calls := wd_calls w @ [\<lparr>pv_operation = op_id op,
                           pv_attempt = op_attemptCount op, pv_input = input, pv_answer = answer\<rparr>]\<rparr>
                in (w', case answer of
                          Inl e \<Rightarrow> recover env ctx op e True
                        | Inr out \<Rightarrow>
                            (case dn_abort env 1 of
                               Some e \<Rightarrow> recover env ctx op (Other e) True
                             | None \<Rightarrow>
                                 (case f of Not_acknowledged e \<Rightarrow> recover env ctx op (Other e) True
                                          | _ \<Rightarrow> Commit ctx op out))))))"

text \<open>An operation that was found or created, before it is claimed.\<close>

definition requested :: "delivery_context \<Rightarrow> channel_delivery_operation \<Rightarrow> delivery_point" where
  "requested ctx op =
     (case settledOperationResult op (dc_message ctx) of
        Some r \<Rightarrow> Finished (Inr r)
      | None \<Rightarrow> Claim ctx op)"

text \<open>A loaded operation that must be the one of the descriptor.\<close>

definition checked ::
    "delivery_context \<Rightarrow> channel_delivery_operation \<Rightarrow> (channel_delivery_operation \<Rightarrow> delivery_point) \<Rightarrow> delivery_point" where
  "checked ctx op k = (if operationMatches op ctx then k op else Finished (Inl (operation_conflict (dc_message ctx))))"

definition claimed_point :: "delivery_context \<Rightarrow> string \<Rightarrow> bool \<Rightarrow> db \<Rightarrow> delivery_point" where
  "claimed_point ctx i claimed d =
     (case List.find (\<lambda>r. op_id r = i) (channelDeliveryOperations d) of
        None \<Rightarrow> Throw (Error (''Channel delivery operation '' @ i @ '' disappeared during claim.''))
      | Some current \<Rightarrow> checked ctx current (\<lambda>op.
          if claimed then Send ctx op
          else (case settledOperationResult op (dc_message ctx) of
                  Some r \<Rightarrow> Finished (Inr r)
                | None \<Rightarrow> Throw (Error (''Channel delivery operation '' @ i @ '' could not be claimed.'')))))"

text \<open>\<open>on_write\<close> runs a write and continues with its result.\<close>

definition on_write ::
    "delivery_env \<Rightarrow> (db \<Rightarrow> error + ('a \<times> db)) \<Rightarrow> world \<Rightarrow> (error \<Rightarrow> delivery_point) \<Rightarrow> ('a \<Rightarrow> delivery_point)
     \<Rightarrow> world \<times> delivery_point" where
  "on_write env stmt w bad good =
     (case run_write (dn_fault env) stmt w of
        (w', Inl e) \<Rightarrow> (w', bad e)
      | (w', Inr x) \<Rightarrow> (w', good x))"

fun delivery_step ::
    "delivery_env \<Rightarrow> send_job \<Rightarrow> string option \<Rightarrow> delivery_point \<Rightarrow> world \<Rightarrow> world \<times> delivery_point" where
  "delivery_step env data jobId Load w = (w, load_delivery env data (wd_db w))"
| "delivery_step env data jobId (Skip m reason) w =
     on_write env (safe_tx (\<lambda>d. ((), markSkipped (dn_now env) m reason jobId d))) w
       Throw (\<lambda>_. Finished (Inr (delivery_result0 Ds_skipped m reason)))"
| "delivery_step env data jobId (Fail m reason) w =
     on_write env (unit_tx (markFailed (dn_now env) m reason jobId)) w
       Throw (\<lambda>_. Throw (Error reason))"
| "delivery_step env data jobId (Request ctx) w =
     (w, case findOperation ctx (wd_db w) of
           Some op \<Rightarrow> checked ctx op (requested ctx)
         | None \<Rightarrow> Create ctx)"
| "delivery_step env data jobId (Create ctx) w =
     on_write env (createOperation (dn_now env) ctx) w (Refind ctx) (requested ctx)"
| "delivery_step env data jobId (Refind ctx e) w =
     (w, case findOperation ctx (wd_db w) of
           Some op \<Rightarrow> checked ctx op (requested ctx)
         | None \<Rightarrow> Throw e)"
| "delivery_step env data jobId (Claim ctx op) w =
     (case dn_abort env 0 of
        Some e \<Rightarrow> (w, Throw e)
      | None \<Rightarrow>
          on_write env (safe_tx (claimOperation (dn_now env) (op_id op) (od_requestHash (dc_descriptor ctx)))) w
            Throw (Reread ctx (op_id op)))"
| "delivery_step env data jobId (Reread ctx i claimed) w = (w, claimed_point ctx i claimed (wd_db w))"
| "delivery_step env data jobId (Send ctx op) w = send_step env data jobId ctx op w"
| "delivery_step env data jobId (Reconcile ctx op reason) w =
     on_write env (unit_tx (reconcileSkippedOperation (dn_now env) op (dc_message ctx) reason jobId)) w
       (\<lambda>e. recover env ctx op (Other e) False)
       (\<lambda>_. Finished (Inr (operation_result Ds_skipped (dc_message ctx) reason op)))"
| "delivery_step env data jobId (Retry op f) w =
     on_write env (safe_tx (releaseRetryableWebhookOperation (dn_now env) (op_id op) f)) w
       Throw
       (\<lambda>found. if found then Finished (Inl (WebhookDeliveryError f))
          else Throw (Error (''Channel delivery operation '' @ op_id op @ '' lost its retry claim.'')))"
| "delivery_step env data jobId (Reject ctx op f) w =
     on_write env (unit_tx (commitWebhookDeliveryFailure (dn_now env) op (dc_message ctx) f jobId)) w
       Throw
       (\<lambda>_. Finished (Inr (operation_result Ds_failed (dc_message ctx) (toLowerCase (webhookCode_text (wf_code f))) op)))"
| "delivery_step env data jobId (Release op e) w =
     on_write env (safe_tx (releaseUnstartedOperation (dn_now env) (op_id op) e)) w
       Throw (\<lambda>_. Finished (Inl e))"
| "delivery_step env data jobId (Commit ctx op out) w =
     (if \<not> successfulStatus (sr_sendStatus out) then
        on_write env (unit_tx (commitAdapterFailure (dn_now env) op (dc_message ctx) out jobId)) w
          (\<lambda>e. Undecided op ''DELIVERY_FAILURE_COMMIT_UNKNOWN'' (Other e))
          (\<lambda>_. Throw (Error (''adapter_status_'' @ sendStatus_text (sr_sendStatus out))))
      else
        on_write env (unit_tx (commitSuccessfulDelivery (dn_now env) data op ctx out jobId)) w
          (\<lambda>e. Undecided op ''DELIVERY_SUCCESS_COMMIT_UNKNOWN'' (Other e))
          (\<lambda>_. Finished (Inr \<lparr>dl_status = Ds_sent, dl_messageId = ms_id (dc_message ctx),
             dl_outboundStatus = Some (sr_sendStatus out),
             dl_providerExternalMessageId = Some (sr_externalMessageId out), dl_reason = None,
             dl_deliveryOperationId = Some (op_id op)\<rparr>)))"
| "delivery_step env data jobId (Undecided op code e) w =
     on_write env (safe_tx (recordUnknownOperation (dn_now env) (op_id op) code e jobId)) w
       (\<lambda>_. Finished (Inl e)) (\<lambda>_. Finished (Inl e))"
| "delivery_step env data jobId (Finished r) w = (w, Finished r)"

text \<open>Every step comes nearer to the end.\<close>

fun steps_left :: "delivery_point \<Rightarrow> nat" where
  "steps_left Load = 9"
| "steps_left (Request ctx) = 8"
| "steps_left (Create ctx) = 7"
| "steps_left (Refind ctx e) = 6"
| "steps_left (Claim ctx op) = 5"
| "steps_left (Reread ctx i claimed) = 4"
| "steps_left (Send ctx op) = 3"
| "steps_left (Reconcile ctx op reason) = 2"
| "steps_left (Commit ctx op out) = 2"
| "steps_left (Finished r) = 0"
| "steps_left p = 1"

lemma recover_steps [simp]: "steps_left (recover env ctx op e b) = 1"
  by (auto simp: recover_def split: delivery_error.splits)

lemma on_write_steps:
  assumes "on_write env stmt w bad good = (w', p)"
    and "\<And>e. steps_left (bad e) < n" and "\<And>x. steps_left (good x) < n"
  shows "steps_left p < n"
  using assms by (auto simp: on_write_def split: prod.splits sum.splits)

lemma requested_steps: "steps_left (requested ctx op) \<le> 5"
  by (auto simp: requested_def split: option.splits)

lemma load_steps: "steps_left (load_delivery env data d) < 9"
  by (auto simp: load_delivery_def fence_delivery_def prepare_delivery_def Let_def
      split: option.splits sum.splits if_splits)

lemma checked_steps: "(\<And>op. steps_left (k op) < n) \<Longrightarrow> 0 < n \<Longrightarrow> steps_left (checked ctx op k) < n"
  by (simp add: checked_def)

lemma claimed_steps: "steps_left (claimed_point ctx i claimed d) < 4"
  by (auto simp: claimed_point_def checked_def split: option.splits)

lemma send_steps: "send_step env data jobId ctx op w = (w', p) \<Longrightarrow> steps_left p < 3"
  by (auto simp: send_step_def Let_def split: fault.splits sum.splits option.splits prod.splits)

lemma requested_less: "5 < n \<Longrightarrow> steps_left (requested ctx op) < n"
  using requested_steps [of ctx op] by simp

lemma on_write_ends:
  assumes "on_write env stmt w bad good = (w', p)"
    and "\<And>e. steps_left (bad e) = 0" and "\<And>x. steps_left (good x) = 0"
  shows "steps_left p = 0"
  using on_write_steps [OF assms(1), of 1] assms(2,3) by simp

lemma delivery_step_decreases:
  assumes "\<forall>r. p \<noteq> Finished r"
  shows "steps_left (snd (delivery_step env data jobId p w)) < steps_left p"
proof (cases "delivery_step env data jobId p w")
  case (Pair w' p')
  then have "steps_left p' < steps_left p"
    using assms
    by (cases p)
       (auto elim!: on_write_steps on_write_ends simp: load_steps claimed_steps send_steps requested_less
         split: option.splits if_splits intro: checked_steps)
  with Pair show ?thesis by simp
qed

text \<open>
  \<open>deliverChannelMessage\<close>: the steps from the first point to the end, the n-th in the surroundings
  \<open>envs n\<close> and after what the rest of the system did, \<open>others n\<close>.
\<close>

function run_delivery ::
    "(nat \<Rightarrow> delivery_env) \<Rightarrow> (nat \<Rightarrow> world \<Rightarrow> world) \<Rightarrow> send_job \<Rightarrow> string option \<Rightarrow> nat \<Rightarrow> delivery_point
     \<Rightarrow> world \<Rightarrow> world \<times> (delivery_error + delivery_result)" where
  "run_delivery envs others data jobId n p w =
     (case p of
        Finished r \<Rightarrow> (w, r)
      | _ \<Rightarrow>
          (let next = delivery_step (envs n) data jobId p (others n w)
           in run_delivery envs others data jobId (Suc n) (snd next) (fst next)))"
  by pat_completeness auto
termination
  by (relation "measure (\<lambda>(envs, others, data, jobId, n, p, w). steps_left p)")
     (auto simp del: delivery_step.simps steps_left.simps intro!: delivery_step_decreases)

declare run_delivery.simps [simp del]

definition deliverChannelMessage ::
    "(nat \<Rightarrow> delivery_env) \<Rightarrow> (nat \<Rightarrow> world \<Rightarrow> world) \<Rightarrow> send_job \<Rightarrow> string option \<Rightarrow> world
     \<Rightarrow> world \<times> (delivery_error + delivery_result)" where
  "deliverChannelMessage envs others data jobId w = run_delivery envs others data jobId 0 Load w"

end
