(* ===== verification/Delivery_Protocol.thy ===== *)
theory Delivery_Protocol
  imports Channel_Delivery
begin

text \<open>
  Any number of deliveries at once: the reachable worlds of workers that take the steps of
  \<open>Channel_Delivery\<close> in any order, may stop at any point, and run beside operators and the rest
  of the system. The invariant says, for every operation on its own, what its row, the calls made
  for it and the one worker that holds it know of each other.
\<close>

section \<open>The reachable worlds\<close>

text \<open>
  The statement by which an operator settles an operation of unknown outcome
  (\<open>commitReconciliation\<close>).
\<close>

definition reconcileUnknown :: "int \<Rightarrow> string \<Rightarrow> string \<Rightarrow> int \<Rightarrow> bool \<Rightarrow> db \<Rightarrow> db" where
  "reconcileUnknown now tenantId i generation succeeded d =
     d\<lparr>channelDeliveryOperations := update_many
         (\<lambda>r. op_id r = i \<and> op_tenantId r = tenantId \<and> op_status r = Op_UNKNOWN \<and>
              op_deliveryVersion r = generation)
         (\<lambda>r. r\<lparr>op_status := (if succeeded then Op_SUCCEEDED else Op_FAILED), op_reconciledAt := Some now,
                op_completedAt := Some now,
                op_errorCode := (if succeeded then None else Some ''OPERATOR_PROVIDER_CONFIRMED_FAILED''),
                op_errorMessage := None\<rparr>) (channelDeliveryOperations d)\<rparr>"

record delivery_worker =
  wk_job :: send_job
  wk_jobId :: "string option"
  wk_point :: delivery_point

text \<open>
  At the start there is no operation and every worker is idle. A worker that is done takes another
  job; a step of a worker runs in any surroundings whose limit of attempts is at most \<open>K\<close>; a worker
  that stops never continues; other code does not write operations.
\<close>

inductive delivery_reach :: "int \<Rightarrow> world \<Rightarrow> (nat \<Rightarrow> delivery_worker) \<Rightarrow> bool" for K where
  start: "channelDeliveryOperations (wd_db w) = [] \<Longrightarrow> wd_calls w = [] \<Longrightarrow>
     \<forall>i. \<exists>r. wk_point (ws i) = Finished r \<Longrightarrow> delivery_reach K w ws"
| job: "delivery_reach K w ws \<Longrightarrow> wk_point (ws i) = Finished r \<Longrightarrow>
     delivery_reach K w (ws(i := \<lparr>wk_job = data, wk_jobId = jobId, wk_point = Load\<rparr>))"
| advance: "delivery_reach K w ws \<Longrightarrow> max_attempts env \<le> K \<Longrightarrow>
     delivery_step env (wk_job (ws i)) (wk_jobId (ws i)) (wk_point (ws i)) w = (w', p) \<Longrightarrow>
     delivery_reach K w' (ws(i := (ws i)\<lparr>wk_point := p\<rparr>))"
| stop: "delivery_reach K w ws \<Longrightarrow> delivery_reach K w (ws(i := (ws i)\<lparr>wk_point := Finished r\<rparr>))"
| operator: "delivery_reach K w ws \<Longrightarrow>
     delivery_reach K (w\<lparr>wd_db := reconcileUnknown now t i g s (wd_db w)\<rparr>) ws"
| other: "delivery_reach K w ws \<Longrightarrow> channelDeliveryOperations d = channelDeliveryOperations (wd_db w) \<Longrightarrow>
     delivery_reach K (w\<lparr>wd_db := d\<rparr>) ws"

section \<open>The view of one operation\<close>

definition operation_row :: "world \<Rightarrow> string \<Rightarrow> channel_delivery_operation option" where
  "operation_row w x = List.find (\<lambda>r. op_id r = x) (channelDeliveryOperations (wd_db w))"

definition operation_calls :: "world \<Rightarrow> string \<Rightarrow> provider_call list" where
  "operation_calls w x = filter (\<lambda>c. pv_operation c = x) (wd_calls w)"

text \<open>A call that surely had no effect, after which the attempt may be repeated.\<close>

definition failed_for_sure :: "int \<Rightarrow> provider_call \<Rightarrow> bool" where
  "failed_for_sure K c =
     (case pv_answer c of
        Inl (WebhookDeliveryError f) \<Rightarrow> wf_outcome f \<noteq> Wo_UNKNOWN \<and> wf_retryable f \<and> pv_attempt c < K
      | _ \<Rightarrow> False)"

definition accepted :: "provider_call \<Rightarrow> bool" where
  "accepted c = (case pv_answer c of Inr out \<Rightarrow> successfulStatus (sr_sendStatus out) | Inl _ \<Rightarrow> False)"

fun holds :: "delivery_point \<Rightarrow> string option" where
  "holds (Reread ctx i claimed) = (if claimed then Some i else None)"
| "holds (Send ctx op) = Some (op_id op)"
| "holds (Reconcile ctx op reason) = Some (op_id op)"
| "holds (Retry op f) = Some (op_id op)"
| "holds (Reject ctx op f) = Some (op_id op)"
| "holds (Release op e) = Some (op_id op)"
| "holds (Commit ctx op out) = Some (op_id op)"
| "holds (Undecided op code e) = Some (op_id op)"
| "holds p = None"

text \<open>No call for the attempt yet.\<close>

definition uncalled :: "int \<Rightarrow> provider_call list \<Rightarrow> bool" where
  "uncalled k cs = (\<forall>c\<in>set cs. pv_attempt c < k)"

fun point_ok :: "int \<Rightarrow> channel_delivery_operation \<Rightarrow> provider_call list \<Rightarrow> delivery_point \<Rightarrow> bool" where
  "point_ok K r cs (Reread ctx i claimed) = (op_status r = Op_STARTED \<and> uncalled (op_attemptCount r) cs)"
| "point_ok K r cs (Send ctx op) =
     (op_status r = Op_STARTED \<and> op_attemptCount op = op_attemptCount r \<and> uncalled (op_attemptCount r) cs)"
| "point_ok K r cs (Reconcile ctx op reason) =
     (op_status r = Op_STARTED \<and> uncalled (op_attemptCount r) cs)"
| "point_ok K r cs (Release op e) =
     (op_status r \<in> {Op_STARTED, Op_RECONCILED} \<and> uncalled (op_attemptCount r) cs)"
| "point_ok K r cs (Retry op f) = (op_status r = Op_STARTED \<and> list_all (failed_for_sure K) cs)"
| "point_ok K r cs (Reject ctx op f) = (op_status r = Op_STARTED)"
| "point_ok K r cs (Commit ctx op out) =
     (op_status r = Op_STARTED \<and> list_ex (\<lambda>c. pv_answer c = Inr out) cs)"
| "point_ok K r cs (Undecided op code e) = (op_status r \<in> {Op_STARTED, Op_SUCCEEDED, Op_FAILED})"
| "point_ok K r cs p = True"

text \<open>
  Every call belongs to an attempt of the row. Unless it failed for sure it belongs to the last
  one, and the operation is neither free to be claimed nor reported as skipped.
\<close>

definition call_ok :: "int \<Rightarrow> channel_delivery_operation \<Rightarrow> provider_call \<Rightarrow> bool" where
  "call_ok K r c =
     (1 \<le> pv_attempt c \<and> pv_attempt c \<le> op_attemptCount r \<and>
      (failed_for_sure K c \<or>
       pv_attempt c = op_attemptCount r \<and> op_status r \<noteq> Op_REQUESTED \<and> op_status r \<noteq> Op_RECONCILED))"

fun calls_ordered :: "int \<Rightarrow> provider_call list \<Rightarrow> bool" where
  "calls_ordered K [] = True"
| "calls_ordered K (c # cs) =
     ((cs = [] \<or> failed_for_sure K c) \<and> (\<forall>c'\<in>set cs. pv_attempt c < pv_attempt c') \<and> calls_ordered K cs)"

definition operation_ok :: "int \<Rightarrow> channel_delivery_operation option \<Rightarrow> provider_call list \<Rightarrow> bool" where
  "operation_ok K r cs =
     (case r of
        None \<Rightarrow> cs = []
      | Some r \<Rightarrow>
          0 \<le> op_attemptCount r \<and> (op_status r \<noteq> Op_REQUESTED \<longrightarrow> 1 \<le> op_attemptCount r) \<and>
          (\<forall>c\<in>set cs. call_ok K r c) \<and> calls_ordered K cs \<and>
          (op_status r = Op_SUCCEEDED \<longrightarrow> op_reconciledAt r \<noteq> None \<or> list_ex accepted cs))"

definition worker_ok :: "int \<Rightarrow> world \<Rightarrow> delivery_point \<Rightarrow> bool" where
  "worker_ok K w p =
     (case holds p of
        None \<Rightarrow> True
      | Some x \<Rightarrow> (\<exists>r. operation_row w x = Some r \<and> point_ok K r (operation_calls w x) p))"

definition exclusive :: "(nat \<Rightarrow> delivery_worker) \<Rightarrow> bool" where
  "exclusive ws =
     (\<forall>i j x. holds (wk_point (ws i)) = Some x \<longrightarrow> holds (wk_point (ws j)) = Some x \<longrightarrow> i = j)"

definition delivery_inv :: "int \<Rightarrow> world \<Rightarrow> (nat \<Rightarrow> delivery_worker) \<Rightarrow> bool" where
  "delivery_inv K w ws =
     (unique_on op_id (channelDeliveryOperations (wd_db w)) \<and>
      (\<forall>x. operation_ok K (operation_row w x) (operation_calls w x)) \<and>
      (\<forall>i. worker_ok K w (wk_point (ws i))) \<and> exclusive ws)"

section \<open>What the statements do to operations\<close>

abbreviation operations :: "world \<Rightarrow> channel_delivery_operation list" where
  "operations w \<equiv> channelDeliveryOperations (wd_db w)"

text \<open>An update of started rows of one operation that leaves their identity and gives them a status.\<close>

definition settles :: "ExternalOperationStatus \<Rightarrow> string \<Rightarrow> db \<Rightarrow> db \<Rightarrow> bool" where
  "settles st x d d' =
     (\<exists>sel f. (\<forall>r. sel r \<longrightarrow> op_id r = x \<and> op_status r = Op_STARTED) \<and>
        (\<forall>r. op_id (f r) = op_id r \<and> op_attemptCount (f r) = op_attemptCount r \<and> op_status (f r) = st) \<and>
        channelDeliveryOperations d' = update_many sel f (channelDeliveryOperations d))"

lemma settlesI:
  "channelDeliveryOperations d' = update_many sel f (channelDeliveryOperations d) \<Longrightarrow>
   (\<And>r. sel r \<Longrightarrow> op_id r = x \<and> op_status r = Op_STARTED) \<Longrightarrow>
   (\<And>r. op_id (f r) = op_id r \<and> op_attemptCount (f r) = op_attemptCount r \<and> op_status (f r) = st) \<Longrightarrow>
   settles st x d d'"
  unfolding settles_def by blast

lemma update_operation_settles:
  assumes "update_operation x Op_STARTED f d = (b, d')"
    and "\<And>r. op_id (f r) = op_id r \<and> op_attemptCount (f r) = op_attemptCount r \<and> op_status (f r) = st"
  shows "settles st x d d'"
  using assms by (auto simp: update_operation_def Let_def intro: settlesI)

lemma settle_operation_settles:
  assumes "settle_operation op f d = Inr d'"
    and "\<And>r. op_id (f r) = op_id r \<and> op_attemptCount (f r) = op_attemptCount r \<and> op_status (f r) = st"
  shows "settles st (op_id op) d d'"
  using assms update_operation_settles [OF _ assms(2)]
  by (auto simp: settle_operation_def split: prod.splits if_splits)

lemma settles_frame:
  "channelDeliveryOperations d1 = channelDeliveryOperations d \<Longrightarrow> settles st x d1 d' \<Longrightarrow> settles st x d d'"
  by (simp add: settles_def)

lemma message_update_frame:
  "update_delivered_message m t c st patch d = Inr d' \<Longrightarrow>
   channelDeliveryOperations d' = channelDeliveryOperations d"
  by (auto simp: update_delivered_message_def Let_def split: if_splits)

lemma statement_settles:
  "recordUnknownOperation now x code e jobId d = (b, d') \<Longrightarrow> settles Op_UNKNOWN x d d'"
  "releaseUnstartedOperation now x e d = (b, d') \<Longrightarrow> settles Op_REQUESTED x d d'"
  "releaseRetryableWebhookOperation now x f d = (b, d') \<Longrightarrow> settles Op_REQUESTED x d d'"
  unfolding recordUnknownOperation_def releaseUnstartedOperation_def releaseRetryableWebhookOperation_def
  by (erule update_operation_settles, simp)+

lemma reconcile_settles:
  "reconcileSkippedOperation now op m reason jobId d = Inr d' \<Longrightarrow> settles Op_RECONCILED (op_id op) d d'"
  unfolding reconcileSkippedOperation_def Let_def
  by (rule settles_frame [rotated], erule settle_operation_settles) simp_all

lemma failure_settles:
  "commitWebhookDeliveryFailure now op m f jobId d = Inr d' \<Longrightarrow> settles Op_FAILED (op_id op) d d'"
  "commitAdapterFailure now op m out jobId d = Inr d' \<Longrightarrow> settles Op_FAILED (op_id op) d d'"
  unfolding commitWebhookDeliveryFailure_def commitAdapterFailure_def Let_def andThen_Inr_iff
  by (elim exE conjE, rule settles_frame [OF message_update_frame], assumption,
      erule settle_operation_settles, simp)+

lemma success_settles:
  "commitSuccessfulDelivery now data op ctx out jobId d = Inr d' \<Longrightarrow> settles Op_SUCCEEDED (op_id op) d d'"
  unfolding commitSuccessfulDelivery_def andThen_Inr_iff
  by (auto simp: Let_def split: if_splits dest!: message_update_frame intro!: settlesI)

section \<open>Views\<close>

definition same_elsewhere :: "string \<Rightarrow> world \<Rightarrow> world \<Rightarrow> bool" where
  "same_elsewhere x w w' =
     (\<forall>y. y \<noteq> x \<longrightarrow> operation_row w' y = operation_row w y \<and> operation_calls w' y = operation_calls w y)"

lemma operation_row_id: "operation_row w x = Some r \<Longrightarrow> op_id r = x"
  by (auto simp: operation_row_def dest: find_SomeD)

lemma row_update:
  assumes "operations w' = update_many sel f (operations w)"
    and "\<And>r. sel r \<Longrightarrow> op_id r = x" and "\<And>r. op_id (f r) = op_id r"
  shows "operation_row w' x = map_option (\<lambda>r. if sel r then f r else r) (operation_row w x)"
    and "y \<noteq> x \<Longrightarrow> operation_row w' y = operation_row w y"
    and "unique_on op_id (operations w') = unique_on op_id (operations w)"
proof -
  have row: "operation_row w' y = map_option (\<lambda>r. if sel r then f r else r) (operation_row w y)" for y
    by (simp add: operation_row_def assms(1,3) find_update_many)
  then show "operation_row w' x = map_option (\<lambda>r. if sel r then f r else r) (operation_row w x)" by blast
  show "operation_row w' y = operation_row w y" if "y \<noteq> x"
    using row [of y] operation_row_id [of w y] assms(2) that
    by (cases "operation_row w y") auto
  show "unique_on op_id (operations w') = unique_on op_id (operations w)"
    using assms by (simp add: unique_on_update_many)
qed

lemma settles_view:
  assumes "settles st x (wd_db w) d" and "operation_row w x = Some r"
  defines "w' \<equiv> w\<lparr>wd_db := d\<rparr>"
  obtains r' where "operation_row w' x = Some r'"
    and "r' = r \<or> op_status r = Op_STARTED \<and> op_status r' = st \<and> op_attemptCount r' = op_attemptCount r"
    and "same_elsewhere x w w'" and "unique_on op_id (operations w') = unique_on op_id (operations w)"
proof -
  obtain sel f where sel: "\<And>r. sel r \<Longrightarrow> op_id r = x \<and> op_status r = Op_STARTED"
    and f: "\<And>r. op_id (f r) = op_id r \<and> op_attemptCount (f r) = op_attemptCount r \<and> op_status (f r) = st"
    and d: "operations w' = update_many sel f (operations w)"
    using assms(1) unfolding settles_def w'_def by auto
  have fid: "\<And>r. op_id (f r) = op_id r" and selid: "\<And>r. sel r \<Longrightarrow> op_id r = x"
    using f sel by blast+
  note view = row_update [OF d selid fid]
  show thesis
  proof (rule that)
    show "operation_row w' x = Some (if sel r then f r else r)" using view(1) assms(2) by simp
    show "(if sel r then f r else r) = r \<or> op_status r = Op_STARTED \<and> op_status (if sel r then f r else r) = st \<and>
        op_attemptCount (if sel r then f r else r) = op_attemptCount r"
      using sel f by simp
    show "same_elsewhere x w w'"
      using view(2) by (simp add: same_elsewhere_def operation_calls_def w'_def)
    show "unique_on op_id (operations w') = unique_on op_id (operations w)" by (rule view(3))
  qed
qed

lemma uncalled_sure: "operation_ok K (Some r) cs \<Longrightarrow> uncalled (op_attemptCount r) cs \<Longrightarrow> list_all (failed_for_sure K) cs"
  unfolding operation_ok_def uncalled_def list_all_iff call_ok_def by fastforce

lemma operation_ok_status:
  assumes "operation_ok K (Some r) cs" and "op_status r \<noteq> Op_REQUESTED"
    and "op_attemptCount r' = op_attemptCount r"
    and "op_status r' \<in> {Op_REQUESTED, Op_RECONCILED} \<Longrightarrow> list_all (failed_for_sure K) cs"
    and "op_status r' = Op_SUCCEEDED \<Longrightarrow> op_reconciledAt r' \<noteq> None \<or> list_ex accepted cs"
  shows "operation_ok K (Some r') cs"
  using assms by (auto simp: operation_ok_def call_ok_def list_all_iff)

lemma on_write_cases:
  assumes "on_write env stmt w bad good = (w', p)"
  shows "w' = w \<and> (\<exists>e. p = bad e) \<or>
    (\<exists>y d. stmt (wd_db w) = Inr (y, d) \<and> w' = w\<lparr>wd_db := d\<rparr> \<and> (p = good y \<or> (\<exists>e. p = bad e)))"
proof (cases "stmt (wd_db w)")
  case (Inl e)
  with assms show ?thesis
    by (cases "dn_fault env") (simp_all add: on_write_def run_write_def, auto)
next
  case (Inr r)
  then show ?thesis
    using assms by (cases r; cases "dn_fault env") (simp_all add: on_write_def run_write_def, auto)
qed

section \<open>Steps\<close>

definition next_ok :: "int \<Rightarrow> string \<Rightarrow> channel_delivery_operation \<Rightarrow> provider_call list \<Rightarrow> delivery_point \<Rightarrow> bool" where
  "next_ok K x r cs p = (holds p = None \<or> holds p = Some x \<and> point_ok K r cs p)"

lemma next_ok_Finished [simp]: "next_ok K x r cs (Finished v)"
  by (simp add: next_ok_def)

text \<open>What a step does that touches one operation.\<close>

definition touches :: "int \<Rightarrow> string \<Rightarrow> world \<Rightarrow> world \<Rightarrow> delivery_point \<Rightarrow> bool" where
  "touches K x w w' p =
     (same_elsewhere x w w' \<and> unique_on op_id (operations w') \<and>
      operation_ok K (operation_row w' x) (operation_calls w' x) \<and>
      (holds p = None \<or> holds p = Some x \<and> worker_ok K w' p))"

lemma touchesI:
  assumes "same_elsewhere x w w'" and "unique_on op_id (operations w')" and "operation_row w' x = Some r"
    and "operation_ok K (Some r) (operation_calls w' x)" and "next_ok K x r (operation_calls w' x) p"
  shows "touches K x w w' p"
  using assms by (auto simp: touches_def worker_ok_def next_ok_def)

lemma same_elsewhere_refl [simp]: "same_elsewhere x w w"
  by (simp add: same_elsewhere_def)

lemma write_touches:
  assumes w: "on_write env stmt w bad good = (w', p)"
    and stmt: "\<And>y d. stmt (wd_db w) = Inr (y, d) \<Longrightarrow> settles st x (wd_db w) d"
    and r: "operation_row w x = Some r" and ok: "operation_ok K (Some r) (operation_calls w x)"
    and uniq: "unique_on op_id (operations w)"
    and free: "st \<in> {Op_REQUESTED, Op_RECONCILED} \<Longrightarrow> list_all (failed_for_sure K) (operation_calls w x)"
    and succ: "st = Op_SUCCEEDED \<Longrightarrow> list_ex accepted (operation_calls w x)"
    and after: "\<And>r' e y. r' = r \<or> op_status r = Op_STARTED \<and> op_status r' = st \<and> op_attemptCount r' = op_attemptCount r
      \<Longrightarrow> next_ok K x r' (operation_calls w x) (bad e) \<and> next_ok K x r' (operation_calls w x) (good y)"
  shows "touches K x w w' p"
  using on_write_cases [OF w]
proof (elim disjE conjE exE)
  fix e
  assume "w' = w" and "p = bad e"
  then show ?thesis using touchesI [OF same_elsewhere_refl uniq r ok] after by blast
next
  have main: "touches K x w w' p"
    if "stmt (wd_db w) = Inr (y, d)" and w': "w' = w\<lparr>wd_db := d\<rparr>" and p: "p = good y \<or> (\<exists>e. p = bad e)" for y d
  proof -
    note written = stmt [OF that(1)]
    obtain r' where r': "operation_row w' x = Some r'"
      and change: "r' = r \<or> op_status r = Op_STARTED \<and> op_status r' = st \<and> op_attemptCount r' = op_attemptCount r"
      and same: "same_elsewhere x w w'"
      and uniq': "unique_on op_id (operations w') = unique_on op_id (operations w)"
      using settles_view [OF written r] w' by blast
    have calls: "operation_calls w' x = operation_calls w x" by (simp add: w' operation_calls_def)
    have "operation_ok K (Some r') (operation_calls w x)"
      using change
    proof
      assume "r' = r"
      with ok show ?thesis by simp
    next
      assume "op_status r = Op_STARTED \<and> op_status r' = st \<and> op_attemptCount r' = op_attemptCount r"
      with free succ show ?thesis by (intro operation_ok_status [OF ok]) auto
    qed
    moreover have "next_ok K x r' (operation_calls w x) p" using p after [OF change] by auto
    ultimately show ?thesis using touchesI [OF same _ r'] uniq uniq' calls by simp
  qed
  fix y d e
  assume "stmt (wd_db w) = Inr (y, d)" and "w' = w\<lparr>wd_db := d\<rparr>"
  then show "p = good y \<Longrightarrow> ?thesis" and "p = bad e \<Longrightarrow> ?thesis" using main by blast+
qed

text \<open>The call of a provider.\<close>

lemma calls_ordered_append:
  "calls_ordered K cs \<Longrightarrow> list_all (failed_for_sure K) cs \<Longrightarrow> (\<forall>c'\<in>set cs. pv_attempt c' < pv_attempt c) \<Longrightarrow>
   calls_ordered K (cs @ [c])"
  by (induction cs) auto

lemma recover_after_call:
  assumes "pv_answer c = Inl e" and "pv_attempt c = op_attemptCount op" and "max_attempts env \<le> K"
    and "list_all (failed_for_sure K) cs" and "op_status r = Op_STARTED"
  shows "next_ok K (op_id op) r (cs @ [c]) (recover env ctx op e True)"
  using assms by (auto simp: recover_def next_ok_def failed_for_sure_def split: delivery_error.splits)

lemma recover_late:
  "op_status r = Op_STARTED \<Longrightarrow> next_ok K (op_id op) r cs (recover env ctx op (Other e) True)"
  by (simp add: recover_def next_ok_def)

lemma recover_early:
  "op_status r = Op_STARTED \<Longrightarrow> uncalled (op_attemptCount r) cs \<Longrightarrow>
   next_ok K (op_id op) r cs (recover env ctx op e False)"
  by (simp add: recover_def next_ok_def)

text \<open>The call itself, as what it adds to the log, and the three ways on without a call.\<close>

lemma send_step_cases:
  assumes "send_step env data jobId ctx op w = (w', p)"
  shows "w' = w \<and> ((\<exists>e. p = recover env ctx op (Other e) False) \<or> (\<exists>reason. p = Reconcile ctx op reason)) \<or>
    (\<exists>adapter input c. authorize_send env (wd_db w) data jobId ctx op = Inr (Inr (adapter, input)) \<and>
       c = \<lparr>pv_operation = op_id op, pv_attempt = op_attemptCount op, pv_input = input, pv_answer = adapter input\<rparr> \<and>
       w' = w\<lparr>wd_calls := wd_calls w @ [c]\<rparr> \<and>
       ((\<exists>e. pv_answer c = Inl e \<and> p = recover env ctx op e True) \<or>
        (\<exists>e out. pv_answer c = Inr out \<and> p = recover env ctx op (Other e) True) \<or>
        (\<exists>out. pv_answer c = Inr out \<and> p = Commit ctx op out)))"
  using assms unfolding send_step_def Let_def
  by (auto split: fault.splits sum.splits prod.splits option.splits)

lemma call_touches:
  assumes w': "w' = w\<lparr>wd_calls := wd_calls w @ [c]\<rparr>"
    and c: "pv_operation c = op_id op" "pv_attempt c = op_attemptCount op"
    and uniq: "unique_on op_id (operations w)" and r: "operation_row w (op_id op) = Some r"
    and ok: "operation_ok K (Some r) (operation_calls w (op_id op))"
    and st: "op_status r = Op_STARTED" "op_attemptCount op = op_attemptCount r"
    and un: "uncalled (op_attemptCount r) (operation_calls w (op_id op))"
    and after: "next_ok K (op_id op) r (operation_calls w (op_id op) @ [c]) p"
  shows "touches K (op_id op) w w' p"
proof (rule touchesI)
  have calls: "operation_calls w' (op_id op) = operation_calls w (op_id op) @ [c]"
    using w' c by (simp add: operation_calls_def)
  have sure: "list_all (failed_for_sure K) (operation_calls w (op_id op))" by (rule uncalled_sure [OF ok un])
  show "same_elsewhere (op_id op) w w'"
    using w' c by (simp add: same_elsewhere_def operation_row_def operation_calls_def)
  show "unique_on op_id (operations w')" using uniq w' by simp
  show "operation_row w' (op_id op) = Some r" using r w' by (simp add: operation_row_def)
  have "calls_ordered K (operation_calls w (op_id op) @ [c])"
    by (rule calls_ordered_append) (use ok sure un c st in \<open>auto simp: operation_ok_def uncalled_def\<close>)
  then show "operation_ok K (Some r) (operation_calls w' (op_id op))"
    using ok c st unfolding calls by (auto simp: operation_ok_def call_ok_def)
  show "next_ok K (op_id op) r (operation_calls w' (op_id op)) p" using after calls by simp
qed

lemma send_touches:
  assumes s: "send_step env data jobId ctx op w = (w', p)" and K: "max_attempts env \<le> K"
    and uniq: "unique_on op_id (operations w)" and r: "operation_row w (op_id op) = Some r"
    and ok: "operation_ok K (Some r) (operation_calls w (op_id op))"
    and st: "op_status r = Op_STARTED" "op_attemptCount op = op_attemptCount r"
    and un: "uncalled (op_attemptCount r) (operation_calls w (op_id op))"
  shows "touches K (op_id op) w w' p"
  using send_step_cases [OF s]
proof (elim disjE conjE exE)
  fix e
  assume "w' = w" and "p = recover env ctx op (Other e) False"
  with recover_early [OF st(1) un] show ?thesis
    using touchesI [OF same_elsewhere_refl uniq r ok] by simp
next
  fix reason
  assume "w' = w" and "p = Reconcile ctx op reason"
  then show ?thesis
    using touchesI [OF same_elsewhere_refl uniq r ok] st un by (simp add: next_ok_def)
next
  fix adapter input c e
  assume c: "c = \<lparr>pv_operation = op_id op, pv_attempt = op_attemptCount op, pv_input = input, pv_answer = adapter input\<rparr>"
    and w': "w' = w\<lparr>wd_calls := wd_calls w @ [c]\<rparr>"
    and "pv_answer c = Inl e" and "p = recover env ctx op e True"
  then show ?thesis
    using recover_after_call [OF _ _ K uncalled_sure [OF ok un] st(1)]
    by (intro call_touches [OF w' _ _ uniq r ok st un]) simp_all
next
  fix adapter input c e out
  assume c: "c = \<lparr>pv_operation = op_id op, pv_attempt = op_attemptCount op, pv_input = input, pv_answer = adapter input\<rparr>"
    and w': "w' = w\<lparr>wd_calls := wd_calls w @ [c]\<rparr>"
    and "p = recover env ctx op (Other e) True"
  then show ?thesis
    using recover_late [OF st(1)] by (intro call_touches [OF w' _ _ uniq r ok st un]) simp_all
next
  fix adapter input c out
  assume c: "c = \<lparr>pv_operation = op_id op, pv_attempt = op_attemptCount op, pv_input = input, pv_answer = adapter input\<rparr>"
    and w': "w' = w\<lparr>wd_calls := wd_calls w @ [c]\<rparr>"
    and "pv_answer c = Inr out" and "p = Commit ctx op out"
  then show ?thesis
    using st by (intro call_touches [OF w' _ _ uniq r ok st un]) (simp_all add: next_ok_def)
qed

lemma accepted_commit:
  "list_ex (\<lambda>c. pv_answer c = Inr out) cs \<Longrightarrow> successfulStatus (sr_sendStatus out) \<Longrightarrow> list_ex accepted cs"
  by (force simp: list_ex_iff accepted_def)

lemma unit_tx_Inr: "unit_tx stmt d = Inr (y, d') \<Longrightarrow> stmt d = Inr d'"
  by (auto simp: unit_tx_def andThen_Inr_iff)

lemma safe_tx_Inr: "safe_tx stmt d = Inr (y, d') \<Longrightarrow> stmt d = (y, d')"
  by (simp add: safe_tx_def)

text \<open>A step of a worker that holds an operation.\<close>

lemma held_step:
  assumes step: "delivery_step env data jobId p w = (w', p')" and K: "max_attempts env \<le> K"
    and uniq: "unique_on op_id (operations w)" and x: "holds p = Some x"
    and r: "operation_row w x = Some r" and ok: "operation_ok K (Some r) (operation_calls w x)"
    and pt: "point_ok K r (operation_calls w x) p"
  shows "touches K x w w' p'"
proof (cases p)
  case (Reread ctx i claimed)
  with x have i: "claimed" "i = x" by (auto split: if_splits)
  have w: "w' = w" and p': "p' = claimed_point ctx x True (wd_db w)" using step Reread i by auto
  have "next_ok K x r (operation_calls w x) p'"
    using r pt Reread operation_row_id [OF r]
    by (auto simp: p' claimed_point_def checked_def next_ok_def operation_row_def)
  then show ?thesis using touchesI [OF same_elsewhere_refl uniq r ok] w by simp
next
  case (Send ctx op)
  with x have i: "op_id op = x" by simp
  with Send show ?thesis
    using send_touches [of env data jobId ctx op w w' p' K r] step pt K uniq r ok by simp
next
  case (Reconcile ctx op reason)
  with step have "on_write env (unit_tx (reconcileSkippedOperation (dn_now env) op (dc_message ctx) reason jobId)) w
       (\<lambda>e. recover env ctx op (Other e) False)
       (\<lambda>_. Finished (Inr (operation_result Ds_skipped (dc_message ctx) reason op))) = (w', p')" by simp
  then show ?thesis
    by (rule write_touches [where st = Op_RECONCILED, OF _ _ r ok uniq])
       (use pt x Reconcile uncalled_sure [OF ok] in
         \<open>auto dest!: unit_tx_Inr reconcile_settles simp: next_ok_def recover_def\<close>)
next
  case (Retry op f)
  with step have "on_write env (safe_tx (releaseRetryableWebhookOperation (dn_now env) (op_id op) f)) w Throw
       (\<lambda>found. if found then Finished (Inl (WebhookDeliveryError f))
          else Throw (Error (''Channel delivery operation '' @ op_id op @ '' lost its retry claim.''))) = (w', p')" by simp
  then show ?thesis
    by (rule write_touches [where st = Op_REQUESTED, OF _ _ r ok uniq])
       (use pt x Retry in \<open>auto dest!: safe_tx_Inr statement_settles\<close>)
next
  case (Reject ctx op f)
  with step have "on_write env (unit_tx (commitWebhookDeliveryFailure (dn_now env) op (dc_message ctx) f jobId)) w Throw
       (\<lambda>_. Finished (Inr (operation_result Ds_failed (dc_message ctx) (toLowerCase (webhookCode_text (wf_code f))) op)))
       = (w', p')" by simp
  then show ?thesis
    by (rule write_touches [where st = Op_FAILED, OF _ _ r ok uniq])
       (use x Reject in \<open>auto dest!: unit_tx_Inr failure_settles\<close>)
next
  case (Release op e)
  with step have "on_write env (safe_tx (releaseUnstartedOperation (dn_now env) (op_id op) e)) w Throw
       (\<lambda>_. Finished (Inl e)) = (w', p')" by simp
  then show ?thesis
    by (rule write_touches [where st = Op_REQUESTED, OF _ _ r ok uniq])
       (use pt x Release uncalled_sure [OF ok] in \<open>auto dest!: safe_tx_Inr statement_settles\<close>)
next
  case (Commit ctx op out)
  show ?thesis
  proof (cases "successfulStatus (sr_sendStatus out)")
    case True
    with step Commit have "on_write env (unit_tx (commitSuccessfulDelivery (dn_now env) data op ctx out jobId)) w
          (\<lambda>e. Undecided op ''DELIVERY_SUCCESS_COMMIT_UNKNOWN'' (Other e))
          (\<lambda>_. Finished (Inr \<lparr>dl_status = Ds_sent, dl_messageId = ms_id (dc_message ctx),
             dl_outboundStatus = Some (sr_sendStatus out),
             dl_providerExternalMessageId = Some (sr_externalMessageId out), dl_reason = None,
             dl_deliveryOperationId = Some (op_id op)\<rparr>)) = (w', p')" by simp
    then show ?thesis
      by (rule write_touches [where st = Op_SUCCEEDED, OF _ _ r ok uniq])
         (use pt x Commit accepted_commit [OF _ True] in
           \<open>auto dest!: unit_tx_Inr success_settles simp: next_ok_def\<close>)
  next
    case False
    with step Commit have "on_write env (unit_tx (commitAdapterFailure (dn_now env) op (dc_message ctx) out jobId)) w
          (\<lambda>e. Undecided op ''DELIVERY_FAILURE_COMMIT_UNKNOWN'' (Other e))
          (\<lambda>_. Throw (Error (''adapter_status_'' @ sendStatus_text (sr_sendStatus out)))) = (w', p')" by simp
    then show ?thesis
      by (rule write_touches [where st = Op_FAILED, OF _ _ r ok uniq])
         (use pt x Commit in \<open>auto dest!: unit_tx_Inr failure_settles simp: next_ok_def\<close>)
  qed
next
  case (Undecided op code e)
  with step have "on_write env (safe_tx (recordUnknownOperation (dn_now env) (op_id op) code e jobId)) w
       (\<lambda>_. Finished (Inl e)) (\<lambda>_. Finished (Inl e)) = (w', p')" by simp
  then show ?thesis
    by (rule write_touches [where st = Op_UNKNOWN, OF _ _ r ok uniq])
       (use x Undecided in \<open>auto dest!: safe_tx_Inr statement_settles\<close>)
qed (use x in simp_all)

text \<open>A step of a worker that holds none: it leaves the operations alone, or creates or claims one.\<close>

lemma holds_requested [simp]: "holds (requested ctx op) = None"
  by (simp add: requested_def split: option.splits)

lemma holds_checked [simp]: "(\<And>op. holds (k op) = None) \<Longrightarrow> holds (checked ctx op k) = None"
  by (simp add: checked_def)

lemma holds_load [simp]: "holds (load_delivery env data d) = None"
  by (auto simp: load_delivery_def fence_delivery_def prepare_delivery_def Let_def split: option.splits sum.splits)

lemma holds_claimed [simp]: "holds (claimed_point ctx i False d) = None"
  by (auto simp: claimed_point_def checked_def split: option.splits)

definition view_kept :: "world \<Rightarrow> world \<Rightarrow> bool" where
  "view_kept w w' = (operations w' = operations w \<and> wd_calls w' = wd_calls w)"

lemma view_kept_refl [simp]: "view_kept w w"
  by (simp add: view_kept_def)

lemma write_kept:
  assumes "on_write env stmt w bad good = (w', p)"
    and "\<And>y d. stmt (wd_db w) = Inr (y, d) \<Longrightarrow> channelDeliveryOperations d = operations w"
    and "\<And>e. holds (bad e) = None" and "\<And>y. holds (good y) = None"
  shows "view_kept w w' \<and> holds p = None"
  using on_write_cases [OF assms(1)] assms(2-4) by (auto simp: view_kept_def)

lemma create_touches:
  assumes w: "on_write env (createOperation now ctx) w (Refind ctx) (requested ctx) = (w', p)"
    and uniq: "unique_on op_id (operations w)" and ok: "\<And>x. operation_ok K (operation_row w x) (operation_calls w x)"
  shows "view_kept w w' \<and> holds p = None \<or> (\<exists>x. operation_row w x = None \<and> touches K x w w' p)"
  using on_write_cases [OF w]
proof (elim disjE exE conjE)
  fix e
  assume "w' = w" and "p = Refind ctx e"
  then show ?thesis by simp
next
  have main: "\<exists>x. operation_row w x = None \<and> touches K x w w' p"
    if c: "createOperation now ctx (wd_db w) = Inr (r, d)" and w': "w' = w\<lparr>wd_db := d\<rparr>" and p: "holds p = None" for r d
  proof (intro exI conjI)
    have r: "r = new_operation now ctx" and d: "operations w' = operations w @ [r]"
      and fresh: "\<forall>y\<in>set (operations w). op_id y \<noteq> op_id r"
      using c w' by (auto simp: createOperation_def Let_def list_ex_iff split: if_splits)
    show none: "operation_row w (op_id r) = None"
      using fresh by (auto simp: operation_row_def find_None_iff)
    have row: "operation_row w' y = (if y = op_id r then Some r else operation_row w y)" for y
      using fresh none by (auto simp: operation_row_def d find_append split: option.splits)
    have calls: "operation_calls w' y = operation_calls w y" for y by (simp add: w' operation_calls_def)
    show "touches K (op_id r) w w' p"
    proof (rule touchesI)
      show "same_elsewhere (op_id r) w w'" using row calls by (simp add: same_elsewhere_def)
      show "unique_on op_id (operations w')" using uniq fresh by (simp add: d unique_on_append1)
      show "operation_row w' (op_id r) = Some r" using row by simp
      have "operation_calls w (op_id r) = []" using ok [of "op_id r"] none by (simp add: operation_ok_def)
      then show "operation_ok K (Some r) (operation_calls w' (op_id r))"
        by (simp add: calls operation_ok_def r new_operation_def Let_def)
      show "next_ok K (op_id r) r (operation_calls w' (op_id r)) p" using p by (simp add: next_ok_def)
    qed
  qed
  fix r d e
  assume "createOperation now ctx (wd_db w) = Inr (r, d)" and "w' = w\<lparr>wd_db := d\<rparr>"
  then show "p = requested ctx r \<Longrightarrow> ?thesis" and "p = Refind ctx e \<Longrightarrow> ?thesis" using main by auto
qed

lemma claim_touches:
  assumes w: "on_write env (safe_tx (claimOperation now x h)) w Throw (Reread ctx x) = (w', p)"
    and uniq: "unique_on op_id (operations w)" and ok: "operation_ok K (operation_row w x) (operation_calls w x)"
  shows "view_kept w w' \<and> holds p = None \<or>
    (\<exists>r. operation_row w x = Some r \<and> op_status r = Op_REQUESTED) \<and> touches K x w w' p"
  using on_write_cases [OF w]
proof (elim disjE exE conjE)
  fix e
  assume "w' = w" and "p = Throw e"
  then show ?thesis by simp
next
  let ?sel = "\<lambda>r. op_id r = x \<and> op_status r = Op_REQUESTED \<and> op_requestHash r = h"
  have main: ?thesis
    if c: "safe_tx (claimOperation now x h) (wd_db w) = Inr (b, d)" and w': "w' = w\<lparr>wd_db := d\<rparr>"
      and p: "p = Reread ctx x b \<or> (\<exists>e. p = Throw e)" for b d
  proof (cases b)
    case False
    then have "operations w' = operations w"
      using c w' by (auto simp: safe_tx_def claimOperation_def Let_def update_many_none)
    moreover have "holds p = None" using p False by auto
    ultimately show ?thesis using w' by (simp add: view_kept_def)
  next
    case True
    then obtain r where "r \<in> set (operations w)" and sel: "?sel r"
      using c by (auto simp: safe_tx_def claimOperation_def Let_def count_where_pos_iff)
    then have r: "operation_row w x = Some r" using find_unique [OF uniq] by (simp add: operation_row_def)
    define f where "f = (\<lambda>r :: channel_delivery_operation. r\<lparr>op_status := Op_STARTED, op_attemptCount := op_attemptCount r + 1,
        op_startedAt := Some now, op_errorCode := None, op_errorMessage := None, op_nextRetryAt := None\<rparr>)"
    have d: "operations w' = update_many ?sel f (operations w)"
      using c w' by (auto simp: safe_tx_def claimOperation_def Let_def f_def)
    note view = row_update [OF d, of x]
    have row': "operation_row w' x = Some (f r)" using view(1) r sel by (simp add: f_def)
    have calls: "operation_calls w' y = operation_calls w y" for y by (simp add: w' operation_calls_def)
    have rok: "operation_ok K (Some r) (operation_calls w x)" using ok r by simp
    then have sure: "list_all (failed_for_sure K) (operation_calls w x)"
      using sel by (auto simp: operation_ok_def call_ok_def list_all_iff)
    have "touches K x w w' p"
    proof (rule touchesI [OF _ _ row'])
      show "same_elsewhere x w w'" using view(2) calls by (simp add: same_elsewhere_def f_def)
      show "unique_on op_id (operations w')" using view(3) uniq by (simp add: f_def)
      show "operation_ok K (Some (f r)) (operation_calls w' x)"
        using rok sure by (auto simp: calls operation_ok_def call_ok_def f_def list_all_iff)
      show "next_ok K x (f r) (operation_calls w' x) p"
        using p True rok by (auto simp: next_ok_def calls f_def uncalled_def operation_ok_def call_ok_def)
    qed
    with r sel show ?thesis by blast
  qed
  fix b d e
  assume "safe_tx (claimOperation now x h) (wd_db w) = Inr (b, d)" and "w' = w\<lparr>wd_db := d\<rparr>"
  note outcome = main [OF this]
  show "p = Reread ctx x b \<Longrightarrow> ?thesis" by (rule outcome) simp
  show "p = Throw e \<Longrightarrow> ?thesis" by (rule outcome) blast
qed

lemma free_step:
  assumes step: "delivery_step env data jobId p w = (w', p')" and free: "holds p = None"
    and uniq: "unique_on op_id (operations w)" and ok: "\<And>x. operation_ok K (operation_row w x) (operation_calls w x)"
  shows "view_kept w w' \<and> holds p' = None \<or>
    (\<exists>x. (operation_row w x = None \<or> (\<exists>r. operation_row w x = Some r \<and> op_status r = Op_REQUESTED)) \<and>
      touches K x w w' p')"
proof (cases p)
  case (Skip m reason)
  with step show ?thesis
    by (intro disjI1 write_kept [of env _ w _ _ w' p']) (auto simp: safe_tx_def markSkipped_def)
next
  case (Fail m reason)
  with step show ?thesis
    by (intro disjI1 write_kept [of env _ w _ _ w' p'])
       (auto simp: markFailed_def dest!: unit_tx_Inr split: if_splits)
next
  case (Create ctx)
  with step have "on_write env (createOperation (dn_now env) ctx) w (Refind ctx) (requested ctx) = (w', p')"
    by simp
  from create_touches [OF this uniq ok] show ?thesis by blast
next
  case (Claim ctx op)
  show ?thesis
  proof (cases "dn_abort env 0")
    case None
    with step Claim have "on_write env (safe_tx (claimOperation (dn_now env) (op_id op)
        (od_requestHash (dc_descriptor ctx)))) w Throw (Reread ctx (op_id op)) = (w', p')" by simp
    from claim_touches [OF this uniq ok] show ?thesis by blast
  qed (use step Claim in auto)
qed (use step free in \<open>auto split: option.splits if_splits\<close>)

section \<open>The invariant\<close>

lemma worker_kept:
  assumes "worker_ok K w p" and "\<And>x. holds p = Some x \<Longrightarrow>
    operation_row w' x = operation_row w x \<and> operation_calls w' x = operation_calls w x"
  shows "worker_ok K w' p"
  using assms by (auto simp: worker_ok_def split: option.splits)

lemma view_kept_view:
  "view_kept w w' \<Longrightarrow> operation_row w' x = operation_row w x"
  "view_kept w w' \<Longrightarrow> operation_calls w' x = operation_calls w x"
  by (simp_all add: view_kept_def operation_row_def operation_calls_def)

lemma inv_view_kept:
  assumes "delivery_inv K w ws" and "view_kept w w'"
  shows "delivery_inv K w' ws"
  using assms worker_kept [of K w _ w'] view_kept_view [OF assms(2)]
  by (auto simp: delivery_inv_def view_kept_def)

text \<open>A worker that is done, or lets go of what it held.\<close>

lemma exclusiveD:
  "exclusive ws \<Longrightarrow> holds (wk_point (ws i)) = Some x \<Longrightarrow> j \<noteq> i \<Longrightarrow> holds (wk_point (ws j)) \<noteq> Some x"
  unfolding exclusive_def by blast

lemma exclusive_idle: "exclusive ws \<Longrightarrow> holds (wk_point k) = None \<Longrightarrow> exclusive (ws(i := k))"
  unfolding exclusive_def by simp

lemma exclusive_take:
  assumes "exclusive ws" and "holds (wk_point k) = Some x" and "\<And>j. j \<noteq> i \<Longrightarrow> holds (wk_point (ws j)) \<noteq> Some x"
  shows "exclusive (ws(i := k))"
  using assms unfolding exclusive_def by (metis fun_upd_apply option.inject)

lemma inv_idle:
  assumes "delivery_inv K w ws" and "holds (wk_point k) = None"
  shows "delivery_inv K w (ws(i := k))"
  using assms exclusive_idle by (simp add: delivery_inv_def worker_ok_def)

text \<open>A step that touches one operation, which no other worker holds.\<close>

lemma inv_touches:
  assumes inv: "delivery_inv K w ws" and t: "touches K x w w' (wk_point k)"
    and others: "\<And>j. j \<noteq> i \<Longrightarrow> holds (wk_point (ws j)) \<noteq> Some x"
  shows "delivery_inv K w' (ws(i := k))"
proof -
  have same: "operation_row w' y = operation_row w y" "operation_calls w' y = operation_calls w y"
    if "y \<noteq> x" for y
    using t that by (auto simp: touches_def same_elsewhere_def)
  have "operation_ok K (operation_row w' y) (operation_calls w' y)" for y
    using inv t same [of y] by (cases "y = x") (auto simp: delivery_inv_def touches_def)
  moreover have "worker_ok K w' (wk_point ((ws(i := k)) j))" for j
  proof (cases "j = i")
    case True
    then show ?thesis using t by (auto simp: touches_def worker_ok_def)
  next
    case False
    moreover have "worker_ok K w' (wk_point (ws j))"
      using inv others [OF False] same by - (rule worker_kept [of K w], auto simp: delivery_inv_def)
    ultimately show ?thesis by simp
  qed
  moreover have "exclusive (ws(i := k))"
  proof (cases "holds (wk_point k)")
    case None
    then show ?thesis using inv exclusive_idle by (simp add: delivery_inv_def)
  next
    case (Some y)
    with t have "y = x" by (auto simp: touches_def)
    then show ?thesis
      using inv Some others by (intro exclusive_take [of ws k x]) (simp_all add: delivery_inv_def)
  qed
  ultimately show ?thesis using t by (simp add: delivery_inv_def touches_def)
qed

lemma inv_advance:
  assumes inv: "delivery_inv K w ws" and K: "max_attempts env \<le> K"
    and step: "delivery_step env data jobId (wk_point (ws i)) w = (w', p)" and k: "wk_point k = p"
  shows "delivery_inv K w' (ws(i := k))"
proof -
  note inv' = inv [unfolded delivery_inv_def]
  have uniq: "unique_on op_id (operations w)"
    and ok: "\<And>x. operation_ok K (operation_row w x) (operation_calls w x)"
    and wok: "\<And>j. worker_ok K w (wk_point (ws j))" using inv' by blast+
  have excl: "exclusive ws" using inv' by blast
  show ?thesis
  proof (cases "holds (wk_point (ws i))")
    case None
    from free_step [OF step None uniq ok] show ?thesis
    proof (elim disjE conjE exE)
      assume "view_kept w w'" and "holds p = None"
      then show ?thesis using inv_idle [OF inv_view_kept [OF inv]] k by blast
    next
      fix x
      assume t: "touches K x w w' p" and "operation_row w x = None"
      then have "holds (wk_point (ws j)) \<noteq> Some x" for j using wok [of j] by (auto simp: worker_ok_def)
      then show ?thesis using inv_touches [OF inv] t k by simp
    next
      fix x r
      assume t: "touches K x w w' p" and r: "operation_row w x = Some r" and st: "op_status r = Op_REQUESTED"
      have "holds (wk_point (ws j)) \<noteq> Some x" for j
        using wok [of j] r st by (cases "wk_point (ws j)") (auto simp: worker_ok_def)
      then show ?thesis using inv_touches [OF inv] t k by simp
    qed
  next
    case (Some x)
    then obtain r where r: "operation_row w x = Some r"
      and pt: "point_ok K r (operation_calls w x) (wk_point (ws i))"
      using wok [of i] by (auto simp: worker_ok_def)
    have "touches K x w w' p"
      using held_step [OF step K uniq Some r _ pt] ok [of x] r by simp
    moreover have "holds (wk_point (ws j)) \<noteq> Some x" if "j \<noteq> i" for j
      by (rule exclusiveD [OF excl Some that])
    ultimately show ?thesis using inv_touches [OF inv] k by blast
  qed
qed

text \<open>A change of an operation that no worker holds.\<close>

lemma inv_row:
  assumes inv: "delivery_inv K w ws" and same: "same_elsewhere x w w'"
    and "unique_on op_id (operations w')" and ok: "operation_ok K (operation_row w' x) (operation_calls w' x)"
    and free: "\<And>j. holds (wk_point (ws j)) \<noteq> Some x"
  shows "delivery_inv K w' ws"
proof -
  have "operation_ok K (operation_row w' y) (operation_calls w' y)" for y
    using inv same ok by (cases "y = x") (auto simp: delivery_inv_def same_elsewhere_def)
  moreover have "worker_ok K w' (wk_point (ws j))" for j
    using inv same free [of j] by - (rule worker_kept [of K w], auto simp: delivery_inv_def same_elsewhere_def)
  ultimately show ?thesis using inv assms(3) by (simp add: delivery_inv_def)
qed

lemma unknown_not_held:
  assumes "worker_ok K w p" and "operation_row w x = Some r" and "op_status r = Op_UNKNOWN"
  shows "holds p \<noteq> Some x"
  using assms by (cases p) (auto simp: worker_ok_def)

lemma inv_operator:
  assumes inv: "delivery_inv K w ws" and w': "w' = w\<lparr>wd_db := reconcileUnknown now t x g s (wd_db w)\<rparr>"
  shows "delivery_inv K w' ws"
proof -
  define sel where "sel = (\<lambda>r :: channel_delivery_operation.
    op_id r = x \<and> op_tenantId r = t \<and> op_status r = Op_UNKNOWN \<and> op_deliveryVersion r = g)"
  define f where "f = (\<lambda>r :: channel_delivery_operation. r\<lparr>op_status := (if s then Op_SUCCEEDED else Op_FAILED),
    op_reconciledAt := Some now, op_completedAt := Some now,
    op_errorCode := (if s then None else Some ''OPERATOR_PROVIDER_CONFIRMED_FAILED''), op_errorMessage := None\<rparr>)"
  have d: "operations w' = update_many sel f (operations w)"
    by (simp add: w' reconcileUnknown_def sel_def f_def)
  have fid: "\<And>r. op_id (f r) = op_id r" and selx: "\<And>r. sel r \<Longrightarrow> op_id r = x"
    by (simp_all add: f_def sel_def)
  note view = row_update [OF d selx fid]
  have calls: "operation_calls w' y = operation_calls w y" for y by (simp add: w' operation_calls_def)
  have same: "same_elsewhere x w w'" using view(2) calls by (simp add: same_elsewhere_def)
  have uniq: "unique_on op_id (operations w')" using view(3) inv by (simp add: delivery_inv_def)
  have ok: "operation_ok K (operation_row w x) (operation_calls w x)"
    and wok: "\<And>j. worker_ok K w (wk_point (ws j))" using inv by (simp_all add: delivery_inv_def)
  show ?thesis
  proof (cases "\<exists>r. operation_row w x = Some r \<and> sel r")
    case False
    then have row: "operation_row w' x = operation_row w x" using view(1) by (cases "operation_row w x") auto
    have "operation_row w' y = operation_row w y" for y
      using row view(2) by (cases "y = x") auto
    then have "worker_ok K w' (wk_point (ws j))" for j
      using calls wok by - (rule worker_kept [of K w], auto)
    moreover have "operation_ok K (operation_row w' y) (operation_calls w' y)" for y
      using inv calls \<open>\<And>y. operation_row w' y = operation_row w y\<close> by (simp add: delivery_inv_def)
    ultimately show ?thesis using inv uniq by (simp add: delivery_inv_def)
  next
    case True
    then obtain r where r: "operation_row w x = Some r" and st: "op_status r = Op_UNKNOWN" and s: "sel r"
      by (auto simp: sel_def)
    have "operation_ok K (Some (f r)) (operation_calls w x)"
      by (rule operation_ok_status [OF ok [unfolded r]]) (use st in \<open>simp_all add: f_def split: if_splits\<close>)
    then show ?thesis
      using inv_row [OF inv same uniq] view(1) r s calls unknown_not_held [OF wok r st] by simp
  qed
qed

theorem delivery_reach_inv: "delivery_reach K w ws \<Longrightarrow> delivery_inv K w ws"
proof (induction rule: delivery_reach.induct)
  case (start w ws)
  then have "holds (wk_point (ws i)) = None" for i by (metis holds.simps)
  with start show ?case
    by (simp add: delivery_inv_def worker_ok_def operation_ok_def operation_row_def operation_calls_def exclusive_def)
next
  case (job w ws i r data jobId)
  then show ?case by - (rule inv_idle, simp_all)
next
  case (advance w ws env i w' p)
  then show ?case by - (rule inv_advance [of K w ws env _ _ i w' p], simp_all)
next
  case (stop w ws i r)
  then show ?case by - (rule inv_idle, simp_all)
next
  case (operator w ws now t i g s)
  then show ?case by - (rule inv_operator, simp_all)
next
  case (other w ws d)
  then show ?case by - (rule inv_view_kept [of K w], simp_all add: view_kept_def)
qed

end
