(* ===== verification/Delivery_Properties.thy ===== *)
theory Delivery_Properties
  imports Delivery_Protocol
begin

text \<open>
  The properties of deliveries: what is repeated, what the rows report, what is sent, and that an
  undisturbed delivery sends once.
\<close>

section \<open>Repeated calls\<close>

lemma calls_ordered_split:
  "calls_ordered K (xs @ c # ys) \<Longrightarrow> c' \<in> set ys \<Longrightarrow> failed_for_sure K c \<and> pv_attempt c < pv_attempt c'"
  by (induction xs) auto

lemma reach_row:
  assumes "delivery_reach K w ws"
  shows "operation_ok K (operation_row w x) (operation_calls w x)"
  using delivery_reach_inv [OF assms] by (simp add: delivery_inv_def)

lemma reach_ordered:
  assumes "delivery_reach K w ws"
  shows "calls_ordered K (operation_calls w x)"
  using reach_row [OF assms, of x] by (cases "operation_row w x") (auto simp: operation_ok_def)

lemma reach_call:
  assumes "delivery_reach K w ws" and "c \<in> set (operation_calls w x)"
  obtains r where "operation_row w x = Some r" and "call_ok K r c"
  using reach_row [OF assms(1), of x] assms(2) by (cases "operation_row w x") (auto simp: operation_ok_def)

text \<open>C11. Whatever deliveries run at once, stop anywhere or lose acknowledgements: a provider is called
  again for an operation only if the call before failed for sure, with an error the adapter marks as
  retryable and of known outcome, and the attempts of the calls increase.\<close>

theorem resent_only_after_failure:
  assumes "delivery_reach K w ws" and "wd_calls w = xs @ c # ys" and "c' \<in> set ys"
    and "pv_operation c' = pv_operation c"
  shows "failed_for_sure K c \<and> pv_attempt c < pv_attempt c'"
proof -
  let ?of = "filter (\<lambda>x. pv_operation x = pv_operation c)"
  have "operation_calls w (pv_operation c) = ?of xs @ c # ?of ys"
    by (simp add: operation_calls_def assms(2))
  with reach_ordered [OF assms(1), of "pv_operation c"] show ?thesis
    using calls_ordered_split [of K "?of xs" c "?of ys" c'] assms(3,4) by simp
qed

lemma ordered_attempts:
  "calls_ordered K cs \<Longrightarrow> (\<And>c. c \<in> set cs \<Longrightarrow> 1 \<le> pv_attempt c) \<Longrightarrow> 1 \<le> K \<Longrightarrow> int (length cs) \<le> K \<and>
   (cs \<noteq> [] \<longrightarrow> int (length cs) \<le> pv_attempt (last cs))"
proof (induction cs rule: rev_induct)
  case (snoc c cs)
  have split: "calls_ordered K cs" "list_all (failed_for_sure K) cs" "\<forall>c'\<in>set cs. pv_attempt c' < pv_attempt c"
    using snoc.prems(1) by (induction cs) auto
  with snoc have ih: "int (length cs) \<le> K \<and> (cs \<noteq> [] \<longrightarrow> int (length cs) \<le> pv_attempt (last cs))" by simp
  show ?case
  proof (cases "cs = []")
    case True
    then show ?thesis using snoc.prems by simp
  next
    case False
    then have "failed_for_sure K (last cs)" and "pv_attempt (last cs) < pv_attempt c"
      using split by (auto simp: list_all_iff)
    then have "pv_attempt (last cs) < K" by (auto simp: failed_for_sure_def split: sum.splits delivery_error.splits)
    with ih False \<open>pv_attempt (last cs) < pv_attempt c\<close> show ?thesis by simp
  qed
qed simp

text \<open>C15. The provider is called at most as often for an operation as the limit of attempts allows.\<close>

theorem calls_bounded:
  assumes "delivery_reach K w ws" and "1 \<le> K"
  shows "int (length (operation_calls w x)) \<le> K"
  using ordered_attempts [OF reach_ordered [OF assms(1)] _ assms(2)] reach_call [OF assms(1)]
  by (metis call_ok_def)

section \<open>What rows report\<close>

text \<open>C14. The rows tell the truth: an operation that succeeded, other than by the word of an operator, was
  accepted by the provider; of one that is free for a further attempt or reported as skipped, every
  call failed for sure; no call is missing from the attempts of its row.\<close>

theorem operation_rows_truthful:
  assumes "delivery_reach K w ws" and "r \<in> set (channelDeliveryOperations (wd_db w))"
  shows "(op_status r = Op_SUCCEEDED \<longrightarrow> op_reconciledAt r \<noteq> None \<or>
      (\<exists>c\<in>set (wd_calls w). pv_operation c = op_id r \<and> accepted c)) \<and>
    (\<forall>c\<in>set (wd_calls w). pv_operation c = op_id r \<longrightarrow>
      1 \<le> pv_attempt c \<and> pv_attempt c \<le> op_attemptCount r \<and>
      (op_status r = Op_REQUESTED \<or> op_status r = Op_RECONCILED \<longrightarrow> failed_for_sure K c))"
proof -
  have "unique_on op_id (operations w)" using delivery_reach_inv [OF assms(1)] by (simp add: delivery_inv_def)
  then have "operation_row w (op_id r) = Some r"
    using find_unique [of op_id, OF _ assms(2) refl] by (simp add: operation_row_def)
  with reach_row [OF assms(1), of "op_id r"] have ok: "operation_ok K (Some r) (operation_calls w (op_id r))" by simp
  have calls: "c \<in> set (operation_calls w (op_id r)) \<longleftrightarrow> c \<in> set (wd_calls w) \<and> pv_operation c = op_id r" for c
    by (auto simp: operation_calls_def)
  have "op_status r = Op_SUCCEEDED \<Longrightarrow> op_reconciledAt r \<noteq> None \<or>
      (\<exists>c\<in>set (wd_calls w). pv_operation c = op_id r \<and> accepted c)"
    using ok calls by (auto simp: operation_ok_def list_ex_iff)
  moreover have "1 \<le> pv_attempt c \<and> pv_attempt c \<le> op_attemptCount r \<and>
      (op_status r = Op_REQUESTED \<or> op_status r = Op_RECONCILED \<longrightarrow> failed_for_sure K c)"
    if "c \<in> set (wd_calls w)" "pv_operation c = op_id r" for c
    using ok calls [of c] that by (auto simp: operation_ok_def call_ok_def)
  ultimately show ?thesis by blast
qed

section \<open>What is sent\<close>

text \<open>The text of a delivery is that of its message, and its channel the one of the conversation.\<close>

fun point_context :: "delivery_point \<Rightarrow> delivery_context option" where
  "point_context (Request ctx) = Some ctx"
| "point_context (Create ctx) = Some ctx"
| "point_context (Refind ctx e) = Some ctx"
| "point_context (Claim ctx op) = Some ctx"
| "point_context (Reread ctx i claimed) = Some ctx"
| "point_context (Send ctx op) = Some ctx"
| "point_context (Reconcile ctx op reason) = Some ctx"
| "point_context (Reject ctx op f) = Some ctx"
| "point_context (Commit ctx op out) = Some ctx"
| "point_context p = None"

definition context_ok :: "delivery_context \<Rightarrow> bool" where
  "context_ok ctx =
     (dc_text ctx = js_trim (delivery_text (dc_message ctx)) \<and> dc_text ctx \<noteq> [] \<and>
      lm_channel (dc_loaded ctx) = Some (dc_channel ctx))"

definition has_context :: "delivery_context \<Rightarrow> delivery_point \<Rightarrow> bool" where
  "has_context ctx p = (case point_context p of None \<Rightarrow> True | Some c \<Rightarrow> c = ctx)"

lemma load_context: "point_context (load_delivery env data d) = Some ctx \<Longrightarrow> context_ok ctx"
  by (auto simp: load_delivery_def fence_delivery_def prepare_delivery_def Let_def context_ok_def truthy_def
      delivery_text_def split: option.splits sum.splits if_splits)

lemma has_context_points [simp]:
  "has_context ctx (Finished v)" "has_context ctx (Create ctx)" "has_context ctx (Refind ctx e)"
  "has_context ctx (Claim ctx op)" "has_context ctx (Reread ctx i claimed)" "has_context ctx (Send ctx op)"
  "has_context ctx (Reconcile ctx op reason)" "has_context ctx (Reject ctx op f)"
  "has_context ctx (Commit ctx op out)" "has_context ctx (Release op e')" "has_context ctx (Retry op f)"
  "has_context ctx (Undecided op code e')"
  by (simp_all add: has_context_def)

lemma has_context_next [simp]:
  "has_context ctx (requested ctx op)" "has_context ctx (recover env ctx op e b)"
  "has_context ctx (claimed_point ctx i b d)"
  by (auto simp: requested_def recover_def claimed_point_def checked_def split: option.splits delivery_error.splits)

lemma has_context_checked [simp]: "(\<And>op. has_context ctx (k op)) \<Longrightarrow> has_context ctx (checked ctx op k)"
  by (simp add: checked_def)

lemma on_write_context:
  "on_write env stmt w bad good = (w', p) \<Longrightarrow> (\<And>e. has_context ctx (bad e)) \<Longrightarrow> (\<And>y. has_context ctx (good y)) \<Longrightarrow>
   has_context ctx p"
  by (auto dest!: on_write_cases)

lemma kept_context:
  assumes "delivery_step env data jobId p w = (w', p')" and "point_context p = Some ctx"
  shows "has_context ctx p'"
proof (cases p)
  case (Send c op)
  with assms show ?thesis by (auto dest!: send_step_cases)
qed (use assms in \<open>auto elim!: on_write_context split: option.splits if_splits\<close>)

lemma no_context:
  assumes "delivery_step env data jobId p w = (w', p')" and "point_context p = None" and "p \<noteq> Load"
  shows "point_context p' = None"
  using assms by (cases p) (auto dest!: on_write_cases split: if_splits)

lemma step_context:
  assumes "delivery_step env data jobId p w = (w', p')" and "point_context p' = Some ctx"
  shows "context_ok ctx \<or> point_context p = Some ctx"
proof (cases "point_context p")
  case None
  show ?thesis
  proof (cases "p = Load")
    case True
    with assms show ?thesis by (auto intro: load_context)
  qed (use no_context [OF assms(1) None] assms(2) in simp)
next
  case (Some c)
  with kept_context [OF assms(1)] assms(2) show ?thesis by (simp add: has_context_def)
qed

lemma reach_context:
  "delivery_reach K w ws \<Longrightarrow> point_context (wk_point (ws i)) = Some ctx \<Longrightarrow> context_ok ctx"
proof (induction arbitrary: i ctx rule: delivery_reach.induct)
  case (start w ws)
  then obtain r where "wk_point (ws i) = Finished r" by blast
  with start show ?case by simp
next
  case (advance w ws env j w' p)
  then show ?case using step_context [OF advance.hyps(3)] by (auto split: if_splits)
qed (auto split: if_splits)

text \<open>What holds of a reply when it is sent: its run is the current one of an admitted conversation and is
  bound to its text.\<close>

definition reply_live :: "delivery_env \<Rightarrow> db \<Rightarrow> message \<Rightarrow> bool" where
  "reply_live env d m =
     (\<exists>c\<in>set (conversations d). \<exists>run\<in>set (aiReplyRuns d). \<exists>b.
        cv_id c = ms_conversationId m \<and> cv_tenantId c = ms_tenantId m \<and> cv_deletedAt c = None \<and>
        rn_tenantId run = ms_tenantId m \<and> rn_conversationId run = ms_conversationId m \<and>
        rn_replyMessageId run = Some (ms_id m) \<and> rn_status run = Rn_SUCCEEDED \<and>
        rn_generation run = cv_aiGeneration c \<and> rn_sequence run = cv_aiReplyFence c \<and>
        rn_replyContentHash run = Some (aiReplyContentHashV1 (dn_host env) (delivery_text m)) \<and>
        (rn_replyDisposition run = Some Rd_AUTO_SEND \<and>
           automaticReplyAdmissionState (dn_host env) (dn_now env) d (ms_tenantId m) (ms_conversationId m) = Inr (Inr b) \<or>
         rn_replyDisposition run = Some Rd_HANDOFF \<and>
           delivery_text m \<in> snd ` set (handoffMessages (dn_handoffRu env)) \<and>
           completedAutomaticReplyHandoffAdmissionState (dn_host env) (dn_now env) d (ms_tenantId m)
             (ms_conversationId m) = Inr (Inr b)) \<and>
        rn_publicationId run = Some (ad_publicationId b) \<and> rn_capabilitySetHash run = Some (ad_capabilitySetHash b) \<and>
        rn_operationalBindingHash run = Some (ad_operationalBindingHash b) \<and>
        rn_operationalPermissionGeneration run = Some (ad_operationalPermissionGeneration b) \<and>
        capabilityAutonomyFenceReason d run = None)"

definition channel_live :: "delivery_env \<Rightarrow> db \<Rightarrow> send_job \<Rightarrow> delivery_context \<Rightarrow> bool" where
  "channel_live env d data ctx =
     (\<exists>c\<in>set (conversations d). \<exists>ch\<in>set (channels d).
        cv_id c = ms_conversationId (dc_message ctx) \<and> cv_tenantId c = ms_tenantId (dc_message ctx) \<and>
        cv_deletedAt c = None \<and> cv_channelId c = Some (ch_id ch) \<and>
        cv_externalConversationId c = cv_externalConversationId (lm_conversation (dc_loaded ctx)) \<and>
        ch_id ch = ch_id (dc_channel ctx) \<and> ch_tenantId ch = ms_tenantId (dc_message ctx) \<and>
        ch_deletedAt ch = None \<and> ch_status ch = Ch_ACTIVE \<and> ch_type ch = expectedChannelType (sj_source data) \<and>
        \<not> configuration_changed (dn_host env) ch (dc_channel ctx))"

lemma channel_fence_live:
  assumes "channel_fence env d data ctx = Inr v"
  shows "channel_live env d data ctx"
proof -
  obtain c ch where "c \<in> set (conversations d)" "ch \<in> set (channels d)"
    and "cv_id c = ms_conversationId (dc_message ctx) \<and> cv_tenantId c = ms_tenantId (dc_message ctx) \<and>
        cv_deletedAt c = None \<and> cv_channelId c = Some (ch_id ch) \<and>
        cv_externalConversationId c = cv_externalConversationId (lm_conversation (dc_loaded ctx)) \<and>
        ch_id ch = ch_id (dc_channel ctx) \<and> ch_tenantId ch = ms_tenantId (dc_message ctx) \<and>
        ch_deletedAt ch = None \<and> ch_status ch = Ch_ACTIVE \<and> ch_type ch = expectedChannelType (sj_source data) \<and>
        \<not> configuration_changed (dn_host env) ch (dc_channel ctx)"
    using assms
    by (auto simp: channel_fence_def Let_def dest!: find_SomeD split: option.splits if_splits sum.splits)
  then show ?thesis unfolding channel_live_def by blast
qed

text \<open>The binding of a run that no fence holds back.\<close>

lemma admission_reason_None:
  assumes "reply_admission_reason env d run m = Inr None"
  obtains b where "(if rn_replyDisposition run = Some Rd_HANDOFF then completedAutomaticReplyHandoffAdmissionState
        else automaticReplyAdmissionState) (dn_host env) (dn_now env) d (ms_tenantId m) (ms_conversationId m) = Inr (Inr b)"
    and "rn_publicationId run = Some (ad_publicationId b)" and "rn_capabilitySetHash run = Some (ad_capabilitySetHash b)"
    and "rn_operationalBindingHash run = Some (ad_operationalBindingHash b)"
    and "rn_operationalPermissionGeneration run = Some (ad_operationalPermissionGeneration b)"
proof -
  define adm where "adm = (if rn_replyDisposition run = Some Rd_HANDOFF then completedAutomaticReplyHandoffAdmissionState
        else automaticReplyAdmissionState) (dn_host env) (dn_now env) d (ms_tenantId m) (ms_conversationId m)"
  obtain a where adm: "adm = Inr a"
    using assms unfolding reply_admission_reason_def adm_def [symmetric] andThen_Inr_iff by blast
  then have "Inr (case a of Inl _ \<Rightarrow> Some ''ai_reply_automatic_reply_admission_revoked'' | Inr b \<Rightarrow>
      if rn_publicationId run \<noteq> Some (ad_publicationId b) then Some ''ai_reply_automatic_reply_publication_revoked''
      else if rn_capabilitySetHash run \<noteq> Some (ad_capabilitySetHash b)
      then Some ''ai_reply_automatic_reply_capability_revoked''
      else if rn_operationalBindingHash run \<noteq> Some (ad_operationalBindingHash b) \<or>
              rn_operationalPermissionGeneration run \<noteq> Some (ad_operationalPermissionGeneration b)
      then Some ''ai_reply_automatic_reply_operational_binding_revoked'' else None) = (Inr None :: error + string option)"
    using assms unfolding reply_admission_reason_def adm_def [symmetric] by simp
  then obtain b where "a = Inr b" and "rn_publicationId run = Some (ad_publicationId b)"
    and "rn_capabilitySetHash run = Some (ad_capabilitySetHash b)"
    and "rn_operationalBindingHash run = Some (ad_operationalBindingHash b)"
    and "rn_operationalPermissionGeneration run = Some (ad_operationalPermissionGeneration b)"
    by (cases a) (auto split: if_splits)
  with adm show thesis using that unfolding adm_def by blast
qed

lemma admitted_publication:
  assumes "automaticReplyAdmissionStateForConversationMode h now d t c mode = Inr (Inr b)"
  shows "ad_publicationId b \<noteq> []"
proof -
  obtain chId where "channel_gate h d t chId = Inr b" using assms by (auto simp: admission_Inr_iff)
  then obtain ch where "channel_binding ch = Some b"
    by (auto simp: channel_gate_def split: option.splits if_splits)
  then have "js_trim (ad_publicationId b) \<noteq> []" by (auto simp: channel_binding_def split: option.splits if_splits)
  then show ?thesis by (auto simp: js_trim_def)
qed

lemma outcome_bound:
  assumes "aiReplyOutcomeFenceReason env run m = None" and "truthy (rn_publicationId run)"
  shows "rn_replyContentHash run = Some (aiReplyContentHashV1 (dn_host env) (delivery_text m)) \<and>
    (rn_replyDisposition run = Some Rd_AUTO_SEND \<or>
     rn_replyDisposition run = Some Rd_HANDOFF \<and> delivery_text m \<in> snd ` set (handoffMessages (dn_handoffRu env)))"
  using assms
  by (auto simp: aiReplyOutcomeFenceReason_def Let_def knowledgeHandoffReplyForTemplateV1_def
      dest!: map_of_SomeD [OF sym] split: if_splits intro: rev_image_eqI)

lemma locked_fence_live:
  assumes "lockedAiReplyFenceReason env d data m = Inr None" and "ms_senderType m = Sn_AI"
  shows "reply_live env d m"
proof -
  obtain c run where c: "c \<in> set (conversations d)" "cv_id c = ms_conversationId m" "cv_tenantId c = ms_tenantId m"
      "cv_deletedAt c = None"
    and run: "run \<in> set (aiReplyRuns d)" "rn_tenantId run = ms_tenantId m" "rn_conversationId run = ms_conversationId m"
      "rn_replyMessageId run = Some (ms_id m)" "rn_status run = Rn_SUCCEEDED"
      "rn_generation run = cv_aiGeneration c" "rn_sequence run = cv_aiReplyFence c"
    and out: "aiReplyOutcomeFenceReason env run m = None"
    and adm: "reply_admission_reason env d run m = Inr None" and cap: "capabilityAutonomyFenceReason d run = None"
    using assms
    by (auto simp: lockedAiReplyFenceReason_def Let_def andThen_Inr_iff dest!: find_SomeD
        split: option.splits if_splits)
  obtain b where b: "(if rn_replyDisposition run = Some Rd_HANDOFF then completedAutomaticReplyHandoffAdmissionState
        else automaticReplyAdmissionState) (dn_host env) (dn_now env) d (ms_tenantId m) (ms_conversationId m) = Inr (Inr b)"
    and bound: "rn_publicationId run = Some (ad_publicationId b)" "rn_capabilitySetHash run = Some (ad_capabilitySetHash b)"
      "rn_operationalBindingHash run = Some (ad_operationalBindingHash b)"
      "rn_operationalPermissionGeneration run = Some (ad_operationalPermissionGeneration b)"
    using admission_reason_None [OF adm] by blast
  have "truthy (rn_publicationId run)"
    using admitted_publication b bound(1)
    by (auto simp: truthy_def automaticReplyAdmissionState_def completedAutomaticReplyHandoffAdmissionState_def
        split: if_splits)
  from outcome_bound [OF out this] c run b bound cap show ?thesis
    unfolding reply_live_def by (intro bexI [of _ c] bexI [of _ run] exI [of _ b]) auto
qed

lemma write_calls: "on_write env stmt w bad good = (w', p) \<Longrightarrow> wd_calls w' = wd_calls w"
  by (auto dest!: on_write_cases)

lemma only_send_calls:
  assumes "delivery_step env data jobId p w = (w', p')" and "\<And>ctx op. p \<noteq> Send ctx op"
  shows "wd_calls w' = wd_calls w"
  using assms by (cases p) (auto dest: write_calls split: option.splits if_splits)

lemma authorized_live:
  assumes "authorize_send env d data jobId ctx op = Inr (Inr (adapter, input))"
  shows "channel_live env d data ctx" and "si_text input = dc_text ctx"
    and "ms_senderType (dc_message ctx) = Sn_AI \<Longrightarrow> reply_live env d (dc_message ctx)"
proof -
  obtain current cr where fence: "channel_fence env d data ctx = Inr (current, cr)"
    and locked: "lockedAiReplyFenceReason env d data (dc_message ctx) = Inr None"
    and input: "input = send_input_of data jobId ctx op current cr"
    using assms
    by (auto simp: authorize_send_def andThen_Inr_iff split: sum.splits prod.splits option.splits)
  show "channel_live env d data ctx" by (rule channel_fence_live [OF fence])
  show "si_text input = dc_text ctx" by (simp add: input send_input_of_def)
  show "reply_live env d (dc_message ctx)" if "ms_senderType (dc_message ctx) = Sn_AI"
    by (rule locked_fence_live [OF locked that])
qed

text \<open>C13. A message is handed to a provider only from the transaction of the worker that holds its
  operation, with the text of the message, over the unchanged and active channel of its conversation; a
  reply of the AI only while its run is the current one of an admitted conversation, bound to this text
  and to the permissions in force. Replies that were fenced are never sent.\<close>

theorem sent_message_live:
  assumes "delivery_reach K w ws"
    and "delivery_step env (wk_job (ws i)) (wk_jobId (ws i)) (wk_point (ws i)) w = (w', p)"
    and "wd_calls w' \<noteq> wd_calls w"
  shows "\<exists>ctx op c. wk_point (ws i) = Send ctx op \<and> wd_calls w' = wd_calls w @ [c] \<and> wd_db w' = wd_db w \<and>
    pv_operation c = op_id op \<and> si_text (pv_input c) = js_trim (delivery_text (dc_message ctx)) \<and>
    channel_live env (wd_db w) (wk_job (ws i)) ctx \<and>
    (ms_senderType (dc_message ctx) = Sn_AI \<longrightarrow> reply_live env (wd_db w) (dc_message ctx))"
proof -
  obtain ctx op where pt: "wk_point (ws i) = Send ctx op" using only_send_calls [OF assms(2)] assms(3) by metis
  then have "send_step env (wk_job (ws i)) (wk_jobId (ws i)) ctx op w = (w', p)" using assms(2) by simp
  from send_step_cases [OF this] assms(3) obtain adapter input
    where auth: "authorize_send env (wd_db w) (wk_job (ws i)) (wk_jobId (ws i)) ctx op = Inr (Inr (adapter, input))"
      and w': "w' = w\<lparr>wd_calls := wd_calls w @ [\<lparr>pv_operation = op_id op,
        pv_attempt = op_attemptCount op, pv_input = input, pv_answer = adapter input\<rparr>]\<rparr>"
    by (elim disjE conjE exE) simp_all
  have "context_ok ctx" by (rule reach_context [OF assms(1), of i]) (simp add: pt)
  then show ?thesis
    using pt w' authorized_live [OF auth] by (auto simp: context_ok_def)
qed

section \<open>An undisturbed delivery\<close>

text \<open>The rows of a message that can be delivered.\<close>

definition deliverable_rows :: "send_job \<Rightarrow> db \<Rightarrow> loaded_message \<Rightarrow> channel \<Rightarrow> bool" where
  "deliverable_rows data d l ch =
     (load_message data d = Some l \<and> lm_channel l = Some ch \<and>
      undelivered (lm_message l) \<and>
      js_trim (delivery_text (lm_message l)) \<noteq> [] \<and> cv_deletedAt (lm_conversation l) = None \<and>
      ch_deletedAt ch = None \<and> ch_status ch = Ch_ACTIVE \<and> ch_type ch = expectedChannelType (sj_source data) \<and>
      unique_on ms_id (messages d) \<and> unique_on cv_id (conversations d) \<and> unique_on ch_id (channels d) \<and>
      (\<forall>r\<in>set (channelDeliveryOperations d). op_messageId r \<noteq> ms_id (lm_message l)))"

lemma load_messageD:
  assumes "load_message data d = Some l"
  shows "lm_message l \<in> set (messages d)" "ms_id (lm_message l) = sj_messageId data"
    "ms_tenantId (lm_message l) = sj_tenantId data" "ms_conversationId (lm_message l) = sj_conversationId data"
    "lm_conversation l \<in> set (conversations d)" "cv_id (lm_conversation l) = ms_conversationId (lm_message l)"
    "cv_tenantId (lm_conversation l) = ms_tenantId (lm_message l)"
    "lm_channel l = List.find (\<lambda>h. Some (ch_id h) = cv_channelId (lm_conversation l) \<and>
       ch_tenantId h = cv_tenantId (lm_conversation l)) (channels d)"
  using assms by (auto simp: load_message_def Let_def dest!: find_SomeD split: option.splits)

lemma deliverable_found:
  assumes "deliverable_rows data d l ch"
  defines "m \<equiv> lm_message l"
  shows "List.find (\<lambda>c. cv_id c = ms_conversationId m \<and> cv_tenantId c = ms_tenantId m \<and> cv_deletedAt c = None)
      (conversations d) = Some (lm_conversation l)"
    and "List.find (\<lambda>x. ch_id x = ch_id ch \<and> ch_tenantId x = ms_tenantId m \<and> ch_deletedAt x = None)
      (channels d) = Some ch"
    and "ch \<in> set (channels d)" and "cv_channelId (lm_conversation l) = Some (ch_id ch)"
    and "ch_tenantId ch = ms_tenantId m" and "m \<in> set (messages d)"
    and "lm_conversation l \<in> set (conversations d)" and "cv_id (lm_conversation l) = ms_conversationId m"
    and "cv_tenantId (lm_conversation l) = ms_tenantId m"
    and "ms_tenantId m = sj_tenantId data" and "ms_conversationId m = sj_conversationId data"
proof -
  note r = assms(1) [unfolded deliverable_rows_def]
  have load: "load_message data d = Some l" using r by blast
  note l = load_messageD [OF load, folded m_def]
  show c: "lm_conversation l \<in> set (conversations d)" "cv_id (lm_conversation l) = ms_conversationId m"
    "cv_tenantId (lm_conversation l) = ms_tenantId m" and "m \<in> set (messages d)"
    and "ms_tenantId m = sj_tenantId data" "ms_conversationId m = sj_conversationId data"
    using l by simp_all
  have "List.find (\<lambda>h. Some (ch_id h) = cv_channelId (lm_conversation l) \<and>
       ch_tenantId h = cv_tenantId (lm_conversation l)) (channels d) = Some ch"
    using r l(8) by metis
  then show ch: "ch \<in> set (channels d)" "cv_channelId (lm_conversation l) = Some (ch_id ch)"
    "ch_tenantId ch = ms_tenantId m"
    using c(3) by (auto dest!: find_SomeD)
  show "List.find (\<lambda>c. cv_id c = ms_conversationId m \<and> cv_tenantId c = ms_tenantId m \<and> cv_deletedAt c = None)
      (conversations d) = Some (lm_conversation l)"
    using r c by (subst find_Some_unique_iff [of cv_id _ _ "ms_conversationId m"]) simp_all
  show "List.find (\<lambda>x. ch_id x = ch_id ch \<and> ch_tenantId x = ms_tenantId m \<and> ch_deletedAt x = None)
      (channels d) = Some ch"
    using r ch by (subst find_Some_unique_iff [of ch_id _ _ "ch_id ch"]) simp_all
qed

text \<open>Surroundings without faults in which the adapter of the channel always gives the same answer.\<close>

definition provider_answers ::
    "delivery_env \<Rightarrow> loaded_message \<Rightarrow> channel \<Rightarrow> delivery_error + send_result \<Rightarrow> bool" where
  "provider_answers env l ch answer =
     (dn_fault env = No_fault \<and> (\<forall>n. dn_abort env n = None) \<and>
      (\<exists>cr. decrypt_credentials env ch = Inr cr \<and> (ch_type ch = TELEGRAM \<longrightarrow> telegramBotToken cr \<noteq> None)) \<and>
      (\<exists>adapter. adapterFor env l = Some adapter \<and> (\<forall>input. adapter input = answer)))"

definition provider_accepts :: "delivery_env \<Rightarrow> loaded_message \<Rightarrow> channel \<Rightarrow> send_result \<Rightarrow> bool" where
  "provider_accepts env l ch out = (provider_answers env l ch (Inr out) \<and> successfulStatus (sr_sendStatus out))"

definition delivery_of :: "host \<Rightarrow> send_job \<Rightarrow> loaded_message \<Rightarrow> channel \<Rightarrow> delivery_context" where
  "delivery_of h data l ch =
     \<lparr>dc_loaded = l, dc_channel = ch, dc_text = js_trim (delivery_text (lm_message l)),
      dc_descriptor = operationDescriptor h data l ch (js_trim (delivery_text (lm_message l)))\<rparr>"

text \<open>
  No fence holds the message back, when it is loaded and when it is sent. For a message that a person
  wrote there are none.
\<close>

definition unfenced_load :: "delivery_env \<Rightarrow> send_job \<Rightarrow> loaded_message \<Rightarrow> bool" where
  "unfenced_load env data l =
     (systemMessageFenceReason data (lm_message l) = None \<and>
      aiReplyFenceReason env (dn_reads env 2) (dn_reads env 3) data l = None \<and>
      structuredReplyFenceReason env (\<lambda>n. dn_reads env (4 + n)) data (lm_message l) = Inr None)"

definition unfenced_send :: "delivery_env \<Rightarrow> send_job \<Rightarrow> db \<Rightarrow> loaded_message \<Rightarrow> bool" where
  "unfenced_send env data d l =
     (lockedAiReplyFenceReason env d data (lm_message l) = Inr None \<and>
      structuredReplyFenceReason env (\<lambda>_. d) data (lm_message l) = Inr None)"

lemma user_unfenced:
  assumes "ms_senderType (lm_message l) = Sn_USER"
  shows "unfenced_load env data l" and "unfenced_send env data d l"
  using assms by (simp_all add: unfenced_load_def unfenced_send_def systemMessageFenceReason_def
      structuredReplyFenceReason_def lockedAiReplyFenceReason_def aiReplyFenceReason_def)

text \<open>The fences do not read the operations.\<close>

lemma unfenced_send_frame [simp]:
  "unfenced_send env data (d\<lparr>channelDeliveryOperations := ops\<rparr>) l = unfenced_send env data d l"
proof -
  have gate: "automaticReplyAdmissionStateForConversationMode h now (d\<lparr>channelDeliveryOperations := ops\<rparr>) t c mode =
      automaticReplyAdmissionStateForConversationMode h now d t c mode" for h now t c mode
    by (rule admission_cong) (simp_all add: binding_tables_def conversation_gate_def)
  have adm: "reply_admission_reason env (d\<lparr>channelDeliveryOperations := ops\<rparr>) run m =
      reply_admission_reason env d run m" for run m
    by (simp add: reply_admission_reason_def automaticReplyAdmissionState_def
        completedAutomaticReplyHandoffAdmissionState_def gate)
  have cap: "capabilityAutonomyFenceReason (d\<lparr>channelDeliveryOperations := ops\<rparr>) run =
      capabilityAutonomyFenceReason d run" for run
    by (simp add: capabilityAutonomyFenceReason_def capability_snapshot_def)
  have t: "messages (d\<lparr>channelDeliveryOperations := ops\<rparr>) = messages d"
    "retrievalTraces (d\<lparr>channelDeliveryOperations := ops\<rparr>) = retrievalTraces d"
    "publications (d\<lparr>channelDeliveryOperations := ops\<rparr>) = publications d"
    "aiReplyRuns (d\<lparr>channelDeliveryOperations := ops\<rparr>) = aiReplyRuns d" by simp_all
  have ground: "grounded_fence_reason (\<lambda>_. d\<lparr>channelDeliveryOperations := ops\<rparr>) = grounded_fence_reason (\<lambda>_. d)"
    unfolding grounded_fence_reason_def t ..
  have "lockedAiReplyFenceReason env (d\<lparr>channelDeliveryOperations := ops\<rparr>) data m = lockedAiReplyFenceReason env d data m" for m
    unfolding lockedAiReplyFenceReason_def adm cap by simp
  moreover have "structuredReplyFenceReason env (\<lambda>_. d\<lparr>channelDeliveryOperations := ops\<rparr>) data m =
      structuredReplyFenceReason env (\<lambda>_. d) data m" for m
    unfolding structuredReplyFenceReason_def ground run_of_reply_def t ..
  ultimately show ?thesis by (simp add: unfenced_send_def)
qed

lemma delivery_load:
  assumes rows: "deliverable_rows data d l ch" and env: "provider_answers env l ch answer"
    and reads: "dn_reads env 1 = d" and unfenced: "unfenced_load env data l"
  shows "load_delivery env data d = Request (delivery_of (dn_host env) data l ch)"
proof -
  have "latest_operation data (lm_message l) d = None"
    using rows by (simp add: latest_operation_def deliverable_rows_def filter_empty_conv split: list.splits)
  moreover obtain s where "ms_text (lm_message l) = Some s" "js_trim s \<noteq> []"
    using rows by (auto simp: deliverable_rows_def delivery_text_def js_trim_def split: option.splits)
  ultimately show ?thesis
    using assms by (auto simp: load_delivery_def Let_def fence_delivery_def prepare_delivery_def unfenced_load_def
        deliverable_rows_def provider_answers_def undelivered_def delivery_of_def delivery_text_def truthy_def
        split: option.splits)
qed

lemma delivery_send:
  assumes rows: "deliverable_rows data d l ch" and ctx: "ctx = delivery_of h data l ch"
    and db: "wd_db w = d\<lparr>channelDeliveryOperations := ops\<rparr>"
    and env: "provider_answers env l ch answer" and unfenced: "unfenced_send env data d l"
  obtains c where "delivery_step env data jobId (Send ctx op) w = (w\<lparr>wd_calls := wd_calls w @ [c]\<rparr>,
      case answer of Inl e \<Rightarrow> recover env ctx op e True | Inr out \<Rightarrow> Commit ctx op out)"
    and "pv_operation c = op_id op" and "pv_attempt c = op_attemptCount op" and "pv_answer c = answer"
    and "si_text (pv_input c) = js_trim (delivery_text (lm_message l))"
proof -
  note r = rows [unfolded deliverable_rows_def] and found = deliverable_found [OF rows]
  have "unfenced_send env data (wd_db w) l" using unfenced by (simp add: db)
  note fences = this [unfolded unfenced_send_def db]
  obtain cr adapter where "decrypt_credentials env ch = Inr cr" "ch_type ch = TELEGRAM \<longrightarrow> telegramBotToken cr \<noteq> None"
    and "adapterFor env l = Some adapter" and answer: "\<And>input. adapter input = answer"
    and quiet: "\<And>n. dn_abort env n = None" "dn_fault env = No_fault"
    using env by (auto simp: provider_answers_def)
  then have auth: "authorize_send env (wd_db w) data jobId ctx op =
      Inr (Inr (adapter, send_input_of data jobId ctx op ch cr))"
    using r found
    by (simp add: db fences authorize_send_def channel_fence_def ctx delivery_of_def configuration_changed_def)
  define c where "c = \<lparr>pv_operation = op_id op, pv_attempt = op_attemptCount op,
    pv_input = send_input_of data jobId ctx op ch cr, pv_answer = answer\<rparr>"
  show thesis
  proof (rule that)
    show "delivery_step env data jobId (Send ctx op) w = (w\<lparr>wd_calls := wd_calls w @ [c]\<rparr>,
      case answer of Inl e \<Rightarrow> recover env ctx op e True | Inr out \<Rightarrow> Commit ctx op out)"
      using auth quiet by (simp add: send_step_def Let_def answer c_def split: sum.splits)
  qed (simp_all add: c_def send_input_of_def ctx delivery_of_def)
qed

text \<open>The operation of the delivery, created and then claimed.\<close>

definition claimed_operation :: "int \<Rightarrow> channel_delivery_operation \<Rightarrow> channel_delivery_operation" where
  "claimed_operation now r =
     r\<lparr>op_status := Op_STARTED, op_attemptCount := op_attemptCount r + 1, op_startedAt := Some now,
       op_errorCode := None, op_errorMessage := None, op_nextRetryAt := None\<rparr>"

lemma update_other:
  assumes "\<And>x. x \<in> set t \<Longrightarrow> \<not> P x"
  shows "update_many P f t = t" and "count_where P (t @ [r]) = (if P r then 1 else 0)"
proof -
  have "count_where P t = 0" using assms by (simp add: count_where_0_iff)
  then show "update_many P f t = t" and "count_where P (t @ [r]) = (if P r then 1 else 0)"
    using update_many_none [of P t f] by (simp_all add: count_where_def)
qed

lemma delivery_create:
  assumes rows: "deliverable_rows data d l ch" and w: "wd_db w = d" and env: "dn_fault env = No_fault"
    and new: "\<forall>r\<in>set (channelDeliveryOperations d). op_id r \<noteq> od_id (dc_descriptor (delivery_of h data l ch))"
  defines "ctx \<equiv> delivery_of h data l ch"
  shows "findOperation ctx d = None"
    and "delivery_step env data jobId (Create ctx) w =
      (w\<lparr>wd_db := d\<lparr>channelDeliveryOperations := channelDeliveryOperations d @ [new_operation (dn_now env) ctx]\<rparr>\<rparr>,
       Claim ctx (new_operation (dn_now env) ctx))"
proof -
  note r = rows [unfolded deliverable_rows_def] and found = deliverable_found [OF rows]
  have other: "op_messageId x \<noteq> ms_id (lm_message l)" if "x \<in> set (channelDeliveryOperations d)" for x
    using r that by blast
  show "findOperation ctx d = None"
    using other by (auto simp: findOperation_def Let_def find_None_iff ctx_def delivery_of_def)
  have refs: "operation_references (new_operation (dn_now env) ctx) d"
    using found by (auto simp: operation_references_def list_ex_iff new_operation_def Let_def ctx_def delivery_of_def)
  have fresh: "\<not> list_ex (\<lambda>x. op_id x = op_id (new_operation (dn_now env) ctx) \<or>
      operation_key x = operation_key (new_operation (dn_now env) ctx)) (channelDeliveryOperations d)"
    using other new by (auto simp: list_ex_iff new_operation_def Let_def operation_key_def ctx_def delivery_of_def)
  have "createOperation (dn_now env) ctx d = Inr (new_operation (dn_now env) ctx,
      d\<lparr>channelDeliveryOperations := channelDeliveryOperations d @ [new_operation (dn_now env) ctx]\<rparr>)"
    using refs fresh by (simp add: createOperation_def Let_def)
  moreover have "requested ctx (new_operation (dn_now env) ctx) = Claim ctx (new_operation (dn_now env) ctx)"
    by (simp add: requested_def settledOperationResult_def new_operation_def Let_def)
  ultimately show "delivery_step env data jobId (Create ctx) w =
      (w\<lparr>wd_db := d\<lparr>channelDeliveryOperations := channelDeliveryOperations d @ [new_operation (dn_now env) ctx]\<rparr>\<rparr>,
       Claim ctx (new_operation (dn_now env) ctx))"
    using w env by (simp add: on_write_def run_write_def)
qed

lemma delivery_claim:
  assumes db: "wd_db w = d\<lparr>channelDeliveryOperations := ops @ [r]\<rparr>"
    and r: "op_status r = Op_REQUESTED" "operationMatches r ctx"
    and env: "dn_fault env = No_fault" "dn_abort env 0 = None"
    and new: "\<forall>x\<in>set ops. op_id x \<noteq> op_id r"
  shows "delivery_step env data jobId (Claim ctx r) w =
      (w\<lparr>wd_db := d\<lparr>channelDeliveryOperations := ops @ [claimed_operation (dn_now env) r]\<rparr>\<rparr>,
       Reread ctx (op_id r) True)"
proof -
  let ?sel = "\<lambda>x. op_id x = op_id r \<and> op_status x = Op_REQUESTED \<and> op_requestHash x = od_requestHash (dc_descriptor ctx)"
  have none: "\<And>x. x \<in> set ops \<Longrightarrow> \<not> ?sel x" using new by blast
  have own: "?sel r" using r by (simp add: operationMatches_def Let_def)
  have "claimOperation (dn_now env) (op_id r) (od_requestHash (dc_descriptor ctx)) (wd_db w) =
      (True, d\<lparr>channelDeliveryOperations := ops @ [claimed_operation (dn_now env) r]\<rparr>)"
    unfolding claimOperation_def Let_def db
    using own by (simp add: update_other [of ops ?sel, OF none] claimed_operation_def)
  then show ?thesis using env by (simp add: on_write_def run_write_def safe_tx_def)
qed

lemma delivery_claimed:
  assumes db: "wd_db w = d\<lparr>channelDeliveryOperations := ops @ [q]\<rparr>"
    and q: "operationMatches q ctx" and new: "\<forall>x\<in>set ops. op_id x \<noteq> op_id q"
  shows "claimed_point ctx (op_id q) True (wd_db w) = Send ctx q"
proof -
  have "List.find (\<lambda>x. op_id x = op_id q) ops = None" using new by (simp add: find_None_iff)
  then have "List.find (\<lambda>x. op_id x = op_id q) (channelDeliveryOperations (wd_db w)) = Some q"
    by (simp add: db find_append)
  with q show ?thesis by (simp add: claimed_point_def checked_def)
qed

lemma claimed_operation_simps [simp]:
  "op_id (claimed_operation now r) = op_id r" "op_status (claimed_operation now r) = Op_STARTED"
  "op_attemptCount (claimed_operation now r) = op_attemptCount r + 1"
  "operationMatches (claimed_operation now r) ctx = operationMatches r ctx"
  by (simp_all add: claimed_operation_def operationMatches_def)

lemma new_operation_simps [simp]:
  "op_id (new_operation now ctx) = od_id (dc_descriptor ctx)" "op_status (new_operation now ctx) = Op_REQUESTED"
  "op_attemptCount (new_operation now ctx) = 0" "operationMatches (new_operation now ctx) ctx"
  by (simp_all add: new_operation_def operationMatches_def Let_def)

text \<open>The end of the delivery: the message is sent and the operation succeeded.\<close>

definition delivered_message :: "int \<Rightarrow> send_job \<Rightarrow> channel_delivery_operation \<Rightarrow> delivery_context \<Rightarrow> send_result
    \<Rightarrow> string option \<Rightarrow> message \<Rightarrow> message" where
  "delivered_message now data op ctx out jobId =
     set_message Ms_SENT (metadataWith (dc_message ctx) (sent_patch now data op (dc_descriptor ctx) out jobId))"

lemma delivery_commit:
  assumes db: "wd_db w = d\<lparr>channelDeliveryOperations := ops @ [q]\<rparr>"
    and q: "op_status q = Op_STARTED" "operationMatches q ctx" and new: "\<forall>x\<in>set ops. op_id x \<noteq> op_id q"
    and rows: "deliverable_rows data d l ch" and ctx: "ctx = delivery_of h data l ch"
    and env: "dn_fault env = No_fault" and out: "successfulStatus (sr_sendStatus out)"
  obtains w' q' r where "delivery_step env data jobId (Commit ctx q out) w = (w', Finished (Inr r))"
    and "dl_status r = Ds_sent" and "wd_calls w' = wd_calls w"
    and "channelDeliveryOperations (wd_db w') = ops @ [q']" and "op_status q' = Op_SUCCEEDED"
    and "op_id q' = op_id q" and "op_attemptCount q' = op_attemptCount q"
    and "op_tenantId q' = op_tenantId q" and "op_messageId q' = op_messageId q"
    and "op_conversationId q' = op_conversationId q" and "op_deliveryVersion q' = op_deliveryVersion q"
    and "messages (wd_db w') = update_many (\<lambda>r. ms_id r = ms_id (lm_message l) \<and> ms_tenantId r = sj_tenantId data \<and>
      ms_conversationId r = sj_conversationId data \<and> undelivered r)
      (delivered_message (dn_now env) data q ctx out jobId) (messages d)"
    and "conversations (wd_db w') = conversations d"
proof -
  let ?m = "lm_message l"
  let ?sel = "\<lambda>r. ms_id r = ms_id ?m \<and> ms_tenantId r = sj_tenantId data \<and>
      ms_conversationId r = sj_conversationId data \<and> undelivered r"
  let ?osel = "\<lambda>r. op_id r = op_id q \<and> op_status r = Op_STARTED \<and> op_requestHash r = od_requestHash (dc_descriptor ctx)"
  note r = rows [unfolded deliverable_rows_def] and found = deliverable_found [OF rows]
  have u: "unique_on ms_id (messages d)" and und: "undelivered ?m" using r by blast+
  have one: "count_where ?sel (messages d) = 1"
    using count_where_one [OF u found(6), of "\<lambda>r. ms_tenantId r = sj_tenantId data \<and>
      ms_conversationId r = sj_conversationId data \<and> undelivered r"] found und by simp
  define m' where "m' = delivered_message (dn_now env) data q ctx out jobId"
  have own: "?osel q" using q by (simp add: operationMatches_def Let_def)
  have none: "\<And>x. x \<in> set ops \<Longrightarrow> \<not> ?osel x" using new by blast
  define qs where "qs = q\<lparr>op_status := Op_SUCCEEDED,
          op_providerMessageId := Some (sr_externalMessageId out),
          op_result := Some (JObj ([(''status'', JStr ''sent''),
            (''adapterStatus'', JStr (sendStatus_text (sr_sendStatus out))),
            (''providerExternalMessageId'', JStr (sr_externalMessageId out)),
            (''messageId'', JStr (ms_id ?m))] @ run_entries data @ [job_entry jobId])),
          op_errorCode := None, op_errorMessage := None, op_completedAt := Some (dn_now env)\<rparr>"
  obtain d' q' where c: "commitSuccessfulDelivery (dn_now env) data q ctx out jobId (wd_db w) = Inr d'"
    and d': "channelDeliveryOperations d' = ops @ [q']" "messages d' = update_many ?sel m' (messages d)"
      "conversations d' = conversations d"
    and q': "op_status q' = Op_SUCCEEDED" "op_id q' = op_id q" "op_attemptCount q' = op_attemptCount q"
      "op_tenantId q' = op_tenantId q" "op_messageId q' = op_messageId q"
      "op_conversationId q' = op_conversationId q" "op_deliveryVersion q' = op_deliveryVersion q"
  proof (rule that [of _ qs])
    have "dc_message ctx = ?m" by (simp add: ctx delivery_of_def)
    then show "commitSuccessfulDelivery (dn_now env) data q ctx out jobId (wd_db w) = Inr (d
      \<lparr>messages := update_many ?sel m' (messages d),
       auditLogs := auditLogs d @ [sent_audit data q ctx out jobId],
       channelDeliveryOperations := ops @ [qs]\<rparr>)"
      using one own update_other [of ops ?osel, OF none]
      by (simp add: commitSuccessfulDelivery_def update_delivered_message_def Let_def db m'_def delivered_message_def qs_def)
  qed (simp_all add: qs_def)
  then show thesis
    using env out that by (simp add: on_write_def run_write_def unit_tx_def m'_def)
qed

text \<open>The message and its operation as a second delivery finds them.\<close>

lemma delivered_row:
  assumes rows: "deliverable_rows data d l ch"
    and msgs: "ms = update_many (\<lambda>r. ms_id r = ms_id (lm_message l) \<and> ms_tenantId r = sj_tenantId data \<and>
      ms_conversationId r = sj_conversationId data \<and> undelivered r) (delivered_message now data q ctx out jobId)
      (messages d)"
  shows "\<exists>m\<in>set ms. ms_id m = sj_messageId data \<and> ms_status m = Ms_SENT"
proof -
  note found = deliverable_found [OF rows]
  have id: "ms_id (lm_message l) = sj_messageId data" and "undelivered (lm_message l)"
    using rows by (auto simp: deliverable_rows_def dest: load_messageD)
  then have "delivered_message now data q ctx out jobId (lm_message l) \<in> set ms"
    unfolding msgs using found by (intro in_update_many_changed) auto
  with id show ?thesis
    by (intro bexI [of _ "delivered_message now data q ctx out jobId (lm_message l)"])
      (simp_all add: delivered_message_def set_message_def)
qed

lemma delivered_load:
  assumes rows: "deliverable_rows data d l ch" and conv: "conversations d' = conversations d"
    and msgs: "messages d' = update_many (\<lambda>r. ms_id r = ms_id (lm_message l) \<and> ms_tenantId r = sj_tenantId data \<and>
      ms_conversationId r = sj_conversationId data \<and> undelivered r) (delivered_message now data q ctx out jobId)
      (messages d)"
  obtains l' where "load_message data d' = Some l'" and "ms_id (lm_message l') = ms_id (lm_message l)"
proof -
  let ?P = "\<lambda>m. ms_id m = sj_messageId data \<and> ms_tenantId m = sj_tenantId data \<and>
      ms_conversationId m = sj_conversationId data \<and> ms_direction m = OUTBOUND \<and>
      ms_senderType m \<in> {Sn_AI, Sn_USER, Sn_SYSTEM}"
  have load: "load_message data d = Some l" using rows by (simp add: deliverable_rows_def)
  then have m: "List.find ?P (messages d) = Some (lm_message l)"
    and c: "List.find (\<lambda>c. cv_id c = ms_conversationId (lm_message l) \<and> cv_tenantId c = ms_tenantId (lm_message l))
       (conversations d) = Some (lm_conversation l)"
    by (auto simp: load_message_def Let_def split: option.splits)
  have "?P (delivered_message now data q ctx out jobId x) = ?P x" for x
    by (simp add: delivered_message_def set_message_def)
  note updated = find_update_many [of ?P "delivered_message now data q ctx out jobId", OF this]
  then obtain m' where m': "List.find ?P (messages d') = Some m'" and "m' = lm_message l \<or>
      m' = delivered_message now data q ctx out jobId (lm_message l)"
    unfolding msgs using m by auto
  then have "ms_id m' = ms_id (lm_message l)" "ms_conversationId m' = ms_conversationId (lm_message l)"
    "ms_tenantId m' = ms_tenantId (lm_message l)"
    by (auto simp: delivered_message_def set_message_def)
  then show thesis using that m' c conv by (simp add: load_message_def Let_def)
qed

lemma settled_load:
  assumes load: "load_message data d = Some l" and ops: "channelDeliveryOperations d = ops @ [q]"
    and other: "\<forall>r\<in>set ops. op_messageId r \<noteq> ms_id (lm_message l)"
    and q: "op_status q = Op_SUCCEEDED" "op_tenantId q = sj_tenantId data" "op_messageId q = ms_id (lm_message l)"
      "op_conversationId q = sj_conversationId data" "op_deliveryVersion q = DELIVERY_VERSION"
    and env: "\<forall>n. dn_abort env n = None" "dn_reads env 1 = d"
  shows "\<exists>r. load_delivery env data d = Finished (Inr r) \<and> dl_status r = Ds_already_delivered"
proof -
  have "latest_operation data (lm_message l) d = Some q"
    using other q by (auto simp: latest_operation_def ops js_sort_def filter_empty_conv)
  then show ?thesis
    using assms by (simp add: load_delivery_def Let_def settledOperationResult_def operation_result_def delivery_result0_def)
qed

lemma run_step:
  "delivery_step (envs n) data jobId p (others n w) = (w', p') \<Longrightarrow> \<forall>r. p \<noteq> Finished r \<Longrightarrow>
   run_delivery envs others data jobId n p w = run_delivery envs others data jobId (Suc n) p' w'"
  by (subst run_delivery.simps) (cases p; simp del: delivery_step.simps)

lemma run_end [simp]: "run_delivery envs others data jobId n (Finished r) w = (w, r)"
  by (subst run_delivery.simps) simp

text \<open>The run up to the claim, and from the claim to the answer of the provider.\<close>

lemma run_create:
  assumes rows: "deliverable_rows data (wd_db w) l ch" and env: "\<forall>n. provider_answers (envs n) l ch answer"
    and host: "dn_host (envs 0) = h" and reads: "dn_reads (envs 0) 1 = wd_db w" and ctx: "ctx = delivery_of h data l ch"
    and unfenced: "unfenced_load (envs 0) data l"
    and new: "\<forall>r\<in>set (channelDeliveryOperations (wd_db w)). op_id r \<noteq> od_id (dc_descriptor ctx)"
    and r: "r = new_operation (dn_now (envs 2)) ctx"
  shows "run_delivery envs (\<lambda>_ w. w) data jobId 0 Load w = run_delivery envs (\<lambda>_ w. w) data jobId 3 (Claim ctx r)
      (w\<lparr>wd_db := (wd_db w)\<lparr>channelDeliveryOperations := channelDeliveryOperations (wd_db w) @ [r]\<rparr>\<rparr>)"
proof -
  have fault: "dn_fault (envs n) = No_fault" for n using env by (auto simp: provider_answers_def)
  have "delivery_step (envs 0) data jobId Load w = (w, Request ctx)"
    using delivery_load [OF rows _ reads unfenced] env host by (auto simp: ctx)
  moreover have "delivery_step (envs 1) data jobId (Request ctx) w = (w, Create ctx)"
    using delivery_create(1) [OF rows refl fault new [unfolded ctx]] by (simp add: ctx)
  moreover note delivery_create(2) [OF rows refl fault [of 2] new [unfolded ctx], where jobId = jobId, folded ctx, folded r]
  ultimately show ?thesis by (simp add: run_step eval_nat_numeral)
qed

lemma run_claim:
  assumes rows: "deliverable_rows data d l ch" and db: "wd_db w = d\<lparr>channelDeliveryOperations := ops @ [r]\<rparr>"
    and env: "\<forall>n. provider_answers (envs n) l ch (Inr out)" and ctx: "ctx = delivery_of h data l ch"
    and unfenced: "\<forall>n. unfenced_send (envs n) data d l"
    and r: "op_status r = Op_REQUESTED" "operationMatches r ctx" and new: "\<forall>x\<in>set ops. op_id x \<noteq> op_id r"
    and q: "q = claimed_operation (dn_now (envs n)) r"
  obtains c where "run_delivery envs (\<lambda>_ w. w) data jobId n (Claim ctx r) w =
      run_delivery envs (\<lambda>_ w. w) data jobId (n + 3) (Commit ctx q out)
        (w\<lparr>wd_db := d\<lparr>channelDeliveryOperations := ops @ [q]\<rparr>, wd_calls := wd_calls w @ [c]\<rparr>)"
    and "si_text (pv_input c) = js_trim (delivery_text (lm_message l))"
proof -
  define v where "v = w\<lparr>wd_db := d\<lparr>channelDeliveryOperations := ops @ [q]\<rparr>\<rparr>"
  have quiet: "dn_fault (envs n) = No_fault" "dn_abort (envs n) 0 = None" using env by (auto simp: provider_answers_def)
  have "delivery_step (envs n) data jobId (Claim ctx r) w = (v, Reread ctx (op_id q) True)"
    using delivery_claim [OF db r quiet new] by (simp add: v_def q)
  moreover have "delivery_step (envs (Suc n)) data jobId (Reread ctx (op_id q) True) v = (v, Send ctx q)"
    using delivery_claimed [where w = v and d = d and ops = ops and q = q] r new by (simp add: v_def q)
  moreover obtain c where "delivery_step (envs (Suc (Suc n))) data jobId (Send ctx q) v =
      (v\<lparr>wd_calls := wd_calls v @ [c]\<rparr>, case Inr out of Inl e \<Rightarrow> recover (envs (Suc (Suc n))) ctx q e True | Inr out \<Rightarrow> Commit ctx q out)"
    and c: "si_text (pv_input c) = js_trim (delivery_text (lm_message l))"
    using delivery_send [OF rows ctx _ env [rule_format] unfenced [rule_format], of v _ "Suc (Suc n)" jobId q]
    by (auto simp: v_def)
  ultimately have "run_delivery envs (\<lambda>_ w. w) data jobId n (Claim ctx r) w =
      run_delivery envs (\<lambda>_ w. w) data jobId (n + 3) (Commit ctx q out) (v\<lparr>wd_calls := wd_calls v @ [c]\<rparr>)"
    by (simp add: run_step eval_nat_numeral)
  then show thesis using c that by (simp add: v_def)
qed

lemma delivery_run:
  assumes rows: "deliverable_rows data (wd_db w) l ch"
    and env: "\<forall>n. provider_accepts (envs n) l ch out \<and> dn_host (envs n) = h"
    and reads: "dn_reads (envs 0) 1 = wd_db w"
    and unfenced: "unfenced_load (envs 0) data l" "\<forall>n. unfenced_send (envs n) data (wd_db w) l"
    and new: "\<forall>r\<in>set (channelDeliveryOperations (wd_db w)). op_id r \<noteq> od_id (dc_descriptor (delivery_of h data l ch))"
  obtains w' r c q q0 where "deliverChannelMessage envs (\<lambda>_ w. w) data jobId w = (w', Inr r)" and "dl_status r = Ds_sent"
    and "wd_calls w' = wd_calls w @ [c]" and "si_text (pv_input c) = js_trim (delivery_text (lm_message l))"
    and "channelDeliveryOperations (wd_db w') = channelDeliveryOperations (wd_db w) @ [q]"
    and "op_status q = Op_SUCCEEDED" and "op_attemptCount q = 1" and "op_tenantId q = sj_tenantId data"
    and "op_messageId q = ms_id (lm_message l)" and "op_conversationId q = sj_conversationId data"
    and "op_deliveryVersion q = DELIVERY_VERSION"
    and "messages (wd_db w') = update_many (\<lambda>r. ms_id r = ms_id (lm_message l) \<and> ms_tenantId r = sj_tenantId data \<and>
      ms_conversationId r = sj_conversationId data \<and> undelivered r)
      (delivered_message (dn_now (envs 6)) data q0 (delivery_of h data l ch) out jobId) (messages (wd_db w))"
    and "conversations (wd_db w') = conversations (wd_db w)"
proof -
  define ctx where "ctx = delivery_of h data l ch"
  define r0 where "r0 = new_operation (dn_now (envs 2)) ctx"
  define q0 where "q0 = claimed_operation (dn_now (envs 3)) r0"
  have acc: "\<forall>n. provider_answers (envs n) l ch (Inr out)" and out: "successfulStatus (sr_sendStatus out)"
    and host: "dn_host (envs 0) = h" using env by (simp_all add: provider_accepts_def)
  have fault: "dn_fault (envs 6) = No_fault" using acc by (simp add: provider_answers_def)
  have fresh: "\<forall>x\<in>set (channelDeliveryOperations (wd_db w)). op_id x \<noteq> op_id r0"
    using new by (simp add: r0_def ctx_def)
  have req: "op_status r0 = Op_REQUESTED" "operationMatches r0 ctx"
    and started: "op_status q0 = Op_STARTED" "operationMatches q0 ctx" by (simp_all add: r0_def q0_def)
  define w2 where "w2 = w\<lparr>wd_db := (wd_db w)\<lparr>channelDeliveryOperations := channelDeliveryOperations (wd_db w) @ [r0]\<rparr>\<rparr>"
  note create = run_create [OF rows acc host reads ctx_def unfenced(1) new [folded ctx_def] r0_def, of jobId, folded w2_def]
  have db2: "wd_db w2 = (wd_db w)\<lparr>channelDeliveryOperations := channelDeliveryOperations (wd_db w) @ [r0]\<rparr>"
    by (simp add: w2_def)
  obtain c where claim: "run_delivery envs (\<lambda>_ w. w) data jobId 3 (Claim ctx r0) w2 =
      run_delivery envs (\<lambda>_ w. w) data jobId (3 + 3) (Commit ctx q0 out)
        (w2\<lparr>wd_db := (wd_db w)\<lparr>channelDeliveryOperations := channelDeliveryOperations (wd_db w) @ [q0]\<rparr>,
            wd_calls := wd_calls w2 @ [c]\<rparr>)"
    and sent: "si_text (pv_input c) = js_trim (delivery_text (lm_message l))"
    by (rule run_claim [OF rows db2 acc ctx_def unfenced(2) req fresh q0_def])
  define w6 where "w6 = w2\<lparr>wd_db := (wd_db w)\<lparr>channelDeliveryOperations := channelDeliveryOperations (wd_db w) @ [q0]\<rparr>,
    wd_calls := wd_calls w2 @ [c]\<rparr>"
  have db6: "wd_db w6 = (wd_db w)\<lparr>channelDeliveryOperations := channelDeliveryOperations (wd_db w) @ [q0]\<rparr>"
    and calls6: "wd_calls w6 = wd_calls w @ [c]" by (simp_all add: w6_def w2_def)
  have fresh': "\<forall>x\<in>set (channelDeliveryOperations (wd_db w)). op_id x \<noteq> op_id q0" using fresh by (simp add: q0_def)
  show thesis
  proof (rule delivery_commit [where jobId = jobId, OF db6 started fresh' rows ctx_def fault out], goal_cases)
    case (1 w' q r)
    have run: "deliverChannelMessage envs (\<lambda>_ w. w) data jobId w = (w', Inr r)"
      unfolding deliverChannelMessage_def create claim w6_def [symmetric] using 1(1) by (simp add: run_step)
    show ?case
      by (rule that [OF run 1(2), of c q q0])
        (use 1 calls6 sent deliverable_found [OF rows] in \<open>simp_all add: q0_def r0_def claimed_operation_def
           new_operation_def Let_def ctx_def delivery_of_def operationDescriptor_def\<close>)
  qed
qed

text \<open>A repeated delivery finds the operation of the first.\<close>

lemma delivery_repeated:
  assumes rows: "deliverable_rows data d l ch" and convs: "conversations (wd_db w') = conversations d"
    and msgs: "messages (wd_db w') = update_many (\<lambda>r. ms_id r = ms_id (lm_message l) \<and> ms_tenantId r = sj_tenantId data \<and>
      ms_conversationId r = sj_conversationId data \<and> undelivered r) (delivered_message now data q0 ctx out jobId)
      (messages d)"
    and ops: "channelDeliveryOperations (wd_db w') = channelDeliveryOperations d @ [q]"
    and q: "op_status q = Op_SUCCEEDED" "op_tenantId q = sj_tenantId data" "op_messageId q = ms_id (lm_message l)"
      "op_conversationId q = sj_conversationId data" "op_deliveryVersion q = DELIVERY_VERSION"
    and env: "\<forall>n. dn_abort (envs' 0) n = None" "dn_reads (envs' 0) 1 = wd_db w'"
  shows "\<exists>r'. deliverChannelMessage envs' (\<lambda>_ w. w) data jobId' w' = (w', Inr r') \<and>
    dl_status r' = Ds_already_delivered"
proof -
  obtain l' where l': "load_message data (wd_db w') = Some l'" and id: "ms_id (lm_message l') = ms_id (lm_message l)"
    by (rule delivered_load [OF rows convs msgs])
  have other: "\<forall>r\<in>set (channelDeliveryOperations d). op_messageId r \<noteq> ms_id (lm_message l')"
    using rows id by (simp add: deliverable_rows_def)
  obtain r' where "load_delivery (envs' 0) data (wd_db w') = Finished (Inr r')" and "dl_status r' = Ds_already_delivered"
    using settled_load [OF l' ops other q(1,2) _ q(4,5) env] q(3) id by auto
  then show ?thesis
    unfolding deliverChannelMessage_def by (subst run_delivery.simps) simp
qed

text \<open>C12. An undisturbed delivery of a message that no fence holds back, as none does for the messages of
  persons, sends it once: the result is \<open>sent\<close>, the provider gets one call with the trimmed text, the
  message is SENT and its one operation SUCCEEDED after one attempt. A repeated delivery answers
  \<open>already_delivered\<close> and neither calls the provider nor changes a row.\<close>

theorem delivery_sends_once:
  assumes rows: "deliverable_rows data (wd_db w) l ch"
    and env: "\<forall>n. provider_accepts (envs n) l ch out \<and> dn_host (envs n) = h"
    and reads: "dn_reads (envs 0) 1 = wd_db w"
    and unfenced: "unfenced_load (envs 0) data l" "\<forall>n. unfenced_send (envs n) data (wd_db w) l"
    and new: "\<forall>r\<in>set (channelDeliveryOperations (wd_db w)). op_id r \<noteq> od_id (dc_descriptor (delivery_of h data l ch))"
  shows "\<exists>w' r c q. deliverChannelMessage envs (\<lambda>_ w. w) data jobId w = (w', Inr r) \<and> dl_status r = Ds_sent \<and>
    wd_calls w' = wd_calls w @ [c] \<and> si_text (pv_input c) = js_trim (delivery_text (lm_message l)) \<and>
    (\<exists>m\<in>set (messages (wd_db w')). ms_id m = sj_messageId data \<and> ms_status m = Ms_SENT) \<and>
    channelDeliveryOperations (wd_db w') = channelDeliveryOperations (wd_db w) @ [q] \<and>
    op_status q = Op_SUCCEEDED \<and> op_attemptCount q = 1 \<and>
    (\<forall>envs' jobId'. (\<forall>n. dn_abort (envs' 0) n = None) \<longrightarrow> dn_reads (envs' 0) 1 = wd_db w' \<longrightarrow>
       (\<exists>r'. deliverChannelMessage envs' (\<lambda>_ w. w) data jobId' w' = (w', Inr r') \<and>
             dl_status r' = Ds_already_delivered))"
proof (rule delivery_run [OF rows env reads unfenced new, of jobId], goal_cases)
  case (1 w' r c q q0)
  have sent: "\<exists>m\<in>set (messages (wd_db w')). ms_id m = sj_messageId data \<and> ms_status m = Ms_SENT"
    by (rule delivered_row [OF rows 1(12)])
  have again: "\<forall>envs' jobId'. (\<forall>n. dn_abort (envs' 0) n = None) \<longrightarrow> dn_reads (envs' 0) 1 = wd_db w' \<longrightarrow>
       (\<exists>r'. deliverChannelMessage envs' (\<lambda>_ w. w) data jobId' w' = (w', Inr r') \<and>
             dl_status r' = Ds_already_delivered)"
    using delivery_repeated [OF rows 1(13) 1(12) 1(5) 1(6) 1(8) 1(9) 1(10) 1(11)] by blast
  show ?case
    by (rule exI [of _ w'], rule exI [of _ r], rule exI [of _ c], rule exI [of _ q])
      (intro conjI 1 sent again)
qed

end
