(* ===== verification/Delivery_Examples.thy ===== *)
theory Delivery_Examples
  imports Delivery_Properties
begin

text \<open>
  The properties of deliveries at work: two workers deliver one reply of the AI at once, the first call
  of its webhook fails, and the second sends it.
\<close>

section \<open>Retries\<close>

text \<open>A delivery whose webhook fails retryably, and one that finds its operation.\<close>

definition released_operation :: "int \<Rightarrow> webhook_failure \<Rightarrow> channel_delivery_operation \<Rightarrow> channel_delivery_operation" where
  "released_operation now f r =
     r\<lparr>op_status := Op_REQUESTED, op_errorCode := Some (webhookCode_text (wf_code f)), op_errorMessage := None,
       op_result := Some (JObj [(''status'', JStr ''retry_scheduled''),
         (''code'', JStr (webhookCode_text (wf_code f))),
         (''providerOutcome'', JStr (webhookOutcome_text (wf_outcome f))), (''httpStatus'', http_status_json f)]),
       op_startedAt := None, op_nextRetryAt := Some (now + 1000)\<rparr>"

lemma released_operation_simps [simp]:
  "op_id (released_operation now f r) = op_id r" "op_status (released_operation now f r) = Op_REQUESTED"
  "op_attemptCount (released_operation now f r) = op_attemptCount r"
  "operationMatches (released_operation now f r) ctx = operationMatches r ctx"
  by (simp_all add: released_operation_def operationMatches_def)

lemma delivery_retry:
  assumes db: "wd_db w = d\<lparr>channelDeliveryOperations := ops @ [q]\<rparr>" and q: "op_status q = Op_STARTED"
    and new: "\<forall>x\<in>set ops. op_id x \<noteq> op_id q" and env: "dn_fault env = No_fault"
  shows "delivery_step env data jobId (Retry q f) w =
      (w\<lparr>wd_db := d\<lparr>channelDeliveryOperations := ops @ [released_operation (dn_now env) f q]\<rparr>\<rparr>,
       Finished (Inl (WebhookDeliveryError f)))"
proof -
  let ?sel = "\<lambda>x. op_id x = op_id q \<and> op_status x = Op_STARTED"
  have none: "\<And>x. x \<in> set ops \<Longrightarrow> \<not> ?sel x" using new by blast
  have "releaseRetryableWebhookOperation (dn_now env) (op_id q) f (wd_db w) =
      (True, d\<lparr>channelDeliveryOperations := ops @ [released_operation (dn_now env) f q]\<rparr>)"
    using q by (simp add: releaseRetryableWebhookOperation_def update_operation_def Let_def db
        update_other [of ops ?sel, OF none] released_operation_def)
  then show ?thesis using env by (simp add: on_write_def run_write_def safe_tx_def)
qed

lemma delivery_found:
  assumes rows: "deliverable_rows data d l ch" and ctx: "ctx = delivery_of h data l ch"
    and db: "wd_db w = d\<lparr>channelDeliveryOperations := channelDeliveryOperations d @ [r]\<rparr>"
    and r: "op_status r = Op_REQUESTED" "operationMatches r ctx"
  shows "delivery_step env data jobId (Request ctx) w = (w, Claim ctx r)"
proof -
  have "List.find (\<lambda>x. op_tenantId x = ms_tenantId (dc_message ctx) \<and> op_messageId x = ms_id (dc_message ctx) \<and>
      op_channelKey x = od_channelKey (dc_descriptor ctx) \<and> op_recipientKey x = od_recipientKey (dc_descriptor ctx) \<and>
      op_deliveryVersion x = od_deliveryVersion (dc_descriptor ctx)) (channelDeliveryOperations d) = None"
    using rows by (auto simp: find_None_iff deliverable_rows_def ctx delivery_of_def)
  then have "findOperation ctx (wd_db w) = Some r"
    using r by (simp add: findOperation_def Let_def db find_append operationMatches_def)
  with r show ?thesis by (simp add: checked_def requested_def settledOperationResult_def)
qed

section \<open>Two workers\<close>

definition two_workers :: "send_job \<Rightarrow> delivery_point \<Rightarrow> delivery_point \<Rightarrow> nat \<Rightarrow> delivery_worker" where
  "two_workers data p q i = \<lparr>wk_job = data, wk_jobId = None,
     wk_point = (if i = 0 then p else if i = 1 then q else Throw (Error []))\<rparr>"

lemma two_workers_upd:
  "(two_workers data p q)(0 := \<lparr>wk_job = data, wk_jobId = None, wk_point = p'\<rparr>) = two_workers data p' q"
  "(two_workers data p q)(Suc 0 := \<lparr>wk_job = data, wk_jobId = None, wk_point = q'\<rparr>) = two_workers data p q'"
  by (auto simp: two_workers_def)

text \<open>Steps of one worker in the same surroundings.\<close>

inductive delivery_path :: "delivery_env \<Rightarrow> send_job \<Rightarrow> delivery_point \<Rightarrow> world \<Rightarrow> delivery_point \<Rightarrow> world \<Rightarrow> bool"
  for env data where
  here: "delivery_path env data p w p w"
| more: "delivery_step env data None p w = (v, q) \<Longrightarrow> delivery_path env data q v p' w' \<Longrightarrow>
     delivery_path env data p w p' w'"

lemma delivery_path_trans:
  "delivery_path env data p w q v \<Longrightarrow> delivery_path env data q v p' w' \<Longrightarrow> delivery_path env data p w p' w'"
  by (induction rule: delivery_path.induct) (auto intro: delivery_path.more simp del: delivery_step.simps)

lemma first_path:
  "delivery_path env data p w p' w' \<Longrightarrow> max_attempts env \<le> K \<Longrightarrow> delivery_reach K w (two_workers data p q) \<Longrightarrow>
   delivery_reach K w' (two_workers data p' q)"
proof (induction rule: delivery_path.induct)
  case (more p w v p1 p' w')
  have "delivery_reach K v (two_workers data p1 q)"
    using delivery_reach.advance [where ws = "two_workers data p q" and i = 0, OF more.prems(2,1)] more.hyps(1)
    by (simp add: two_workers_def [of data p q 0] two_workers_upd del: fun_upd_apply)
  with more show ?case by blast
qed

lemma second_path:
  "delivery_path env data q w q' w' \<Longrightarrow> max_attempts env \<le> K \<Longrightarrow> delivery_reach K w (two_workers data p q) \<Longrightarrow>
   delivery_reach K w' (two_workers data p q')"
proof (induction rule: delivery_path.induct)
  case (more q w v q1 q' w')
  have "delivery_reach K v (two_workers data p q1)"
    using delivery_reach.advance [where ws = "two_workers data p q" and i = 1, OF more.prems(2,1)] more.hyps(1)
    by (simp add: two_workers_def [of data p q "Suc 0"] two_workers_upd del: fun_upd_apply)
  with more show ?case by blast
qed

lemma both_load:
  assumes "channelDeliveryOperations (wd_db w) = []" and "wd_calls w = []"
  shows "delivery_reach K w (two_workers data Load Load)"
proof -
  have "delivery_reach K w (two_workers data (Throw (Error [])) (Throw (Error [])))"
    using assms by (intro delivery_reach.start) (auto simp: two_workers_def)
  then have "delivery_reach K w (two_workers data Load (Throw (Error [])))"
    using delivery_reach.job [where K = K and i = 0 and data = data and jobId = None, of w "two_workers data (Throw (Error [])) (Throw (Error []))"]
    by (simp add: two_workers_def [of _ _ _ 0] two_workers_upd del: fun_upd_apply)
  then show ?thesis
    using delivery_reach.job [where K = K and i = 1 and data = data and jobId = None, of w "two_workers data Load (Throw (Error []))"]
    by (simp add: two_workers_def [of _ _ _ "Suc 0"] two_workers_upd del: fun_upd_apply)
qed

text \<open>A world with one operation and some calls, and the steps that claim the operation.\<close>

definition world_of :: "db \<Rightarrow> channel_delivery_operation \<Rightarrow> provider_call list \<Rightarrow> world" where
  "world_of d q cs = \<lparr>wd_db = d\<lparr>channelDeliveryOperations := [q]\<rparr>, wd_calls = cs\<rparr>"

lemma world_of_simps [simp]:
  "wd_db (world_of d q cs) = d\<lparr>channelDeliveryOperations := [] @ [q]\<rparr>" "wd_calls (world_of d q cs) = cs"
  "(world_of d q cs)\<lparr>wd_calls := cs'\<rparr> = world_of d q cs'"
  "(world_of d q cs)\<lparr>wd_db := d\<lparr>channelDeliveryOperations := [] @ [q']\<rparr>\<rparr> = world_of d q' cs"
  by (simp_all add: world_of_def)

lemma claim_path:
  assumes env: "provider_answers env l ch answer" and r: "op_status r = Op_REQUESTED" "operationMatches r ctx"
  defines "q \<equiv> claimed_operation (dn_now env) r"
  shows "delivery_path env data (Claim ctx r) (world_of d r cs) (Send ctx q) (world_of d q cs)"
proof (rule delivery_path.more [OF _ delivery_path.more [OF _ delivery_path.here]])
  have quiet: "dn_fault env = No_fault" "dn_abort env 0 = None" using env by (simp_all add: provider_answers_def)
  show "delivery_step env data None (Claim ctx r) (world_of d r cs) = (world_of d q cs, Reread ctx (op_id q) True)"
    using delivery_claim [OF world_of_simps(1) r quiet, of data None] by (simp add: q_def del: delivery_step.simps append_Nil)
  have "operationMatches q ctx" using r by (simp add: q_def)
  then show "delivery_step env data None (Reread ctx (op_id q) True) (world_of d q cs) = (world_of d q cs, Send ctx q)"
    using delivery_claimed [OF world_of_simps(1)] by (simp del: world_of_simps)
qed

lemma create_path:
  assumes rows: "deliverable_rows data d l ch" and none: "channelDeliveryOperations d = []"
    and env: "provider_answers env l ch answer" and ctx: "ctx = delivery_of h data l ch"
  defines "w \<equiv> \<lparr>wd_db = d, wd_calls = []\<rparr>"
  defines "r \<equiv> new_operation (dn_now env) ctx"
  shows "delivery_path env data (Request ctx) w (Claim ctx r) (world_of d r [])"
proof (rule delivery_path.more [OF _ delivery_path.more [OF _ delivery_path.here]])
  have quiet: "dn_fault env = No_fault" using env by (simp add: provider_answers_def)
  note create = delivery_create [OF rows _ quiet, where w = w and h = h, folded ctx]
  show "delivery_step env data None (Request ctx) w = (w, Create ctx)"
    using create(1) none by (simp add: w_def)
  show "delivery_step env data None (Create ctx) w = (world_of d r [], Claim ctx r)"
    using create(2) none by (simp add: w_def r_def world_of_def del: delivery_step.simps)
qed

lemma send_path:
  assumes rows: "deliverable_rows data d l ch" and ctx: "ctx = delivery_of h data l ch"
    and env: "provider_answers env l ch answer" and unfenced: "unfenced_send env data d l"
  obtains c where "delivery_step env data None (Send ctx q) (world_of d q cs) = (world_of d q (cs @ [c]),
      case answer of Inl e \<Rightarrow> recover env ctx q e True | Inr out \<Rightarrow> Commit ctx q out)"
    and "pv_operation c = op_id q" and "si_text (pv_input c) = js_trim (delivery_text (lm_message l))"
  by (rule delivery_send [OF rows ctx _ env unfenced, of "world_of d q cs" _ None q])
     (auto simp del: delivery_step.simps intro: that)

text \<open>The first delivery: it creates and claims the operation, and its webhook fails.\<close>

lemma failing_path:
  assumes rows: "deliverable_rows data d l ch" and none: "channelDeliveryOperations d = []"
    and env: "provider_answers env l ch (Inl (WebhookDeliveryError f))" "1 < max_attempts env"
    and unfenced: "unfenced_send env data d l"
    and f: "wf_retryable f" "wf_outcome f \<noteq> Wo_UNKNOWN" and ctx: "ctx = delivery_of h data l ch"
  obtains r c where "delivery_path env data (Request ctx) \<lparr>wd_db = d, wd_calls = []\<rparr>
      (Finished (Inl (WebhookDeliveryError f))) (world_of d r [c])"
    and "op_status r = Op_REQUESTED" and "operationMatches r ctx" and "pv_operation c = op_id r"
proof -
  define q where "q = claimed_operation (dn_now env) (new_operation (dn_now env) ctx)"
  define r where "r = released_operation (dn_now env) f q"
  have quiet: "dn_fault env = No_fault" using env by (simp add: provider_answers_def)
  obtain c where send: "delivery_step env data None (Send ctx q) (world_of d q []) =
      (world_of d q ([] @ [c]), case Inl (WebhookDeliveryError f) of Inl e \<Rightarrow> recover env ctx q e True | Inr out \<Rightarrow> Commit ctx q out)"
    and c: "pv_operation c = op_id q"
    by (rule send_path [OF rows ctx env(1) unfenced])
  moreover have "recover env ctx q (WebhookDeliveryError f) True = Retry q f"
    using f env(2) by (simp add: recover_def q_def)
  moreover have "delivery_step env data None (Retry q f) (world_of d q [c]) =
      (world_of d r [c], Finished (Inl (WebhookDeliveryError f)))"
    using delivery_retry [OF world_of_simps(1) _ _ quiet, of q data None f] by (simp add: r_def q_def del: delivery_step.simps append_Nil)
  ultimately have "delivery_path env data (Send ctx q) (world_of d q []) (Finished (Inl (WebhookDeliveryError f))) (world_of d r [c])"
    by (intro delivery_path.more [OF _ delivery_path.more [OF _ delivery_path.here]]) (simp_all del: delivery_step.simps)
  note path = delivery_path_trans [OF delivery_path_trans [OF create_path [OF rows none env(1) ctx]
    claim_path [OF env(1), of "new_operation (dn_now env) ctx" ctx, folded q_def]] this]
  show thesis
    by (rule that [OF path]) (simp_all add: r_def q_def c)
qed

text \<open>
  Two deliveries of one message have loaded it. The first creates and claims the operation, and its
  webhook fails; the second finds the operation free again, claims it and sends.
\<close>

lemma retried_delivery:
  assumes rows: "deliverable_rows data d l ch" and none: "channelDeliveryOperations d = []"
    and bad: "provider_answers bad l ch (Inl (WebhookDeliveryError f))" "1 < max_attempts bad" "max_attempts bad \<le> K"
    and loads: "dn_host bad = h" "dn_reads bad 1 = d" "unfenced_load bad data l"
    and unfenced: "unfenced_send bad data d l" "unfenced_send good data d l" and f: "wf_retryable f" "wf_outcome f \<noteq> Wo_UNKNOWN"
    and good: "provider_answers good l ch (Inr out)" "max_attempts good \<le> K"
    and ctx: "ctx = delivery_of h data l ch" and fin: "fin = Finished (Inl (WebhookDeliveryError f))"
  obtains q c c' where "delivery_reach K (world_of d q [c]) (two_workers data fin (Send ctx q))"
    and "delivery_step good data None (Send ctx q) (world_of d q [c]) = (world_of d q [c, c'], Commit ctx q out)"
    and "op_status q = Op_STARTED" and "operationMatches q ctx"
    and "pv_operation c = op_id q" and "pv_operation c' = op_id q"
proof -
  define w where "w = \<lparr>wd_db = d, wd_calls = []\<rparr>"
  have "delivery_step bad data None Load w = (w, Request ctx)"
    using delivery_load [OF rows bad(1) loads(2,3)] loads(1) by (simp add: w_def ctx)
  then have load: "delivery_path bad data Load w (Request ctx) w"
    by (rule delivery_path.more [OF _ delivery_path.here])
  have "delivery_reach K w (two_workers data (Request ctx) (Request ctx))"
    using both_load none by (intro first_path [OF load bad(3) second_path [OF load bad(3)]]) (simp add: w_def)
  moreover obtain r c where "delivery_path bad data (Request ctx) w fin (world_of d r [c])"
    and r: "op_status r = Op_REQUESTED" "operationMatches r ctx" and c: "pv_operation c = op_id r"
    by (rule failing_path [OF rows none bad(1,2) unfenced(1) f ctx]) (simp add: fin w_def)
  ultimately have reach: "delivery_reach K (world_of d r [c]) (two_workers data fin (Request ctx))"
    using first_path bad(3) by blast
  define q where "q = claimed_operation (dn_now good) r"
  have "delivery_step good data None (Request ctx) (world_of d r [c]) = (world_of d r [c], Claim ctx r)"
    by (rule delivery_found [OF rows ctx _ r]) (simp add: none)
  from delivery_path.more [OF this claim_path [OF good(1) r]]
  have "delivery_reach K (world_of d q [c]) (two_workers data fin (Send ctx q))"
    unfolding q_def using second_path good(2) reach by blast
  moreover obtain c' where "delivery_step good data None (Send ctx q) (world_of d q [c]) = (world_of d q ([c] @ [c']),
      case Inr out of Inl e \<Rightarrow> recover good ctx q e True | Inr out \<Rightarrow> Commit ctx q out)" and "pv_operation c' = op_id q"
    by (rule send_path [OF rows ctx good(1) unfenced(2)])
  ultimately show thesis
    by (intro that [of q c c']) (use r c in \<open>simp_all add: q_def del: delivery_step.simps\<close>)
qed

section \<open>An example\<close>

definition example_channel :: channel where
  "example_channel = sample_channel\<lparr>ch_type := WEBHOOK\<rparr>"

text \<open>
  A reply of the AI to the message of the sample: its metadata, its retrieval trace, and its run, which
  succeeded and is bound to the permissions of the sample.
\<close>

definition example_grounded :: json_object where
  "example_grounded =
     [(''disposition'', JStr ''AUTO_SEND''), (''provider'', JStr ''p''), (''model'', JStr ''m''),
      (''providerVersion'', JStr ''1''), (''region'', JStr ''eu''), (''processorPolicyVersion'', JStr ''1''),
      (''processorPolicyHash'', JStr ''h''), (''promptPolicyVersion'', JStr ''1'')]"

definition example_reply :: message where
  "example_reply = sample_message\<lparr>ms_id := ''reply'', ms_direction := OUTBOUND, ms_senderType := Sn_AI,
     ms_text := Some '' Yes, we do. '', ms_status := Ms_QUEUED, ms_createdAt := 1500,
     ms_metadata := Some (JObj [(''groundedAnswer'', JObj example_grounded), (''retrievalTraceId'', JStr ''trace'')])\<rparr>"

definition example_trace :: retrieval_trace where
  "example_trace =
     \<lparr>rt_id = ''trace'', rt_tenantId = sample_id (CHR ''t''), rt_responseMessageId = Some ''reply'',
      rt_publicationId = Some ''pub'', rt_provider = Some ''p'', rt_generatorModel = Some ''m'',
      rt_modelProcessorPolicyHash = Some ''h'', rt_promptPolicyVersion = ''1'', rt_providerOutputHash = None,
      rt_gateInputHash = None, rt_gateResultHash = None, rt_citationTargets = []\<rparr>"

definition example_run :: ai_reply_run where
  "example_run =
     \<lparr>rn_id = ''run'', rn_tenantId = sample_id (CHR ''t''), rn_conversationId = sample_id (CHR ''v''),
      rn_inboundMessageId = sample_id (CHR ''m''), rn_replyMessageId = Some ''reply'',
      rn_publicationId = Some ''pub'', rn_capabilitySetHash = Some sample_digest,
      rn_operationalBindingHash = Some sample_digest, rn_operationalPermissionGeneration = Some 1,
      rn_capabilityType = Some GENERAL_FAQ, rn_allowedAutonomy = Some ANSWER_ONLY,
      rn_requiredAutonomy = Some ANSWER_ONLY, rn_capabilityDecision = Some AUTHORIZED,
      rn_replyDisposition = Some Rd_AUTO_SEND, rn_replyContentHash = Some sample_digest,
      rn_replyTemplateVersion = None, rn_idempotencyKey = ''key'', rn_inputHash = sample_digest,
      rn_generation = 1, rn_sequence = 0, rn_status = Rn_SUCCEEDED, rn_attemptCount = 1, rn_maxAttempts = 3,
      rn_availableAt = 1000, rn_errorCode = None, rn_errorMessage = None, rn_startedAt = Some 1100,
      rn_heartbeatAt = Some 1200, rn_cancelRequestedAt = None, rn_completedAt = Some 1500\<rparr>"

definition example_capability :: publication_capability where
  "example_capability =
     \<lparr>pc_tenantId = sample_id (CHR ''t''), pc_publicationId = ''pub'', pc_capabilityType = GENERAL_FAQ,
      pc_allowedAutonomy = ANSWER_ONLY, pc_operationalBindingHash = Some sample_digest,
      pc_operationalPermissionGeneration = Some 1\<rparr>"

definition example_db :: db where
  "example_db = sample_db\<lparr>channels := [example_channel], messages := [sample_message, example_reply],
     aiReplyRuns := [example_run], publicationCapabilities := [example_capability],
     retrievalTraces := [example_trace]\<rparr>"

definition example_job :: send_job where
  "example_job = \<lparr>sj_tenantId = sample_id (CHR ''t''), sj_conversationId = sample_id (CHR ''v''),
     sj_messageId = ''reply'', sj_source = ''webhook'', sj_graphRunId = Some ''graph'',
     sj_triggerMessageId = Some (sample_id (CHR ''m'')), sj_aiReplyRunId = Some ''run'',
     sj_aiReplyGeneration = Some 1, sj_aiReplySequence = Some 0\<rparr>"

text \<open>Services that find the evidence valid and the processor admitted.\<close>

definition example_services :: delivery_dependencies where
  "example_services = \<lparr>dd_revalidatePersistedReply = (\<lambda>_. Inr (Rv_valid (Some ''1'') [])),
     dd_revalidateProcessorAdmission = (\<lambda>_ _ _ _. Inr True), dd_adapterFactory = None,
     dd_maxDeliveryAttempts = None\<rparr>"

definition example_failure :: webhook_failure where
  "example_failure = \<lparr>wf_code = WEBHOOK_HTTP_RETRYABLE, wf_retryable = True, wf_outcome = Wo_FAILED, wf_statusCode = Some 503\<rparr>"

definition example_sent :: send_result where
  "example_sent = \<lparr>sr_externalMessageId = ''m1'', sr_sendStatus = Ss_sent\<rparr>"

text \<open>Surroundings in which the webhook answers \<open>answer\<close> and the reads see \<open>example_db\<close>.\<close>

definition example_env :: "delivery_error + send_result \<Rightarrow> delivery_env" where
  "example_env answer = \<lparr>dn_host = digest_host, dn_now = 2000, dn_abort = (\<lambda>_. None), dn_reads = (\<lambda>_. example_db),
     dn_decrypt = (\<lambda>_. Inr []), dn_telegramAdapter = (\<lambda>_. answer), dn_webhookAdapter = (\<lambda>_. answer),
     dn_dependencies = Some example_services, dn_handoffRu = ''ru'', dn_fault = No_fault\<rparr>"

definition example_loaded :: loaded_message where
  "example_loaded = \<lparr>lm_message = example_reply, lm_conversation = sample_conversation,
     lm_channel = Some example_channel, lm_inbound = [sample_message]\<rparr>"

definition example_context :: delivery_context where
  "example_context = delivery_of digest_host example_job example_loaded example_channel"

lemma example_load: "load_message example_job example_db = Some example_loaded"
  by code_simp

lemma example_text: "js_trim (delivery_text example_reply) = ''Yes, we do.''"
  by code_simp

lemma example_none: "channelDeliveryOperations example_db = []"
  by (simp add: example_db_def sample_db_def empty_db_def)

lemma example_rows: "deliverable_rows example_job example_db example_loaded example_channel"
  unfolding deliverable_rows_def
  by (intro conjI example_load)
    (simp_all add: example_text example_loaded_def example_none, simp_all add: unique_on_def example_reply_def
      example_channel_def example_job_def example_db_def sample_db_def sample_message_def sample_conversation_def
      sample_channel_def undelivered_def expectedChannelType_def empty_db_def sample_id_def)

lemma example_answers: "provider_answers (example_env answer) example_loaded example_channel answer"
  by (simp add: provider_answers_def example_env_def decrypt_credentials_def adapterFor_def example_loaded_def
      example_channel_def sample_channel_def truthy_def example_services_def)

text \<open>No fence holds the reply back.\<close>

lemma example_projection:
  "loadKnowledgeOperationalCapabilityProjectionV1 digest_host example_db t now =
   loadKnowledgeOperationalCapabilityProjectionV1 digest_host sample_db t now"
  by (simp add: loadKnowledgeOperationalCapabilityProjectionV1_def example_db_def)

lemma example_binding: "channel_binding example_channel = Some sample_binding"
proof -
  have "js_trim ''pub'' \<noteq> []" "js_trim ''user'' \<noteq> []" by code_simp+
  then show ?thesis
    by (simp add: channel_binding_def example_channel_def sample_channel_def sample_binding_def sample_digest_hex asDate_def)
qed

lemma example_admitted:
  "automaticReplyAdmissionState digest_host 2000 example_db (sample_id (CHR ''t'')) (sample_id (CHR ''v'')) =
     Inr (Inr sample_binding)"
proof -
  have keys: "binding_keys example_db" by (simp add: binding_keys_def example_db_def sample_db_def unique_on_def)
  have "conversation_admissible OPEN sample_conversation"
    by (simp add: conversation_admissible_def sample_conversation_def)
  moreover have "channel_bound digest_host example_channel sample_binding"
    unfolding channel_bound_def example_binding
    by (simp add: automaticReplyChannelFingerprint_def digest_host_def sample_binding_def example_channel_def
        sample_channel_def)
  ultimately have "admission_spec digest_host 2000 example_db (sample_id (CHR ''t'')) (sample_id (CHR ''v'')) OPEN
      sample_binding"
    unfolding admission_spec_def example_projection
    using sample_projection [of 2000]
    by (simp add: example_db_def sample_db_def sample_binding_def publication_bound_def)
       (simp add: sample_conversation_def example_channel_def sample_channel_def sample_id_def)
  then show ?thesis unfolding automaticReplyAdmissionState_def admission_iff_spec [OF keys] .
qed

lemma example_env_simps: "dn_host (example_env answer) = digest_host" "dn_reads (example_env answer) n = example_db"
  by (simp_all add: example_env_def)

lemma example_attempts: "max_attempts (example_env answer) = 3"
  by (simp add: max_attempts_def example_env_def example_services_def)

lemma example_outcome: "aiReplyOutcomeFenceReason (example_env answer) example_run m = None"
  by (simp add: aiReplyOutcomeFenceReason_def example_run_def truthy_def aiReplyContentHashV1_def example_env_simps
      digest_host_def sample_digest_def)

lemma example_autonomy: "capabilityAutonomyFenceReason example_db example_run = None"
  by (simp add: capabilityAutonomyFenceReason_def capability_snapshot_def example_run_def example_capability_def
      example_db_def truthy_def generation_set_def sample_digest_def authorizeKnowledgeCapabilityEffectV1_def
      autonomy_result_def Let_def)

lemma example_job_names: "\<not> job_names_other_run example_job example_run"
  by (simp add: job_names_other_run_def example_job_def example_run_def)

lemma example_tables:
  "aiReplyRuns example_db = [example_run]" "conversations example_db = [sample_conversation]"
  "messages example_db = [sample_message, example_reply]" "retrievalTraces example_db = [example_trace]"
  "publications example_db = publications sample_db"
  by (simp_all add: example_db_def sample_db_def)

lemma example_admission_reason:
  "reply_admission_reason (example_env answer) example_db example_run example_reply = Inr None"
proof -
  have "automaticReplyAdmissionState digest_host 2000 example_db (ms_tenantId example_reply)
      (ms_conversationId example_reply) = Inr (Inr sample_binding)"
    using example_admitted by (simp add: example_reply_def sample_message_def)
  then show ?thesis
    by (simp add: reply_admission_reason_def example_env_def example_run_def sample_binding_def)
qed

lemma example_locked:
  "lockedAiReplyFenceReason (example_env answer) example_db example_job example_reply = Inr None"
proof -
  have "rn_status example_run = Rn_SUCCEEDED" "rn_generation example_run = cv_aiGeneration sample_conversation"
    "rn_sequence example_run = cv_aiReplyFence sample_conversation"
    "rn_tenantId example_run = ms_tenantId example_reply" "rn_conversationId example_run = ms_conversationId example_reply"
    "rn_replyMessageId example_run = Some (ms_id example_reply)" "cv_id sample_conversation = ms_conversationId example_reply"
    "cv_tenantId sample_conversation = ms_tenantId example_reply" "cv_deletedAt sample_conversation = None"
    by (simp_all add: example_run_def sample_conversation_def example_reply_def sample_message_def)
  then show ?thesis
    by (simp add: lockedAiReplyFenceReason_def example_tables example_job_names example_outcome
        example_admission_reason example_autonomy)
qed

lemma example_structured:
  "structuredReplyFenceReason (example_env answer) (\<lambda>_. example_db) example_job example_reply = Inr None"
  by code_simp

lemma example_unfenced:
  "unfenced_load (example_env answer) example_job example_loaded" "unfenced_send (example_env answer) example_job example_db example_loaded"
proof -
  have reads: "dn_reads (example_env answer) n = example_db" for n by (simp add: example_env_def)
  have "aiReplyFenceReason (example_env answer) example_db example_db example_job example_loaded = None"
  proof -
    have "run_of_reply (ms_tenantId example_reply) (ms_id example_reply) example_db = Some example_run"
      by (simp add: run_of_reply_def example_tables example_run_def example_reply_def sample_message_def)
    moreover have "rn_status example_run = Rn_SUCCEEDED" "rn_generation example_run = cv_aiGeneration sample_conversation"
      "rn_sequence example_run = cv_aiReplyFence sample_conversation"
      by (simp_all add: example_run_def sample_conversation_def)
    ultimately show ?thesis
      by (simp add: aiReplyFenceReason_def example_loaded_def example_job_names example_outcome example_autonomy)
  qed
  moreover have "systemMessageFenceReason example_job example_reply = None"
    by (simp add: systemMessageFenceReason_def example_reply_def)
  ultimately show "unfenced_load (example_env answer) example_job example_loaded"
    by (simp add: unfenced_load_def reads example_structured) (simp add: example_loaded_def example_structured)
  show "unfenced_send (example_env answer) example_job example_db example_loaded"
    by (simp add: unfenced_send_def example_loaded_def example_locked example_structured)
qed

definition example_bad :: delivery_env where
  "example_bad = example_env (Inl (WebhookDeliveryError example_failure))"

definition example_good :: delivery_env where
  "example_good = example_env (Inr example_sent)"

text \<open>The first delivery has failed, and the second is at \<open>p\<close>.\<close>

definition example_workers :: "delivery_point \<Rightarrow> nat \<Rightarrow> delivery_worker" where
  "example_workers p = two_workers example_job (Finished (Inl (WebhookDeliveryError example_failure))) p"

text \<open>The two deliveries of the example, from the second call to the end.\<close>

lemma example_retried:
  obtains q c c' u q' r where "delivery_reach 3 (world_of example_db q [c]) (example_workers (Send example_context q))"
    and "delivery_step example_good example_job None (Send example_context q) (world_of example_db q [c]) =
      (world_of example_db q [c, c'], Commit example_context q example_sent)"
    and "delivery_reach 3 (world_of example_db q [c, c']) (example_workers (Commit example_context q example_sent))"
    and "pv_operation c = op_id q" and "pv_operation c' = op_id q"
    and "delivery_reach 3 u (example_workers (Finished (Inr r)))" and "wd_calls u = [c, c']"
    and "channelDeliveryOperations (wd_db u) = [q']" and "op_status q' = Op_SUCCEEDED" and "op_id q' = op_id q"
proof -
  have answers: "provider_answers example_bad example_loaded example_channel (Inl (WebhookDeliveryError example_failure))"
    "provider_answers example_good example_loaded example_channel (Inr example_sent)"
    by (simp_all add: example_bad_def example_good_def example_answers)
  have limits: "1 < max_attempts example_bad" "max_attempts example_bad \<le> 3" "max_attempts example_good \<le> 3"
    by (simp_all add: example_bad_def example_good_def example_attempts)
  have loads: "dn_host example_bad = digest_host" "dn_reads example_bad 1 = example_db"
    by (simp_all add: example_bad_def example_env_simps)
  have unfenced: "unfenced_load example_bad example_job example_loaded"
    "unfenced_send example_bad example_job example_db example_loaded"
    "unfenced_send example_good example_job example_db example_loaded"
    by (simp_all add: example_bad_def example_good_def example_unfenced)
  have failure: "wf_retryable example_failure" "wf_outcome example_failure \<noteq> Wo_UNKNOWN"
    by (simp_all add: example_failure_def)
  obtain q c c' where reach: "delivery_reach 3 (world_of example_db q [c]) (example_workers (Send example_context q))"
    and send: "delivery_step example_good example_job None (Send example_context q) (world_of example_db q [c]) =
      (world_of example_db q [c, c'], Commit example_context q example_sent)"
    and q: "op_status q = Op_STARTED" "operationMatches q example_context"
    and calls: "pv_operation c = op_id q" "pv_operation c' = op_id q"
    by (rule retried_delivery [OF example_rows example_none answers(1) limits(1,2) loads(1,2) unfenced failure answers(2)
        limits(3) example_context_def refl, folded example_workers_def])
  have reach': "delivery_reach 3 (world_of example_db q [c, c']) (example_workers (Commit example_context q example_sent))"
    by (rule second_path [OF delivery_path.more [OF send delivery_path.here] limits(3) reach [unfolded example_workers_def], folded example_workers_def])
  have quiet: "dn_fault example_good = No_fault" "successfulStatus (sr_sendStatus example_sent)"
    by (simp_all add: example_good_def example_env_def example_sent_def successfulStatus_def)
  obtain u q' r where last: "delivery_step example_good example_job None (Commit example_context q example_sent)
        (world_of example_db q [c, c']) = (u, Finished (Inr r))"
    and u: "wd_calls u = wd_calls (world_of example_db q [c, c'])" "channelDeliveryOperations (wd_db u) = [] @ [q']"
      "op_status q' = Op_SUCCEEDED" "op_id q' = op_id q"
    by (rule delivery_commit [where jobId = None, OF world_of_simps(1) q _ example_rows example_context_def quiet]) simp
  have reach'': "delivery_reach 3 u (example_workers (Finished (Inr r)))"
    by (rule second_path [OF delivery_path.more [OF last delivery_path.here] limits(3) reach' [unfolded example_workers_def], folded example_workers_def])
  show thesis
    by (rule that [OF reach send reach' calls reach'', of q']) (use u in simp_all)
qed

theorem resent_only_after_failure_witness:
  "\<exists>w ws c c'. delivery_reach 3 w ws \<and> wd_calls w = [] @ c # [c'] \<and> pv_operation c' = pv_operation c \<and>
     failed_for_sure 3 c \<and> pv_attempt c < pv_attempt c'"
proof (rule example_retried, goal_cases)
  case (1 q c c' u q' r)
  have calls: "wd_calls (world_of example_db q [c, c']) = [] @ c # [c']" by simp
  from resent_only_after_failure [OF 1(3) calls, of c'] 1(3-5) calls show ?case by auto
qed

theorem calls_bounded_witness:
  "\<exists>w ws x. delivery_reach 3 w ws \<and> length (operation_calls w x) = 2 \<and> int (length (operation_calls w x)) \<le> 3"
proof (rule example_retried, goal_cases)
  case (1 q c c' u q' r)
  have "length (operation_calls (world_of example_db q [c, c']) (op_id q)) = 2"
    using 1(4,5) by (simp add: operation_calls_def)
  with calls_bounded [OF 1(3), of "op_id q"] 1(3) show ?case
    by (intro exI [of _ "world_of example_db q [c, c']"] exI [of _ "op_id q"] exI) auto
qed

theorem operation_rows_truthful_witness:
  "\<exists>w ws. \<exists>r\<in>set (channelDeliveryOperations (wd_db w)). delivery_reach 3 w ws \<and> op_status r = Op_SUCCEEDED \<and>
     (op_reconciledAt r \<noteq> None \<or> (\<exists>c\<in>set (wd_calls w). pv_operation c = op_id r \<and> accepted c)) \<and>
     length (wd_calls w) = 2 \<and> (\<forall>c\<in>set (wd_calls w). pv_operation c = op_id r \<and> 1 \<le> pv_attempt c \<and>
       pv_attempt c \<le> op_attemptCount r)"
proof (rule example_retried, goal_cases)
  case (1 q c c' u q' r)
  have row: "q' \<in> set (channelDeliveryOperations (wd_db u))" and own: "\<forall>c\<in>set (wd_calls u). pv_operation c = op_id q'"
    using 1(4,5,7,8,10) by simp_all
  note truth = operation_rows_truthful [OF 1(6) row]
  have "op_reconciledAt q' \<noteq> None \<or> (\<exists>c\<in>set (wd_calls u). pv_operation c = op_id q' \<and> accepted c)"
    using conjunct1 [OF truth] 1(9) by (rule mp)
  moreover have "\<forall>c\<in>set (wd_calls u). pv_operation c = op_id q' \<and> 1 \<le> pv_attempt c \<and> pv_attempt c \<le> op_attemptCount q'"
    using conjunct2 [OF truth] own by fast
  moreover have "length (wd_calls u) = 2" using 1(7) by simp
  ultimately show ?case using 1(6,9) row by fast
qed

theorem sent_message_live_witness:
  "\<exists>w ws w' op c. delivery_reach 3 w ws \<and> wk_point (ws 1) = Send example_context op \<and> wd_calls w' = wd_calls w @ [c] \<and>
     delivery_step example_good (wk_job (ws 1)) (wk_jobId (ws 1)) (wk_point (ws 1)) w =
       (w', Commit example_context op example_sent) \<and>
     si_text (pv_input c) = ''Yes, we do.'' \<and> channel_live example_good (wd_db w) example_job example_context \<and>
     ms_senderType (dc_message example_context) = Sn_AI \<and> reply_live example_good (wd_db w) (dc_message example_context)"
proof (rule example_retried, goal_cases)
  case (1 q c c' u q' r)
  let ?ws = "example_workers (Send example_context q)"
  have ws: "wk_job (?ws 1) = example_job" "wk_jobId (?ws 1) = None" "wk_point (?ws 1) = Send example_context q"
    by (simp_all add: example_workers_def two_workers_def)
  then have step: "delivery_step example_good (wk_job (?ws 1)) (wk_jobId (?ws 1)) (wk_point (?ws 1))
      (world_of example_db q [c]) = (world_of example_db q [c, c'], Commit example_context q example_sent)"
    using 1(2) by simp
  have "js_trim (delivery_text (dc_message example_context)) = ''Yes, we do.''"
    "ms_senderType (dc_message example_context) = Sn_AI"
    by (simp_all add: example_context_def delivery_of_def example_loaded_def example_text) (simp add: example_reply_def)
  with sent_message_live [OF 1(1) step] ws step 1(1) show ?case
    by (intro exI [of _ "world_of example_db q [c]"] exI [of _ ?ws] exI [of _ "world_of example_db q [c, c']"]
        exI [of _ q] exI [of _ c']) (auto simp del: delivery_step.simps)
qed

theorem delivery_sends_once_witness:
  "\<exists>w' r c q. deliverChannelMessage (\<lambda>_. example_good) (\<lambda>_ w. w) example_job None \<lparr>wd_db = example_db, wd_calls = []\<rparr> =
       (w', Inr r) \<and> dl_status r = Ds_sent \<and> wd_calls w' = [c] \<and> si_text (pv_input c) = ''Yes, we do.'' \<and>
     channelDeliveryOperations (wd_db w') = [q] \<and> op_status q = Op_SUCCEEDED \<and> op_attemptCount q = 1"
proof -
  define w where "w = \<lparr>wd_db = example_db, wd_calls = []\<rparr>"
  have rows: "deliverable_rows example_job (wd_db w) example_loaded example_channel" using example_rows by (simp add: w_def)
  have env: "\<forall>n::nat. provider_accepts example_good example_loaded example_channel example_sent \<and> dn_host example_good = digest_host"
    by (simp add: provider_accepts_def example_good_def example_answers example_env_simps example_sent_def successfulStatus_def)
  have text1: "js_trim (delivery_text (lm_message example_loaded)) = ''Yes, we do.''"
    by (simp add: example_loaded_def example_text)
  have reads: "dn_reads example_good 1 = wd_db w" by (simp add: example_good_def example_env_simps w_def)
  have unfenced: "unfenced_load example_good example_job example_loaded"
    "\<forall>n::nat. unfenced_send example_good example_job (wd_db w) example_loaded"
    by (simp_all add: example_good_def example_unfenced w_def)
  have new: "\<forall>r\<in>set (channelDeliveryOperations (wd_db w)). op_id r \<noteq>
      od_id (dc_descriptor (delivery_of digest_host example_job example_loaded example_channel))"
    by (simp add: w_def example_none)
  show ?thesis
    using delivery_sends_once [of example_job w example_loaded example_channel "\<lambda>_. example_good", OF rows env reads unfenced new, of None]
    by (auto simp: w_def example_none text1)
qed

end
