(* ===== verification/Spec2Isabelle.thy ===== *)
theory Spec2Isabelle
  imports Ai_Reply_Attempts Inbox_Properties Webhook_Properties Totp_Properties Auth_Rate_Limit
    Email_Otp_Properties Service_Row_Properties Service_Diff_Properties Answer_Properties
    Delivery_Examples
begin

text \<open>
  LeadVirt answers customers of small businesses on the web, in messengers and by webhook. This
  development verifies the runtime that decides whether an automatic reply may be sent, carries it
  through a transactional outbox, a job queue and an inbox to a worker, and fences it off when a
  person takes over; the delivery of messages to the providers of channels; the gate that lets only
  grounded answers pass; the intake of webhooks; the codes of the sign-in; and the comparison of
  imported service lists with the catalogue.

  \<^bold>\<open>Parts and how they interact.\<close>
  A message of a customer arrives through a webhook (\<open>Webhook_Claim\<close>) or another channel. The API
  enqueues a reply: \<open>createAiReplyQueueEvent\<close> checks the admission of the conversation
  (\<open>Reply_Admission\<close>, which reads the operational projection of \<open>Capability\<close>), writes the
  reply run and an outbox event (\<open>Ai_Reply_Run\<close>, \<open>Runtime_Outbox\<close>). The dispatcher claims due
  events under a lease, hands their envelopes (\<open>Queue_Envelope\<close>) to the queue and records the
  outcome. The worker (\<open>Worker_Job\<close>) takes the lease of the inbox row of an event
  (\<open>Runtime_Inbox\<close>), runs the processor under a timeout and records the result; a job that fails
  for good goes to the dead letters (\<open>Dead_Letter\<close>). The processor of replies begins an attempt
  and commits its work in fenced transactions (\<open>Ai_Reply_Run\<close>), which a hand-over to a person, a
  change of the channel or of the permissions invalidates. A reply or a message of a person is sent by
  a job of its own (\<open>Channel_Delivery\<close>), which claims an operation for the message, checks the fences
  once more in the transaction that calls the provider, and records what is known of the outcome.

  \<^bold>\<open>Which theory models which part.\<close>
  \<^item> \<open>Prelude\<close>, \<open>Js_Text\<close>, \<open>Js_Time\<close>: tables as lists of rows with Prisma's \<open>updateMany\<close> and
    unique keys, strings, the stable sort, JSON and its canonical form, dates.
    \<open>Canonical_Json\<close> has the theory of key order.
  \<^item> \<open>Database\<close>: the rows, enumerations and errors of
    \<open>packages/db/prisma/schema.prisma\<close> that the modelled statements touch, and the record of all
    tables, \<open>db\<close>. \<open>Transactions\<close>: transactions that are tried again.
  \<^item> \<open>Capability\<close>: \<open>packages/knowledge/src/capability-autonomy-v1.ts\<close>,
    \<open>capability-runtime-evidence-v1.ts\<close> and its store, \<open>v2-live-tool-registry.ts\<close>.
  \<^item> \<open>Queue_Envelope\<close>, \<open>Reply_Admission\<close>, \<open>Runtime_Outbox\<close>, the enqueueing in
    \<open>Ai_Reply_Run\<close>: \<open>packages/runtime-queue/src/index.ts\<close>. \<open>Outbox_Protocol\<close> and
    \<open>Outbox_Properties\<close> have the theory of the dispatcher.
  \<^item> \<open>Ai_Reply_Run\<close>: besides, every operation of
    \<open>apps/worker/src/ai/ai-reply-reliability.ts\<close>, the statement of
    \<open>ai-reply-graph.ts\<close> that completes a run, the business identity of
    \<open>packages/knowledge/src/ai-business-identity.ts\<close> and the fencing transactions of the
    conversation, channel and capability services. \<open>Ai_Reply_Protocol\<close>,
    \<open>Ai_Reply_Properties\<close> and \<open>Ai_Reply_Attempts\<close> have their theory.
  \<^item> \<open>Runtime_Inbox\<close>, \<open>Worker_Job\<close>, \<open>Dead_Letter\<close>:
    \<open>apps/worker/src/reliability/worker-reliability.ts\<close>; theory in \<open>Inbox_Protocol\<close> and
    \<open>Inbox_Properties\<close>.
  \<^item> \<open>Webhook_Client\<close>, \<open>Channel_Delivery\<close>, \<open>Delivery_Protocol\<close>,
    \<open>Delivery_Properties\<close>, \<open>Delivery_Examples\<close>: \<open>channels/channel-delivery.ts\<close> and \<open>ai/ai-reply-outcome.ts\<close>
    of \<open>apps/worker/src\<close>, the errors of \<open>packages/integrations/src/webhook-delivery.ts\<close>, and
    the statement by which \<open>operator-operations.service.ts\<close> settles a delivery of unknown outcome.
    \<open>deliverChannelMessage\<close> is a step function on the program points of the promise, one
    statement, transaction or call of a provider a step; \<open>delivery_reach\<close> lets any number of
    deliveries take their steps in any order, stop, and lose acknowledgements; its invariant says, for
    every operation, what the row, the calls and the worker that holds it know of each other.
  \<^item> \<open>Webhook_Claim\<close>, \<open>Webhook_Properties\<close>:
    \<open>apps/api/src/common/webhook-event-claim.ts\<close>.
  \<^item> \<open>Totp\<close>, \<open>Totp_Properties\<close>, \<open>Auth_Rate_Limit\<close>, \<open>Email_Otp\<close>,
    \<open>Email_Otp_Properties\<close>: \<open>totp.ts\<close>, \<open>auth-rate-limit.service.ts\<close> and
    \<open>email-otp-challenge.service.ts\<close> of \<open>apps/api/src/modules/auth\<close>.
  \<^item> \<open>Service_Row\<close>, \<open>Service_Row_Properties\<close>, \<open>Service_Diff\<close>,
    \<open>Service_Diff_Properties\<close>: \<open>service-csv.ts\<close>, \<open>identity.ts\<close> and
    \<open>service-diff.ts\<close> of \<open>packages/business-import/src\<close>, and the grouping of candidates of
    \<open>apps/worker/src/business-import/business-import-processor.ts\<close>.
  \<^item> \<open>Sha256\<close>, \<open>Answer_Gate\<close>, \<open>Answer_Orchestrator\<close>,
    \<open>Answer_Gate_Properties\<close>, \<open>Answer_Properties\<close>: \<open>grounded-answer-gate.ts\<close>
    with the hash function it contains, and \<open>grounded-answer-orchestrator.ts\<close>, both of
    \<open>packages/ai/src\<close>. The gate decides whether a draft of a language model is supported by
    the evidence of the request; the orchestrator asks for the draft, at most one repair, and decides
    between sending, a draft for a person and a hand-over.
  \<^item> \<open>Lease\<close>: the locale \<open>leased_row\<close>, the contract of a row that is claimed with a token and an
    expiry; it is interpreted on the rows of the outbox, the inbox and the webhook events, and the
    exclusion properties of the three components rest on its facts.

  \<^bold>\<open>Conventions.\<close>
  Names are those of the source. A function that writes takes the database (or the one table it
  uses) and returns it; a thrown error is \<open>Inl\<close>, a result \<open>Inr\<close>; a transaction that throws
  leaves the database of its caller. What the code reads from its surroundings, the clock, random
  identifiers and what other processes do between two statements, is an environment record, so that
  every interleaving of transactions is an instance. Hash functions of the runtime (not the one of \<open>Sha256\<close>), HMAC and ciphers, the collation of
  \<open>localeCompare\<close>, the queue, the processors and the mail delivery are arguments. Integers are
  unbounded where the code stays below 2 to the 53rd, and 32-bit words in the bitwise arithmetic of
  \<open>Totp\<close>. The characters of strings are code units below 256.

  \<^bold>\<open>What the properties show.\<close>
  Refinement: an undisturbed dispatch is one atomic publish-or-record-failure step, and admission
  admits exactly what the rows justify. Invariants and safety under interference: at most one open
  reply run per conversation; nothing commits after a fence; leases of the outbox, the inbox and the
  webhooks exclude others, and whoever lost a lease changes nothing; finished jobs, processed events
  and used codes stay so; tenants are isolated; a replacement import never removes a service that a
  row of the file matched; an answer is sent without a person only if every claim of it is
  supported by current, authorised evidence. Liveness: what is due is published, a dispatched job
  is accepted by the worker and, if its processor settles in time, ends with its result. Functional
  properties: requests are idempotent, redeliveries replay, base32 and envelopes round-trip, the acceptance window and the
  rate limit are characterised, decimals compare by value. Deliveries: a provider is called again only
  after a call that failed for sure, never more often than the limit of attempts; the rows of operations
  tell the truth about the calls; what is sent is the text of a live message over its active channel.

  \<^bold>\<open>Bounds.\<close>
  The loops of the code end by their own counters, which the definitions take over: five tries of a
  serializable transaction and three of an inbox claim, eight claims while an outbox row is pending,
  polls of 250 milliseconds up to the end of a lease. No fuel is added. A delivery ends after at most
  nine steps (\<open>steps_left\<close>); the limit of its attempts is the parameter \<open>K\<close> of \<open>delivery_reach\<close>. Leases are 30 seconds (outbox),
  the timeout of the job plus five seconds (inbox) and five minutes (webhooks).

  \<^bold>\<open>Not modelled.\<close>
  Vector search and retrieval, document parsing and ingestion, publication of knowledge, the graph of
  language model calls, request handling of the other API
  services, the user interface, migrations, metrics and logs: they call external services, render, or
  only read. Of an answer, the provider of the language model, the authorizer of sources, the output
  policy and \<open>Date.parse\<close> are arguments. Of a delivery, the adapters with their HTTP, the
  decryption of credentials, the revalidation of evidence and processors, and the Russian text of a
  hand-over (its characters are above 255) are arguments. The classifier of capability intents is an argument of
  the attempt operations. Of the schema only the columns that modelled statements read or write are present.
\<close>

section \<open>From the outbox to the inbox\<close>

text \<open>C10. What the dispatcher publishes, the worker accepts: dispatching a due event whose payload and
  metadata agree hands one job to the queue, and the first delivery of that job, before the deadline
  of the event, is authorised against the persisted event and gets the lease of its inbox row.\<close>

theorem dispatched_job_claimed:
  assumes "unique_on ob_id (runtimeOutbox d)" "r \<in> set (runtimeOutbox d)" "outbox_claimable (de_now env) r"
    and "env_quiet env" "parseRuntimeQueueEnvelope (ob_payload r) = Inr e"
    and "de_publisher env (dispatchEnvelope r e) = None"
    and "case ob_deadlineAt r of None \<Rightarrow> True | Some t \<Rightarrow> de_deadlineNow env < t \<and> ci_now cenv < t"
    and "runtime_keys_free (en_data e)" "map_of (en_data e) ''tenantId'' = Some (JStr (ob_tenantId r))"
    and "ob_tenantId r \<noteq> []" "ob_id r \<noteq> []" "1 \<le> ob_generation r"
    and "workerQueue_text q = queueName_text (en_queueName e)" "claim_quiet_env cenv"
    and "find_inbox (consumer_name q (en_jobName e)) (ob_id r) d = None"
    and "\<forall>x\<in>set (runtimeInbox d). ib_id x \<noteq> ci_newId cenv 0" "inbox_inv d"
  shows "\<exists>d1 res d2 c. dispatch env (ob_id r) d = (d1, [dispatchEnvelope r e], Inr res) \<and> dr_status res = published \<and>
    claimRuntimeInbox h cenv q (queued_job (dispatchEnvelope r e)) t d1 = (d2, Inr (Claimed c)) \<and>
    ic_eventId c = ob_id r \<and> (\<exists>x\<in>set (runtimeInbox d2). claim_rows c x)"
proof -
  let ?ev = "outbox_claim (de_now env) (de_now env + de_leaseMs env) (de_lockId env) r"
  let ?pub = "outbox_published (de_publishedAt env) ?ev" and ?msg = "dispatchEnvelope r e"
  let ?job = "queued_job ?msg" and ?cn = "consumer_name q (en_jobName e)"
  let ?rt = "\<lparr>re_eventId = ob_id r, re_generation = ob_generation r, re_tenantId = ob_tenantId r\<rparr>"
  let ?c = "\<lparr>ic_eventId = ob_id r, ic_consumerName = ?cn, ic_lockId = ?cn @ '':'' @ ci_uuid cenv\<rparr>"
  have msg: "dispatchEnvelope ?ev e = ?msg" by (simp add: dispatchEnvelope_def outbox_claim_def)
  have col: "ob_payload ?ev = ob_payload r" "ob_deadlineAt ?ev = ob_deadlineAt r"
    by (simp_all add: outbox_claim_def)
  have dl: "\<not> (case ob_deadlineAt r of None \<Rightarrow> False | Some t \<Rightarrow> t \<le> de_deadlineNow env)"
    using assms(7) by (auto split: option.splits)
  have "publish_outcome env ?ev = Inr (?msg, en_jobId e)"
    unfolding publish_outcome_def col if_not_P [OF dl] assms(5) andThen_simps msg assms(6) by simp
  then have disp: "dispatch env (ob_id r) d = (put_event ?pub d, [?msg],
      Inr \<lparr>dr_eventId = ob_id r, dr_jobId = en_jobId e, dr_status = published\<rparr>)"
    using dispatch_quiet_eq [OF assms(1-4)] by (simp add: dispatch_spec_def Let_def)
  note job = dispatched_job [OF assms(8,11,12,9,10,13)]
  have "unique_on ob_id (runtimeOutbox (put_event ?pub d))" "?pub \<in> set (runtimeOutbox (put_event ?pub d))"
    using assms(1) in_put_event [OF assms(2), of ?pub] by simp_all
  then have "List.find (event_of ?rt) (runtimeOutbox (put_event ?pub d)) = Some ?pub"
    by (subst find_Some_unique_iff [where key = ob_id and k = "ob_id r"])
       (auto simp: event_of_def outbox_published_def outbox_claim_def)
  then have del: "deliverable h q ?job ?rt (ci_now cenv) (put_event ?pub d)"
    using job assms(5,7) by (auto simp: deliverable_def outbox_published_def outbox_claim_def split: option.splits)
  have inb: "runtimeInbox (put_event ?pub d) = runtimeInbox d" by (simp add: put_event_def)
  have nm: "jb_name ?job = en_jobName e" by (simp add: queued_job_def dispatchEnvelope_def)
  have "find_inbox ?cn (ob_id r) (put_event ?pub d) = None" using assms(15) inb by (simp add: find_inbox_def)
  then obtain d2 where d2: "claim_row cenv 0 (consumer_name q (jb_name ?job)) (consumer_name q (jb_name ?job) @ '':'' @ ci_uuid cenv)
      (ci_now cenv + t + 5000) ?rt (put_event ?pub d) = Inr (Claimed ?c, d2)"
    using claim_row_granted [where cn = ?cn and rt = ?rt and d = "put_event ?pub d" and env = cenv and k = 0] assms(16) inb nm by fastforce
  have "inbox_inv (put_event ?pub d)" using assms(17) inb by (simp add: inbox_inv_def)
  then have own: "\<exists>x\<in>set (runtimeInbox d2). claim_rows ?c x"
    using claimed_row(1) [of "put_event ?pub d" h cenv 0 q ?job t ?rt ?c d2] d2 claim_deliverable [OF del] by auto
  have "claimRuntimeInbox h cenv q ?job t (put_event ?pub d) = (d2, Inr (Claimed ?c))"
    by (rule claim_first [OF assms(14) del d2])
  then show ?thesis
    using disp own
    by (intro exI [of _ "put_event ?pub d"] exI [of _ d2] exI [of _ ?c]
        exI [of _ "\<lparr>dr_eventId = ob_id r, dr_jobId = en_jobId e, dr_status = published\<rparr>"]) simp
qed

theorem dispatched_job_claimed_witness:
  "\<exists>d1 res d2 c. dispatch sample_env ''e1'' sample_outbox = (d1, [dispatchEnvelope sample_event sample_ai_envelope], Inr res) \<and>
     claimRuntimeInbox digest_host (claim_at 14000 (\<lambda>d. d) ''u1'') W_ai_reply delivery_job 30000 d1 = (d2, Inr (Claimed c))"
proof -
  have ev: "ob_id sample_event = ''e1''" "ob_generation sample_event = 1" "ob_tenantId sample_event = sample_id (CHR ''t'')"
    "ob_deadlineAt sample_event = Some 300000" "parseRuntimeQueueEnvelope (ob_payload sample_event) = Inr sample_ai_envelope"
    by (simp_all add: sample_event_def new_event_def sample_input_def input_generation_def
        parse_envelope_json [OF sample_ai_envelope_wf])
  have inb: "runtimeInbox sample_outbox = []" by (simp add: sample_outbox_def empty_db_def)
  have inv: "inbox_inv sample_outbox" by (simp add: inbox_inv_def inbox_keys_def inb)
  have "\<exists>d1 res d2 c. dispatch sample_env (ob_id sample_event) sample_outbox =
        (d1, [dispatchEnvelope sample_event sample_ai_envelope], Inr res) \<and> dr_status res = published \<and>
      claimRuntimeInbox digest_host (claim_at 14000 (\<lambda>d. d) ''u1'') W_ai_reply
        (queued_job (dispatchEnvelope sample_event sample_ai_envelope)) 30000 d1 = (d2, Inr (Claimed c)) \<and>
      ic_eventId c = ob_id sample_event \<and> (\<exists>x\<in>set (runtimeInbox d2). claim_rows c x)"
    by (rule dispatched_job_claimed)
       (use sample_outbox_facts sample_runtime_keys inv in
        \<open>simp_all add: ev inb find_inbox_def sample_id_def sample_ai_envelope_def sample_env_def\<close>)
  then show ?thesis unfolding ev(1) delivery_job_def by blast
qed

end
